(* ===== verification/Prelude.thy ===== *)
theory Prelude
  imports Main "HOL-Library.Word"
begin

text \<open>
  What every component of the model shares: the integer types of the C code, the kernel's
  error numbers, the outcome of a driver function, and the lemmas about lists and about the
  bits of a word on which the component proofs rest.

  A C function that returns \<open>0\<close> or a negative error number becomes a function from the
  driver's state to a \<open>result\<close>: \<open>Done a s\<close> for a return of \<open>0\<close> with the output value \<open>a\<close>,
  \<open>Fail e s\<close> for a return of \<open>-e\<close>; either way \<open>s\<close> holds every side effect made before the
  return.  \<open>Spin\<close> is a call that never returns because it waits for a spin lock nobody will
  release, \<open>Undef\<close> is behaviour that C leaves undefined (a misaligned or out-of-object access).
\<close>

unbundle bit_operations_syntax

named_theorems result_simps \<open>evaluation of outcomes\<close>
named_theorems frame_simps \<open>fields of the state that an operation leaves alone\<close>
named_theorems layout_simps \<open>numeric values of offsets, sizes and masks\<close>

section \<open>Machine integers\<close>

type_synonym u8 = "8 word"
type_synonym u32 = "32 word"
type_synonym u64 = "64 word"

section \<open>Error numbers and outcomes\<close>

text \<open>
  The error numbers that the driver and the calls of the test program return, by their kernel names; \<open>Errno n\<close> is a
  negative status that a kernel service returned and the driver passes on.
\<close>

datatype errno = EPERM | EBADF | EFAULT | EBUSY | EINVAL | ENOMEM | ENOTTY | Errno u32

datatype ('a, 's) result = Done 'a 's | Fail errno 's | Spin | Undef

text \<open>Sequencing: the next statement runs only after a return of \<open>0\<close>.\<close>

fun and_then :: "('a, 's) result \<Rightarrow> ('a \<Rightarrow> 's \<Rightarrow> ('b, 's) result) \<Rightarrow> ('b, 's) result" where
  "and_then (Done a s) f = f a s"
| "and_then (Fail e s) f = Fail e s"
| "and_then Spin f = Spin"
| "and_then Undef f = Undef"

text \<open>Code that runs on the normal and on the error exit, such as an unlock at an exit label.\<close>

fun on_exit :: "('s \<Rightarrow> 's) \<Rightarrow> ('a, 's) result \<Rightarrow> ('a, 's) result" where
  "on_exit f (Done a s) = Done a (f s)"
| "on_exit f (Fail e s) = Fail e (f s)"
| "on_exit f Spin = Spin"
| "on_exit f Undef = Undef"

text \<open>A call whose return code the caller does not look at.\<close>

fun ignore_ret :: "('a, 's) result \<Rightarrow> (unit, 's) result" where
  "ignore_ret (Done a s) = Done () s"
| "ignore_ret (Fail e s) = Done () s"
| "ignore_ret Spin = Spin"
| "ignore_ret Undef = Undef"

text \<open>A counting loop that leaves at the first error.\<close>

fun each :: "('i \<Rightarrow> 's \<Rightarrow> (unit, 's) result) \<Rightarrow> 'i list \<Rightarrow> 's \<Rightarrow> (unit, 's) result" where
  "each f [] s = Done () s"
| "each f (i # is) s = and_then (f i s) (\<lambda>_ s. each f is s)"

text \<open>
  \<open>holds Q E r\<close>: the call returns, normally in a state where \<open>Q\<close> holds of the output and the
  state, or with an error number for which \<open>E\<close> holds.  It is a total statement: neither
  \<open>Spin\<close> nor \<open>Undef\<close> satisfies it.
\<close>

fun holds :: "('a \<Rightarrow> 's \<Rightarrow> bool) \<Rightarrow> (errno \<Rightarrow> 's \<Rightarrow> bool) \<Rightarrow> ('a, 's) result \<Rightarrow> bool" where
  "holds Q E (Done a s) = Q a s"
| "holds Q E (Fail e s) = E e s"
| "holds Q E Spin = False"
| "holds Q E Undef = False"

lemma and_then_cong [fundef_cong]:
  "r = r' \<Longrightarrow> (\<And>a s. r' = Done a s \<Longrightarrow> f a s = g a s) \<Longrightarrow> and_then r f = and_then r' g"
  by (cases r') auto

lemma holds_and_then [simp]:
  "holds Q E (and_then r f) = holds (\<lambda>a s. holds Q E (f a s)) E r"
  by (cases r) auto

lemma holds_on_exit [simp]:
  "holds Q E (on_exit f r) = holds (\<lambda>a s. Q a (f s)) (\<lambda>e s. E e (f s)) r"
  by (cases r) auto

lemma holds_ignore_ret [simp]:
  "holds Q E (ignore_ret r) = holds (\<lambda>_ s. Q () s) (\<lambda>_ s. Q () s) r"
  by (cases r) auto

lemma holds_mono:
  assumes "holds Q E r"
    and "\<And>a s. Q a s \<Longrightarrow> Q' a s" and "\<And>e s. E e s \<Longrightarrow> E' e s"
  shows "holds Q' E' r"
  using assms by (cases r) auto

lemma holds_conj:
  "holds Q E r \<Longrightarrow> holds Q' E' r \<Longrightarrow> holds (\<lambda>a s. Q a s \<and> Q' a s) (\<lambda>e s. E e s \<and> E' e s) r"
  by (cases r) auto

text \<open>The rules for walking through an operation statement by statement with an invariant \<open>I\<close>.\<close>

lemma holds_step:
  assumes "holds (\<lambda>_. I) E r" and "\<And>a s. I s \<Longrightarrow> holds Q E (f a s)"
  shows "holds Q E (and_then r f)"
  using assms by (cases r) auto

lemma holds_if: "(b \<Longrightarrow> holds Q E r) \<Longrightarrow> (\<not> b \<Longrightarrow> holds Q E r') \<Longrightarrow> holds Q E (if b then r else r')"
  by simp

lemma holds_Let: "(\<And>x. holds Q E (f x)) \<Longrightarrow> holds Q E (let x = v in f x)"
  by (simp add: Let_def)

lemma holds_each:
  assumes "I s" and "\<And>i s. i \<in> set is \<Longrightarrow> I s \<Longrightarrow> holds (\<lambda>_. I) E (f i s)"
  shows "holds (\<lambda>_. I) E (each f is s)"
  using assms
proof (induction "is" arbitrary: s)
  case Nil
  then show ?case by simp
next
  case (Cons i "is")
  then have "holds (\<lambda>_. I) E (f i s)" by simp
  moreover have "holds (\<lambda>_. I) E (each f is t)" if "I t" for t
    using that Cons by simp
  ultimately show ?case by (auto elim: holds_mono)
qed

lemma and_then_assoc [result_simps]:
  "and_then (and_then r f) g = and_then r (\<lambda>a s. and_then (f a s) g)"
  by (cases r) auto

lemma each_Nil_fun [simp]: "each f [] = Done ()"
  by (rule ext) simp

lemma and_then_Done [simp]: "and_then r Done = r"
  by (cases r) auto

lemma and_then_Done_unit [simp]: "and_then r (\<lambda>_. Done ()) = r"
  by (cases r) auto

lemma each_append: "each f (is @ js) s = and_then (each f is s) (\<lambda>_ s. each f js s)"
  by (induction "is" arbitrary: s) (auto simp: and_then_assoc intro: and_then_cong)

lemma each_map: "each f (map g is) s = each (\<lambda>i. f (g i)) is s"
  by (induction "is" arbitrary: s) (auto intro: and_then_cong)

lemma each_cong: "(\<And>i s. i \<in> set is \<Longrightarrow> f i s = g i s) \<Longrightarrow> each f is s = each g is s"
proof (induction "is" arbitrary: s)
  case Nil
  then show ?case by simp
next
  case (Cons i "is")
  then show ?case by (cases "g i s") auto
qed

text \<open>A loop whose body never fails is a fold over its indices.\<close>

lemma each_Done:
  assumes "I s"
    and "\<And>i s. i \<in> set is \<Longrightarrow> I s \<Longrightarrow> f i s = Done () (g i s)"
    and "\<And>i s. i \<in> set is \<Longrightarrow> I s \<Longrightarrow> I (g i s)"
  shows "each f is s = Done () (fold g is s)"
  using assms by (induction "is" arbitrary: s) auto

lemma fold_keeps:
  assumes "I s" and "\<And>i s. i \<in> set is \<Longrightarrow> I s \<Longrightarrow> I (g i s)"
  shows "I (fold g is s)"
  using assms by (induction "is" arbitrary: s) auto

section \<open>Lists indexed by a loop\<close>

text \<open>Updating every index of a duplicate-free list once, each from its own old value.\<close>

lemma nth_fold_update:
  assumes "distinct is" and "n < length xs"
  shows "fold (\<lambda>i xs. xs[i := f i (xs ! i)]) is xs ! n =
    (if n \<in> set is then f n (xs ! n) else xs ! n)"
  using assms
proof (induction "is" arbitrary: xs)
  case Nil
  then show ?case by simp
next
  case (Cons i "is")
  then show ?case by (cases "n = i") auto
qed

lemma length_fold_update [simp]: "length (fold (\<lambda>i xs. xs[i := f i (xs ! i)]) is xs) = length xs"
  by (induction "is" arbitrary: xs) auto

text \<open>The same for any state that has a part for each index: a fold whose step \<open>n\<close> changes part
  \<open>n\<close> only, in a way that depends on part \<open>n\<close> only, changes every part of the fold once.\<close>

lemma fold_pointwise:
  assumes "distinct is" and "I s"
    and keep: "\<And>n s. n \<in> set is \<Longrightarrow> I s \<Longrightarrow> I (g n s)"
    and own: "\<And>n s. n \<in> set is \<Longrightarrow> I s \<Longrightarrow> part n (g n s) = f n (part n s)"
    and other: "\<And>n m s. n \<in> set is \<Longrightarrow> n \<noteq> m \<Longrightarrow> I s \<Longrightarrow> part m (g n s) = part m s"
  shows "part m (fold g is s) = (if m \<in> set is then f m (part m s) else part m s)"
  using assms
proof (induction "is" arbitrary: s)
  case Nil
  then show ?case by simp
next
  case (Cons n "is")
  have "part m (fold g is (g n s)) =
      (if m \<in> set is then f m (part m (g n s)) else part m (g n s))"
    by (rule Cons.IH) (use Cons.prems in auto)
  moreover have "part n (g n s) = f n (part n s)" using Cons.prems by simp
  moreover have "part m (g n s) = part m s" if "n \<noteq> m"
    using Cons.prems(5) [of n m s] that Cons.prems(2) by simp
  ultimately show ?case using Cons.prems(1) by (cases "n = m") auto
qed

section \<open>The bits of a 32-bit mask\<close>

text \<open>\<open>bits_of m\<close> lists the positions of the one bits of \<open>m\<close>, lowest first;
  \<open>bit_len m\<close> is one more than the highest of them, and \<open>0\<close> when there is none.\<close>

definition bits_of :: "u32 \<Rightarrow> nat list" where
  "bits_of m = filter (bit m) [0..<32]"

definition bit_len :: "u32 \<Rightarrow> nat" where
  "bit_len m = (if m = 0 then 0 else Suc (last (bits_of m)))"

lemma set_bits_of: "set (bits_of m) = {n. bit m n}"
  by (auto simp: bits_of_def dest: bit_imp_le_length)

lemma distinct_bits_of [simp]: "distinct (bits_of m)"
  by (simp add: bits_of_def)

lemma bits_of_less: "n \<in> set (bits_of m) \<Longrightarrow> n < 32"
  by (simp add: bits_of_def)

lemma bits_of_0 [simp]: "bits_of 0 = []"
  by (simp add: bits_of_def)

lemma bits_of_empty_iff [simp]: "bits_of m = [] \<longleftrightarrow> m = 0"
proof
  assume "bits_of m = []"
  then have "{n. bit m n} = {}" using set_bits_of [of m] by simp
  then show "m = 0" by (auto intro!: bit_word_eqI)
qed simp

lemma bits_of_step:
  "bits_of m = (if bit m 0 then [0] else []) @ map Suc (bits_of (drop_bit 1 m))"
proof -
  have split: "[0..<32] = 0 # map Suc [0..<31]"
    by (simp add: map_Suc_upt upt_conv_Cons)
  have last: "[0..<32] = [0..<31] @ [31]"
    by (simp add: upt_conv_Cons)
  have high: "\<not> bit (drop_bit 1 m) 31"
    using bit_imp_le_length [of m 32] by (auto simp: bit_drop_bit_eq)
  have "filter (bit m) [0..<32] =
      (if bit m 0 then [0] else []) @ map Suc (filter (bit (drop_bit 1 m)) [0..<31])"
    by (simp add: split filter_map comp_def bit_drop_bit_eq)
  then show ?thesis
    using high by (simp add: bits_of_def last)
qed

lemma and_1_bit: "m AND 1 \<noteq> 0 \<longleftrightarrow> bit m 0" for m :: u32
  by (simp add: and_one_eq bit_0 odd_iff_mod_2_eq_one)

lemma unat_drop_bit_less: "m \<noteq> 0 \<Longrightarrow> unat (drop_bit 1 m) < unat m" for m :: u32
  by (simp add: drop_bit_eq_div unat_div unat_gt_0)

lemma bit_len_step: "m \<noteq> 0 \<Longrightarrow> bit_len m = Suc (bit_len (drop_bit 1 m))"
  using bits_of_step [of m] by (auto simp: bit_len_def last_map split: if_splits)

lemma bit_len_le: "bit_len m \<le> 32"
proof (cases "m = 0")
  case False
  then have "last (bits_of m) \<in> set (bits_of m)" by simp
  then have "last (bits_of m) < 32" by (rule bits_of_less)
  then show ?thesis using False by (simp add: bit_len_def)
qed (simp add: bit_len_def)

section \<open>Passing a 32-bit value through a 64-bit variable\<close>

lemma ucast_u32_u64 [simp]: "ucast (ucast x :: u64) = x" for x :: u32
  by (rule bit_word_eqI) (simp add: bit_simps)

lemma unat_ucast_u64 [simp]: "unat (ucast x :: u64) = unat x" for x :: u32
  by (rule bit_eqI) (auto simp: bit_simps dest: bit_imp_le_length)

lemma ucast_less_u32_u64: "(ucast x :: u64) < ucast y \<longleftrightarrow> x < y" for x y :: u32
  by (simp add: word_less_nat_alt)

end
