(* ===== verification/Bit_Scan.thy ===== *)
theory Bit_Scan
  imports Prelude
begin

text \<open>
  The loop shape that the virtual counters use three times: look at the lowest bit of a mask,
  run the body when it is set, step the index, shift the mask right, until the mask is zero.
  The contract \<open>bit_scan\<close> states the loop's one-step equation; every loop of that shape
  interprets it and gets that it runs its body exactly for the one bits of the mask, lowest
  first, and leaves its index one past the highest of them.
\<close>

locale bit_scan =
  fixes body :: "u32 \<Rightarrow> 's \<Rightarrow> (unit, 's) result"
    and loop :: "u32 \<Rightarrow> u32 \<Rightarrow> 's \<Rightarrow> (u32, 's) result"
  assumes loop_eq: "loop i m s =
    (if m = 0 then Done i s
     else and_then (if m AND 1 \<noteq> 0 then body i s else Done () s)
       (\<lambda>_ s. loop (i + 1) (drop_bit 1 m) s))"
begin

lemma loop_0 [simp]: "loop i 0 s = Done i s"
  by (simp add: loop_eq)

lemma loop_runs_bits:
  "loop i m s =
    and_then (each (\<lambda>n. body (i + of_nat n)) (bits_of m) s) (\<lambda>_ s. Done (i + of_nat (bit_len m)) s)"
proof (induction m arbitrary: i s rule: measure_induct_rule [where f = unat])
  case (less m)
  show ?case
  proof (cases "m = 0")
    case True
    then show ?thesis by (simp add: bit_len_def)
  next
    case False
    let ?m = "drop_bit 1 m"
    have IH: "loop (i + 1) ?m =
        (\<lambda>t. and_then (each (\<lambda>n. body (i + 1 + of_nat n)) (bits_of ?m) t)
          (\<lambda>_ s. Done (i + 1 + of_nat (bit_len ?m)) s))"
      using False by (intro ext less) (rule unat_drop_bit_less)
    have "each (\<lambda>n. body (i + of_nat n)) (bits_of m) s =
        and_then (if bit m 0 then body i s else Done () s)
          (\<lambda>_. each (\<lambda>n. body (i + 1 + of_nat n)) (bits_of ?m))"
      by (subst bits_of_step) (simp add: each_append each_map and_then_assoc ac_simps)
    then show ?thesis
      using False
      by (simp only: loop_eq [of i m] IH and_1_bit and_then_assoc bit_len_step [OF False] of_nat_Suc
          if_False add.assoc)
  qed
qed

text \<open>What each round keeps, the whole loop keeps; a loop whose body never fails is a fold.\<close>

lemma loop_holds:
  assumes "I s" and "\<And>n s. bit m n \<Longrightarrow> I s \<Longrightarrow> holds (\<lambda>_. I) E (body (i + of_nat n) s)"
  shows "holds (\<lambda>j s. j = i + of_nat (bit_len m) \<and> I s) E (loop i m s)"
  unfolding loop_runs_bits holds_and_then
  by (rule holds_mono [OF holds_each [where I = I and E = E and f = "\<lambda>n. body (i + of_nat n)"]])
    (use assms in \<open>auto simp: set_bits_of\<close>)

lemma loop_Done:
  assumes "I s"
    and "\<And>n s. bit m n \<Longrightarrow> I s \<Longrightarrow> body (i + of_nat n) s = Done () (g n s)"
    and "\<And>n s. bit m n \<Longrightarrow> I s \<Longrightarrow> I (g n s)"
  shows "loop i m s = Done (i + of_nat (bit_len m)) (fold g (bits_of m) s)"
  unfolding loop_runs_bits
  by (subst each_Done [where I = I and g = g]) (use assms in \<open>auto simp: set_bits_of\<close>)

end

end
