(* ===== verification/Driver_State.thy ===== *)
theory Driver_State
  imports Prelude
begin

text \<open>
  The identifiers of \<open>ls-common/ls_dbg.h\<close> and \<open>ls-common/reg_access_ioctl.h\<close>, the kernel and
  hardware services the driver calls, and the driver's own static data: the table of mapped
  register groups (\<open>reg_access.c\<close>), the virtual counters (\<open>vir_cntrs.h\<close>), the two spin locks,
  the bound interrupt number and the EPU pointer.
\<close>

section \<open>Register groups and resource groups\<close>

datatype TRACEIP_MODULE =
  ETM0 | ETM1 | ETR | ETF0 | ETF1 | CSTF0 | CSTF1 | EPU | GDI | CORE | VCOUNT

text \<open>The enumerator's value; an id that user space passes in is any \<^typ>\<open>u32\<close>.\<close>

primrec module_code :: "TRACEIP_MODULE \<Rightarrow> u32" where
  "module_code ETM0 = 0"
| "module_code ETM1 = 1"
| "module_code ETR = 2"
| "module_code ETF0 = 3"
| "module_code ETF1 = 4"
| "module_code CSTF0 = 5"
| "module_code CSTF1 = 6"
| "module_code EPU = 7"
| "module_code GDI = 8"
| "module_code CORE = 9"
| "module_code VCOUNT = 10"

definition NUM_IO_IDS :: u32 where "NUM_IO_IDS = module_code CORE + 1"
definition NUM_IDS :: u32 where "NUM_IDS = module_code VCOUNT + 1"

definition IS_IO_MAPPED_MODULE :: "u32 \<Rightarrow> bool" where
  "IS_IO_MAPPED_MODULE i \<longleftrightarrow> module_code ETM0 \<le> i \<and> i < NUM_IO_IDS"

lemma module_code_inject [simp]: "module_code a = module_code b \<longleftrightarrow> a = b"
  by (cases a; cases b) simp_all

instantiation TRACEIP_MODULE :: linorder
begin

definition less_eq_TRACEIP_MODULE :: "TRACEIP_MODULE \<Rightarrow> TRACEIP_MODULE \<Rightarrow> bool" where
  "a \<le> b \<longleftrightarrow> module_code a \<le> module_code b"

definition less_TRACEIP_MODULE :: "TRACEIP_MODULE \<Rightarrow> TRACEIP_MODULE \<Rightarrow> bool" where
  "a < b \<longleftrightarrow> module_code a < module_code b"

instance
  by standard
    (auto simp: less_eq_TRACEIP_MODULE_def less_TRACEIP_MODULE_def dest: order.antisym)

end

datatype RESOURCE_GROUP_ID =
  LSDBG_RES_EPU_COUNTER | LSDBG_RES_EPU_GROUP | LSDBG_RES_SCU_EVENT | LSDBG_RES_GDPESCR

primrec group_code :: "RESOURCE_GROUP_ID \<Rightarrow> u32" where
  "group_code LSDBG_RES_EPU_COUNTER = 0"
| "group_code LSDBG_RES_EPU_GROUP = 1"
| "group_code LSDBG_RES_SCU_EVENT = 2"
| "group_code LSDBG_RES_GDPESCR = 3"

text \<open>The \<open>switch\<close> over the id that user space passed in; \<open>None\<close> is its default case.\<close>

definition resource_group :: "u32 \<Rightarrow> RESOURCE_GROUP_ID option" where
  "resource_group c =
    (if c = group_code LSDBG_RES_EPU_COUNTER then Some LSDBG_RES_EPU_COUNTER
     else if c = group_code LSDBG_RES_EPU_GROUP then Some LSDBG_RES_EPU_GROUP
     else if c = group_code LSDBG_RES_SCU_EVENT then Some LSDBG_RES_SCU_EVENT
     else if c = group_code LSDBG_RES_GDPESCR then Some LSDBG_RES_GDPESCR
     else None)"

lemma resource_group_code [simp]: "resource_group (group_code g) = Some g"
  by (cases g) (simp_all add: resource_group_def)

section \<open>Requests from user space\<close>

datatype ioctl_cmd =
  LS_DBG_RES_GET_USAGE | LS_DBG_RES_RESERVE | LS_DBG_RES_RELINQ | DBG_READ_REG | DBG_WRITE_REG
| Other_cmd u32

record reg_access =
  module_id :: u32
  offset :: u32
  buffer :: u64
  reg_size :: u32

record resource_reservation =
  resource_grp_id :: u32
  res_index :: u32
  res_usage :: u32

section \<open>Services of the kernel and the hardware\<close>

text \<open>
  Code that is not part of the driver is an argument of the model.  \<^typ>\<open>'h\<close> is the state of
  everything outside the driver: the device registers, the memory of the calling process, the
  kernel's interrupt tables.  A register read may change it.  User memory services return
  \<^const>\<open>None\<close> where the kernel's return a non-zero value, that is for an inaccessible address.
  \<open>vcnt_addr\<close> is the address at which the object \<open>ls_dbg_vcnt\<close> was linked.
\<close>

record 'h kernel =
  vcnt_addr :: u32
  ioread32 :: "u32 \<Rightarrow> 'h \<Rightarrow> u32 \<times> 'h"
  iowrite32 :: "u32 \<Rightarrow> u32 \<Rightarrow> 'h \<Rightarrow> 'h" \<comment> \<open>value, address\<close>
  copy_reg_access :: "u32 \<Rightarrow> 'h \<Rightarrow> reg_access option"
  copy_reservation :: "u32 \<Rightarrow> 'h \<Rightarrow> resource_reservation option"
  get_user32 :: "u32 \<Rightarrow> 'h \<Rightarrow> u32 option"
  copy_user64 :: "u32 \<Rightarrow> 'h \<Rightarrow> u64 option"
  put_user32 :: "u32 \<Rightarrow> u32 \<Rightarrow> 'h \<Rightarrow> 'h option" \<comment> \<open>value, address\<close>
  put_user64 :: "u64 \<Rightarrow> u32 \<Rightarrow> 'h \<Rightarrow> 'h option"
  find_epu_node :: "'h \<Rightarrow> u32"
  irq_of_parse_and_map :: "u32 \<Rightarrow> u32 \<Rightarrow> 'h \<Rightarrow> u32 \<times> 'h" \<comment> \<open>node, index\<close>
  set_irq_flags :: "u32 \<Rightarrow> 'h \<Rightarrow> 'h"
  request_irq :: "u32 \<Rightarrow> u32 \<Rightarrow> 'h \<Rightarrow> u32 \<times> 'h" \<comment> \<open>number, node\<close>
  free_irq :: "u32 \<Rightarrow> u32 \<Rightarrow> 'h \<Rightarrow> 'h"
  flush_scheduled_work :: "'h \<Rightarrow> 'h"

section \<open>The driver's static data\<close>

record map_info =
  map_id :: u32
  base_addr :: u32
  map_size :: u32

record vcounters =
  vcntctrl :: u32
  vcntrepecr :: "u32 list"
  vcntr :: "u64 list"
  vcntrcapt :: "u64 list"

record 'h driver =
  maps :: "map_info list"
  vcnt :: vcounters
  vc_lock :: bool
  reg_acc_lock :: bool
  intr_num :: u32
  epu_ptr :: u32
  hw :: 'h

abbreviation (input) MAX_TRACE_MODULES :: nat where "MAX_TRACE_MODULES \<equiv> 16"

text \<open>Static data starts out zeroed.\<close>

definition zero_map :: map_info where
  "zero_map = \<lparr>map_id = 0, base_addr = 0, map_size = 0\<rparr>"

definition zero_vcounters :: vcounters where
  "zero_vcounters =
    \<lparr>vcntctrl = 0, vcntrepecr = replicate 16 0, vcntr = replicate 32 0, vcntrcapt = replicate 32 0\<rparr>"

definition initial_driver :: "'h \<Rightarrow> 'h driver" where
  "initial_driver h =
    \<lparr>maps = replicate MAX_TRACE_MODULES zero_map, vcnt = zero_vcounters, vc_lock = False,
     reg_acc_lock = False, intr_num = 0, epu_ptr = 0, hw = h\<rparr>"

text \<open>The arrays have the lengths their declarations give them.\<close>

definition wf_vcounters :: "vcounters \<Rightarrow> bool" where
  "wf_vcounters v \<longleftrightarrow>
    length (vcntrepecr v) = 16 \<and> length (vcntr v) = 32 \<and> length (vcntrcapt v) = 32"

definition wf_driver :: "'h driver \<Rightarrow> bool" where
  "wf_driver d \<longleftrightarrow> length (maps d) = MAX_TRACE_MODULES \<and> wf_vcounters (vcnt d)"

lemma wf_initial [simp]: "wf_driver (initial_driver h)"
  by (simp add: wf_driver_def wf_vcounters_def initial_driver_def zero_vcounters_def)

section \<open>Spin locks\<close>

text \<open>
  \<open>spin_lock_irqsave\<close> on a lock that is held waits for its holder; an operation of the model
  runs to its end before the next one starts, so a lock that is still held was left behind and
  the wait never ends.
\<close>

definition lock_vc :: "'h driver \<Rightarrow> (unit, 'h driver) result" where
  "lock_vc d = (if vc_lock d then Spin else Done () (d\<lparr>vc_lock := True\<rparr>))"

definition unlock_vc :: "'h driver \<Rightarrow> 'h driver" where
  "unlock_vc d = d\<lparr>vc_lock := False\<rparr>"

definition lock_reg_acc :: "'h driver \<Rightarrow> (unit, 'h driver) result" where
  "lock_reg_acc d = (if reg_acc_lock d then Spin else Done () (d\<lparr>reg_acc_lock := True\<rparr>))"

definition unlock_reg_acc :: "'h driver \<Rightarrow> 'h driver" where
  "unlock_reg_acc d = d\<lparr>reg_acc_lock := False\<rparr>"

definition unlocked :: "'h driver \<Rightarrow> bool" where
  "unlocked d \<longleftrightarrow> \<not> vc_lock d \<and> \<not> reg_acc_lock d"

lemma unlocked_initial [simp]: "unlocked (initial_driver h)"
  by (simp add: unlocked_def initial_driver_def)

section \<open>Operations that work on the virtual counters only\<close>

text \<open>Nothing has changed but the hardware and the arrays of the virtual counters, which keep their
  lengths.\<close>

definition same_env :: "'h driver \<Rightarrow> 'h driver \<Rightarrow> bool" where
  "same_env d d' \<longleftrightarrow> maps d' = maps d \<and> vc_lock d' = vc_lock d \<and> reg_acc_lock d' = reg_acc_lock d \<and>
    intr_num d' = intr_num d \<and> epu_ptr d' = epu_ptr d \<and> vcntctrl (vcnt d') = vcntctrl (vcnt d) \<and>
    (wf_vcounters (vcnt d) \<longrightarrow> wf_vcounters (vcnt d'))"

lemma same_env_refl [simp, intro]: "same_env d d"
  by (simp add: same_env_def)

lemma same_env_trans [trans]: "same_env d d' \<Longrightarrow> same_env d' d'' \<Longrightarrow> same_env d d''"
  by (simp add: same_env_def)

lemma same_env_hw [simp]: "same_env d (d'\<lparr>hw := h\<rparr>) = same_env d d'"
  by (simp add: same_env_def)

lemma same_env_wf: "same_env d d' \<Longrightarrow> wf_driver d \<Longrightarrow> wf_driver d'"
  by (simp add: same_env_def wf_driver_def)

lemma same_env_unlocked: "same_env d d' \<Longrightarrow> unlocked d' = unlocked d"
  by (simp add: same_env_def unlocked_def)

end
