(* ===== verification/Reg_Map.thy ===== *)
theory Reg_Map
  imports Driver_State
begin

text \<open>
  The table of mapped register groups of \<open>reg_access.c\<close>: recording a mapping
  (\<open>reg_add_map\<close>), turning a group and an offset into an address (\<open>reg_find_map_io\<close> for the
  device registers, \<open>reg_find_map_ram\<close> for the virtual ones), and the device half of
  \<open>ls_dbg_read_reg_internal\<close> and \<open>ls_dbg_write_reg_internal\<close>.

  The C functions return a pointer that encodes an error number (\<open>ERR_PTR\<close>); here that is a sum.
\<close>

definition reg_add_map :: "u32 \<Rightarrow> u32 \<Rightarrow> u32 \<Rightarrow> 'h driver \<Rightarrow> (unit, 'h driver) result" where
  "reg_add_map i addr sz d =
    (if i < 0 \<or> NUM_IDS \<le> i then Fail EINVAL d
     else Done () (d\<lparr>maps := (maps d)[unat i := (maps d ! unat i)\<lparr>base_addr := addr, map_size := sz\<rparr>]\<rparr>))"

definition reg_find_map_io :: "'h driver \<Rightarrow> u32 \<Rightarrow> u32 \<Rightarrow> errno + u32" where
  "reg_find_map_io d i off =
    (if i < 0 \<or> NUM_IO_IDS \<le> i then Inl EINVAL
     else let mi = maps d ! unat i
          in if map_size mi \<le> off then Inl EFAULT else Inr (base_addr mi + off))"

definition reg_find_map_ram :: "'h driver \<Rightarrow> u32 \<Rightarrow> u32 \<Rightarrow> errno + u32" where
  "reg_find_map_ram d i off =
    (if i < module_code VCOUNT \<or> NUM_IDS \<le> i then Inl EINVAL
     else let mi = maps d ! unat i
          in if map_size mi \<le> off then Inl EFAULT else Inr (base_addr mi + off))"

text \<open>
  The branches of \<open>ls_dbg_read_reg_internal\<close> and \<open>ls_dbg_write_reg_internal\<close> for a memory-mapped
  register group.  A register is 32 bits wide: a read is extended, a written value truncated.
\<close>

definition read_reg_io :: "'h kernel \<Rightarrow> u32 \<Rightarrow> u32 \<Rightarrow> 'h driver \<Rightarrow> (u64, 'h driver) result" where
  "read_reg_io k i off d =
    (case reg_find_map_io d i off of
       Inl e \<Rightarrow> Fail e d
     | Inr a \<Rightarrow> (let (v, h) = ioread32 k a (hw d) in Done (ucast v) (d\<lparr>hw := h\<rparr>)))"

definition write_reg_io :: "'h kernel \<Rightarrow> u32 \<Rightarrow> u32 \<Rightarrow> u64 \<Rightarrow> 'h driver \<Rightarrow> (unit, 'h driver) result" where
  "write_reg_io k i off v d =
    (case reg_find_map_io d i off of
       Inl e \<Rightarrow> Fail e d
     | Inr a \<Rightarrow> Done () (d\<lparr>hw := iowrite32 k (ucast v) a (hw d)\<rparr>))"

text \<open>The accesses of the virtual counter code, which are all to the event processing unit.\<close>

definition epu_read :: "'h kernel \<Rightarrow> u32 \<Rightarrow> 'h driver \<Rightarrow> (u64, 'h driver) result" where
  "epu_read k off d = read_reg_io k (module_code EPU) off d"

definition epu_write :: "'h kernel \<Rightarrow> u32 \<Rightarrow> u64 \<Rightarrow> 'h driver \<Rightarrow> (unit, 'h driver) result" where
  "epu_write k off v d = write_reg_io k (module_code EPU) off v d"

section \<open>Lookup after recording\<close>

lemma module_code_less: "unat (module_code g) < 11"
  by (cases g) simp_all

lemma NUM_IDS_le: "i < NUM_IDS \<Longrightarrow> unat i < 16"
  by (simp add: NUM_IDS_def word_less_nat_alt)

lemma NUM_IO_IDS_le: "i < NUM_IO_IDS \<Longrightarrow> unat i < 16"
  by (simp add: NUM_IO_IDS_def word_less_nat_alt)

lemma reg_find_map_io_bounds:
  assumes "reg_find_map_io d i off = Inr a"
  shows "i < NUM_IO_IDS \<and> off < map_size (maps d ! unat i) \<and> a = base_addr (maps d ! unat i) + off"
  using assms by (auto simp: reg_find_map_io_def Let_def split: if_splits)

lemma reg_find_map_ram_bounds:
  assumes "reg_find_map_ram d i off = Inr a"
  shows "i = module_code VCOUNT \<and> off < map_size (maps d ! unat i) \<and>
    a = base_addr (maps d ! unat i) + off"
proof -
  from assms have "module_code VCOUNT \<le> i" "i < NUM_IDS"
    by (auto simp: reg_find_map_ram_def Let_def split: if_splits)
  then have "i = module_code VCOUNT"
    by (simp add: NUM_IDS_def word_le_nat_alt word_less_nat_alt word_unat_eq_iff)
  with assms show ?thesis by (auto simp: reg_find_map_ram_def Let_def split: if_splits)
qed

section \<open>The event processing unit's registers\<close>

text \<open>\<open>epu_mapped d\<close>: the whole struct \<open>epu_v2\<close> is mapped.\<close>

definition epu_mapped :: "'h driver \<Rightarrow> bool" where
  "epu_mapped d \<longleftrightarrow> 0x1000 \<le> map_size (maps d ! 7)"

definition epu_addr :: "'h driver \<Rightarrow> u32 \<Rightarrow> u32" where
  "epu_addr d off = base_addr (maps d ! 7) + off"

lemma epu_find: "reg_find_map_io d 7 off =
    (if map_size (maps d ! 7) \<le> off then Inl EFAULT else Inr (epu_addr d off))"
  by (simp add: reg_find_map_io_def NUM_IO_IDS_def epu_addr_def)

lemma epu_read_eq: "epu_read k off d =
    (if map_size (maps d ! 7) \<le> off then Fail EFAULT d
     else Done (ucast (fst (ioread32 k (epu_addr d off) (hw d))))
       (d\<lparr>hw := snd (ioread32 k (epu_addr d off) (hw d))\<rparr>))"
  by (simp add: epu_read_def read_reg_io_def epu_find split_beta)

lemma epu_write_eq: "epu_write k off v d =
    (if map_size (maps d ! 7) \<le> off then Fail EFAULT d
     else Done () (d\<lparr>hw := iowrite32 k (ucast v) (epu_addr d off) (hw d)\<rparr>))"
  by (simp add: epu_write_def write_reg_io_def epu_find)

lemma epu_mapped_less: "epu_mapped d \<Longrightarrow> off < 0x1000 \<Longrightarrow> off < map_size (maps d ! 7)"
  by (simp add: epu_mapped_def)

lemma epu_read_Done:
  "epu_mapped d \<Longrightarrow> off < 0x1000 \<Longrightarrow> epu_read k off d =
    Done (ucast (fst (ioread32 k (epu_addr d off) (hw d))))
      (d\<lparr>hw := snd (ioread32 k (epu_addr d off) (hw d))\<rparr>)"
  using epu_mapped_less [of d off] by (simp add: epu_read_eq)

lemma epu_write_Done:
  "epu_mapped d \<Longrightarrow> off < 0x1000 \<Longrightarrow> epu_write k off v d =
    Done () (d\<lparr>hw := iowrite32 k (ucast v) (epu_addr d off) (hw d)\<rparr>)"
  using epu_mapped_less [of d off] by (simp add: epu_write_eq)

lemma epu_frame [frame_simps, simp]:
  "epu_mapped (d\<lparr>hw := h\<rparr>) = epu_mapped d" "epu_addr (d\<lparr>hw := h\<rparr>) = epu_addr d"
  "epu_mapped (d\<lparr>vcnt := v\<rparr>) = epu_mapped d" "epu_addr (d\<lparr>vcnt := v\<rparr>) = epu_addr d"
  "epu_mapped (d\<lparr>vc_lock := b\<rparr>) = epu_mapped d" "epu_addr (d\<lparr>vc_lock := b\<rparr>) = epu_addr d"
  "epu_mapped (d\<lparr>intr_num := n\<rparr>) = epu_mapped d" "epu_addr (d\<lparr>intr_num := n\<rparr>) = epu_addr d"
  by (auto simp: epu_mapped_def epu_addr_def fun_eq_iff)

text \<open>An access to a device register changes nothing but the hardware, whatever its outcome.\<close>

lemma holds_epu_read:
  "(\<And>v h. Q v (d\<lparr>hw := h\<rparr>)) \<Longrightarrow> E EFAULT d \<Longrightarrow> holds Q E (epu_read k off d)"
  by (simp add: epu_read_eq)

lemma holds_epu_write:
  "(\<And>h. Q () (d\<lparr>hw := h\<rparr>)) \<Longrightarrow> E EFAULT d \<Longrightarrow> holds Q E (epu_write k off v d)"
  by (simp add: epu_write_eq)

end
