(* ===== verification/Layout.thy ===== *)
theory Layout
  imports Prelude
begin

text \<open>
  The C rule that places the members of a struct: each member starts at the next multiple of its
  alignment, an array takes its element size times its length, and the struct ends at a multiple
  of its largest alignment.  A PACKED struct is the case where every alignment is 1.  The contract
  \<open>register_block\<close> is what the register maps of \<open>ls-common/\<close> rely on.
\<close>

text \<open>A member: its name, the size and alignment of one element, the number of elements.\<close>

datatype field = Field (fname: string) (elem_size: nat) (elem_align: nat) (elem_count: nat)

definition field_bytes :: "field \<Rightarrow> nat" where
  "field_bytes f = elem_size f * elem_count f"

definition round_up :: "nat \<Rightarrow> nat \<Rightarrow> nat" where
  "round_up a n = (n + a - 1) div a * a"

fun field_offsets :: "nat \<Rightarrow> field list \<Rightarrow> (field \<times> nat) list" where
  "field_offsets pos [] = []"
| "field_offsets pos (f # fs) =
    (let start = round_up (elem_align f) pos
     in (f, start) # field_offsets (start + field_bytes f) fs)"

fun fields_end :: "nat \<Rightarrow> field list \<Rightarrow> nat" where
  "fields_end pos [] = pos"
| "fields_end pos (f # fs) = fields_end (round_up (elem_align f) pos + field_bytes f) fs"

definition struct_align :: "field list \<Rightarrow> nat" where
  "struct_align fs = foldr (\<lambda>f. max (elem_align f)) fs 1"

definition struct_size :: "field list \<Rightarrow> nat" where
  "struct_size fs = round_up (struct_align fs) (fields_end 0 fs)"

fun find_offset :: "string \<Rightarrow> (field \<times> nat) list \<Rightarrow> nat option" where
  "find_offset n [] = None"
| "find_offset n ((f, start) # ps) = (if fname f = n then Some start else find_offset n ps)"

text \<open>\<open>offsetof (struct, member)\<close>; \<open>None\<close> when the struct has no such member.\<close>

definition offset_of :: "field list \<Rightarrow> string \<Rightarrow> nat option" where
  "offset_of fs n = find_offset n (field_offsets 0 fs)"

text \<open>Members of a PACKED struct, and members at the ARM ABI's natural alignment.\<close>

abbreviation (input) u8s :: "string \<Rightarrow> nat \<Rightarrow> field" where "u8s n k \<equiv> Field n 1 1 k"
abbreviation (input) u32s :: "string \<Rightarrow> nat \<Rightarrow> field" where "u32s n k \<equiv> Field n 4 1 k"
abbreviation (input) aligned_u32s :: "string \<Rightarrow> nat \<Rightarrow> field" where "aligned_u32s n k \<equiv> Field n 4 4 k"
abbreviation (input) aligned_u64s :: "string \<Rightarrow> nat \<Rightarrow> field" where "aligned_u64s n k \<equiv> Field n 8 8 k"

lemma round_up_1 [simp]: "round_up (Suc 0) n = n"
  by (simp add: round_up_def)

lemma round_up_ge: "0 < a \<Longrightarrow> n \<le> round_up a n"
proof -
  assume "0 < a"
  then have "n + a - 1 < a * ((n + a - 1) div a) + a"
    by (metis div_mult_mod_eq mult.commute mod_less_divisor nat_add_left_cancel_less)
  then show ?thesis by (simp add: round_up_def mult.commute)
qed

lemma round_up_aligned: "a dvd round_up a n"
  by (simp add: round_up_def)

lemma fields_end_ge: "\<forall>f \<in> set fs. 0 < elem_align f \<Longrightarrow> pos \<le> fields_end pos fs"
proof (induction fs arbitrary: pos)
  case Nil
  then show ?case by simp
next
  case (Cons f fs)
  have "pos \<le> round_up (elem_align f) pos" using Cons.prems by (simp add: round_up_ge)
  also have "\<dots> \<le> fields_end (round_up (elem_align f) pos + field_bytes f) fs"
    using Cons.IH [of "round_up (elem_align f) pos + field_bytes f"] Cons.prems by simp
  finally show ?case by simp
qed

lemma field_offsets_bounds:
  assumes "\<forall>f \<in> set fs. 0 < elem_align f" and "(f, p) \<in> set (field_offsets pos fs)"
  shows "pos \<le> p \<and> p + field_bytes f \<le> fields_end pos fs \<and> f \<in> set fs \<and> elem_align f dvd p"
  using assms
proof (induction fs arbitrary: pos)
  case Nil
  then show ?case by simp
next
  case (Cons g gs)
  let ?start = "round_up (elem_align g) pos"
  have start: "pos \<le> ?start" using Cons.prems(1) by (simp add: round_up_ge)
  show ?case
  proof (cases "(f, p) = (g, ?start)")
    case True
    then show ?thesis
      using start fields_end_ge [of gs "?start + field_bytes g"] Cons.prems(1)
      by (simp add: round_up_aligned)
  next
    case False
    then have "(f, p) \<in> set (field_offsets (?start + field_bytes g) gs)"
      using Cons.prems(2) by (auto simp: Let_def)
    then show ?thesis using Cons start by fastforce
  qed
qed

text \<open>Members are laid out in order and never overlap.\<close>

lemma field_offsets_disjoint:
  assumes "\<forall>f \<in> set fs. 0 < elem_align f"
  shows "sorted_wrt (\<lambda>(f, p) (g, q). p + field_bytes f \<le> q) (field_offsets pos fs)"
  using assms
proof (induction fs arbitrary: pos)
  case (Cons f fs)
  then show ?case by (auto simp: Let_def dest: field_offsets_bounds)
qed simp

lemma find_offset_Some:
  "find_offset n ps = Some p \<Longrightarrow> \<exists>f. (f, p) \<in> set ps \<and> fname f = n"
  by (induction n ps rule: find_offset.induct) (auto split: if_splits)

lemma struct_align_pos: "0 < struct_align fs"
  unfolding struct_align_def by (induction fs) auto

lemma offset_of_bounds:
  assumes "\<forall>f \<in> set fs. 0 < elem_align f" and "offset_of fs n = Some p"
  shows "\<exists>f \<in> set fs. fname f = n \<and> p + field_bytes f \<le> struct_size fs \<and> elem_align f dvd p"
proof -
  from assms(2) obtain f where f: "(f, p) \<in> set (field_offsets 0 fs)" "fname f = n"
    by (auto simp: offset_of_def dest: find_offset_Some)
  have "fields_end 0 fs \<le> struct_size fs"
    by (simp add: struct_size_def round_up_ge struct_align_pos)
  with field_offsets_bounds [OF assms(1) f(1)] f(2) show ?thesis by auto
qed

text \<open>
  The contract of a register map: a PACKED struct of the size its \<open>CTASSERT\<close> states, whose
  members have different names.  Its clients compute addresses of single registers.
\<close>

locale register_block =
  fixes members :: "field list" and bytes :: nat
  assumes packed: "\<forall>f \<in> set members. elem_align f = 1"
    and size_is: "struct_size members = bytes"
    and names_distinct: "distinct (map fname members)"
begin

lemma register_in_block:
  assumes "offset_of members n = Some p"
  obtains f where "f \<in> set members" "fname f = n" "p + field_bytes f \<le> bytes"
  using offset_of_bounds [of members n p] assms packed size_is by auto

lemma element_in_block:
  assumes "offset_of members n = Some p" and "f \<in> set members" and "fname f = n"
    and "i < elem_count f"
  shows "p + i * elem_size f + elem_size f \<le> bytes"
proof -
  obtain g where g: "g \<in> set members" "fname g = n" "p + field_bytes g \<le> bytes"
    using assms(1) by (rule register_in_block)
  with assms(2,3) names_distinct have "g = f" by (auto simp: distinct_map inj_on_def)
  moreover have "i * elem_size f + elem_size f \<le> field_bytes f"
    using mult_le_mono1 [of "Suc i" "elem_count f" "elem_size f"] assms(4)
    by (simp add: field_bytes_def mult.commute)
  ultimately show ?thesis using g(3) by simp
qed

lemma registers_disjoint:
  "sorted_wrt (\<lambda>(f, p) (g, q). p + field_bytes f \<le> q) (field_offsets 0 members)"
  by (rule field_offsets_disjoint) (simp add: packed)

end

end
