(* ===== verification/Vcnt_Mem.thy ===== *)
theory Vcnt_Mem
  imports Reg_Map Layout
begin

text \<open>
  The object \<open>ls_dbg_vcnt\<close> of \<open>vir_cntrs.c\<close> as memory: where the members of
  \<open>struct vcounters\<close> (\<open>vir_cntrs.h\<close>) lie, which address is which virtual register, and the loads
  and stores that the code makes through a \<open>void *\<close>.  A load or store that is misaligned, or not
  inside a member of its width, is undefined in C and \<^const>\<open>None\<close> here.
\<close>

definition vcounters_struct :: "field list" where
  "vcounters_struct =
    [aligned_u32s ''vcntctrl'' 1,
     aligned_u32s ''vcntrepecr'' 16,
     aligned_u64s ''vcntr'' 32,
     aligned_u64s ''vcntrcapt'' 32]"

definition member_at :: "string \<Rightarrow> u32" where
  "member_at n = (case offset_of vcounters_struct n of Some p \<Rightarrow> of_nat p | None \<Rightarrow> 0)"

text \<open>Four bytes of padding (68 to 71) align the 64-bit counters.\<close>

lemma member_at_simps [simp, layout_simps]:
  "member_at ''vcntctrl'' = 0" "member_at ''vcntrepecr'' = 4"
  "member_at ''vcntr'' = 72" "member_at ''vcntrcapt'' = 328"
  by (simp_all add: member_at_def offset_of_def vcounters_struct_def round_up_def field_bytes_def)

lemma sizeof_vcounters [simp, layout_simps]: "struct_size vcounters_struct = 584"
  by (simp add: struct_size_def struct_align_def vcounters_struct_def round_up_def field_bytes_def)

section \<open>Loads and stores inside the object\<close>

text \<open>The first argument is the distance in bytes from the start of the object.\<close>

definition load32 :: "u32 \<Rightarrow> vcounters \<Rightarrow> u32 option" where
  "load32 off v =
    (if off = 0 then Some (vcntctrl v)
     else if member_at ''vcntrepecr'' \<le> off \<and> off < 68 \<and> off mod 4 = 0
     then Some (vcntrepecr v ! unat ((off - member_at ''vcntrepecr'') div 4))
     else None)"

definition store32 :: "u32 \<Rightarrow> u32 \<Rightarrow> vcounters \<Rightarrow> vcounters option" where
  "store32 off x v =
    (if off = 0 then Some (v\<lparr>vcntctrl := x\<rparr>)
     else if member_at ''vcntrepecr'' \<le> off \<and> off < 68 \<and> off mod 4 = 0
     then Some (v\<lparr>vcntrepecr := (vcntrepecr v)[unat ((off - member_at ''vcntrepecr'') div 4) := x]\<rparr>)
     else if off = 68 then Some v \<comment> \<open>the padding\<close>
     else None)"

definition load64 :: "u32 \<Rightarrow> vcounters \<Rightarrow> u64 option" where
  "load64 off v =
    (if off mod 8 \<noteq> 0 then None
     else if member_at ''vcntr'' \<le> off \<and> off < member_at ''vcntrcapt''
     then Some (vcntr v ! unat ((off - member_at ''vcntr'') div 8))
     else if member_at ''vcntrcapt'' \<le> off \<and> off < 584
     then Some (vcntrcapt v ! unat ((off - member_at ''vcntrcapt'') div 8))
     else None)"

definition store64 :: "u32 \<Rightarrow> u64 \<Rightarrow> vcounters \<Rightarrow> vcounters option" where
  "store64 off x v =
    (if off mod 8 \<noteq> 0 then None
     else if member_at ''vcntr'' \<le> off \<and> off < member_at ''vcntrcapt''
     then Some (v\<lparr>vcntr := (vcntr v)[unat ((off - member_at ''vcntr'') div 8) := x]\<rparr>)
     else if member_at ''vcntrcapt'' \<le> off \<and> off < 584
     then Some (v\<lparr>vcntrcapt := (vcntrcapt v)[unat ((off - member_at ''vcntrcapt'') div 8) := x]\<rparr>)
     else None)"

text \<open>The C expressions \<open>*(T *)data\<close> and \<open>*(T *)data = val\<close> for a pointer into the object.\<close>

definition deref32 :: "'h kernel \<Rightarrow> u32 \<Rightarrow> 'h driver \<Rightarrow> (u32, 'h driver) result" where
  "deref32 k data d =
    (case load32 (data - vcnt_addr k) (vcnt d) of None \<Rightarrow> Undef | Some x \<Rightarrow> Done x d)"

definition deref64 :: "'h kernel \<Rightarrow> u32 \<Rightarrow> 'h driver \<Rightarrow> (u64, 'h driver) result" where
  "deref64 k data d =
    (case load64 (data - vcnt_addr k) (vcnt d) of None \<Rightarrow> Undef | Some x \<Rightarrow> Done x d)"

definition assign32 :: "'h kernel \<Rightarrow> u32 \<Rightarrow> u32 \<Rightarrow> 'h driver \<Rightarrow> (unit, 'h driver) result" where
  "assign32 k data x d =
    (case store32 (data - vcnt_addr k) x (vcnt d) of
       None \<Rightarrow> Undef | Some v \<Rightarrow> Done () (d\<lparr>vcnt := v\<rparr>))"

definition assign64 :: "'h kernel \<Rightarrow> u32 \<Rightarrow> u64 \<Rightarrow> 'h driver \<Rightarrow> (unit, 'h driver) result" where
  "assign64 k data x d =
    (case store64 (data - vcnt_addr k) x (vcnt d) of
       None \<Rightarrow> Undef | Some v \<Rightarrow> Done () (d\<lparr>vcnt := v\<rparr>))"

lemma store_wf:
  "store32 off x v = Some v' \<Longrightarrow> wf_vcounters v \<Longrightarrow> wf_vcounters v'"
  "store64 off y v = Some v' \<Longrightarrow> wf_vcounters v \<Longrightarrow> wf_vcounters v'"
  by (auto simp: store32_def store64_def wf_vcounters_def split: if_splits)

section \<open>The virtual registers\<close>

datatype vreg = Vcntctrl | Vcntrepecr nat | Vcntr nat | Vcntrcapt nat

fun vreg_off :: "vreg \<Rightarrow> u32" where
  "vreg_off Vcntctrl = member_at ''vcntctrl''"
| "vreg_off (Vcntrepecr n) = member_at ''vcntrepecr'' + of_nat n * 4"
| "vreg_off (Vcntr n) = member_at ''vcntr'' + of_nat n * 8"
| "vreg_off (Vcntrcapt n) = member_at ''vcntrcapt'' + of_nat n * 8"

fun vreg_exists :: "vreg \<Rightarrow> bool" where
  "vreg_exists Vcntctrl = True"
| "vreg_exists (Vcntrepecr n) = (n < 16)"
| "vreg_exists (Vcntr n) = (n < 32)"
| "vreg_exists (Vcntrcapt n) = (n < 32)"

text \<open>The object does not reach into the last page of the address space, which the kernel keeps
  for error pointers.\<close>

definition linked :: "'h kernel \<Rightarrow> bool" where
  "linked k \<longleftrightarrow> unat (vcnt_addr k) + 0x1000 < 2 ^ 32"

lemma linked_le:
  assumes "linked k" and "a \<le> 0x1000" and "b \<le> 0x1000"
  shows "vcnt_addr k + a \<le> vcnt_addr k + b \<longleftrightarrow> a \<le> b"
    and "vcnt_addr k + a < vcnt_addr k + b \<longleftrightarrow> a < b"
proof -
  have u: "unat (vcnt_addr k + c) = unat (vcnt_addr k) + unat c" if "c \<le> 0x1000" for c
    using assms(1) that by (intro unat_add_lem [THEN iffD1]) (simp add: linked_def word_le_nat_alt)
  show "vcnt_addr k + a \<le> vcnt_addr k + b \<longleftrightarrow> a \<le> b"
    using assms(2,3) by (simp add: word_le_nat_alt u)
  show "vcnt_addr k + a < vcnt_addr k + b \<longleftrightarrow> a < b"
    using assms(2,3) by (simp add: word_less_nat_alt u)
qed

lemma unat_vreg_off:
  "n < 16 \<Longrightarrow> unat (vreg_off (Vcntrepecr n)) = 4 + n * 4"
  "n < 32 \<Longrightarrow> unat (vreg_off (Vcntr n)) = 72 + n * 8"
  "n < 32 \<Longrightarrow> unat (vreg_off (Vcntrcapt n)) = 328 + n * 8"
  by (simp_all add: unat_word_ariths unat_of_nat)

lemma vreg_off_le: "vreg_exists r \<Longrightarrow> vreg_off r < 584"
  by (cases r) (simp_all add: word_less_nat_alt unat_vreg_off del: vreg_off.simps, simp)

text \<open>The index that the code computes back from an address in an array of the object.\<close>

lemma index_of_address:
  fixes off base :: u32
  assumes "unat off = unat base + n * c" and "unat (of_nat c :: u32) = c" and "0 < c"
  shows "unat ((off - base) div of_nat c) = n" and "base \<le> off"
proof -
  show le: "base \<le> off" using assms(1) by (simp add: word_le_nat_alt)
  then show "unat ((off - base) div of_nat c) = n"
    using assms by (simp add: unat_div unat_sub)
qed

lemma mod_word_0_iff: "off mod of_nat c = 0 \<longleftrightarrow> unat off mod c = 0"
  if "unat (of_nat c :: u32) = c" for off :: u32
  using that by (simp add: word_unat_eq_iff unat_mod)

lemma load_vreg:
  "n < 16 \<Longrightarrow> load32 (vreg_off (Vcntrepecr n)) v = Some (vcntrepecr v ! n)"
  "n < 32 \<Longrightarrow> load64 (vreg_off (Vcntr n)) v = Some (vcntr v ! n)"
  "n < 32 \<Longrightarrow> load64 (vreg_off (Vcntrcapt n)) v = Some (vcntrcapt v ! n)"
  using index_of_address [of "vreg_off (Vcntrepecr n)" 4 n 4]
    index_of_address [of "vreg_off (Vcntr n)" 72 n 8]
    index_of_address [of "vreg_off (Vcntrcapt n)" 328 n 8]
    mod_word_0_iff [of 4] mod_word_0_iff [of 8]
  by (simp_all add: load32_def load64_def unat_vreg_off word_less_nat_alt word_le_nat_alt
      word_unat_eq_iff del: vreg_off.simps)

lemma store_vreg:
  "n < 16 \<Longrightarrow> store32 (vreg_off (Vcntrepecr n)) x v = Some (v\<lparr>vcntrepecr := (vcntrepecr v)[n := x]\<rparr>)"
  "n < 32 \<Longrightarrow> store64 (vreg_off (Vcntr n)) y v = Some (v\<lparr>vcntr := (vcntr v)[n := y]\<rparr>)"
  "n < 32 \<Longrightarrow> store64 (vreg_off (Vcntrcapt n)) y v = Some (v\<lparr>vcntrcapt := (vcntrcapt v)[n := y]\<rparr>)"
  using index_of_address [of "vreg_off (Vcntrepecr n)" 4 n 4]
    index_of_address [of "vreg_off (Vcntr n)" 72 n 8]
    index_of_address [of "vreg_off (Vcntrcapt n)" 328 n 8]
    mod_word_0_iff [of 4] mod_word_0_iff [of 8]
  by (simp_all add: store32_def store64_def unat_vreg_off word_less_nat_alt word_le_nat_alt
      word_unat_eq_iff del: vreg_off.simps)

text \<open>The pointer comparisons by which the code tells the members apart.\<close>

definition in_region :: "'h kernel \<Rightarrow> u32 \<Rightarrow> u32 \<Rightarrow> u32 \<Rightarrow> bool" where
  "in_region k lo hi data \<longleftrightarrow> vcnt_addr k + lo \<le> data \<and> data < vcnt_addr k + hi"

lemma in_region_iff:
  assumes "linked k" and "lo \<le> 0x1000" and "hi \<le> 0x1000" and "off \<le> 0x1000"
  shows "in_region k lo hi (vcnt_addr k + off) \<longleftrightarrow> lo \<le> off \<and> off < hi"
  using linked_le [OF assms(1)] assms(2-4) by (simp add: in_region_def)

end
