(* ===== verification/Vir_Cntrs.thy ===== *)
theory Vir_Cntrs
  imports Bit_Scan Vcnt_Mem
begin

text \<open>
  The virtual counters of \<open>vir_cntrs.c\<close>: counting an overflow (\<open>v_counter_inc\<close>), handling all
  overflows that are pending (\<open>update_vcounters\<close>), capturing a group of counters
  (\<open>vcntepecr_set\<close>), and reading and writing the virtual registers
  (\<open>vcounter_reg_read\<close>, \<open>vcounter_reg_write\<close>).
\<close>

section \<open>Constants of vir\_cntrs.h\<close>

definition LS_DBG_EPU_EPCTRISR_OFFSET :: u32 where [simp]: "LS_DBG_EPU_EPCTRISR_OFFSET = 0x030"
definition LS_DBG_EPU_EPECR_OFFSET :: u32 where [simp]: "LS_DBG_EPU_EPECR_OFFSET = 0x300"
definition LS_DBG_EPU_EPGACR_OFFSET :: u32 where [simp]: "LS_DBG_EPU_EPGACR_OFFSET = 0x480"
definition LS_DBG_EPU_EPCTRGCR_OFFSET :: u32 where [simp]: "LS_DBG_EPU_EPCTRGCR_OFFSET = 0x540"
definition LS_DBG_EPU_EPCCR_OFFSET :: u32 where [simp]: "LS_DBG_EPU_EPCCR_OFFSET = 0x800"
definition LS_DBG_EPU_EPCTR_OFFSET :: u32 where [simp]: "LS_DBG_EPU_EPCTR_OFFSET = 0x0A00"
definition LS_DBG_EPU_EPCAPR_OFFSET :: u32 where [simp]: "LS_DBG_EPU_EPCAPR_OFFSET = 0xB00"

definition VCNTR_ENABLE_MASK :: u32 where [simp]: "VCNTR_ENABLE_MASK = 0x00000001"
definition EPGACR_CTCC_SHIFT :: nat where [simp]: "EPGACR_CTCC_SHIFT = 20"
definition EPGACR_CTCC_MASK :: u32 where [simp]: "EPGACR_CTCC_MASK = 0x00000070"
definition EPECR_STS_MASK :: u32 where [simp]: "EPECR_STS_MASK = 0x01000000"
definition EPCCR_ENABLE_MASK :: u32 where [simp]: "EPCCR_ENABLE_MASK = 0x00000080"
definition EPCCR_AC_INTR_REQ_VAL :: u32 where [simp]: "EPCCR_AC_INTR_REQ_VAL = 0x1"
definition EPCCR_AC_SHIFT :: nat where [simp]: "EPCCR_AC_SHIFT = 8"

definition LS_DBG_V_COUNTER_OVFLOW_VALUE :: u64 where
  "LS_DBG_V_COUNTER_OVFLOW_VALUE = push_bit (64 - 1) 1"

section \<open>Counting overflows\<close>

definition set_vcntr :: "u32 \<Rightarrow> u64 \<Rightarrow> 'h driver \<Rightarrow> 'h driver" where
  "set_vcntr i x d = d\<lparr>vcnt := (vcnt d)\<lparr>vcntr := (vcntr (vcnt d))[unat i := x]\<rparr>\<rparr>"

definition set_vcntrcapt :: "u32 \<Rightarrow> u64 \<Rightarrow> 'h driver \<Rightarrow> 'h driver" where
  "set_vcntrcapt i x d = d\<lparr>vcnt := (vcnt d)\<lparr>vcntrcapt := (vcntrcapt (vcnt d))[unat i := x]\<rparr>\<rparr>"

definition v_counter_inc :: "u32 \<Rightarrow> 'h driver \<Rightarrow> bool \<times> 'h driver" where
  "v_counter_inc ctr d =
    (let d1 = set_vcntr ctr (vcntr (vcnt d) ! unat ctr + 1) d;
         ret = (vcntr (vcnt d1) ! unat ctr AND LS_DBG_V_COUNTER_OVFLOW_VALUE \<noteq> 0)
     in (ret, if ret then set_vcntr ctr 0 d1 else d1))"

text \<open>The loop of \<open>update_vcounters\<close>: \<open>ctr\<close> counts down from 31 while the mask shifts right.\<close>

function update_loop :: "'h kernel \<Rightarrow> u32 \<Rightarrow> u32 \<Rightarrow> 'h driver \<Rightarrow> (unit, 'h driver) result" where
  "update_loop k ctr ctrisr d =
    (if ctrisr = 0 then Done () d
     else and_then
       (if ctrisr AND 1 \<noteq> 0
        then let cntr_ind = 32 - 1 - ctr
             in epu_write k (LS_DBG_EPU_EPCTR_OFFSET + cntr_ind * 4) 0 (snd (v_counter_inc cntr_ind d))
        else Done () d)
       (\<lambda>_ d. update_loop k (ctr - 1) (drop_bit 1 ctrisr) d))"
  by pat_completeness auto
termination
  by (relation "measure (\<lambda>(k, ctr, m, d). unat m)") (auto intro: unat_drop_bit_less [simplified])

declare update_loop.simps [simp del]

definition update_vcounters :: "'h kernel \<Rightarrow> u32 \<Rightarrow> 'h driver \<Rightarrow> (unit, 'h driver) result" where
  "update_vcounters k ctrisr d =
    and_then (epu_write k LS_DBG_EPU_EPCTRISR_OFFSET (ucast ctrisr) d) (\<lambda>_ d.
    update_loop k (32 - 1) ctrisr d)"

section \<open>Capturing a group of counters\<close>

text \<open>The loop that records the capture registers before the capture is triggered; it returns the
  index \<open>i\<close> it ends with.\<close>

function capture_before :: "'h kernel \<Rightarrow> u32 \<Rightarrow> u32 \<Rightarrow> 'h driver \<Rightarrow> (u32, 'h driver) result" where
  "capture_before k i epctrgcr d =
    (if epctrgcr = 0 then Done i d
     else and_then
       (if epctrgcr AND 1 \<noteq> 0
        then and_then (epu_read k (LS_DBG_EPU_EPCAPR_OFFSET + i * 4) d) (\<lambda>reg64 d.
               let regVal = ucast reg64 :: u32 in Done () (set_vcntrcapt i (ucast regVal) d))
        else Done () d)
       (\<lambda>_ d. capture_before k (i + 1) (drop_bit 1 epctrgcr) d))"
  by pat_completeness auto
termination
  by (relation "measure (\<lambda>(k, i, m, d). unat m)") (auto intro: unat_drop_bit_less [simplified])

declare capture_before.simps [simp del]

text \<open>One counter after the capture: count a late overflow, then combine the overflow count and
  the captured value.\<close>

definition capture_one :: "u32 \<Rightarrow> u32 \<Rightarrow> 'h driver \<Rightarrow> 'h driver" where
  "capture_one i regVal d =
    (let d1 = (if (ucast regVal :: u64) < vcntrcapt (vcnt d) ! unat i
               then set_vcntr i (vcntr (vcnt d) ! unat i + 1) d else d);
         d2 = set_vcntrcapt i (push_bit 32 (vcntr (vcnt d1) ! unat i)) d1
     in set_vcntrcapt i (vcntrcapt (vcnt d2) ! unat i OR ucast regVal) d2)"

function capture_after :: "'h kernel \<Rightarrow> u32 \<Rightarrow> u32 \<Rightarrow> 'h driver \<Rightarrow> (u32, 'h driver) result" where
  "capture_after k i epctrgcr d =
    (if epctrgcr = 0 then Done i d
     else and_then
       (if epctrgcr AND 1 \<noteq> 0
        then and_then (epu_read k (LS_DBG_EPU_EPCAPR_OFFSET + i * 4) d) (\<lambda>reg64 d.
               Done () (capture_one i (ucast reg64) d))
        else Done () d)
       (\<lambda>_ d. capture_after k (i + 1) (drop_bit 1 epctrgcr) d))"
  by pat_completeness auto
termination
  by (relation "measure (\<lambda>(k, i, m, d). unat m)") (auto intro: unat_drop_bit_less [simplified])

declare capture_after.simps [simp del]

text \<open>
  \<open>vcntepecr_set\<close>; its value argument is not used.  The second read of the interrupt status adds
  \<open>i * 4\<close> to the register's offset, with the \<open>i\<close> that the first loop left behind.
\<close>

definition event_index :: "'h kernel \<Rightarrow> u32 \<Rightarrow> u32" where
  "event_index k data = (data - (vcnt_addr k + member_at ''vcntrepecr'')) div 4"

definition vcntepecr_set_body :: "'h kernel \<Rightarrow> u32 \<Rightarrow> 'h driver \<Rightarrow> (unit, 'h driver) result" where
  "vcntepecr_set_body k data d =
    (let event_i = event_index k data in
     and_then (epu_read k (LS_DBG_EPU_EPGACR_OFFSET + event_i * 4) d) (\<lambda>reg64 d.
     let group_j = push_bit EPGACR_CTCC_SHIFT ((ucast reg64 :: u32) AND EPGACR_CTCC_MASK) in
     and_then (epu_read k (LS_DBG_EPU_EPCTRGCR_OFFSET + group_j * 4) d) (\<lambda>reg64 d.
     let epctrgcr = ucast reg64 :: u32 in
     and_then (capture_before k 0 epctrgcr d) (\<lambda>i d.
     and_then (epu_read k (LS_DBG_EPU_EPECR_OFFSET + event_i * 4) d) (\<lambda>reg64 d.
     let regVal = (ucast reg64 :: u32) OR EPECR_STS_MASK in
     and_then (epu_read k (LS_DBG_EPU_EPCTRISR_OFFSET + i * 4) d) (\<lambda>reg64 d.
     let epctrisr = ucast reg64 :: u32 in
     and_then (if epctrisr \<noteq> 0 then ignore_ret (update_vcounters k epctrisr d) else Done () d) (\<lambda>_ d.
     and_then (epu_write k (LS_DBG_EPU_EPECR_OFFSET + event_i * 4) (ucast regVal) d) (\<lambda>_ d.
     and_then (epu_read k LS_DBG_EPU_EPCTRISR_OFFSET d) (\<lambda>reg64 d.
     let epctrisr = ucast reg64 :: u32 in
     and_then (if epctrisr \<noteq> 0 then update_vcounters k epctrisr d else Done () d) (\<lambda>_ d.
     and_then (capture_after k 0 epctrgcr d) (\<lambda>_ d. Done () d)))))))))))"

definition vcntepecr_set :: "'h kernel \<Rightarrow> u32 \<Rightarrow> u64 \<Rightarrow> 'h driver \<Rightarrow> (unit, 'h driver) result" where
  "vcntepecr_set k data val d =
    and_then (lock_vc d) (\<lambda>_ d. on_exit unlock_vc (vcntepecr_set_body k data d))"

text \<open>\<open>vcntepecr_get\<close>; the return on a failed read does not release the lock.\<close>

definition vcntepecr_get :: "'h kernel \<Rightarrow> u32 \<Rightarrow> 'h driver \<Rightarrow> (u64, 'h driver) result" where
  "vcntepecr_get k data d =
    and_then (lock_vc d) (\<lambda>_ d.
    let counter = event_index k data in
    and_then (epu_read k (LS_DBG_EPU_EPECR_OFFSET + counter * 4) d) (\<lambda>reg64 d.
    let epecr_val = ucast reg64 :: u32 in
    and_then (assign32 k data epecr_val d) (\<lambda>_ d.
    Done (ucast epecr_val) (unlock_vc d))))"

section \<open>Reading and writing the virtual registers\<close>

definition vcntr_get :: "'h kernel \<Rightarrow> u32 \<Rightarrow> 'h driver \<Rightarrow> (u64, 'h driver) result" where
  "vcntr_get k data d = deref64 k data d"

definition vcntr_set :: "'h kernel \<Rightarrow> u32 \<Rightarrow> u64 \<Rightarrow> 'h driver \<Rightarrow> (unit, 'h driver) result" where
  "vcntr_set k data val d = assign64 k data val d"

text \<open>The last bound of the read is \<open>vcntrcapt + 32 * 8\<close> in units of the 8-byte elements; the
  write casts to \<open>void *\<close> first and bounds it in bytes.\<close>

definition vcounter_reg_read :: "'h kernel \<Rightarrow> u32 \<Rightarrow> 'h driver \<Rightarrow> (u64, 'h driver) result" where
  "vcounter_reg_read k data d =
    (if in_region k (member_at ''vcntctrl'') (member_at ''vcntrepecr'') data
     then and_then (deref32 k data d) (\<lambda>x d. Done (ucast x) d)
     else if in_region k (member_at ''vcntrepecr'') (member_at ''vcntr'') data
     then vcntepecr_get k data d
     else if in_region k (member_at ''vcntr'') (member_at ''vcntrcapt'') data
     then vcntr_get k data d
     else if in_region k (member_at ''vcntrcapt'') (member_at ''vcntrcapt'' + 32 * 8 * 8) data
     then deref64 k data d
     else Fail ENOMEM d)"

definition vcounter_reg_write :: "'h kernel \<Rightarrow> u32 \<Rightarrow> u64 \<Rightarrow> 'h driver \<Rightarrow> (unit, 'h driver) result" where
  "vcounter_reg_write k data val d =
    (if in_region k (member_at ''vcntctrl'') (member_at ''vcntrepecr'') data
     then assign32 k data (ucast val) d
     else if in_region k (member_at ''vcntrepecr'') (member_at ''vcntr'') data
     then vcntepecr_set k data val d
     else if in_region k (member_at ''vcntr'') (member_at ''vcntrcapt'') data
     then vcntr_set k data val d
     else if in_region k (member_at ''vcntrcapt'') (member_at ''vcntrcapt'' + 32 * 8) data
     then assign64 k data val d
     else Fail ENOMEM d)"

section \<open>The three loops as bit scans\<close>

definition update_body :: "'h kernel \<Rightarrow> u32 \<Rightarrow> 'h driver \<Rightarrow> (unit, 'h driver) result" where
  "update_body k i d = epu_write k (LS_DBG_EPU_EPCTR_OFFSET + i * 4) 0 (snd (v_counter_inc i d))"

definition before_body :: "'h kernel \<Rightarrow> u32 \<Rightarrow> 'h driver \<Rightarrow> (unit, 'h driver) result" where
  "before_body k i d = and_then (epu_read k (LS_DBG_EPU_EPCAPR_OFFSET + i * 4) d) (\<lambda>reg64 d.
     Done () (set_vcntrcapt i (ucast (ucast reg64 :: u32)) d))"

definition after_body :: "'h kernel \<Rightarrow> u32 \<Rightarrow> 'h driver \<Rightarrow> (unit, 'h driver) result" where
  "after_body k i d = and_then (epu_read k (LS_DBG_EPU_EPCAPR_OFFSET + i * 4) d) (\<lambda>reg64 d.
     Done () (capture_one i (ucast reg64) d))"

text \<open>The loop of \<open>update_vcounters\<close> has the index \<open>31 - ctr\<close> and does not return it.\<close>

definition update_scan :: "'h kernel \<Rightarrow> u32 \<Rightarrow> u32 \<Rightarrow> 'h driver \<Rightarrow> (u32, 'h driver) result" where
  "update_scan k i m d = and_then (update_loop k (31 - i) m d) (\<lambda>_ d. Done (i + of_nat (bit_len m)) d)"

interpretation upd: bit_scan "update_body k" "update_scan k" for k
proof
  fix i m d
  show "update_scan k i m d =
    (if m = 0 then Done i d
     else and_then (if m AND 1 \<noteq> 0 then update_body k i d else Done () d)
       (\<lambda>_ d. update_scan k (i + 1) (drop_bit 1 m) d))"
  proof (cases "m = 0")
    case True
    then show ?thesis by (simp add: update_scan_def update_loop.simps bit_len_def)
  next
    case False
    have idx: "32 - 1 - (31 - i) = i" "31 - i - 1 = 31 - (i + 1)" by simp_all
    have last: "i + of_nat (bit_len m) = i + 1 + of_nat (bit_len (drop_bit 1 m))"
      by (simp only: bit_len_step [OF False] of_nat_Suc add.assoc)
    show ?thesis using False
      by (simp only: update_scan_def update_body_def update_loop.simps [of k "31 - i" m d]
          and_then_assoc Let_def idx last if_False)
  qed
qed

interpretation before: bit_scan "before_body k" "capture_before k" for k
  by unfold_locales (subst capture_before.simps, simp add: before_body_def Let_def)

interpretation after: bit_scan "after_body k" "capture_after k" for k
  by unfold_locales (subst capture_after.simps, simp add: after_body_def)

lemma update_loop_scan: "update_loop k 31 m d = and_then (update_scan k 0 m d) (\<lambda>_ d. Done () d)"
  by (simp add: update_scan_def and_then_assoc)

end
