(* ===== verification/Vcnt_Update.thy ===== *)
theory Vcnt_Update
  imports Vir_Cntrs
begin

text \<open>
  What counting overflows does: the effect of \<open>v_counter_inc\<close> on one counter, and of
  \<open>update_vcounters\<close> on the array of counters and on the device, in the order of the accesses.
\<close>

section \<open>One counter\<close>

text \<open>The new value of a counter: one more, and back to zero when bit 63 comes on.\<close>

definition v_inc :: "u64 \<Rightarrow> u64" where
  "v_inc x = (if (x + 1) AND LS_DBG_V_COUNTER_OVFLOW_VALUE \<noteq> 0 then 0 else x + 1)"

lemma bit_63_iff: "bit x 63 \<longleftrightarrow> 2 ^ 63 \<le> unat x" for x :: u64
proof -
  have "unat x < 2 ^ 64" using unsigned_less [of x] by simp
  then have "unat x div 2 ^ 63 < 2" by simp
  moreover have "odd q \<longleftrightarrow> q = 1" if "q < 2" for q :: nat
    using that by presburger
  ultimately have "odd (unat x div 2 ^ 63) \<longleftrightarrow> unat x div 2 ^ 63 = 1" by blast
  also have "\<dots> \<longleftrightarrow> 2 ^ 63 \<le> unat x" using \<open>unat x < 2 ^ 64\<close> by simp arith
  finally show ?thesis by (metis bit_iff_odd bit_unsigned_iff possible_bit_nat)
qed

lemma ovflow_value_bit: "x AND LS_DBG_V_COUNTER_OVFLOW_VALUE \<noteq> 0 \<longleftrightarrow> bit x 63" for x :: u64
proof -
  have "bit (x AND LS_DBG_V_COUNTER_OVFLOW_VALUE) n \<longleftrightarrow> n = 63 \<and> bit x 63" for n
    unfolding LS_DBG_V_COUNTER_OVFLOW_VALUE_def
    by (simp only: bit_and_iff bit_push_bit_iff bit_1_iff) auto
  moreover have "y \<noteq> 0 \<longleftrightarrow> (\<exists>n. bit y n)" for y :: u64
    by (auto intro: bit_word_eqI)
  ultimately show ?thesis by metis
qed

lemma unat_v_inc: "unat x < 2 ^ 63 \<Longrightarrow> unat (v_inc x) = (unat x + 1) mod 2 ^ 63"
proof -
  assume x: "unat x < 2 ^ 63"
  then have u: "unat (x + 1) = unat x + 1" by (simp add: unat_word_ariths)
  show ?thesis
  proof (cases "unat x + 1 = 2 ^ 63")
    case True
    then show ?thesis using u by (simp add: v_inc_def ovflow_value_bit bit_63_iff)
  next
    case False
    then show ?thesis using u x by (simp add: v_inc_def ovflow_value_bit bit_63_iff)
  qed
qed

lemma v_inc_less: "unat (v_inc x) < 2 ^ 63"
  by (auto simp: v_inc_def ovflow_value_bit bit_63_iff)

lemma v_counter_inc_eq:
  "unat i < length (vcntr (vcnt d)) \<Longrightarrow>
    v_counter_inc i d =
      ((vcntr (vcnt d) ! unat i + 1) AND LS_DBG_V_COUNTER_OVFLOW_VALUE \<noteq> 0,
       set_vcntr i (v_inc (vcntr (vcnt d) ! unat i)) d)"
  by (simp add: v_counter_inc_def set_vcntr_def v_inc_def Let_def)

section \<open>All pending overflows\<close>

definition count_overflows :: "u32 \<Rightarrow> u64 list \<Rightarrow> u64 list" where
  "count_overflows m xs = fold (\<lambda>n xs. xs[n := v_inc (xs ! n)]) (bits_of m) xs"

text \<open>The device accesses: acknowledge the status bits, then clear the counters, lowest first.\<close>

definition ack_overflows :: "'h kernel \<Rightarrow> 'h driver \<Rightarrow> u32 \<Rightarrow> 'h \<Rightarrow> 'h" where
  "ack_overflows k d m h =
    fold (\<lambda>n. iowrite32 k 0 (epu_addr d (LS_DBG_EPU_EPCTR_OFFSET + of_nat n * 4))) (bits_of m)
      (iowrite32 k m (epu_addr d LS_DBG_EPU_EPCTRISR_OFFSET) h)"

lemma length_count_overflows [simp]: "length (count_overflows m xs) = length xs"
  unfolding count_overflows_def
  by (rule length_fold_update [where f = "\<lambda>n. v_inc"])

lemma nth_count_overflows:
  "n < length xs \<Longrightarrow> count_overflows m xs ! n = (if bit m n then v_inc (xs ! n) else xs ! n)"
  unfolding count_overflows_def
  using nth_fold_update [of "bits_of m" n xs "\<lambda>n. v_inc"] by (simp add: set_bits_of)

lemma epu_array_offset: "n < 32 \<Longrightarrow> b \<le> 0xB00 \<Longrightarrow> b + of_nat n * 4 < (0x1000 :: u32)"
proof -
  assume n: "n < 32" and b: "b \<le> 0xB00"
  have "unat (of_nat n * 4 :: u32) = n * 4" using n by (simp add: unat_word_ariths unat_of_nat)
  then show ?thesis using n b by (simp add: word_less_nat_alt word_le_nat_alt unat_word_ariths)
qed

definition overflow_step :: "'h kernel \<Rightarrow> nat \<Rightarrow> 'h driver \<Rightarrow> 'h driver" where
  "overflow_step k n d =
    d\<lparr>vcnt := (vcnt d)\<lparr>vcntr := (vcntr (vcnt d))[n := v_inc (vcntr (vcnt d) ! n)]\<rparr>,
      hw := iowrite32 k 0 (epu_addr d (LS_DBG_EPU_EPCTR_OFFSET + of_nat n * 4)) (hw d)\<rparr>"

lemma update_body_Done:
  "n < 32 \<Longrightarrow> epu_mapped d \<Longrightarrow> wf_vcounters (vcnt d) \<Longrightarrow>
    update_body k (of_nat n) d = Done () (overflow_step k n d)"
  using epu_array_offset [of n "0xA00"]
  by (simp add: update_body_def wf_vcounters_def v_counter_inc_eq set_vcntr_def epu_write_Done
      overflow_step_def unat_of_nat)

lemma fold_overflow_step:
  "fold (overflow_step k) is d =
    d\<lparr>vcnt := (vcnt d)\<lparr>vcntr := fold (\<lambda>n xs. xs[n := v_inc (xs ! n)]) is (vcntr (vcnt d))\<rparr>,
      hw := fold (\<lambda>n. iowrite32 k 0 (epu_addr d (LS_DBG_EPU_EPCTR_OFFSET + of_nat n * 4))) is (hw d)\<rparr>"
  by (induction "is" arbitrary: d) (auto simp: overflow_step_def epu_addr_def)

lemma update_scan_Done:
  assumes "epu_mapped d" and "wf_vcounters (vcnt d)"
  shows "update_scan k 0 m d = Done (of_nat (bit_len m)) (fold (overflow_step k) (bits_of m) d)"
proof -
  have "update_scan k 0 m d = Done (0 + of_nat (bit_len m)) (fold (overflow_step k) (bits_of m) d)"
    by (rule upd.loop_Done [where I = "\<lambda>d. epu_mapped d \<and> wf_vcounters (vcnt d)"])
      (use assms in \<open>auto simp: update_body_Done dest!: bit_imp_le_length\<close>,
       auto simp: overflow_step_def wf_vcounters_def)
  then show ?thesis by simp
qed

lemma update_vcounters_Done:
  assumes "epu_mapped d" and "wf_vcounters (vcnt d)"
  shows "update_vcounters k m d = Done ()
    (d\<lparr>vcnt := (vcnt d)\<lparr>vcntr := count_overflows m (vcntr (vcnt d))\<rparr>, hw := ack_overflows k d m (hw d)\<rparr>)"
  using assms
  by (simp add: update_vcounters_def epu_write_Done update_loop_scan update_scan_Done
      fold_overflow_step count_overflows_def ack_overflows_def)

end
