(* ===== verification/Bench.thy ===== *)
theory Bench
  imports Reg_Map
begin

text \<open>
  A concrete instance of the kernel and hardware parameter, on which the witnesses evaluate the
  model: the device registers are a memory in which writing ones to the counter interrupt status
  register clears them (as the driver's comments say of it), the calling process has one request
  record of each kind and a sparse memory, and the interrupt services answer with given values.
\<close>

record bench =
  regs :: "u32 \<Rightarrow> u32"
  user_ra :: "reg_access option"
  user_rr :: "resource_reservation option"
  user_mem :: "u32 \<Rightarrow> u64 option"
  irq_no :: u32
  irq_status :: u32

definition bench_write :: "u32 \<Rightarrow> u32 \<Rightarrow> bench \<Rightarrow> bench" where
  "bench_write v a h =
    h\<lparr>regs := (regs h)(a := if a = 0x90000030 then regs h a AND NOT v else v)\<rparr>"

definition bench_kernel :: "bench kernel" where
  "bench_kernel =
    \<lparr>vcnt_addr = 0x80000000,
     ioread32 = (\<lambda>a h. (regs h a, h)),
     iowrite32 = bench_write,
     copy_reg_access = (\<lambda>p h. user_ra h),
     copy_reservation = (\<lambda>p h. user_rr h),
     get_user32 = (\<lambda>p h. map_option ucast (user_mem h p)),
     copy_user64 = (\<lambda>p h. user_mem h p),
     put_user32 = (\<lambda>v p h. if user_mem h p = None then None
        else Some (h\<lparr>user_mem := (user_mem h)(p \<mapsto> ucast v)\<rparr>)),
     put_user64 = (\<lambda>v p h. if user_mem h p = None then None
        else Some (h\<lparr>user_mem := (user_mem h)(p \<mapsto> v)\<rparr>)),
     find_epu_node = (\<lambda>h. 1),
     irq_of_parse_and_map = (\<lambda>node i h. (irq_no h, h)),
     set_irq_flags = (\<lambda>n h. h),
     request_irq = (\<lambda>n node h. (irq_status h, h)),
     free_irq = (\<lambda>n node h. h),
     flush_scheduled_work = (\<lambda>h. h)\<rparr>"

definition bench_world :: bench where
  "bench_world =
    \<lparr>regs = (\<lambda>a. 0), user_ra = None, user_rr = None, user_mem = (\<lambda>p. None), irq_no = 37,
     irq_status = 0\<rparr>"

text \<open>The driver after a probe that found an event processing unit at \<open>0x90000000\<close>.\<close>

definition bench_maps :: "map_info list" where
  "bench_maps = (replicate MAX_TRACE_MODULES zero_map)
    [7 := \<lparr>map_id = 0, base_addr = 0x90000000, map_size = 0x1000\<rparr>,
     10 := \<lparr>map_id = 0, base_addr = 0x80000000, map_size = 584\<rparr>]"

definition bench_driver :: "bench \<Rightarrow> bench driver" where
  "bench_driver h = (initial_driver h)\<lparr>maps := bench_maps, epu_ptr := 0x90000000\<rparr>"

lemma bench_kernel_simps [simp]:
  "vcnt_addr bench_kernel = 0x80000000"
  "ioread32 bench_kernel = (\<lambda>a h. (regs h a, h))"
  "iowrite32 bench_kernel = bench_write"
  "copy_reg_access bench_kernel = (\<lambda>p h. user_ra h)"
  "copy_reservation bench_kernel = (\<lambda>p h. user_rr h)"
  "get_user32 bench_kernel = (\<lambda>p h. map_option ucast (user_mem h p))"
  "copy_user64 bench_kernel = (\<lambda>p h. user_mem h p)"
  "put_user32 bench_kernel = (\<lambda>v p h. if user_mem h p = None then None
        else Some (h\<lparr>user_mem := (user_mem h)(p \<mapsto> ucast v)\<rparr>))"
  "put_user64 bench_kernel = (\<lambda>v p h. if user_mem h p = None then None
        else Some (h\<lparr>user_mem := (user_mem h)(p \<mapsto> v)\<rparr>))"
  "find_epu_node bench_kernel = (\<lambda>h. 1)"
  "irq_of_parse_and_map bench_kernel = (\<lambda>node i h. (irq_no h, h))"
  "set_irq_flags bench_kernel = (\<lambda>n h. h)"
  "request_irq bench_kernel = (\<lambda>n node h. (irq_status h, h))"
  "free_irq bench_kernel = (\<lambda>n node h. h)"
  "flush_scheduled_work bench_kernel = (\<lambda>h. h)"
  by (simp_all add: bench_kernel_def)

lemma bench_driver_simps [simp]:
  "length (maps (bench_driver h)) = 16"
  "maps (bench_driver h) ! 7 = \<lparr>map_id = 0, base_addr = 0x90000000, map_size = 0x1000\<rparr>"
  "maps (bench_driver h) ! 10 = \<lparr>map_id = 0, base_addr = 0x80000000, map_size = 584\<rparr>"
  "vcnt (bench_driver h) = zero_vcounters"
  "vc_lock (bench_driver h) = False" "reg_acc_lock (bench_driver h) = False"
  "intr_num (bench_driver h) = 0" "epu_ptr (bench_driver h) = 0x90000000"
  "hw (bench_driver h) = h"
  by (simp_all add: bench_driver_def initial_driver_def bench_maps_def)

lemma zero_vcounters_simps [simp]:
  "wf_vcounters zero_vcounters" "length (vcntr zero_vcounters) = 32"
  "vcntctrl zero_vcounters = 0"
  "n < 16 \<Longrightarrow> vcntrepecr zero_vcounters ! n = 0"
  "n < 32 \<Longrightarrow> vcntr zero_vcounters ! n = 0"
  "n < 32 \<Longrightarrow> vcntrcapt zero_vcounters ! n = 0"
  by (simp_all add: zero_vcounters_def wf_vcounters_def)

lemma wf_bench [simp]: "wf_driver (bench_driver h)"
  by (simp add: wf_driver_def)

lemma unlocked_bench [simp]: "unlocked (bench_driver h)"
  by (simp add: unlocked_def)

lemma epu_bench [simp]:
  "epu_mapped (bench_driver h)" "epu_addr (bench_driver h) off = 0x90000000 + off"
  by (simp_all add: epu_mapped_def epu_addr_def)

end
