(* ===== verification/Vcnt_Capture.thy ===== *)
theory Vcnt_Capture
  imports Vcnt_Update Bench
begin

text \<open>
  What a capture does: every operation of the virtual counter code leaves the locks, the map table
  and the interrupt number as they were and fails with \<open>EFAULT\<close> only; the captured values; the
  group field; the register that is read for "last cycle" overflows; the lock that a failed read of
  a \<open>vcntrepecr\<close> register leaves behind.
\<close>

section \<open>Frame and errors\<close>

text \<open>The two exits of an operation started in an environment \<open>d0\<close>.\<close>

abbreviation (input) env_exits :: "'h driver \<Rightarrow> ('a, 'h driver) result \<Rightarrow> bool" where
  "env_exits d0 r \<equiv> holds (\<lambda>_. same_env d0) (\<lambda>e d'. e = EFAULT \<and> same_env d0 d') r"

lemma same_env_set_vcntr [simp]: "same_env d0 (set_vcntr i x d) = same_env d0 d"
  by (simp add: same_env_def set_vcntr_def wf_vcounters_def)

lemma same_env_set_vcntrcapt [simp]: "same_env d0 (set_vcntrcapt i x d) = same_env d0 d"
  by (simp add: same_env_def set_vcntrcapt_def wf_vcounters_def)

lemma same_env_v_counter_inc [simp]: "same_env d0 (snd (v_counter_inc i d)) = same_env d0 d"
  by (simp add: v_counter_inc_def Let_def)

lemma same_env_capture_one [simp]: "same_env d0 (capture_one i v d) = same_env d0 d"
  by (simp add: capture_one_def Let_def)

lemma epu_read_env: "same_env d0 d \<Longrightarrow> env_exits d0 (epu_read k off d)"
  by (rule holds_epu_read) simp_all

lemma epu_write_env: "same_env d0 d \<Longrightarrow> env_exits d0 (epu_write k off v d)"
  by (rule holds_epu_write) simp_all

lemma update_vcounters_env: "same_env d0 d \<Longrightarrow> env_exits d0 (update_vcounters k m d)"
proof -
  have loop: "env_exits d0 (update_loop k 31 m d)" if "same_env d0 d" for d
    unfolding update_loop_scan holds_and_then
    by (rule holds_mono [OF upd.loop_holds [where I = "same_env d0"
          and E = "\<lambda>e d'. e = EFAULT \<and> same_env d0 d'"]])
      (use that in \<open>auto simp: update_body_def intro: epu_write_env\<close>)
  assume "same_env d0 d"
  then show ?thesis
    unfolding update_vcounters_def
    by (intro holds_step [OF epu_write_env]) (simp_all add: loop)
qed

lemma capture_before_env: "same_env d0 d \<Longrightarrow> env_exits d0 (capture_before k i m d)"
  by (rule holds_mono [OF before.loop_holds [where I = "same_env d0"
        and E = "\<lambda>e d'. e = EFAULT \<and> same_env d0 d'"]])
    (auto simp: before_body_def intro: epu_read_env)

lemma capture_after_env: "same_env d0 d \<Longrightarrow> env_exits d0 (capture_after k i m d)"
  by (rule holds_mono [OF after.loop_holds [where I = "same_env d0"
        and E = "\<lambda>e d'. e = EFAULT \<and> same_env d0 d'"]])
    (auto simp: after_body_def intro: epu_read_env)

lemma ignored_update_env:
  "same_env d0 d \<Longrightarrow> env_exits d0 (if b then ignore_ret (update_vcounters k m d) else Done () d)"
  using holds_mono [OF update_vcounters_env [of d0 d k m]] by auto

lemma late_update_env:
  "same_env d0 d \<Longrightarrow> env_exits d0 (if b then update_vcounters k m d else Done () d)"
  using update_vcounters_env [of d0 d k m] by simp

lemma vcntepecr_set_body_env: "same_env d0 d \<Longrightarrow> env_exits d0 (vcntepecr_set_body k data d)"
  unfolding vcntepecr_set_body_def
  by (intro holds_Let holds_step [OF epu_read_env] holds_step [OF capture_before_env]
      holds_step [OF ignored_update_env] holds_step [OF epu_write_env]
      holds_step [OF late_update_env] holds_step [OF capture_after_env]) simp_all

lemma same_env_relock:
  "same_env (d\<lparr>vc_lock := True\<rparr>) d' \<Longrightarrow> \<not> vc_lock d \<Longrightarrow> same_env d (unlock_vc d')"
  by (simp add: same_env_def unlock_vc_def)

lemma vcntepecr_set_env:
  assumes "\<not> vc_lock d"
  shows "env_exits d (vcntepecr_set k data val d)"
proof -
  have "env_exits (d\<lparr>vc_lock := True\<rparr>) (vcntepecr_set_body k data (d\<lparr>vc_lock := True\<rparr>))"
    by (rule vcntepecr_set_body_env) simp
  then show ?thesis
    using assms by (auto simp: vcntepecr_set_def lock_vc_def intro: same_env_relock elim!: holds_mono)
qed

section \<open>The loops of a capture\<close>

text \<open>Reading a register has no effect on the device.\<close>

definition pure_reads :: "'h kernel \<Rightarrow> bool" where
  "pure_reads k \<longleftrightarrow> (\<forall>a h. snd (ioread32 k a h) = h)"

lemma pure_reads_bench [simp]: "pure_reads bench_kernel"
  by (simp add: pure_reads_def)

definition epu_reg :: "'h kernel \<Rightarrow> 'h driver \<Rightarrow> u32 \<Rightarrow> 'h \<Rightarrow> u32" where
  "epu_reg k d off h = fst (ioread32 k (epu_addr d off) h)"

lemma epu_reg_frame [simp]:
  "epu_reg k (d\<lparr>hw := h\<rparr>) = epu_reg k d" "epu_reg k (d\<lparr>vcnt := v\<rparr>) = epu_reg k d"
  "epu_reg k (d\<lparr>vc_lock := b\<rparr>) = epu_reg k d"
  by (simp_all add: epu_reg_def fun_eq_iff)

lemma epu_read_pure:
  "pure_reads k \<Longrightarrow> epu_mapped d \<Longrightarrow> off < 0x1000 \<Longrightarrow>
    epu_read k off d = Done (ucast (epu_reg k d off (hw d))) d"
  by (simp add: epu_read_Done pure_reads_def epu_reg_def)

definition before_step :: "'h kernel \<Rightarrow> nat \<Rightarrow> 'h driver \<Rightarrow> 'h driver" where
  "before_step k n d = set_vcntrcapt (of_nat n)
     (ucast (epu_reg k d (LS_DBG_EPU_EPCAPR_OFFSET + of_nat n * 4) (hw d))) d"

definition after_step :: "'h kernel \<Rightarrow> nat \<Rightarrow> 'h driver \<Rightarrow> 'h driver" where
  "after_step k n d =
    capture_one (of_nat n) (epu_reg k d (LS_DBG_EPU_EPCAPR_OFFSET + of_nat n * 4) (hw d)) d"

text \<open>What stays the same through the loops, given that reads are pure.\<close>

definition loop_inv :: "'h driver \<Rightarrow> 'h driver \<Rightarrow> bool" where
  "loop_inv d0 d \<longleftrightarrow> same_env d0 d \<and> epu_mapped d \<and> wf_vcounters (vcnt d) \<and> hw d = hw d0"

lemma hw_set_vcnt [simp]:
  "hw (set_vcntr i x d) = hw d" "hw (set_vcntrcapt i x d) = hw d" "hw (capture_one i v d) = hw d"
  by (simp_all add: set_vcntr_def set_vcntrcapt_def capture_one_def Let_def)

lemma maps_set_vcnt [simp]:
  "maps (set_vcntr i x d) = maps d" "maps (set_vcntrcapt i x d) = maps d"
  "maps (capture_one i v d) = maps d"
  by (simp_all add: set_vcntr_def set_vcntrcapt_def capture_one_def Let_def)

lemma loop_inv_step:
  assumes "loop_inv d0 d" and "same_env d d'" and "hw d' = hw d"
  shows "loop_inv d0 d'"
  using assms same_env_trans [of d0 d d'] by (auto simp: loop_inv_def same_env_def epu_mapped_def)

lemma before_step_inv: "loop_inv d0 d \<Longrightarrow> loop_inv d0 (before_step k n d)"
  by (rule loop_inv_step) (simp_all add: before_step_def)

lemma after_step_inv: "loop_inv d0 d \<Longrightarrow> loop_inv d0 (after_step k n d)"
  by (rule loop_inv_step) (simp_all add: after_step_def)

lemma bit_32_less: "bit m n \<Longrightarrow> n < 32" for m :: u32
  by (auto dest: bit_imp_le_length)

lemma capture_before_Done:
  assumes "pure_reads k" and "loop_inv d0 d"
  shows "capture_before k 0 m d = Done (of_nat (bit_len m)) (fold (before_step k) (bits_of m) d)"
proof -
  have "before_body k (0 + of_nat n) d' = Done () (before_step k n d')"
    if "bit m n" "loop_inv d0 d'" for n d'
    using assms(1) that epu_array_offset [of n "0xB00"] bit_32_less [of m n]
    by (simp add: before_body_def before_step_def epu_read_pure loop_inv_def)
  then have "capture_before k 0 m d = Done (0 + of_nat (bit_len m)) (fold (before_step k) (bits_of m) d)"
    by (intro before.loop_Done [where I = "loop_inv d0"] before_step_inv) (use assms in auto)
  then show ?thesis by simp
qed

lemma capture_after_Done:
  assumes "pure_reads k" and "loop_inv d0 d"
  shows "capture_after k 0 m d = Done (of_nat (bit_len m)) (fold (after_step k) (bits_of m) d)"
proof -
  have "after_body k (0 + of_nat n) d' = Done () (after_step k n d')"
    if "bit m n" "loop_inv d0 d'" for n d'
    using assms(1) that epu_array_offset [of n "0xB00"] bit_32_less [of m n]
    by (simp add: after_body_def after_step_def epu_read_pure loop_inv_def)
  then have "capture_after k 0 m d = Done (0 + of_nat (bit_len m)) (fold (after_step k) (bits_of m) d)"
    by (intro after.loop_Done [where I = "loop_inv d0"] after_step_inv) (use assms in auto)
  then show ?thesis by simp
qed

text \<open>The value of the capture register of counter \<open>n\<close>.\<close>

definition capture_reg :: "'h kernel \<Rightarrow> 'h driver \<Rightarrow> nat \<Rightarrow> 'h \<Rightarrow> u32" where
  "capture_reg k d n h = epu_reg k d (LS_DBG_EPU_EPCAPR_OFFSET + of_nat n * 4) h"

lemma loop_inv_capture_reg: "loop_inv d0 d \<Longrightarrow> capture_reg k d n (hw d) = capture_reg k d0 n (hw d0)"
  by (simp add: loop_inv_def same_env_def capture_reg_def epu_reg_def epu_addr_def)

lemma loop_inv_wf: "loop_inv d0 d \<Longrightarrow> wf_vcounters (vcnt d)"
  by (simp add: loop_inv_def)

lemma before_step_part:
  "n < 32 \<Longrightarrow> wf_vcounters (vcnt d) \<Longrightarrow> vcntrcapt (vcnt (before_step k n d)) ! m =
    (if m = n then ucast (capture_reg k d n (hw d)) else vcntrcapt (vcnt d) ! m)"
  by (simp add: before_step_def set_vcntrcapt_def wf_vcounters_def unat_of_nat capture_reg_def)

lemma after_step_part:
  "n < 32 \<Longrightarrow> wf_vcounters (vcnt d) \<Longrightarrow>
    vcntr (vcnt (after_step k n d)) ! m =
      (if m = n \<and> (ucast (capture_reg k d n (hw d)) :: u64) < vcntrcapt (vcnt d) ! n
       then vcntr (vcnt d) ! m + 1 else vcntr (vcnt d) ! m)"
  "n < 32 \<Longrightarrow> wf_vcounters (vcnt d) \<Longrightarrow>
    vcntrcapt (vcnt (after_step k n d)) ! m =
      (if m = n
       then push_bit 32 (vcntr (vcnt (after_step k n d)) ! n) OR ucast (capture_reg k d n (hw d))
       else vcntrcapt (vcnt d) ! m)"
  by (auto simp: after_step_def capture_one_def set_vcntr_def set_vcntrcapt_def wf_vcounters_def
      unat_of_nat capture_reg_def Let_def)

lemma fold_loop_inv:
  "loop_inv d0 d \<Longrightarrow> loop_inv d0 (fold (before_step k) is d)"
  "loop_inv d0 d \<Longrightarrow> loop_inv d0 (fold (after_step k) is d)"
  by (rule fold_keeps; simp add: before_step_inv after_step_inv)+

lemma fold_before_vcntr [simp]: "vcntr (vcnt (fold (before_step k) is d)) = vcntr (vcnt d)"
  by (induction "is" arbitrary: d) (simp_all add: before_step_def set_vcntrcapt_def)

lemma fold_before_part:
  assumes "loop_inv d0 d"
  shows "vcntrcapt (vcnt (fold (before_step k) (bits_of m) d)) ! n =
    (if bit m n then ucast (capture_reg k d0 n (hw d0)) else vcntrcapt (vcnt d) ! n)"
proof -
  have "vcntrcapt (vcnt (fold (before_step k) (bits_of m) d)) ! n =
    (if n \<in> set (bits_of m) then ucast (capture_reg k d0 n (hw d0)) else vcntrcapt (vcnt d) ! n)"
    by (rule fold_pointwise [where I = "loop_inv d0" and part = "\<lambda>n d. vcntrcapt (vcnt d) ! n"
          and f = "\<lambda>n _. ucast (capture_reg k d0 n (hw d0))"])
      (use assms in \<open>simp_all add: before_step_inv before_step_part loop_inv_capture_reg loop_inv_wf
        bits_of_less\<close>)
  then show ?thesis by (simp add: set_bits_of)
qed

text \<open>The pair of counter and captured value after the second loop.\<close>

definition captured :: "u32 \<Rightarrow> u64 \<times> u64 \<Rightarrow> u64 \<times> u64" where
  "captured cap x =
    (let v = (if ucast cap < snd x then fst x + 1 else fst x) in (v, push_bit 32 v OR ucast cap))"

lemma fold_after_part:
  assumes "loop_inv d0 d"
  shows "(vcntr (vcnt (fold (after_step k) (bits_of m) d)) ! n,
          vcntrcapt (vcnt (fold (after_step k) (bits_of m) d)) ! n) =
    (if bit m n then captured (capture_reg k d0 n (hw d0)) (vcntr (vcnt d) ! n, vcntrcapt (vcnt d) ! n)
     else (vcntr (vcnt d) ! n, vcntrcapt (vcnt d) ! n))"
proof -
  let ?part = "\<lambda>n d. (vcntr (vcnt d) ! n, vcntrcapt (vcnt d) ! n)"
  have "?part n (fold (after_step k) (bits_of m) d) =
    (if n \<in> set (bits_of m) then captured (capture_reg k d0 n (hw d0)) (?part n d) else ?part n d)"
    by (rule fold_pointwise [where I = "loop_inv d0" and part = ?part
          and f = "\<lambda>n. captured (capture_reg k d0 n (hw d0))"])
      (use assms in \<open>simp_all add: after_step_inv after_step_part captured_def Let_def
        loop_inv_capture_reg loop_inv_wf bits_of_less\<close>)
  then show ?thesis by (simp add: set_bits_of)
qed

section \<open>A whole capture\<close>

lemma event_index_vreg:
  "n < 16 \<Longrightarrow> event_index k (vcnt_addr k + vreg_off (Vcntrepecr n)) = of_nat n"
proof -
  assume n: "n < 16"
  have diff: "vcnt_addr k + vreg_off (Vcntrepecr n) - (vcnt_addr k + member_at ''vcntrepecr'') = of_nat n * 4"
    by simp
  have "unat (of_nat n * 4 div 4 :: u32) = unat (of_nat n :: u32)"
    using n by (simp add: unat_div unat_word_ariths unat_of_nat)
  then show ?thesis unfolding event_index_def diff by (simp only: word_unat_eq_iff)
qed

lemma epu_event_offset: "n < 16 \<Longrightarrow> b \<le> 0x500 \<Longrightarrow> b + of_nat n * 4 < (0x1000 :: u32)"
  using epu_array_offset [of n b] by (simp add: word_le_nat_alt)

lemma bit_len_offset: "0x30 + of_nat (bit_len m) * 4 < (0x1000 :: u32)"
proof -
  have "unat (of_nat (bit_len m) * 4 :: u32) = bit_len m * 4"
    using bit_len_le [of m] by (simp add: unat_word_ariths unat_of_nat)
  then show ?thesis using bit_len_le [of m] by (simp add: word_less_nat_alt unat_word_ariths)
qed

text \<open>The overflow handling inside a capture, whose return code does not matter when it succeeds.\<close>

lemma update_if_Done:
  assumes "epu_mapped d" and "wf_vcounters (vcnt d)"
  shows "(if m \<noteq> 0 then update_vcounters k m d else Done () d) = Done ()
    (d\<lparr>vcnt := (vcnt d)\<lparr>vcntr := count_overflows m (vcntr (vcnt d))\<rparr>,
      hw := if m = 0 then hw d else ack_overflows k d m (hw d)\<rparr>)"
  using assms by (simp add: update_vcounters_Done count_overflows_def)

lemma ignored_update_if_Done:
  assumes "epu_mapped d" and "wf_vcounters (vcnt d)"
  shows "(if m \<noteq> 0 then ignore_ret (update_vcounters k m d) else Done () d) = Done ()
    (d\<lparr>vcnt := (vcnt d)\<lparr>vcntr := count_overflows m (vcntr (vcnt d))\<rparr>,
      hw := if m = 0 then hw d else ack_overflows k d m (hw d)\<rparr>)"
  using assms by (simp add: update_vcounters_Done count_overflows_def)

lemma wf_vcounters_update [simp]:
  "wf_vcounters v \<Longrightarrow> length xs = 32 \<Longrightarrow> wf_vcounters (v\<lparr>vcntr := xs\<rparr>)"
  by (simp add: wf_vcounters_def)

lemma ack_overflows_frame [simp]:
  "ack_overflows k (d\<lparr>hw := h\<rparr>) = ack_overflows k d"
  "ack_overflows k (d\<lparr>vcnt := v\<rparr>) = ack_overflows k d"
  "ack_overflows k (d\<lparr>vc_lock := b\<rparr>) = ack_overflows k d"
  by (simp_all add: ack_overflows_def fun_eq_iff)

text \<open>The device's state when the second loop of a capture starts.\<close>

definition stray_status :: "'h kernel \<Rightarrow> 'h driver \<Rightarrow> u32 \<Rightarrow> u32" where
  "stray_status k d m = epu_reg k d (LS_DBG_EPU_EPCTRISR_OFFSET + of_nat (bit_len m) * 4) (hw d)"

definition handled_hw :: "'h kernel \<Rightarrow> 'h driver \<Rightarrow> u32 \<Rightarrow> 'h \<Rightarrow> 'h" where
  "handled_hw k d m h = (if m = 0 then h else ack_overflows k d m h)"

definition triggered_hw :: "'h kernel \<Rightarrow> 'h driver \<Rightarrow> nat \<Rightarrow> u32 \<Rightarrow> 'h" where
  "triggered_hw k d ev m =
    (let ecr = LS_DBG_EPU_EPECR_OFFSET + of_nat ev * 4
     in iowrite32 k (epu_reg k d ecr (hw d) OR EPECR_STS_MASK) (epu_addr d ecr)
          (handled_hw k d (stray_status k d m) (hw d)))"

definition late_status :: "'h kernel \<Rightarrow> 'h driver \<Rightarrow> nat \<Rightarrow> u32 \<Rightarrow> u32" where
  "late_status k d ev m = epu_reg k d LS_DBG_EPU_EPCTRISR_OFFSET (triggered_hw k d ev m)"

definition captured_hw :: "'h kernel \<Rightarrow> 'h driver \<Rightarrow> nat \<Rightarrow> u32 \<Rightarrow> 'h" where
  "captured_hw k d ev m = handled_hw k d (late_status k d ev m) (triggered_hw k d ev m)"

lemma capture_frame [simp]:
  "stray_status k (d\<lparr>vcnt := v\<rparr>) = stray_status k d"
  "handled_hw k (d\<lparr>vcnt := v\<rparr>) = handled_hw k d"
  "triggered_hw k (d\<lparr>vcnt := v\<rparr>) = triggered_hw k d"
  "stray_status k (d\<lparr>vc_lock := b\<rparr>) = stray_status k d"
  "handled_hw k (d\<lparr>vc_lock := b\<rparr>) = handled_hw k d"
  "triggered_hw k (d\<lparr>vc_lock := b\<rparr>) = triggered_hw k d"
  "late_status k (d\<lparr>vc_lock := b\<rparr>) = late_status k d"
  "captured_hw k (d\<lparr>vc_lock := b\<rparr>) = captured_hw k d"
  by (simp_all add: stray_status_def handled_hw_def triggered_hw_def late_status_def captured_hw_def
      fun_eq_iff)

lemma vcntepecr_set_body_Done:
  assumes "pure_reads k" and "wf_vcounters (vcnt d)" and "epu_mapped d" and "ev < 16"
    and group: "epu_reg k d (LS_DBG_EPU_EPGACR_OFFSET + of_nat ev * 4) (hw d) AND EPGACR_CTCC_MASK = 0"
    and idx: "event_index k data = of_nat ev"
  defines "m \<equiv> epu_reg k d LS_DBG_EPU_EPCTRGCR_OFFSET (hw d)"
  defines "d1 \<equiv> fold (before_step k) (bits_of m) d"
  defines "d2 \<equiv> d1\<lparr>vcnt := (vcnt d1)\<lparr>vcntr := count_overflows (late_status k d ev m)
      (count_overflows (stray_status k d m) (vcntr (vcnt d)))\<rparr>, hw := captured_hw k d ev m\<rparr>"
  shows "vcntepecr_set_body k data d = Done () (fold (after_step k) (bits_of m) d2)"
proof -
  have inv: "loop_inv d d" using assms(2,3) by (simp add: loop_inv_def)
  then have inv1: "loop_inv d d1" unfolding d1_def by (rule fold_loop_inv)
  then have d1: "epu_mapped d1" "wf_vcounters (vcnt d1)" "hw d1 = hw d" "maps d1 = maps d"
    by (simp_all add: loop_inv_def same_env_def)
  have addr: "epu_addr d1 = epu_addr d" "epu_reg k d1 = epu_reg k d"
    "ack_overflows k d1 = ack_overflows k d"
    using d1(4) by (simp_all add: epu_addr_def epu_reg_def ack_overflows_def fun_eq_iff)
  have reads: "epu_read k (LS_DBG_EPU_EPGACR_OFFSET + of_nat ev * 4) d =
      Done (ucast (epu_reg k d (LS_DBG_EPU_EPGACR_OFFSET + of_nat ev * 4) (hw d))) d"
    "epu_read k (LS_DBG_EPU_EPCTRGCR_OFFSET + 0 * 4) d = Done (ucast m) d"
    "epu_read k (LS_DBG_EPU_EPECR_OFFSET + of_nat ev * 4) d1 =
      Done (ucast (epu_reg k d (LS_DBG_EPU_EPECR_OFFSET + of_nat ev * 4) (hw d))) d1"
    "epu_read k (LS_DBG_EPU_EPCTRISR_OFFSET + of_nat (bit_len m) * 4) d1 =
      Done (ucast (stray_status k d m)) d1"
    using assms(1,3,4) d1 addr epu_event_offset [of ev] bit_len_offset [of m]
    by (simp_all add: epu_read_pure m_def stray_status_def)
  let ?d3 = "d1\<lparr>vcnt := (vcnt d1)\<lparr>vcntr := count_overflows (stray_status k d m) (vcntr (vcnt d))\<rparr>,
      hw := handled_hw k d (stray_status k d m) (hw d)\<rparr>"
  have first: "(if stray_status k d m \<noteq> 0
       then ignore_ret (update_vcounters k (stray_status k d m) d1) else Done () d1) = Done () ?d3"
    using ignored_update_if_Done [OF d1(1,2), of "stray_status k d m" k] d1(3) addr
    by (simp add: handled_hw_def d1_def)
  let ?d4 = "?d3\<lparr>hw := triggered_hw k d ev m\<rparr>"
  have trigger: "epu_write k (LS_DBG_EPU_EPECR_OFFSET + of_nat ev * 4)
      (ucast (epu_reg k d (LS_DBG_EPU_EPECR_OFFSET + of_nat ev * 4) (hw d) OR EPECR_STS_MASK)) ?d3 =
      Done () ?d4"
    using d1 addr assms(4) epu_event_offset [of ev "0x300"]
    by (simp add: epu_write_Done triggered_hw_def Let_def)
  have status: "epu_read k LS_DBG_EPU_EPCTRISR_OFFSET ?d4 = Done (ucast (late_status k d ev m)) ?d4"
    using assms(1) d1 addr by (simp add: epu_read_pure late_status_def)
  have second: "(if late_status k d ev m \<noteq> 0
       then update_vcounters k (late_status k d ev m) ?d4 else Done () ?d4) = Done () d2"
    using update_if_Done [of ?d4 "late_status k d ev m" k] d1 addr assms(2)
    by (simp add: d2_def captured_hw_def handled_hw_def wf_vcounters_def)
  have inv2: "loop_inv d2 d2"
    using d1 assms(2) by (simp add: loop_inv_def d2_def wf_vcounters_def)
  show ?thesis
    unfolding vcntepecr_set_body_def idx
    by (simp only: reads and_then.simps Let_def ucast_u32_u64 group push_bit_of_0
        capture_before_Done [OF assms(1) inv, of m, folded d1_def] first trigger status second
        capture_after_Done [OF assms(1) inv2])
qed

lemma drop_captured: "drop_bit 32 (push_bit 32 v OR ucast cap) = take_bit 32 v" for v :: u64 and cap :: u32
  by (rule bit_word_eqI) (auto simp: bit_simps dest: bit_imp_le_length)

lemma take_captured: "ucast (push_bit 32 v OR ucast cap) = cap" for v :: u64 and cap :: u32
  by (rule bit_word_eqI) (auto simp: bit_simps)

text \<open>What one counter holds after the second loop, in the words of the theorem.\<close>

lemma captured_result:
  fixes v c :: u64 and cap before :: u32
  assumes "(v', c') = (if b then captured cap (v, ucast before) else (v, c))"
  shows "v' = (if b \<and> cap < before then v + 1 else v)"
    and "b \<Longrightarrow> drop_bit 32 c' = take_bit 32 v'" and "b \<Longrightarrow> ucast c' = cap" and "\<not> b \<Longrightarrow> c' = c"
proof -
  have cp: "b \<Longrightarrow> c' = push_bit 32 v' OR ucast cap"
    using assms by (auto simp: captured_def Let_def split: if_splits)
  show "v' = (if b \<and> cap < before then v + 1 else v)" "\<not> b \<Longrightarrow> c' = c"
    using assms by (auto simp: captured_def Let_def ucast_less_u32_u64 split: if_splits)
  show "b \<Longrightarrow> drop_bit 32 c' = take_bit 32 v'" "b \<Longrightarrow> ucast c' = cap"
    by (simp_all only: cp drop_captured take_captured)
qed

lemma capture_result:
  assumes "pure_reads k" and "wf_driver d" and "unlocked d" and "epu_mapped d" and "ev < 16"
    and "epu_reg k d (LS_DBG_EPU_EPGACR_OFFSET + of_nat ev * 4) (hw d) AND EPGACR_CTCC_MASK = 0"
  shows "\<exists>d'. vcntepecr_set k (vcnt_addr k + vreg_off (Vcntrepecr ev)) val d = Done () d' \<and>
    same_env d d' \<and>
    (let m = epu_reg k d LS_DBG_EPU_EPCTRGCR_OFFSET (hw d);
         counts = count_overflows (late_status k d ev m)
           (count_overflows (stray_status k d m) (vcntr (vcnt d)));
         cap = (\<lambda>n. capture_reg k d n (captured_hw k d ev m))
     in hw d' = captured_hw k d ev m \<and>
       (\<forall>n<32. vcntr (vcnt d') ! n =
           (if bit m n \<and> cap n < capture_reg k d n (hw d) then counts ! n + 1 else counts ! n) \<and>
         (bit m n \<longrightarrow> drop_bit 32 (vcntrcapt (vcnt d') ! n) = take_bit 32 (vcntr (vcnt d') ! n) \<and>
           ucast (vcntrcapt (vcnt d') ! n) = cap n) \<and>
         (\<not> bit m n \<longrightarrow> vcntrcapt (vcnt d') ! n = vcntrcapt (vcnt d) ! n)))"
proof -
  define m where "m = epu_reg k d LS_DBG_EPU_EPCTRGCR_OFFSET (hw d)"
  define l where "l = d\<lparr>vc_lock := True\<rparr>"
  define d1 where "d1 = fold (before_step k) (bits_of m) l"
  define counts where "counts = count_overflows (late_status k d ev m)
      (count_overflows (stray_status k d m) (vcntr (vcnt d)))"
  define d2 where "d2 = d1\<lparr>vcnt := (vcnt d1)\<lparr>vcntr := counts\<rparr>, hw := captured_hw k d ev m\<rparr>"
  define d3 where "d3 = fold (after_step k) (bits_of m) d2"
  let ?data = "vcnt_addr k + vreg_off (Vcntrepecr ev)"
  have wf: "wf_vcounters (vcnt d)" using assms(2) by (simp add: wf_driver_def)
  have lenv: "vcnt l = vcnt d" "hw l = hw d" "epu_mapped l" "epu_reg k l = epu_reg k d"
      "late_status k l = late_status k d" "stray_status k l = stray_status k d"
      "captured_hw k l = captured_hw k d" "capture_reg k l = capture_reg k d"
    using assms(4) by (simp_all add: l_def capture_reg_def fun_eq_iff)
  have "vcntepecr_set_body k ?data l = Done () d3"
    using vcntepecr_set_body_Done [of k l ev ?data] event_index_vreg [OF assms(5), of k]
      assms(1,5,6) wf
    by (simp only: lenv m_def d1_def d2_def d3_def counts_def)
  then have set: "vcntepecr_set k ?data val d = Done () (unlock_vc d3)"
    using assms(3) by (simp add: vcntepecr_set_def lock_vc_def unlocked_def l_def)
  have inv: "loop_inv l l" using lenv wf by (simp add: loop_inv_def)
  have inv1: "loop_inv l d1" unfolding d1_def by (rule fold_loop_inv(1) [OF inv])
  have inv2: "loop_inv d2 d2"
    using inv1 wf by (simp add: loop_inv_def wf_vcounters_def d2_def counts_def)
  have hw3: "hw d3 = captured_hw k d ev m"
    using fold_loop_inv(2) [OF inv2, of k "bits_of m"] by (simp add: loop_inv_def d3_def d2_def)
  have reg2: "capture_reg k d2 n h = capture_reg k d n h" for n h
    using inv1 by (simp add: loop_inv_def same_env_def capture_reg_def epu_reg_def epu_addr_def
        d2_def l_def)
  have env: "same_env d (unlock_vc d3)"
    using vcntepecr_set_env [of d k ?data val] assms(3) unfolding set by (simp add: unlocked_def)
  have d2: "vcntr (vcnt d2) = counts" "vcntrcapt (vcnt d2) = vcntrcapt (vcnt d1)"
      "hw d2 = captured_hw k d ev m"
    by (simp_all add: d2_def)
  have parts: "(vcntr (vcnt d3) ! n, vcntrcapt (vcnt d3) ! n) =
      (if bit m n then captured (capture_reg k d n (captured_hw k d ev m))
          (counts ! n, ucast (capture_reg k d n (hw d)))
       else (counts ! n, vcntrcapt (vcnt d) ! n))" for n
    using fold_after_part [OF inv2, of k m n] fold_before_part [OF inv, of k m n]
    by (simp add: reg2 d2 lenv flip: d3_def d1_def)
  note result = captured_result [OF parts]
  have unl: "vcnt (unlock_vc d3) = vcnt d3" "hw (unlock_vc d3) = hw d3"
    by (simp_all add: unlock_vc_def)
  show ?thesis
    unfolding set Let_def m_def [symmetric] counts_def [symmetric]
    using env hw3 result by (intro exI [of _ "unlock_vc d3"]) (simp add: unl)
qed

text \<open>C4: A capture of event \<open>ev\<close> whose group field is zero always succeeds.  With the EPU mapped and
  register reads without side effects: every counter ends as its overflow count after the two rounds
  of overflow handling, plus one when the captured value of a counter of the group is below the one
  it replaced; every capture register of the group then holds that count in its upper 32 bits and
  the captured value in its lower 32 bits; the others keep their value; the device sees exactly the
  overflow handling before the trigger, the trigger, and the overflow handling after it; and the
  locks and the rest of the driver's state are as before.\<close>

theorem vcntepecr_set_captures:
  assumes "pure_reads k" and "wf_driver d" and "unlocked d" and "epu_mapped d" and "ev < 16"
    and "epu_reg k d (LS_DBG_EPU_EPGACR_OFFSET + of_nat ev * 4) (hw d) AND EPGACR_CTCC_MASK = 0"
  shows "\<exists>d'. vcntepecr_set k (vcnt_addr k + vreg_off (Vcntrepecr ev)) val d = Done () d' \<and>
    same_env d d' \<and>
    (let m = epu_reg k d LS_DBG_EPU_EPCTRGCR_OFFSET (hw d);
         counts = count_overflows (late_status k d ev m)
           (count_overflows (stray_status k d m) (vcntr (vcnt d)));
         cap = (\<lambda>n. capture_reg k d n (captured_hw k d ev m))
     in hw d' = captured_hw k d ev m \<and>
       (\<forall>n<32. vcntr (vcnt d') ! n =
           (if bit m n \<and> cap n < capture_reg k d n (hw d) then counts ! n + 1 else counts ! n) \<and>
         (bit m n \<longrightarrow> drop_bit 32 (vcntrcapt (vcnt d') ! n) = take_bit 32 (vcntr (vcnt d') ! n) \<and>
           ucast (vcntrcapt (vcnt d') ! n) = cap n) \<and>
         (\<not> bit m n \<longrightarrow> vcntrcapt (vcnt d') ! n = vcntrcapt (vcnt d) ! n)))"
  by (rule capture_result [OF assms])

lemma epu_reg_bench [simp]: "epu_reg bench_kernel (bench_driver h) off h' = regs h' (0x90000000 + off)"
  by (simp add: epu_reg_def)

text \<open>A group of the counters 0 and 2, the first of which has counted to 7.\<close>

definition bench_group :: bench where
  "bench_group = bench_world\<lparr>regs := (\<lambda>a. 0)(0x90000540 := 5, 0x90000B00 := 7)\<rparr>"

lemma vcntepecr_set_captures_witness:
  "\<exists>d'. vcntepecr_set bench_kernel (0x80000000 + vreg_off (Vcntrepecr 3)) 0 (bench_driver bench_group) =
      Done () d' \<and>
    same_env (bench_driver bench_group) d' \<and>
    drop_bit 32 (vcntrcapt (vcnt d') ! 2) = take_bit 32 (vcntr (vcnt d') ! 2) \<and>
    vcntrcapt (vcnt d') ! 1 = 0"
proof -
  let ?d = "bench_driver bench_group"
  have group: "epu_reg bench_kernel ?d 0x540 (hw ?d) = 5" by (simp add: bench_group_def)
  have "epu_reg bench_kernel ?d (LS_DBG_EPU_EPGACR_OFFSET + of_nat 3 * 4) (hw ?d) AND EPGACR_CTCC_MASK = 0"
    by (simp add: bench_group_def)
  from vcntepecr_set_captures [OF pure_reads_bench wf_bench unlocked_bench epu_bench(1) _ this, of 0]
  obtain d' where set: "vcntepecr_set bench_kernel (0x80000000 + vreg_off (Vcntrepecr 3)) 0 ?d = Done () d'"
    and env: "same_env ?d d'"
    and regs: "\<And>n. n < 32 \<Longrightarrow> (bit (5 :: u32) n \<longrightarrow>
        drop_bit 32 (vcntrcapt (vcnt d') ! n) = take_bit 32 (vcntr (vcnt d') ! n)) \<and>
      (\<not> bit (5 :: u32) n \<longrightarrow> vcntrcapt (vcnt d') ! n = vcntrcapt (vcnt ?d) ! n)"
    by (auto simp: Let_def group [simplified])
  have "\<not> bit (5 :: u32) 1" "bit (5 :: u32) 2" by (simp_all add: bit_iff_odd)
  then show ?thesis using set env regs [of 1] regs [of 2] by auto
qed

text \<open>C14: Writing a \<open>vcntrepecr\<close> register with the locks free always returns, with success or
  \<open>EFAULT\<close>; whatever the map table, the address and the device, both locks are free again, the arrays
  keep their lengths, and the map table, the interrupt number and the EPU pointer are unchanged.\<close>

theorem vcntepecr_set_returns:
  assumes "wf_driver d" and "unlocked d"
  shows "holds (\<lambda>_ d'. wf_driver d' \<and> unlocked d' \<and> same_env d d')
    (\<lambda>e d'. e = EFAULT \<and> wf_driver d' \<and> unlocked d' \<and> same_env d d') (vcntepecr_set k data val d)"
  using assms
  by (intro holds_mono [OF vcntepecr_set_env]) (auto simp: unlocked_def same_env_def wf_driver_def)

lemma vcntepecr_set_returns_witness:
  "holds (\<lambda>_ d'. wf_driver d' \<and> unlocked d' \<and> same_env (initial_driver bench_world) d')
    (\<lambda>e d'. e = EFAULT \<and> wf_driver d' \<and> unlocked d' \<and> same_env (initial_driver bench_world) d')
    (vcntepecr_set bench_kernel 0x80000004 0 (initial_driver bench_world))"
  by (rule vcntepecr_set_returns) simp_all

section \<open>The group field\<close>

lemma group_field: "x AND EPGACR_CTCC_MASK = push_bit 4 (take_bit 3 (drop_bit 4 x))"
proof -
  have "EPGACR_CTCC_MASK = push_bit 4 (mask 3)" by (simp add: mask_eq_exp_minus_1)
  moreover have "x AND push_bit 4 (mask 3) = push_bit 4 (take_bit 3 (drop_bit 4 x))"
    by (rule bit_word_eqI, simp only: bit_and_iff bit_push_bit_iff bit_mask_iff bit_take_bit_iff
        bit_drop_bit_eq comp_def) auto
  ultimately show ?thesis by (simp only:)
qed

lemma group_offset_large:
  assumes "x AND EPGACR_CTCC_MASK \<noteq> 0"
  shows "0x04000000 \<le> LS_DBG_EPU_EPCTRGCR_OFFSET + push_bit EPGACR_CTCC_SHIFT (x AND EPGACR_CTCC_MASK) * 4"
proof -
  define y where "y = take_bit 3 (drop_bit 4 x)"
  have y: "unat y < 8"
    unfolding y_def
    using take_bit_nat_less_exp [of 3 "unat (drop_bit 4 x)"] by (simp add: unsigned_take_bit_eq)
  have y0: "unat y \<noteq> 0" using assms unfolding group_field y_def by (auto simp: unat_eq_0)
  have "push_bit EPGACR_CTCC_SHIFT (x AND EPGACR_CTCC_MASK) * 4 = y * 0x04000000"
    unfolding group_field y_def [symmetric] by (simp add: push_bit_eq_mult)
  moreover have "unat (y * 0x04000000 :: u32) = unat y * 0x04000000"
    using y by (simp add: unat_word_ariths)
  ultimately show ?thesis
    using y y0 by (simp add: word_le_nat_alt unat_word_ariths)
qed

lemma epu_event_less: "ev < 16 \<Longrightarrow> epu_mapped d \<Longrightarrow> b \<le> 0x500 \<Longrightarrow>
    \<not> map_size (maps d ! 7) \<le> b + of_nat ev * 4"
  using epu_event_offset [of ev b] epu_mapped_less [of d "b + of_nat ev * 4"] by (simp add: not_le)

text \<open>C17: A capture never works for a group other than 0.  The code shifts the field of \<open>EPGACR\<close> left
  by 20 where it means to shift it right, so the offset of the group register is at least
  \<open>0x04000000\<close>; for any mapping that is not larger the write returns \<open>EFAULT\<close> after its first
  register read: nothing is captured, no register is written, no virtual counter changes.\<close>

theorem capture_of_other_group_fails:
  assumes "unlocked d" and "epu_mapped d" and "map_size (maps d ! 7) \<le> 0x04000000" and "ev < 16"
    and "epu_reg k d (LS_DBG_EPU_EPGACR_OFFSET + of_nat ev * 4) (hw d) AND EPGACR_CTCC_MASK \<noteq> 0"
  shows "vcntepecr_set k (vcnt_addr k + vreg_off (Vcntrepecr ev)) val d = Fail EFAULT
    (d\<lparr>hw := snd (ioread32 k (epu_addr d (LS_DBG_EPU_EPGACR_OFFSET + of_nat ev * 4)) (hw d))\<rparr>)"
proof -
  let ?v = "epu_reg k d (LS_DBG_EPU_EPGACR_OFFSET + of_nat ev * 4) (hw d)"
  let ?off = "LS_DBG_EPU_EPCTRGCR_OFFSET + push_bit EPGACR_CTCC_SHIFT (?v AND EPGACR_CTCC_MASK) * 4"
  have "map_size (maps d ! 7) \<le> ?off"
    using assms(3) group_offset_large [OF assms(5)] by (rule order.trans)
  moreover have "\<not> map_size (maps d ! 7) \<le> LS_DBG_EPU_EPGACR_OFFSET + of_nat ev * 4"
    by (rule epu_event_less) (simp_all add: assms)
  ultimately show ?thesis
    using assms(1) unfolding vcntepecr_set_def vcntepecr_set_body_def event_index_vreg [OF assms(4)]
    by (simp add: lock_vc_def unlock_vc_def unlocked_def epu_read_eq epu_reg_def Let_def)
qed

definition bench_other_group :: bench where
  "bench_other_group = bench_world\<lparr>regs := (\<lambda>a. 0)(0x90000480 := 0x10)\<rparr>"

lemma capture_of_other_group_fails_witness:
  "vcntepecr_set bench_kernel (0x80000000 + vreg_off (Vcntrepecr 0)) 0 (bench_driver bench_other_group) =
    Fail EFAULT (bench_driver bench_other_group)"
  using capture_of_other_group_fails [of "bench_driver bench_other_group" 0 bench_kernel 0]
  by (simp add: bench_other_group_def)

lemma bits_of_8: "bits_of 8 = [3]" "bits_of 1 = [0]"
  by (simp_all add: bits_of_def upt_conv_Cons bit_iff_odd)

lemma v_inc_0: "v_inc 0 = 1"
  by (simp add: v_inc_def LS_DBG_V_COUNTER_OVFLOW_VALUE_def)

end
