(* ===== verification/Reg_Store.thy ===== *)
theory Reg_Store
  imports Prelude
begin

text \<open>
  The contract of a set of registers that behave as memory: a read changes nothing, a write to a
  register is what the next read of it returns (cut to the register's width) and is invisible in
  every other register.  The virtual counter and capture registers keep this contract at two
  interfaces: the address interface of \<open>vir_cntrs.c\<close> and the group-and-offset interface of
  \<open>reg_access.c\<close>.
\<close>

locale reg_store =
  fixes rd :: "'r \<Rightarrow> 's \<Rightarrow> (u64, 's) result"
    and wr :: "'r \<Rightarrow> u64 \<Rightarrow> 's \<Rightarrow> (unit, 's) result"
    and reg :: "'r \<Rightarrow> bool"
    and st :: "'s \<Rightarrow> bool"
    and fits :: "'r \<Rightarrow> u64 \<Rightarrow> u64"
    and val :: "'r \<Rightarrow> 's \<Rightarrow> u64"
    and put :: "'r \<Rightarrow> u64 \<Rightarrow> 's \<Rightarrow> 's"
  assumes rd_eq: "reg r \<Longrightarrow> st s \<Longrightarrow> rd r s = Done (val r s) s"
    and wr_eq: "reg r \<Longrightarrow> st s \<Longrightarrow> wr r v s = Done () (put r v s)"
    and put_st: "reg r \<Longrightarrow> st s \<Longrightarrow> st (put r v s)"
    and val_put: "reg r \<Longrightarrow> reg q \<Longrightarrow> st s \<Longrightarrow> val q (put r v s) = (if q = r then fits r v else val q s)"
begin

lemma read_after_write: "reg r \<Longrightarrow> st s \<Longrightarrow> and_then (wr r v s) (\<lambda>_. rd r) = Done (fits r v) (put r v s)"
  by (simp add: wr_eq rd_eq put_st val_put)

text \<open>After any sequence of writes a register holds the last value written to it, and its old value
  when there was none.\<close>

lemma read_after_writes:
  assumes "st s" and "\<forall>(r, v) \<in> set ws. reg r" and "reg q"
  shows "\<exists>s'. each (\<lambda>(r, v). wr r v) ws s = Done () s' \<and> st s' \<and>
    rd q s' = Done (case map_of (rev ws) q of None \<Rightarrow> val q s | Some v \<Rightarrow> fits q v) s'"
  using assms
proof (induction ws arbitrary: s)
  case Nil
  then show ?case by (simp add: rd_eq)
next
  case (Cons w ws)
  obtain r v where w: "w = (r, v)" by force
  let ?s = "put r v s"
  have "st ?s" using Cons.prems w by (simp add: put_st)
  with Cons.IH [of ?s] Cons.prems obtain s' where
      "each (\<lambda>(r, v). wr r v) ws ?s = Done () s'" "st s'"
      "rd q s' = Done (case map_of (rev ws) q of None \<Rightarrow> val q ?s | Some v \<Rightarrow> fits q v) s'"
    by auto
  then show ?case
    using Cons.prems w
    by (auto simp: wr_eq val_put map_add_def split: option.splits)
qed

end

end
