(* ===== verification/Vcnt_Regs.thy ===== *)
theory Vcnt_Regs
  imports Vcnt_Capture Reg_Store
begin

text \<open>
  Reading and writing the virtual registers by address: which register a read or write reaches,
  what a read of a \<open>vcntrepecr\<close> register does, and that the control, counter and capture registers
  are a \<open>reg_store\<close>.
\<close>

section \<open>Dispatch\<close>

lemma vreg_off_bounds:
  "vreg_exists Vcntctrl \<Longrightarrow> vreg_off Vcntctrl < 4"
  "n < 16 \<Longrightarrow> 4 \<le> vreg_off (Vcntrepecr n) \<and> vreg_off (Vcntrepecr n) < 68"
  "n < 32 \<Longrightarrow> 72 \<le> vreg_off (Vcntr n) \<and> vreg_off (Vcntr n) < 328"
  "n < 32 \<Longrightarrow> 328 \<le> vreg_off (Vcntrcapt n) \<and> vreg_off (Vcntrcapt n) < 584"
  by (simp_all add: word_le_nat_alt word_less_nat_alt unat_vreg_off del: vreg_off.simps(2-))

lemma vreg_regions:
  assumes "linked k"
  shows "in_region k 0 4 (vcnt_addr k + vreg_off Vcntctrl)"
    and "n < 16 \<Longrightarrow> \<not> in_region k 0 4 (vcnt_addr k + vreg_off (Vcntrepecr n)) \<and>
      in_region k 4 72 (vcnt_addr k + vreg_off (Vcntrepecr n))"
    and "n < 32 \<Longrightarrow> \<not> in_region k 0 4 (vcnt_addr k + vreg_off (Vcntr n)) \<and>
      \<not> in_region k 4 72 (vcnt_addr k + vreg_off (Vcntr n)) \<and>
      in_region k 72 328 (vcnt_addr k + vreg_off (Vcntr n))"
    and "n < 32 \<Longrightarrow> \<not> in_region k 0 4 (vcnt_addr k + vreg_off (Vcntrcapt n)) \<and>
      \<not> in_region k 4 72 (vcnt_addr k + vreg_off (Vcntrcapt n)) \<and>
      \<not> in_region k 72 328 (vcnt_addr k + vreg_off (Vcntrcapt n)) \<and>
      in_region k 328 584 (vcnt_addr k + vreg_off (Vcntrcapt n)) \<and>
      in_region k 328 2376 (vcnt_addr k + vreg_off (Vcntrcapt n))"
proof -
  have le: "in_region k lo hi (vcnt_addr k + off) \<longleftrightarrow> lo \<le> off \<and> off < hi"
    if "unat lo \<le> 0x1000" "unat hi \<le> 0x1000" "off < 584" for lo hi off
    using that by (intro in_region_iff [OF assms]) (simp_all add: word_le_nat_alt word_less_nat_alt)
  show "in_region k 0 4 (vcnt_addr k + vreg_off Vcntctrl)" by (subst le) simp_all
  show "\<not> in_region k 0 4 (vcnt_addr k + vreg_off (Vcntrepecr n)) \<and>
      in_region k 4 72 (vcnt_addr k + vreg_off (Vcntrepecr n))" if "n < 16"
    using vreg_off_bounds(2) [OF that] vreg_off_le [of "Vcntrepecr n"] that
    by (simp add: le word_le_nat_alt word_less_nat_alt del: vreg_off.simps)
  show "\<not> in_region k 0 4 (vcnt_addr k + vreg_off (Vcntr n)) \<and>
      \<not> in_region k 4 72 (vcnt_addr k + vreg_off (Vcntr n)) \<and>
      in_region k 72 328 (vcnt_addr k + vreg_off (Vcntr n))" if "n < 32"
    using vreg_off_bounds(3) [OF that] vreg_off_le [of "Vcntr n"] that
    by (simp add: le word_le_nat_alt word_less_nat_alt del: vreg_off.simps)
  show "\<not> in_region k 0 4 (vcnt_addr k + vreg_off (Vcntrcapt n)) \<and>
      \<not> in_region k 4 72 (vcnt_addr k + vreg_off (Vcntrcapt n)) \<and>
      \<not> in_region k 72 328 (vcnt_addr k + vreg_off (Vcntrcapt n)) \<and>
      in_region k 328 584 (vcnt_addr k + vreg_off (Vcntrcapt n)) \<and>
      in_region k 328 2376 (vcnt_addr k + vreg_off (Vcntrcapt n))" if "n < 32"
    using vreg_off_bounds(4) [OF that] vreg_off_le [of "Vcntrcapt n"] that
    by (simp add: le word_le_nat_alt word_less_nat_alt del: vreg_off.simps)
qed

text \<open>What a register holds, and the object after a plain store to it.\<close>

fun vreg_value :: "vreg \<Rightarrow> vcounters \<Rightarrow> u64" where
  "vreg_value Vcntctrl v = ucast (vcntctrl v)"
| "vreg_value (Vcntrepecr n) v = ucast (vcntrepecr v ! n)"
| "vreg_value (Vcntr n) v = vcntr v ! n"
| "vreg_value (Vcntrcapt n) v = vcntrcapt v ! n"

fun vreg_store :: "vreg \<Rightarrow> u64 \<Rightarrow> vcounters \<Rightarrow> vcounters" where
  "vreg_store Vcntctrl x v = v\<lparr>vcntctrl := ucast x\<rparr>"
| "vreg_store (Vcntrepecr n) x v = v\<lparr>vcntrepecr := (vcntrepecr v)[n := ucast x]\<rparr>"
| "vreg_store (Vcntr n) x v = v\<lparr>vcntr := (vcntr v)[n := x]\<rparr>"
| "vreg_store (Vcntrcapt n) x v = v\<lparr>vcntrcapt := (vcntrcapt v)[n := x]\<rparr>"

text \<open>The registers that are plain memory: all but the \<open>vcntrepecr\<close> ones.\<close>

fun plain_vreg :: "vreg \<Rightarrow> bool" where
  "plain_vreg Vcntctrl = True"
| "plain_vreg (Vcntrepecr n) = False"
| "plain_vreg (Vcntr n) = (n < 32)"
| "plain_vreg (Vcntrcapt n) = (n < 32)"

lemma plain_read:
  "linked k \<Longrightarrow> plain_vreg r \<Longrightarrow>
    vcounter_reg_read k (vcnt_addr k + vreg_off r) d = Done (vreg_value r (vcnt d)) d"
  using vreg_regions [of k] load_vreg [of _ "vcnt d"]
  by (cases r) (simp_all add: vcounter_reg_read_def deref32_def deref64_def vcntr_get_def load32_def
      del: vreg_off.simps(2-))

lemma plain_write:
  "linked k \<Longrightarrow> plain_vreg r \<Longrightarrow>
    vcounter_reg_write k (vcnt_addr k + vreg_off r) x d = Done () (d\<lparr>vcnt := vreg_store r x (vcnt d)\<rparr>)"
  using vreg_regions [of k] store_vreg [of _ _ "vcnt d"]
  by (cases r) (simp_all add: vcounter_reg_write_def assign32_def assign64_def vcntr_set_def
      store32_def del: vreg_off.simps(2-))

lemma event_read:
  "linked k \<Longrightarrow> n < 16 \<Longrightarrow>
    vcounter_reg_read k (vcnt_addr k + vreg_off (Vcntrepecr n)) d =
      vcntepecr_get k (vcnt_addr k + vreg_off (Vcntrepecr n)) d"
  using vreg_regions [of k] by (simp add: vcounter_reg_read_def del: vreg_off.simps)

lemma event_write:
  "linked k \<Longrightarrow> n < 16 \<Longrightarrow>
    vcounter_reg_write k (vcnt_addr k + vreg_off (Vcntrepecr n)) x d =
      vcntepecr_set k (vcnt_addr k + vreg_off (Vcntrepecr n)) x d"
  using vreg_regions [of k] by (simp add: vcounter_reg_write_def del: vreg_off.simps)

section \<open>The plain registers are memory\<close>

fun vreg_fits :: "vreg \<Rightarrow> u64 \<Rightarrow> u64" where
  "vreg_fits Vcntctrl x = ucast (ucast x :: u32)"
| "vreg_fits r x = x"

lemma vreg_value_store:
  "plain_vreg r \<Longrightarrow> plain_vreg q \<Longrightarrow> wf_vcounters v \<Longrightarrow>
    vreg_value q (vreg_store r x v) = (if q = r then vreg_fits r x else vreg_value q v)"
  by (cases r; cases q) (auto simp: wf_vcounters_def)

lemma vreg_store_wf [simp]: "wf_vcounters v \<Longrightarrow> wf_vcounters (vreg_store r x v)"
  by (cases r) (simp_all add: wf_vcounters_def)

interpretation vregs: reg_store
  "\<lambda>r. vcounter_reg_read k (vcnt_addr k + vreg_off r)"
  "\<lambda>r. vcounter_reg_write k (vcnt_addr k + vreg_off r)"
  "\<lambda>r. linked k \<and> plain_vreg r"
  "\<lambda>d. wf_vcounters (vcnt d)"
  vreg_fits
  "\<lambda>r d. vreg_value r (vcnt d)"
  "\<lambda>r x d. d\<lparr>vcnt := vreg_store r x (vcnt d)\<rparr>"
  for k
  by unfold_locales (auto simp: plain_read plain_write vreg_value_store)

section \<open>Reading an event control register\<close>

text \<open>Reading the register \<open>vcntrepecrN\<close> with the EPU mapped returns the device's event control
  register \<open>N\<close>, which is also stored in the driver's copy, and leaves the lock free and everything
  else unchanged.\<close>

theorem vcntepecr_get_mirrors:
  assumes "unlocked d" and "epu_mapped d" and "n < 16"
  shows "vcntepecr_get k (vcnt_addr k + vreg_off (Vcntrepecr n)) d =
    (let (v, h) = ioread32 k (epu_addr d (LS_DBG_EPU_EPECR_OFFSET + of_nat n * 4)) (hw d)
     in Done (ucast v) (d\<lparr>hw := h, vcnt := (vcnt d)\<lparr>vcntrepecr := (vcntrepecr (vcnt d))[n := v]\<rparr>\<rparr>))"
proof -
  have off: "LS_DBG_EPU_EPECR_OFFSET + of_nat n * 4 < 0x1000"
    using epu_event_offset [OF assms(3), of "0x300"] by simp
  have store: "store32 (vreg_off (Vcntrepecr n)) v w = Some (w\<lparr>vcntrepecr := (vcntrepecr w)[n := v]\<rparr>)" for v w
    by (rule store_vreg(1) [OF assms(3)])
  show ?thesis
    using assms(1,2) off
    unfolding vcntepecr_get_def event_index_vreg [OF assms(3)]
    by (simp add: lock_vc_def unlock_vc_def unlocked_def epu_read_Done assign32_def store Let_def
        split_beta del: vreg_off.simps LS_DBG_EPU_EPECR_OFFSET_def)
qed

lemma vcntepecr_get_mirrors_witness:
  "\<exists>d'. vcntepecr_get bench_kernel (0x80000000 + vreg_off (Vcntrepecr 2))
      (bench_driver (bench_world\<lparr>regs := (\<lambda>a. 0)(0x90000308 := 0x55)\<rparr>)) = Done 0x55 d' \<and>
    vcntrepecr (vcnt d') ! 2 = 0x55"
  using vcntepecr_get_mirrors [of "bench_driver (bench_world\<lparr>regs := (\<lambda>a. 0)(0x90000308 := 0x55)\<rparr>)" 2
      bench_kernel]
  by (simp add: zero_vcounters_def)

text \<open>C18: A read of a \<open>vcntrepecr\<close> register whose device register is not mapped returns \<open>EFAULT\<close>
  without releasing the spin lock, and from then on every read or write of a \<open>vcntrepecr\<close> register
  waits for the lock for ever.\<close>

theorem failed_vcntepecr_get_keeps_lock:
  assumes "\<not> vc_lock d"
    and "map_size (maps d ! 7) \<le> LS_DBG_EPU_EPECR_OFFSET + event_index k data * 4"
  shows "vcntepecr_get k data d = Fail EFAULT (d\<lparr>vc_lock := True\<rparr>) \<and>
    (\<forall>data' val. vcntepecr_get k data' (d\<lparr>vc_lock := True\<rparr>) = Spin \<and>
      vcntepecr_set k data' val (d\<lparr>vc_lock := True\<rparr>) = Spin)"
  using assms
  by (simp add: vcntepecr_get_def vcntepecr_set_def lock_vc_def epu_read_eq Let_def)

lemma failed_vcntepecr_get_keeps_lock_witness:
  "vcntepecr_get bench_kernel 0x80000004 (initial_driver bench_world) =
      Fail EFAULT ((initial_driver bench_world)\<lparr>vc_lock := True\<rparr>) \<and>
    vcntepecr_set bench_kernel 0x80000004 0 ((initial_driver bench_world)\<lparr>vc_lock := True\<rparr>) = Spin"
proof -
  have "map_size (maps (initial_driver bench_world) ! 7) = 0" "\<not> vc_lock (initial_driver bench_world)"
    by (simp_all add: initial_driver_def zero_map_def)
  then show ?thesis
    using failed_vcntepecr_get_keeps_lock [of "initial_driver bench_world" bench_kernel "0x80000004"]
    by simp
qed

end
