(* ===== verification/Vcnt_Irq.thy ===== *)
theory Vcnt_Irq
  imports Vcnt_Regs
begin

text \<open>
  The counter overflow interrupt of \<open>vir_cntrs.c\<close>: the handler \<open>cntr_overflow_interrupt\<close>, binding
  and unbinding it (\<open>ls_dbg_epu_bind_irq\<close>, \<open>ls_dbg_epu_unbind_irq\<close>), and the control register that
  does so (\<open>vcntrctrl_get\<close>, \<open>vcntrctrl_set\<close>).
\<close>

datatype irqreturn = IRQ_NONE | IRQ_HANDLED

definition cntr_overflow_interrupt :: "'h kernel \<Rightarrow> 'h driver \<Rightarrow> (irqreturn, 'h driver) result" where
  "cntr_overflow_interrupt k d =
    (case epu_read k LS_DBG_EPU_EPCTRISR_OFFSET d of
       Done val d \<Rightarrow>
         (let ctrisr = ucast val :: u32 in
          if ctrisr = 0 then Done IRQ_NONE d
          else and_then (lock_vc d) (\<lambda>_ d.
               and_then (ignore_ret (update_vcounters k ctrisr d)) (\<lambda>_ d.
               Done IRQ_HANDLED (unlock_vc d))))
     | Fail e d \<Rightarrow> Done IRQ_HANDLED d
     | Spin \<Rightarrow> Spin
     | Undef \<Rightarrow> Undef)"

text \<open>Binding.  When no interrupt number is found, control goes to the error exit with the \<open>0\<close> of the
  preceding register write still in \<open>ret\<close>.\<close>

definition write_all_epccr :: "'h kernel \<Rightarrow> u32 \<Rightarrow> 'h driver \<Rightarrow> (unit, 'h driver) result" where
  "write_all_epccr k val d =
    each (\<lambda>i. epu_write k (LS_DBG_EPU_EPCCR_OFFSET + of_nat i * 4) (ucast val)) [0..<32] d"

definition ls_dbg_epu_bind_irq :: "'h kernel \<Rightarrow> 'h driver \<Rightarrow> (unit, 'h driver) result" where
  "ls_dbg_epu_bind_irq k d =
    (let epu_node = find_epu_node k (hw d) in
     and_then (epu_write k LS_DBG_EPU_EPCTRISR_OFFSET 0xffffffff d) (\<lambda>_ d.
     let (num, h) = irq_of_parse_and_map k epu_node 0 (hw d);
         d = d\<lparr>intr_num := num, hw := h\<rparr> in
     if num \<noteq> 0
     then let d = d\<lparr>hw := set_irq_flags k num (hw d)\<rparr>;
              (status, h) = request_irq k num epu_node (hw d);
              d = d\<lparr>hw := h\<rparr> in
          if status \<noteq> 0 then Fail (Errno status) d
          else write_all_epccr k (push_bit EPCCR_AC_SHIFT EPCCR_AC_INTR_REQ_VAL OR EPCCR_ENABLE_MASK) d
     else Done () d))"

text \<open>Unbinding: the interrupt is freed even when turning the counters' requests off failed.\<close>

definition release_irq :: "'h kernel \<Rightarrow> u32 \<Rightarrow> 'h driver \<Rightarrow> 'h driver" where
  "release_irq k epu_node d =
    (if intr_num d \<noteq> 0
     then d\<lparr>hw := free_irq k (intr_num d) epu_node (flush_scheduled_work k (hw d)), intr_num := 0\<rparr>
     else d)"

definition ls_dbg_epu_unbind_irq :: "'h kernel \<Rightarrow> 'h driver \<Rightarrow> (unit, 'h driver) result" where
  "ls_dbg_epu_unbind_irq k d =
    (let epu_node = find_epu_node k (hw d)
     in on_exit (release_irq k epu_node) (write_all_epccr k 0 d))"

definition vcntrctrl_get :: "'h driver \<Rightarrow> (u64, 'h driver) result" where
  "vcntrctrl_get d = Done (ucast (vcntctrl (vcnt d))) d"

definition vcntrctrl_set :: "'h kernel \<Rightarrow> u64 \<Rightarrow> 'h driver \<Rightarrow> (unit, 'h driver) result" where
  "vcntrctrl_set k val d =
    (let orig_val = vcntctrl (vcnt d);
         new_val = ucast val :: u32
     in on_exit (\<lambda>d. d\<lparr>vcnt := (vcnt d)\<lparr>vcntctrl := ucast val\<rparr>\<rparr>)
       (if new_val AND VCNTR_ENABLE_MASK \<noteq> 0
        then (if orig_val AND VCNTR_ENABLE_MASK = 0 then ls_dbg_epu_bind_irq k d else Done () d)
        else (if orig_val AND VCNTR_ENABLE_MASK \<noteq> 0 then ls_dbg_epu_unbind_irq k d else Done () d)))"

section \<open>The handler\<close>

lemma interrupt_Done:
  assumes "epu_mapped d" and "wf_driver d" and "\<not> vc_lock d"
  shows "cntr_overflow_interrupt k d =
    (let (m, h) = ioread32 k (epu_addr d LS_DBG_EPU_EPCTRISR_OFFSET) (hw d) in
     if m = 0 then Done IRQ_NONE (d\<lparr>hw := h\<rparr>)
     else Done IRQ_HANDLED (d\<lparr>vcnt := (vcnt d)\<lparr>vcntr := count_overflows m (vcntr (vcnt d))\<rparr>,
       hw := ack_overflows k d m h\<rparr>))"
  using assms
  by (simp add: cntr_overflow_interrupt_def epu_read_Done split_beta Let_def lock_vc_def unlock_vc_def
      update_vcounters_Done wf_driver_def)

text \<open>C7: The overflow handler with the EPU mapped and the lock free.  When no status bit is set it
  claims nothing and changes no counter.  Otherwise it handles the interrupt: each virtual counter
  whose status bit is set counts one overflow, modulo \<open>2 ^ 63\<close>, the others keep their value; the
  device sees the status bits acknowledged first and then exactly the overflowed counters cleared,
  lowest first; locks and everything else in the driver are unchanged.\<close>

theorem interrupt_counts_overflows:
  assumes "epu_mapped d" and "wf_driver d" and "\<not> vc_lock d"
    and "\<forall>n<32. unat (vcntr (vcnt d) ! n) < 2 ^ 63"
    and "ioread32 k (epu_addr d LS_DBG_EPU_EPCTRISR_OFFSET) (hw d) = (m, h)"
  shows "\<exists>d'. cntr_overflow_interrupt k d = Done (if m = 0 then IRQ_NONE else IRQ_HANDLED) d' \<and>
    same_env d d' \<and>
    (\<forall>n<32. unat (vcntr (vcnt d') ! n) =
      (if bit m n then (unat (vcntr (vcnt d) ! n) + 1) mod 2 ^ 63 else unat (vcntr (vcnt d) ! n))) \<and>
    vcntrcapt (vcnt d') = vcntrcapt (vcnt d) \<and>
    hw d' = (if m = 0 then h
      else fold (\<lambda>n. iowrite32 k 0 (epu_addr d (LS_DBG_EPU_EPCTR_OFFSET + of_nat n * 4))) (bits_of m)
        (iowrite32 k m (epu_addr d LS_DBG_EPU_EPCTRISR_OFFSET) h))"
proof (cases "m = 0")
  case True
  then show ?thesis
    using assms by (intro exI [of _ "d\<lparr>hw := h\<rparr>"]) (simp add: interrupt_Done)
next
  case False
  let ?d = "d\<lparr>vcnt := (vcnt d)\<lparr>vcntr := count_overflows m (vcntr (vcnt d))\<rparr>, hw := ack_overflows k d m h\<rparr>"
  have "length (vcntr (vcnt d)) = 32" using assms(2) by (simp add: wf_driver_def wf_vcounters_def)
  then have "unat (vcntr (vcnt ?d) ! n) =
      (if bit m n then (unat (vcntr (vcnt d) ! n) + 1) mod 2 ^ 63 else unat (vcntr (vcnt d) ! n))"
    if "n < 32" for n
    using assms(4) that by (simp add: nth_count_overflows unat_v_inc)
  moreover have "cntr_overflow_interrupt k d = Done IRQ_HANDLED ?d"
    using assms(5) False by (simp add: interrupt_Done [OF assms(1-3)])
  moreover have "same_env d ?d" by (simp add: same_env_def wf_vcounters_def)
  ultimately show ?thesis
    using False by (intro exI [of _ ?d]) (simp add: ack_overflows_def)
qed

definition bench_pending :: bench where
  "bench_pending = bench_world\<lparr>regs := (\<lambda>a. 0)(0x90000030 := 8, 0x90000A0C := 7)\<rparr>"

lemma interrupt_counts_overflows_witness:
  "\<exists>d'. cntr_overflow_interrupt bench_kernel (bench_driver bench_pending) = Done IRQ_HANDLED d' \<and>
    unat (vcntr (vcnt d') ! 3) = 1 \<and> unat (vcntr (vcnt d') ! 4) = 0 \<and>
    regs (hw d') 0x90000030 = 0 \<and> regs (hw d') 0x90000A0C = 0"
proof -
  let ?d = "bench_driver bench_pending"
  have "bit (8 :: u32) 3" "\<not> bit (8 :: u32) 4" by (simp_all add: bit_iff_odd)
  moreover have "ioread32 bench_kernel (epu_addr ?d LS_DBG_EPU_EPCTRISR_OFFSET) (hw ?d) = (8, bench_pending)"
    by (simp add: bench_pending_def)
  moreover have "\<forall>n<32. unat (vcntr (vcnt ?d) ! n) < 2 ^ 63" by simp
  ultimately show ?thesis
    using interrupt_counts_overflows [of ?d bench_kernel 8 bench_pending]
    by (auto simp: bits_of_8 bench_write_def bench_pending_def)
qed

end
