(* ===== verification/Irq_Control.thy ===== *)
theory Irq_Control
  imports Vcnt_Irq
begin

text \<open>
  Turning the overflow interrupt on and off through the control register \<open>vcntrctrl\<close>: what a
  successful bind and an unbind do to the device and the interrupt tables, in which order, and what
  the two failures of a bind leave behind.
\<close>

section \<open>The request registers of all counters\<close>

definition all_epccr :: "'h kernel \<Rightarrow> 'h driver \<Rightarrow> u32 \<Rightarrow> 'h \<Rightarrow> 'h" where
  "all_epccr k d val h =
    fold (\<lambda>n. iowrite32 k val (epu_addr d (LS_DBG_EPU_EPCCR_OFFSET + of_nat n * 4))) [0..<32] h"

lemma fold_hw: "fold (\<lambda>n d. d\<lparr>hw := f n (hw d)\<rparr>) is d = d\<lparr>hw := fold f is (hw d)\<rparr>"
  by (induction "is" arbitrary: d) simp_all

lemma write_all_epccr_Done:
  assumes "epu_mapped d"
  shows "write_all_epccr k val d = Done () (d\<lparr>hw := all_epccr k d val (hw d)\<rparr>)"
proof -
  let ?w = "\<lambda>n. iowrite32 k val (epu_addr d (LS_DBG_EPU_EPCCR_OFFSET + of_nat n * 4))"
  have "each (\<lambda>i. epu_write k (LS_DBG_EPU_EPCCR_OFFSET + of_nat i * 4) (ucast val)) [0..<32] d =
      Done () (fold (\<lambda>n d. d\<lparr>hw := ?w n (hw d)\<rparr>) [0..<32] d)"
  proof (rule each_Done [where I = "\<lambda>s. \<exists>h. s = d\<lparr>hw := h\<rparr>"])
    fix i s assume "i \<in> set [0..<32]" and "\<exists>h. s = d\<lparr>hw := h\<rparr>"
    then show "epu_write k (LS_DBG_EPU_EPCCR_OFFSET + of_nat i * 4) (ucast val) s =
        Done () (s\<lparr>hw := ?w i (hw s)\<rparr>)"
      using epu_array_offset [of i "0x800"] assms by (auto simp: epu_write_Done)
  qed (auto intro: exI [of _ "hw d"])
  then show ?thesis by (simp only: write_all_epccr_def fold_hw [of ?w] all_epccr_def)
qed

lemma holds_write_all_epccr:
  "holds (\<lambda>_ d'. \<exists>h. d' = d\<lparr>hw := h\<rparr>) (\<lambda>e d'. e = EFAULT \<and> (\<exists>h. d' = d\<lparr>hw := h\<rparr>)) (write_all_epccr k val d)"
  unfolding write_all_epccr_def
proof (rule holds_each)
  show "\<exists>h. d = d\<lparr>hw := h\<rparr>" by (rule exI [of _ "hw d"]) simp
next
  fix i d' assume "\<exists>h. d' = d\<lparr>hw := h\<rparr>"
  then obtain h where "d' = d\<lparr>hw := h\<rparr>" ..
  then show "holds (\<lambda>_ d'. \<exists>h. d' = d\<lparr>hw := h\<rparr>) (\<lambda>e d'. e = EFAULT \<and> (\<exists>h. d' = d\<lparr>hw := h\<rparr>))
      (epu_write k (LS_DBG_EPU_EPCCR_OFFSET + of_nat i * 4) (ucast val) d')"
    by (intro holds_epu_write) auto
qed

section \<open>Enabling\<close>

text \<open>The hardware and the interrupt tables up to the request for the interrupt: the status is
  cleared, the number looked up, its flags set.\<close>

definition cleared_status :: "'h kernel \<Rightarrow> 'h driver \<Rightarrow> 'h" where
  "cleared_status k d = iowrite32 k 0xFFFFFFFF (epu_addr d LS_DBG_EPU_EPCTRISR_OFFSET) (hw d)"

definition found_irq :: "'h kernel \<Rightarrow> 'h driver \<Rightarrow> u32 \<times> 'h" where
  "found_irq k d = irq_of_parse_and_map k (find_epu_node k (hw d)) 0 (cleared_status k d)"

definition requested_irq :: "'h kernel \<Rightarrow> 'h driver \<Rightarrow> u32 \<times> 'h" where
  "requested_irq k d =
    (let (num, h) = found_irq k d in request_irq k num (find_epu_node k (hw d)) (set_irq_flags k num h))"

definition store_vcntctrl :: "u64 \<Rightarrow> 'h driver \<Rightarrow> 'h driver" where
  "store_vcntctrl val d = d\<lparr>vcnt := (vcnt d)\<lparr>vcntctrl := ucast val\<rparr>\<rparr>"

lemma request_interrupt_value [simp]:
  "push_bit EPCCR_AC_SHIFT EPCCR_AC_INTR_REQ_VAL OR EPCCR_ENABLE_MASK = (0x180 :: u32)"
  by (simp add: push_bit_eq_mult)

lemma bind_irq_eq:
  assumes "epu_mapped d"
  shows "ls_dbg_epu_bind_irq k d =
    (let (num, h) = found_irq k d; d1 = d\<lparr>intr_num := num, hw := h\<rparr> in
     if num = 0 then Done () d1
     else let (status, h) = requested_irq k d in
       if status \<noteq> 0 then Fail (Errno status) (d1\<lparr>hw := h\<rparr>)
       else Done () (d1\<lparr>hw := all_epccr k d 0x180 h\<rparr>))"
proof -
  have addr: "all_epccr k (d\<lparr>intr_num := n, hw := w\<rparr>) = all_epccr k d" for n w
    by (simp add: all_epccr_def fun_eq_iff)
  show ?thesis
    using assms unfolding ls_dbg_epu_bind_irq_def request_interrupt_value
    by (simp add: epu_write_Done write_all_epccr_Done addr found_irq_def requested_irq_def
        cleared_status_def split_beta Let_def)
qed

lemma vcntrctrl_set_enable:
  "ucast val AND VCNTR_ENABLE_MASK \<noteq> (0 :: u32) \<Longrightarrow> vcntctrl (vcnt d) AND VCNTR_ENABLE_MASK = 0 \<Longrightarrow>
    vcntrctrl_set k val d = on_exit (store_vcntctrl val) (ls_dbg_epu_bind_irq k d)"
  by (simp add: vcntrctrl_set_def store_vcntctrl_def [abs_def] Let_def)

lemma vcntrctrl_set_disable:
  "ucast val AND VCNTR_ENABLE_MASK = (0 :: u32) \<Longrightarrow> vcntctrl (vcnt d) AND VCNTR_ENABLE_MASK \<noteq> 0 \<Longrightarrow>
    vcntrctrl_set k val d = on_exit (store_vcntctrl val) (ls_dbg_epu_unbind_irq k d)"
  by (simp add: vcntrctrl_set_def store_vcntctrl_def [abs_def] Let_def)

lemma vcntrctrl_set_same:
  "(ucast val AND VCNTR_ENABLE_MASK = (0 :: u32)) = (vcntctrl (vcnt d) AND VCNTR_ENABLE_MASK = 0) \<Longrightarrow>
    vcntrctrl_set k val d = Done () (store_vcntctrl val d)"
  by (simp add: vcntrctrl_set_def store_vcntctrl_def Let_def)

lemma enable_result:
  assumes "epu_mapped d"
    and "ucast val AND VCNTR_ENABLE_MASK \<noteq> (0 :: u32)" and "vcntctrl (vcnt d) AND VCNTR_ENABLE_MASK = 0"
    and "found_irq k d = (num, h)" and "num \<noteq> 0" and "requested_irq k d = (0, h')"
  shows "vcntrctrl_set k val d = Done ()
    (d\<lparr>vcnt := (vcnt d)\<lparr>vcntctrl := ucast val\<rparr>, intr_num := num,
      hw := fold (\<lambda>n. iowrite32 k 0x180 (epu_addr d (LS_DBG_EPU_EPCCR_OFFSET + of_nat n * 4))) [0..<32] h'\<rparr>)"
  using assms
  by (simp add: vcntrctrl_set_enable bind_irq_eq store_vcntctrl_def all_epccr_def
      del: VCNTR_ENABLE_MASK_def LS_DBG_EPU_EPCCR_OFFSET_def)

text \<open>C28: Setting the enable bit with the EPU mapped, an interrupt found and granted: the device sees
  the status cleared before the interrupt is requested, and only after the grant the request value
  \<open>0x180\<close> in the control registers of counters 0 to 31, in that order; the number and the control
  value are stored, nothing else changes.\<close>

theorem enable_binds_all_counters:
  assumes "epu_mapped d"
    and "ucast val AND VCNTR_ENABLE_MASK \<noteq> (0 :: u32)" and "vcntctrl (vcnt d) AND VCNTR_ENABLE_MASK = 0"
    and "found_irq k d = (num, h)" and "num \<noteq> 0" and "requested_irq k d = (0, h')"
  shows "vcntrctrl_set k val d = Done ()
    (d\<lparr>vcnt := (vcnt d)\<lparr>vcntctrl := ucast val\<rparr>, intr_num := num,
      hw := fold (\<lambda>n. iowrite32 k 0x180 (epu_addr d (LS_DBG_EPU_EPCCR_OFFSET + of_nat n * 4))) [0..<32] h'\<rparr>)"
  by (rule enable_result [OF assms])

lemma bench_irq [simp]:
  "found_irq bench_kernel (bench_driver h) = (irq_no h, bench_write 0xFFFFFFFF 0x90000030 h)"
  "requested_irq bench_kernel (bench_driver h) = (irq_status h, bench_write 0xFFFFFFFF 0x90000030 h)"
  by (simp_all add: found_irq_def requested_irq_def cleared_status_def bench_write_def)

lemma enable_binds_all_counters_witness:
  "\<exists>d'. vcntrctrl_set bench_kernel 1 (bench_driver bench_world) = Done () d' \<and>
    vcntctrl (vcnt d') = 1 \<and> intr_num d' = 37"
  using enable_binds_all_counters [of "bench_driver bench_world" 1 bench_kernel 37
      "bench_write 0xFFFFFFFF 0x90000030 bench_world" "bench_write 0xFFFFFFFF 0x90000030 bench_world"]
  by (simp add: bench_world_def)

text \<open>When the device tree gives no interrupt number, enabling reports success although nothing is
  bound: no interrupt is requested, no counter is told to raise one, and the enable bit is stored, so
  that a second enable does not try again either.\<close>

lemma enable_without_irq_succeeds:
  assumes "epu_mapped d"
    and "ucast val AND VCNTR_ENABLE_MASK \<noteq> (0 :: u32)" and "vcntctrl (vcnt d) AND VCNTR_ENABLE_MASK = 0"
    and "found_irq k d = (0, h)"
  shows "\<exists>d'. vcntrctrl_set k val d = Done () d' \<and> intr_num d' = 0 \<and> hw d' = h \<and>
    vcntctrl (vcnt d') = ucast val \<and> vcntrctrl_set k val d' = Done () d'"
proof -
  let ?d = "store_vcntctrl val (d\<lparr>intr_num := 0, hw := h\<rparr>)"
  have "vcntrctrl_set k val d = Done () ?d"
    using assms by (simp add: vcntrctrl_set_enable bind_irq_eq del: VCNTR_ENABLE_MASK_def)
  moreover have "vcntrctrl_set k val ?d = Done () (store_vcntctrl val ?d)"
    by (rule vcntrctrl_set_same) (use assms(2) in \<open>simp add: store_vcntctrl_def\<close>)
  moreover have "store_vcntctrl val ?d = ?d" by (simp add: store_vcntctrl_def)
  ultimately show ?thesis by (intro exI [of _ ?d]) (simp add: store_vcntctrl_def)
qed

lemma enable_without_irq_succeeds_witness:
  "\<exists>d'. vcntrctrl_set bench_kernel 1 (bench_driver (bench_world\<lparr>irq_no := 0\<rparr>)) = Done () d' \<and>
    intr_num d' = 0 \<and> vcntctrl (vcnt d') = 1"
  using enable_without_irq_succeeds [of "bench_driver (bench_world\<lparr>irq_no := 0\<rparr>)" 1 bench_kernel
      "bench_write 0xFFFFFFFF 0x90000030 (bench_world\<lparr>irq_no := 0\<rparr>)"]
  by auto

section \<open>Disabling\<close>

lemma unbind_irq_eq:
  assumes "epu_mapped d"
  shows "ls_dbg_epu_unbind_irq k d =
    Done () (release_irq k (find_epu_node k (hw d)) (d\<lparr>hw := all_epccr k d 0 (hw d)\<rparr>))"
  using assms by (simp add: ls_dbg_epu_unbind_irq_def write_all_epccr_Done)

lemma release_irq_clears [simp]: "intr_num (release_irq k node d) = 0"
  by (simp add: release_irq_def)

text \<open>C29: Clearing the enable bit with the EPU mapped and an interrupt bound first clears the control
  registers of counters 0 to 31, then waits for scheduled work, then frees the interrupt, and forgets
  its number: no counter can raise the interrupt after its handler is gone.\<close>

theorem disable_stops_then_frees:
  assumes "epu_mapped d" and "intr_num d \<noteq> 0"
    and "ucast val AND VCNTR_ENABLE_MASK = (0 :: u32)" and "vcntctrl (vcnt d) AND VCNTR_ENABLE_MASK \<noteq> 0"
  shows "vcntrctrl_set k val d = Done ()
    (d\<lparr>vcnt := (vcnt d)\<lparr>vcntctrl := ucast val\<rparr>, intr_num := 0,
      hw := free_irq k (intr_num d) (find_epu_node k (hw d)) (flush_scheduled_work k
        (fold (\<lambda>n. iowrite32 k 0 (epu_addr d (LS_DBG_EPU_EPCCR_OFFSET + of_nat n * 4))) [0..<32] (hw d)))\<rparr>)"
  using assms
  by (simp add: vcntrctrl_set_disable unbind_irq_eq store_vcntctrl_def release_irq_def all_epccr_def
      del: VCNTR_ENABLE_MASK_def LS_DBG_EPU_EPCCR_OFFSET_def)

lemma disable_stops_then_frees_witness:
  "\<exists>d'. vcntrctrl_set bench_kernel 0 ((bench_driver bench_world)
      \<lparr>intr_num := 37, vcnt := zero_vcounters\<lparr>vcntctrl := 1\<rparr>\<rparr>) = Done () d' \<and>
    intr_num d' = 0 \<and> vcntctrl (vcnt d') = 0"
  using disable_stops_then_frees [of "(bench_driver bench_world)
      \<lparr>intr_num := 37, vcnt := zero_vcounters\<lparr>vcntctrl := 1\<rparr>\<rparr>" 0 bench_kernel]
  by simp

text \<open>C32: When the request for the interrupt is refused, enabling returns the error but the number and
  the enable bit stay stored: the next disable frees an interrupt that this driver never got.\<close>

theorem refused_irq_is_freed_later:
  assumes "epu_mapped d"
    and "ucast val AND VCNTR_ENABLE_MASK \<noteq> (0 :: u32)" and "vcntctrl (vcnt d) AND VCNTR_ENABLE_MASK = 0"
    and "found_irq k d = (num, h)" and "num \<noteq> 0" and "requested_irq k d = (e, h')" and "e \<noteq> 0"
  shows "\<exists>d'. vcntrctrl_set k val d = Fail (Errno e) d' \<and> hw d' = h' \<and>
    (\<exists>d'' w. vcntrctrl_set k 0 d' = Done () d'' \<and> hw d'' = free_irq k num (find_epu_node k h') w)"
proof -
  let ?d = "store_vcntctrl val (d\<lparr>intr_num := num, hw := h'\<rparr>)"
  have set: "vcntrctrl_set k val d = Fail (Errno e) ?d"
    using assms by (simp add: vcntrctrl_set_enable bind_irq_eq del: VCNTR_ENABLE_MASK_def)
  have d: "epu_mapped ?d" "intr_num ?d = num" "hw ?d = h'" "vcntctrl (vcnt ?d) = ucast val"
    using assms(1) by (simp_all add: store_vcntctrl_def)
  have "vcntrctrl_set k 0 ?d =
      Done () (store_vcntctrl 0 (release_irq k (find_epu_node k h') (?d\<lparr>hw := all_epccr k ?d 0 h'\<rparr>)))"
    using assms(2) d by (simp add: vcntrctrl_set_disable unbind_irq_eq)
  moreover have "hw (store_vcntctrl 0 (release_irq k (find_epu_node k h') (?d\<lparr>hw := all_epccr k ?d 0 h'\<rparr>))) =
      free_irq k num (find_epu_node k h') (flush_scheduled_work k (all_epccr k ?d 0 h'))"
    using assms(5) d by (simp add: store_vcntctrl_def release_irq_def)
  ultimately show ?thesis using set d(3) by blast
qed

lemma refused_irq_is_freed_later_witness:
  "\<exists>d'. vcntrctrl_set bench_kernel 1 (bench_driver (bench_world\<lparr>irq_status := 16\<rparr>)) = Fail (Errno 16) d' \<and>
    (\<exists>d''. vcntrctrl_set bench_kernel 0 d' = Done () d'')"
  using refused_irq_is_freed_later [of "bench_driver (bench_world\<lparr>irq_status := 16\<rparr>)" 1 bench_kernel 37
      "bench_write 0xFFFFFFFF 0x90000030 (bench_world\<lparr>irq_status := 16\<rparr>)" 16
      "bench_write 0xFFFFFFFF 0x90000030 (bench_world\<lparr>irq_status := 16\<rparr>)"]
  by (auto simp: bench_world_def)

text \<open>Unbinding always returns, with success or \<open>EFAULT\<close>, and always forgets the interrupt number,
  even when the EPU is not mapped; the map table, the locks and the counters are unchanged.\<close>

lemma unbind_forgets_irq:
  "holds (\<lambda>_ d'. intr_num d' = 0 \<and> maps d' = maps d \<and> vcnt d' = vcnt d \<and>
      vc_lock d' = vc_lock d \<and> reg_acc_lock d' = reg_acc_lock d)
    (\<lambda>e d'. e = EFAULT \<and> intr_num d' = 0 \<and> maps d' = maps d \<and> vcnt d' = vcnt d \<and>
      vc_lock d' = vc_lock d \<and> reg_acc_lock d' = reg_acc_lock d) (ls_dbg_epu_unbind_irq k d)"
  unfolding ls_dbg_epu_unbind_irq_def Let_def holds_on_exit
  by (rule holds_mono [OF holds_write_all_epccr]) (auto simp: release_irq_def)

end
