(* ===== verification/Register_Maps.thy ===== *)
theory Register_Maps
  imports Layout
begin

text \<open>
  The register maps of the debug blocks, as the headers of \<open>ls-common/\<close> declare them: one member
  list per PACKED struct, reserved gaps included, with the headers' own size expressions.  Every
  struct interprets \<open>register_block\<close>; the proof of its size is the header's \<open>CTASSERT\<close>.
\<close>

section \<open>Register counts\<close>

abbreviation (input) EPU_V2_NO_OF_COUNTERS :: nat where "EPU_V2_NO_OF_COUNTERS \<equiv> 32"
abbreviation (input) EPU_V2_NO_OF_SCU_EVENTS :: nat where "EPU_V2_NO_OF_SCU_EVENTS \<equiv> 16"
abbreviation (input) EPU_V2_NO_OF_COUNTER_GROUPS :: nat where "EPU_V2_NO_OF_COUNTER_GROUPS \<equiv> 4"
abbreviation (input) EPU_V2_NO_OF_EVENT_GROUPS :: nat where "EPU_V2_NO_OF_EVENT_GROUPS \<equiv> 3"
abbreviation (input) EPU_V2_NO_PROC_INTRPTS :: nat where "EPU_V2_NO_PROC_INTRPTS \<equiv> 4"
abbreviation (input) EPU_V2_NO_EVT_PIN_REGS :: nat where "EPU_V2_NO_EVT_PIN_REGS \<equiv> 10"
abbreviation (input) EPU_V2_NO_FSM_STATES :: nat where "EPU_V2_NO_FSM_STATES \<equiv> 8"
abbreviation (input) EPU_V2_NO_RESRV_REGS :: nat where "EPU_V2_NO_RESRV_REGS \<equiv> 60"
abbreviation (input) EPU_V2_NO_SEMA_REGS :: nat where "EPU_V2_NO_SEMA_REGS \<equiv> 4"
abbreviation (input) ETM_ADDRESS_COMPARATOR_VALUE_REGISTERS :: nat where "ETM_ADDRESS_COMPARATOR_VALUE_REGISTERS \<equiv> 8"
abbreviation (input) ETM_ADDRESS_COMPARATOR_ACCESS_REGISTERS :: nat where "ETM_ADDRESS_COMPARATOR_ACCESS_REGISTERS \<equiv> 8"
abbreviation (input) ETM_RELOAD_VALUE_REGISTERS :: nat where "ETM_RELOAD_VALUE_REGISTERS \<equiv> 2"
abbreviation (input) ETM_COUNTER_ENABLE_REGISTERS :: nat where "ETM_COUNTER_ENABLE_REGISTERS \<equiv> 2"
abbreviation (input) ETM_COUNTER_RELOAD_EVENT_REGISTERS :: nat where "ETM_COUNTER_RELOAD_EVENT_REGISTERS \<equiv> 2"
abbreviation (input) ETM_COUNTER_VALUE_REGISTERS :: nat where "ETM_COUNTER_VALUE_REGISTERS \<equiv> 2"
abbreviation (input) ETM_EXTERNAL_OUTPUT_EVENT_REGISTERS :: nat where "ETM_EXTERNAL_OUTPUT_EVENT_REGISTERS \<equiv> 2"
abbreviation (input) ETM_COMPONENT_IDENT_REGISTERS :: nat where "ETM_COMPONENT_IDENT_REGISTERS \<equiv> 4"
abbreviation (input) ETM_SEQUENCER_STATE_REGISTERS :: nat where "ETM_SEQUENCER_STATE_REGISTERS \<equiv> 6"
abbreviation (input) FUNNEL_COMPONENTS :: nat where "FUNNEL_COMPONENTS \<equiv> 4"
abbreviation (input) GDI_LS1_NO_OF_GDI_EVNTS :: nat where "GDI_LS1_NO_OF_GDI_EVNTS \<equiv> 32"
abbreviation (input) GDI_LS1_NO_CMP_CNTRL_REG :: nat where "GDI_LS1_NO_CMP_CNTRL_REG \<equiv> 8"
abbreviation (input) LS_DBG_NUM_CORES :: nat where "LS_DBG_NUM_CORES \<equiv> 2"
abbreviation (input) LS_DBG_CORE_NUM_CNTRS :: nat where "LS_DBG_CORE_NUM_CNTRS \<equiv> 4"
abbreviation (input) LS_DBG_CORE_NUM_PMC_IDS :: nat where "LS_DBG_CORE_NUM_PMC_IDS \<equiv> 4"
abbreviation (input) LS_DBG_CORE_NUM_CM_EV_IDS :: nat where "LS_DBG_CORE_NUM_CM_EV_IDS \<equiv> 2"

section \<open>Structs inside the register maps\<close>

definition scu_ctrl_struct :: "field list" where
  "scu_ctrl_struct = [aligned_u32s ''epsmcr'' 1, aligned_u32s ''reserved'' 1]"

definition gdgpc_struct :: "field list" where
  "gdgpc_struct =
    [aligned_u32s ''cr'' 1, aligned_u32s ''mr'' 1, aligned_u32s ''vr'' 1, aligned_u32s ''reserved'' 1]"

lemma inner_struct_sizes [layout_simps]:
  "struct_size scu_ctrl_struct = 8" "struct_size gdgpc_struct = 16"
  by (simp_all add: scu_ctrl_struct_def gdgpc_struct_def struct_size_def struct_align_def
      round_up_def field_bytes_def)

lemmas struct_eval = struct_size_def struct_align_def field_bytes_def round_up_def
  scu_ctrl_struct_def gdgpc_struct_def

section \<open>struct epu_v2\<close>

text \<open>The event processing unit, \<open>dcsr_epu_v2.h\<close>.\<close>

definition epu_v2 :: "field list" where
  "epu_v2 =
    [u32s ''epgcr'' 1,
     u8s ''reserved1'' (0x10 - 0x04),
     u32s ''epesr'' 1,
     u8s ''reserved2'' (0x20 - 0x14),
     u32s ''episr'' EPU_V2_NO_PROC_INTRPTS,
     u32s ''epctrisr'' 1,
     u8s ''reserved3'' (0x40 - 0x34),
     u32s ''epctrcsr'' 1,
     u8s ''reserved4'' (0x50 - 0x44),
     u32s ''epevtcr'' EPU_V2_NO_EVT_PIN_REGS,
     u8s ''reserved5'' (0x90 - 0x78),
     u32s ''epxtrigcr'' 1,
     u8s ''reserved6'' (0x100 - 0x94),
     u32s ''epimcr'' EPU_V2_NO_OF_COUNTERS,
     u8s ''reserved7'' (0x200 - 0x180),
     Field ''scu_ctrl'' (struct_size scu_ctrl_struct) 1 EPU_V2_NO_OF_SCU_EVENTS,
     u8s ''reserved8'' (0x300 - 0x280),
     u32s ''epecr'' EPU_V2_NO_OF_SCU_EVENTS,
     u8s ''reserved9'' (0x400 - 0x340),
     u32s ''epacr'' EPU_V2_NO_OF_SCU_EVENTS,
     u8s ''reserved10'' (0x480 - 0x440),
     u32s ''epgacr'' EPU_V2_NO_OF_SCU_EVENTS,
     u8s ''reserved11'' (0x540 - 0x4c0),
     u32s ''epctrgcr'' EPU_V2_NO_OF_COUNTER_GROUPS,
     u8s ''reserved12'' (0x580 - 0x550),
     u32s ''epegcr'' EPU_V2_NO_OF_EVENT_GROUPS,
     u8s ''reserved13'' (0x600 - 0x58c),
     u32s ''epfsmsr0'' 1,
     u8s ''reserved14'' (0x610 - 0x604),
     u32s ''epfsmcmpr'' EPU_V2_NO_FSM_STATES,
     u32s ''epfsmcr'' EPU_V2_NO_FSM_STATES,
     u8s ''reserved15'' (0x800 - 0x650),
     u32s ''epccr'' EPU_V2_NO_OF_COUNTERS,
     u8s ''reserved16'' (0x900 - 0x880),
     u32s ''epcmpr'' EPU_V2_NO_OF_COUNTERS,
     u8s ''reserved17'' (0xA00 - 0x980),
     u32s ''epctr'' EPU_V2_NO_OF_COUNTERS,
     u8s ''reserved18'' (0xB00 - 0xA80),
     u32s ''epcapr'' EPU_V2_NO_OF_COUNTERS,
     u8s ''reserved19'' (0xF00 - 0xB80),
     u32s ''eprsrv'' EPU_V2_NO_RESRV_REGS,
     u32s ''ephsr'' EPU_V2_NO_SEMA_REGS]"

interpretation epu_v2_map: register_block epu_v2 "0x1000"
  by unfold_locales (simp_all add: epu_v2_def struct_eval)

section \<open>struct etf\<close>

text \<open>The embedded trace FIFO, \<open>dcsr_etf_ls1.h\<close>.\<close>

definition etf :: "field list" where
  "etf =
    [u8s ''reserved0'' (0x004 - 0x000),
     u32s ''rsz'' 1,
     u8s ''reserved1'' (0x00c - 0x008),
     u32s ''sts'' 1,
     u32s ''rrd'' 1,
     u32s ''rrp'' 1,
     u32s ''rwp'' 1,
     u32s ''trg'' 1,
     u32s ''ctl'' 1,
     u32s ''rwd'' 1,
     u32s ''mode'' 1,
     u32s ''lbuflevel'' 1,
     u32s ''cbuflevel'' 1,
     u32s ''bufwm'' 1,
     u32s ''rrphi'' 1,
     u32s ''rwphi'' 1,
     u8s ''reserved2'' (0x110 - 0x040),
     u32s ''axictl'' 1,
     u8s ''reserved3'' (0x118 - 0x114),
     u32s ''dbalo'' 1,
     u32s ''dbahi'' 1,
     u8s ''reserved4'' (0x300 - 0x0120),
     u32s ''ffsr'' 1,
     u32s ''ffcr'' 1,
     u32s ''pscr'' 1,
     u8s ''reserved5'' (0xed0 - 0x030c),
     u32s ''itatbmdata0'' 1,
     u32s ''itatbmctr2'' 1,
     u32s ''itatbmctr1'' 1,
     u32s ''itatbmctr0'' 1,
     u32s ''itmiscop0'' 1,
     u8s ''reserved6'' (0xee8 - 0xee4),
     u32s ''ittrflin'' 1,
     u32s ''itatbdata0'' 1,
     u32s ''itatbctr2'' 1,
     u32s ''itatbctr1'' 1,
     u32s ''itatbctr0'' 1,
     u8s ''reserved7'' (0xf00 - 0xefc),
     u32s ''itctrl'' 1,
     u8s ''reserved8'' (0xfa0 - 0xf04),
     u32s ''claimset'' 1,
     u32s ''claimclr'' 1,
     u8s ''reserved9'' (0xfb0 - 0xfa8),
     u32s ''lar'' 1,
     u32s ''lsr'' 1,
     u32s ''authstatus'' 1,
     u8s ''reserved10'' (0xfc8 - 0xfbc),
     u32s ''devid'' 1,
     u32s ''devtype'' 1,
     u32s ''periphid4'' 1,
     u32s ''periphid5'' 1,
     u32s ''periphid6'' 1,
     u32s ''periphid7'' 1,
     u32s ''periphid0'' 1,
     u32s ''periphid1'' 1,
     u32s ''periphid2'' 1,
     u32s ''periphid3'' 1,
     u32s ''compid0'' 1,
     u32s ''compid1'' 1,
     u32s ''compid2'' 1,
     u32s ''compid3'' 1]"

interpretation etf_map: register_block etf "0x1000"
  by unfold_locales (simp_all add: etf_def struct_eval)

section \<open>struct etr\<close>

text \<open>The embedded trace router, \<open>dcsr_etr_ls1.h\<close>.\<close>

definition etr :: "field list" where
  "etr =
    [u8s ''reserved0'' (0x004 - 0x000),
     u32s ''rsz'' 1,
     u8s ''reserved1'' (0x00c - 0x008),
     u32s ''sts'' 1,
     u32s ''rrd'' 1,
     u32s ''rrp'' 1,
     u32s ''rwp'' 1,
     u32s ''trg'' 1,
     u32s ''ctl'' 1,
     u32s ''rwd'' 1,
     u32s ''mode'' 1,
     u32s ''lbuflevel'' 1,
     u32s ''cbuflevel'' 1,
     u32s ''bufwm'' 1,
     u32s ''rrphi'' 1,
     u32s ''rwphi'' 1,
     u8s ''reserved2'' (0x110 - 0x040),
     u32s ''axictl'' 1,
     u8s ''reserved3'' (0x118 - 0x114),
     u32s ''dbalo'' 1,
     u32s ''dbahi'' 1,
     u8s ''reserved4'' (0x300 - 0x0120),
     u32s ''ffsr'' 1,
     u32s ''ffcr'' 1,
     u32s ''pscr'' 1,
     u8s ''reserved5'' (0xed0 - 0x030c),
     u32s ''itatbmdata0'' 1,
     u32s ''itatbmctr2'' 1,
     u32s ''itatbmctr1'' 1,
     u32s ''itatbmctr0'' 1,
     u32s ''itmiscop0'' 1,
     u8s ''reserved6'' (0xee8 - 0xee4),
     u32s ''ittrflin'' 1,
     u32s ''itatbdata0'' 1,
     u32s ''itatbctr2'' 1,
     u32s ''itatbctr1'' 1,
     u32s ''itatbctr0'' 1,
     u8s ''reserved7'' (0xf00 - 0xefc),
     u32s ''itctrl'' 1,
     u8s ''reserved8'' (0xfa0 - 0xf04),
     u32s ''claimset'' 1,
     u32s ''claimclr'' 1,
     u8s ''reserved9'' (0xfb0 - 0xfa8),
     u32s ''lar'' 1,
     u32s ''lsr'' 1,
     u32s ''authstatus'' 1,
     u8s ''reserved10'' (0xfc8 - 0xfbc),
     u32s ''devid'' 1,
     u32s ''devtype'' 1,
     u32s ''periphid4'' 1,
     u32s ''periphid5'' 1,
     u32s ''periphid6'' 1,
     u32s ''periphid7'' 1,
     u32s ''periphid0'' 1,
     u32s ''periphid1'' 1,
     u32s ''periphid2'' 1,
     u32s ''periphid3'' 1,
     u32s ''compid0'' 1,
     u32s ''compid1'' 1,
     u32s ''compid2'' 1,
     u32s ''compid3'' 1]"

interpretation etr_map: register_block etr "0x1000"
  by unfold_locales (simp_all add: etr_def struct_eval)

section \<open>struct etm\<close>

text \<open>The embedded trace macrocell, \<open>dcsr_etm_ls1.h\<close>.  \<open>ETM_RESERVED (a, b)\<close> is an array of \<open>b - a - 1\<close> words.\<close>

definition etm :: "field list" where
  "etm =
    [u32s ''etmcr'' 1,
     u32s ''etmccr'' 1,
     u32s ''etmtrigger'' 1,
     u32s ''etmasicctlr'' 1,
     u32s ''etmsr'' 1,
     u32s ''etmscr'' 1,
     u32s ''etmtsscr'' 1,
     u32s ''etmtecr2'' 1,
     u32s ''etmteevr'' 1,
     u32s ''etmtecr1'' 1,
     u32s ''reserved67'' (0x00b - 0x009 - 1),
     u32s ''etmfflr'' 1,
     u32s ''etmvdevr'' 1,
     u32s ''etmvdcr1'' 1,
     u32s ''reserved74'' (0x00F - 0x00D - 1),
     u32s ''etmvdcr3'' 1,
     u32s ''etmacvr'' ETM_ADDRESS_COMPARATOR_VALUE_REGISTERS,
     u32s ''reserved79'' (0x020 - 0x017 - 1),
     u32s ''etmactr'' ETM_ADDRESS_COMPARATOR_ACCESS_REGISTERS,
     u32s ''reserved82'' (0x030 - 0x027 - 1),
     u32s ''etmdcvr1'' 1,
     u32s ''reserved85'' (0x032 - 0x030 - 1),
     u32s ''etmdcvr3'' 1,
     u32s ''reserved88'' (0x040 - 0x032 - 1),
     u32s ''etmdcmr1'' 1,
     u32s ''reserved91'' (0x042 - 0x040 - 1),
     u32s ''etmdcmr3'' 1,
     u32s ''reserved94'' (0x050 - 0x042 - 1),
     u32s ''etmcntrldvr'' ETM_RELOAD_VALUE_REGISTERS,
     u32s ''reserved97'' (0x054 - 0x051 - 1),
     u32s ''etmcntenr'' ETM_COUNTER_ENABLE_REGISTERS,
     u32s ''reserved100'' (0x058 - 0x055 - 1),
     u32s ''etmcntrldevr'' ETM_COUNTER_RELOAD_EVENT_REGISTERS,
     u32s ''reserved103'' (0x05C - 0x059 - 1),
     u32s ''etmcntvr'' ETM_COUNTER_VALUE_REGISTERS,
     u32s ''reserved106'' (0x060 - 0x05D - 1),
     u32s ''etmsqabevr'' ETM_SEQUENCER_STATE_REGISTERS,
     u32s ''reserved109'' (0x067 - 0x065 - 1),
     u32s ''etmsqr'' 1,
     u32s ''etmextoutevr'' ETM_EXTERNAL_OUTPUT_EVENT_REGISTERS,
     u32s ''reserved114'' (0x06C - 0x069 - 1),
     u32s ''etmcidcvr1'' 1,
     u32s ''reserved117'' (0x06F - 0x06C - 1),
     u32s ''etmcidcmr'' 1,
     u32s ''reserved120'' (0x078 - 0x06F - 1),
     u32s ''etmsyncfr'' 1,
     u32s ''etmidr'' 1,
     u32s ''etmccer'' 1,
     u32s ''etmextinselr'' 1,
     u32s ''reserved129'' (0x07E - 0x07B - 1),
     u32s ''etmtsevr'' 1,
     u32s ''etmauxcr'' 1,
     u32s ''etmtraceidr'' 1,
     u32s ''reserved136'' (0x082 - 0x080 - 1),
     u32s ''etmidr2'' 1,
     u32s ''reserved139'' (0x090 - 0x082 - 1),
     u32s ''etmvmidcvr'' 1,
     u32s ''reserved142'' (0x0C0 - 0x090 - 1),
     u32s ''etmoslar'' 1,
     u32s ''etmoslsr'' 1,
     u32s ''etmossrr'' 1,
     u32s ''reserved149'' (0x0C4 - 0x0C2 - 1),
     u32s ''etmpdcr'' 1,
     u32s ''etmpdsr'' 1,
     u32s ''reserved154'' (0x3B7 - 0x0C5 - 1),
     u32s ''itmiscout'' 1,
     u32s ''itmiscin'' 1,
     u32s ''reserved159'' (0x3BA - 0x3B8 - 1),
     u32s ''ittriggerreq'' 1,
     u32s ''itatbdata0'' 1,
     u32s ''itatbctr2'' 1,
     u32s ''itatbctr1'' 1,
     u32s ''itatbctr0'' 1,
     u32s ''reserved170'' (0x3C0 - 0x3BE - 1),
     u32s ''etmitctrl'' 1,
     u32s ''reserved173'' (0x3E8 - 0x3C0 - 1),
     u32s ''etmclaimset'' 1,
     u32s ''etmclaimclr'' 1,
     u32s ''reserved178'' (0x3EC - 0x3E9 - 1),
     u32s ''etmlar'' 1,
     u32s ''etmlsr'' 1,
     u32s ''etmauthstatus'' 1,
     u32s ''reserved185'' (0x3F2 - 0x3EE - 1),
     u32s ''etmdevid'' 1,
     u32s ''etmdevtype'' 1,
     u32s ''etmpidr4'' 1,
     u32s ''etmpidr5'' 1,
     u32s ''etmpidr6'' 1,
     u32s ''etmpidr7'' 1,
     u32s ''etmpidr0'' 1,
     u32s ''etmpidr1'' 1,
     u32s ''etmpidr2'' 1,
     u32s ''etmpidr3'' 1,
     u32s ''etmcidr'' ETM_COMPONENT_IDENT_REGISTERS]"

interpretation etm_map: register_block etm "0x1000"
  by unfold_locales (simp_all add: etm_def struct_eval)

section \<open>struct funnel\<close>

text \<open>The trace funnel, \<open>dcsr_funnel.h\<close>.  \<open>FUNNEL_RESERVED (a, b)\<close> is an array of \<open>b - a - 4\<close> bytes.\<close>

definition funnel :: "field list" where
  "funnel =
    [u32s ''cr'' 1,
     u32s ''pcr'' 1,
     u8s ''reserved42'' (0xEEC - 0x004 - 4),
     u32s ''itatbdata0'' 1,
     u32s ''itatbctr2'' 1,
     u32s ''itatbctr1'' 1,
     u32s ''itatbctr0'' 1,
     u8s ''reserved51'' (0xF00 - 0xEF8 - 4),
     u32s ''imcr'' 1,
     u8s ''reserved54'' (0xFA0 - 0xF00 - 4),
     u32s ''ctsr'' 1,
     u32s ''ctcr'' 1,
     u8s ''reserved59'' (0xFB0 - 0xFA4 - 4),
     u32s ''lar'' 1,
     u32s ''lsr'' 1,
     u32s ''asr'' 1,
     u8s ''reserved66'' (0xFC8 - 0xFB8 - 4),
     u32s ''dir'' 1,
     u32s ''dtir'' 1,
     u32s ''pidr4'' 1,
     u32s ''pidr5'' 1,
     u32s ''pidr6'' 1,
     u32s ''pidr7'' 1,
     u32s ''pidr0'' 1,
     u32s ''pidr1'' 1,
     u32s ''pidr2'' 1,
     u32s ''pidr3'' 1,
     u32s ''cidr'' FUNNEL_COMPONENTS]"

interpretation funnel_map: register_block funnel "0x1000"
  by unfold_locales (simp_all add: funnel_def struct_eval)

section \<open>struct gdi\<close>

text \<open>The general debug interface, \<open>dcsr_gdi_ls1.h\<close>.\<close>

definition gdi :: "field list" where
  "gdi =
    [u32s ''gdcr'' 1,
     u32s ''gdsr'' 1,
     u8s ''reserved1'' (0xFF - 0x07),
     u32s ''gdrescr1'' 1,
     u32s ''gdrescr2'' 1,
     u8s ''reserved2'' (0x1FF - 0x107),
     u32s ''gdpescr'' GDI_LS1_NO_OF_GDI_EVNTS,
     u8s ''reserved3'' (0x2FF - 0x27F),
     Field ''gdgpc'' (struct_size gdgpc_struct) 1 GDI_LS1_NO_CMP_CNTRL_REG]"

interpretation gdi_map: register_block gdi "0x380"
  by unfold_locales (simp_all add: gdi_def struct_eval)

section \<open>struct core_pmu_struct\<close>

text \<open>The performance monitor of one core, \<open>dcsr_core_ls1.h\<close>.\<close>

definition core_pmu_struct :: "field list" where
  "core_pmu_struct =
    [u8s ''reserved'' 0x1000,
     u32s ''pmxevcntr'' LS_DBG_CORE_NUM_CNTRS,
     u8s ''reserved1'' (0x7B - 0xF),
     u32s ''pmccntr'' 1,
     u8s ''reserved2'' (0x3FF - 0x7F),
     u32s ''pmxevtyper'' LS_DBG_CORE_NUM_CNTRS,
     u8s ''reserved3'' (0x47B - 0x40F),
     u32s ''pmxevtyper31'' 1,
     u8s ''reserved4'' (0xBFF - 0x47F),
     u32s ''pmctenset'' 1,
     u8s ''reserved5'' (0xC1F - 0xC03),
     u32s ''pmcntenclr'' 1,
     u8s ''reserved6'' (0xC3F - 0xC23),
     u32s ''pmintenset'' 1,
     u8s ''reserved7'' (0xC5F - 0xC43),
     u32s ''pmintenclr'' 1,
     u8s ''reserved8'' (0xC7F - 0xC63),
     u32s ''pmovsr'' 1,
     u8s ''reserved9'' (0xC9F - 0xC83),
     u32s ''pmswinc'' 1,
     u8s ''reserved10'' (0xDFF - 0xCA3),
     u32s ''pmcfgr'' 1,
     u32s ''pmcr'' 1,
     u32s ''pmuserenr'' 1,
     u8s ''reserved11'' (0xE1F - 0xE0B),
     u32s ''pmceid'' LS_DBG_CORE_NUM_CM_EV_IDS,
     u8s ''reserved12'' (0xFAF - 0xE27),
     u32s ''pmlar'' 1,
     u32s ''pmlsr'' 1,
     u32s ''pmauthstatus'' 1,
     u8s ''reserved13'' (0xFCB - 0xFBB),
     u32s ''pmdevtype'' 1,
     u32s ''pmpid4'' 1,
     u32s ''pmpid5'' 1,
     u32s ''pmpid6'' 1,
     u32s ''pmpid7'' 1,
     u32s ''pmpid0'' 1,
     u32s ''pmpid1'' 1,
     u32s ''pmpid2'' 1,
     u32s ''pmpid3'' 1,
     u32s ''pmcid'' LS_DBG_CORE_NUM_PMC_IDS]"

interpretation core_pmu_map: register_block core_pmu_struct "0x2000"
  by unfold_locales (simp_all add: core_pmu_struct_def struct_eval)

end
