(* ===== verification/Reg_Access.thy ===== *)
theory Reg_Access
  imports Irq_Control Register_Maps
begin

text \<open>
  The character device of \<open>reg_access.c\<close>: register access by group and offset, for the driver
  itself (\<open>ls_dbg_read_reg_internal\<close>, \<open>ls_dbg_write_reg_internal\<close>) and for user space
  (\<open>reg_access\<close>), the reservation of counters, groups and events (\<open>resource_reserve\<close>), and the
  \<open>ioctl\<close> entry point.
\<close>

section \<open>Register access\<close>

definition ls_dbg_read_reg_internal :: "'h kernel \<Rightarrow> u32 \<Rightarrow> u32 \<Rightarrow> 'h driver \<Rightarrow> (u64, 'h driver) result" where
  "ls_dbg_read_reg_internal k i off d =
    (if IS_IO_MAPPED_MODULE i then read_reg_io k i off d
     else case reg_find_map_ram d i off of
         Inl e \<Rightarrow> Fail e d
       | Inr a \<Rightarrow> vcounter_reg_read k a d)"

definition ls_dbg_write_reg_internal ::
  "'h kernel \<Rightarrow> u32 \<Rightarrow> u32 \<Rightarrow> u64 \<Rightarrow> 'h driver \<Rightarrow> (unit, 'h driver) result" where
  "ls_dbg_write_reg_internal k i off v d =
    (if IS_IO_MAPPED_MODULE i then write_reg_io k i off v d
     else case reg_find_map_ram d i off of
         Inl e \<Rightarrow> Fail e d
       | Inr a \<Rightarrow> vcounter_reg_write k a v d)"

text \<open>User memory services return \<open>None\<close> for a fault; the buffer address is cut to a pointer.\<close>

definition put_user_state :: "('h \<Rightarrow> 'h option) \<Rightarrow> 'h driver \<Rightarrow> (unit, 'h driver) result" where
  "put_user_state put d = (case put (hw d) of None \<Rightarrow> Fail EFAULT d | Some h \<Rightarrow> Done () (d\<lparr>hw := h\<rparr>))"

definition reg_access :: "'h kernel \<Rightarrow> ioctl_cmd \<Rightarrow> u32 \<Rightarrow> 'h driver \<Rightarrow> (unit, 'h driver) result" where
  "reg_access k cmd arg d =
    (case copy_reg_access k arg (hw d) of
       None \<Rightarrow> Fail EFAULT d
     | Some ra \<Rightarrow>
       if reg_size ra \<noteq> 32 \<and> reg_size ra \<noteq> 64 then Fail EINVAL d
       else let buf_addr = ucast (buffer ra) :: u32 in
       (case cmd of
          DBG_READ_REG \<Rightarrow>
            and_then (ls_dbg_read_reg_internal k (module_id ra) (offset ra) d) (\<lambda>val d.
            if reg_size ra = 32 then put_user_state (put_user32 k (ucast val) buf_addr) d
            else put_user_state (put_user64 k val buf_addr) d)
        | DBG_WRITE_REG \<Rightarrow>
            (case (if reg_size ra = 32 then map_option ucast (get_user32 k buf_addr (hw d))
                   else copy_user64 k buf_addr (hw d)) of
               None \<Rightarrow> Fail EFAULT d
             | Some val \<Rightarrow> ls_dbg_write_reg_internal k (module_id ra) (offset ra) val d)
        | _ \<Rightarrow> Fail ENOTTY d))"

section \<open>Resource reservation\<close>

text \<open>The reservation registers of \<open>reg_access.h\<close>, counted from the end of \<open>eprsrv\<close>.\<close>

primrec res_offset_ind :: "RESOURCE_GROUP_ID \<Rightarrow> nat" where
  "res_offset_ind LSDBG_RES_EPU_COUNTER = 0"
| "res_offset_ind LSDBG_RES_EPU_GROUP = 4"
| "res_offset_ind LSDBG_RES_SCU_EVENT = 8"
| "res_offset_ind LSDBG_RES_GDPESCR = 32"

text \<open>The bound that the switch of \<open>resource_reserve\<close> puts on the index; the one of the last group is
  the number of SCU events.\<close>

primrec res_limit :: "RESOURCE_GROUP_ID \<Rightarrow> nat" where
  "res_limit LSDBG_RES_EPU_COUNTER = EPU_V2_NO_OF_COUNTERS"
| "res_limit LSDBG_RES_EPU_GROUP = EPU_V2_NO_OF_COUNTER_GROUPS"
| "res_limit LSDBG_RES_SCU_EVENT = EPU_V2_NO_OF_SCU_EVENTS"
| "res_limit LSDBG_RES_GDPESCR = EPU_V2_NO_OF_SCU_EVENTS"

definition eprsrv_at :: nat where
  "eprsrv_at = (case offset_of epu_v2 ''eprsrv'' of Some p \<Rightarrow> p | None \<Rightarrow> 0)"

definition reserv_addr :: "RESOURCE_GROUP_ID \<Rightarrow> 'h driver \<Rightarrow> u32" where
  "reserv_addr g d =
    epu_ptr d + of_nat (eprsrv_at + (EPU_V2_NO_RESRV_REGS - 1 - res_offset_ind g) * 4)"

text \<open>Without an EPU the pointer is null and the access to the register is undefined.\<close>

definition reserv_read :: "'h kernel \<Rightarrow> u32 \<Rightarrow> 'h driver \<Rightarrow> (u32, 'h driver) result" where
  "reserv_read k a d =
    (if epu_ptr d = 0 then Undef
     else let (v, h) = ioread32 k a (hw d) in Done v (d\<lparr>hw := h\<rparr>))"

definition reserv_write :: "'h kernel \<Rightarrow> u32 \<Rightarrow> u32 \<Rightarrow> 'h driver \<Rightarrow> (unit, 'h driver) result" where
  "reserv_write k v a d = (if epu_ptr d = 0 then Undef else Done () (d\<lparr>hw := iowrite32 k v a (hw d)\<rparr>))"

text \<open>The three operations on a reservation register.\<close>

definition res_reserve :: "'h kernel \<Rightarrow> u32 \<Rightarrow> u32 \<Rightarrow> 'h driver \<Rightarrow> (unit, 'h driver) result" where
  "res_reserve k a val_32b d =
    and_then (lock_reg_acc d) (\<lambda>_ d.
    on_exit unlock_reg_acc (and_then (reserv_read k a d) (\<lambda>prev_val d.
      if prev_val AND val_32b \<noteq> 0 then Fail EBUSY d
      else reserv_write k (prev_val OR val_32b) a d)))"

definition res_relinq :: "'h kernel \<Rightarrow> u32 \<Rightarrow> u32 \<Rightarrow> 'h driver \<Rightarrow> (unit, 'h driver) result" where
  "res_relinq k a val_32b d =
    and_then (lock_reg_acc d) (\<lambda>_ d.
    on_exit unlock_reg_acc (and_then (reserv_read k a d) (\<lambda>prev_val d.
      if prev_val AND val_32b = 0 then Fail EPERM d
      else reserv_write k (prev_val AND NOT val_32b) a d)))"

definition res_get_usage :: "'h kernel \<Rightarrow> u32 \<Rightarrow> u32 \<Rightarrow> 'h driver \<Rightarrow> (unit, 'h driver) result" where
  "res_get_usage k a buf_addr d =
    (if buf_addr = 0 then Fail EINVAL d
     else and_then (reserv_read k a d) (\<lambda>val_32b d. put_user_state (put_user32 k val_32b buf_addr) d))"

text \<open>
  \<open>resource_reserve\<close> after the copy of the request.  The code shifts the index before it checks it;
  the mask of an index that fails the check is not used.  The mask is an \<open>int\<close> that is extended to
  64 bits and cut to 32 again.
\<close>

definition resource_op ::
  "'h kernel \<Rightarrow> ioctl_cmd \<Rightarrow> resource_reservation \<Rightarrow> 'h driver \<Rightarrow> (unit, 'h driver) result" where
  "resource_op k cmd r d =
    (let indx_mask = scast (push_bit (unat (res_index r)) 1 :: u32) :: u64 in
     case resource_group (resource_grp_id r) of
       None \<Rightarrow> Fail EINVAL d
     | Some g \<Rightarrow>
       if of_nat (res_limit g) \<le> res_index r then Fail EINVAL d
       else let reg_io_addr = reserv_addr g d in
       (case cmd of
          LS_DBG_RES_RESERVE \<Rightarrow> res_reserve k reg_io_addr (ucast indx_mask) d
        | LS_DBG_RES_RELINQ \<Rightarrow> res_relinq k reg_io_addr (ucast indx_mask) d
        | LS_DBG_RES_GET_USAGE \<Rightarrow> res_get_usage k reg_io_addr (res_usage r) d
        | _ \<Rightarrow> Fail ENOTTY d))"

definition resource_reserve :: "'h kernel \<Rightarrow> ioctl_cmd \<Rightarrow> u32 \<Rightarrow> 'h driver \<Rightarrow> (unit, 'h driver) result" where
  "resource_reserve k cmd arg d =
    (case copy_reservation k arg (hw d) of
       None \<Rightarrow> Fail EFAULT d
     | Some reserv \<Rightarrow> resource_op k cmd reserv d)"

definition reg_access_ioctl :: "'h kernel \<Rightarrow> ioctl_cmd \<Rightarrow> u32 \<Rightarrow> 'h driver \<Rightarrow> (unit, 'h driver) result" where
  "reg_access_ioctl k cmd arg d =
    (if cmd = DBG_READ_REG \<or> cmd = DBG_WRITE_REG then reg_access k cmd arg d
     else resource_reserve k cmd arg d)"

section \<open>The driver's own accesses\<close>

lemma IO_EPU: "IS_IO_MAPPED_MODULE (module_code EPU)"
  by (simp add: IS_IO_MAPPED_MODULE_def NUM_IO_IDS_def)

lemma not_IO_VCOUNT: "\<not> IS_IO_MAPPED_MODULE (module_code VCOUNT)"
  by (simp add: IS_IO_MAPPED_MODULE_def NUM_IO_IDS_def)

text \<open>The accesses of the virtual counter code are calls of the two functions above.\<close>

lemma internal_epu:
  "ls_dbg_read_reg_internal k (module_code EPU) off d = epu_read k off d"
  "ls_dbg_write_reg_internal k (module_code EPU) off v d = epu_write k off v d"
  by (simp_all add: ls_dbg_read_reg_internal_def ls_dbg_write_reg_internal_def IO_EPU epu_read_def
      epu_write_def del: module_code.simps)

lemma eprsrv_offset [simp, layout_simps]: "eprsrv_at = 0xF00"
  by (simp add: eprsrv_at_def offset_of_def epu_v2_def struct_eval)

end
