(* ===== verification/Res_Table.thy ===== *)
theory Res_Table
  imports Prelude
begin

text \<open>
  The contract of the reservation service, independent of registers and locks: a table of sets of
  indexes, one per group, and two requests.  \<open>spec_step\<close> is what a request answers and does;
  \<open>reservations\<close> is the simulation that an implementation has to provide, and the place where runs
  of requests are reasoned about.
\<close>

datatype 'g res_req = Reserve 'g u32 | Relinquish 'g u32

type_synonym 'g table = "'g \<Rightarrow> nat set"

fun spec_step :: "('g \<Rightarrow> nat) \<Rightarrow> 'g res_req \<Rightarrow> 'g table \<Rightarrow> errno option \<times> 'g table" where
  "spec_step lim (Reserve g n) t =
    (if lim g \<le> unat n then (Some EINVAL, t)
     else if unat n \<in> t g then (Some EBUSY, t)
     else (None, t(g := insert (unat n) (t g))))"
| "spec_step lim (Relinquish g n) t =
    (if lim g \<le> unat n then (Some EINVAL, t)
     else if unat n \<notin> t g then (Some EPERM, t)
     else (None, t(g := t g - {unat n})))"

fun spec_run :: "('g \<Rightarrow> nat) \<Rightarrow> 'g res_req list \<Rightarrow> 'g table \<Rightarrow> errno option list \<times> 'g table" where
  "spec_run lim [] t = ([], t)"
| "spec_run lim (r # rs) t =
    (let (e, t') = spec_step lim r t; (es, t'') = spec_run lim rs t' in (e # es, t''))"

text \<open>A run of an implementation: the error of each request, \<open>None\<close> for success; no result when a
  request does not return.\<close>

fun run_ops :: "('r \<Rightarrow> 's \<Rightarrow> (unit, 's) result) \<Rightarrow> 'r list \<Rightarrow> 's \<Rightarrow> (errno option list \<times> 's) option" where
  "run_ops f [] s = Some ([], s)"
| "run_ops f (r # rs) s =
    (case f r s of
       Done _ s' \<Rightarrow> map_option (\<lambda>(es, t). (None # es, t)) (run_ops f rs s')
     | Fail e s' \<Rightarrow> map_option (\<lambda>(es, t). (Some e # es, t)) (run_ops f rs s')
     | Spin \<Rightarrow> None
     | Undef \<Rightarrow> None)"

text \<open>The request \<open>r\<close> takes the index \<open>n\<close> of group \<open>g\<close>, or gives it back.\<close>

fun takes :: "'g \<Rightarrow> nat \<Rightarrow> 'g res_req \<Rightarrow> bool" where
  "takes g n (Reserve h m) = (h = g \<and> unat m = n)"
| "takes g n (Relinquish h m) = False"

fun gives :: "'g \<Rightarrow> nat \<Rightarrow> 'g res_req \<Rightarrow> bool" where
  "gives g n (Relinquish h m) = (h = g \<and> unat m = n)"
| "gives g n (Reserve h m) = False"

lemma spec_step_mem:
  "spec_step lim r t = (None, t') \<Longrightarrow>
    n \<in> t' g \<longleftrightarrow> takes g n r \<or> n \<in> t g \<and> \<not> gives g n r"
  by (cases r) (auto split: if_splits)

lemma spec_step_fail: "spec_step lim r t = (Some e, t') \<Longrightarrow> t' = t"
  by (cases r) (auto split: if_splits)

lemma spec_step_takes: "spec_step lim r t = (None, t') \<Longrightarrow> takes g n r \<Longrightarrow> n \<notin> t g \<and> n < lim g"
  by (cases r) (auto split: if_splits)

lemma length_spec_run: "length (fst (spec_run lim rs t)) = length rs"
  by (induction rs arbitrary: t) (auto simp: Let_def split: prod.splits, metis fst_conv)

text \<open>While an index is taken, and until somebody gives it back, nobody else can take it.\<close>

lemma spec_run_held:
  assumes "n \<in> t g" and "j < length rs" and "takes g n (rs ! j)"
    and "fst (spec_run lim rs t) ! j = None"
  shows "\<exists>i<j. gives g n (rs ! i) \<and> fst (spec_run lim rs t) ! i = None"
  using assms
proof (induction rs arbitrary: t j)
  case Nil
  then show ?case by simp
next
  case (Cons r rs)
  obtain e t' where step: "spec_step lim r t = (e, t')" by force
  have run: "fst (spec_run lim (r # rs) t) = e # fst (spec_run lim rs t')"
    by (simp add: step split_beta)
  show ?case
  proof (cases j)
    case 0
    then have "spec_step lim r t = (None, t')" "takes g n r" using Cons.prems run step by simp_all
    then show ?thesis using spec_step_takes Cons.prems(1) by metis
  next
    case (Suc m)
    show ?thesis
    proof (cases "e = None \<and> gives g n r")
      case True
      then show ?thesis using run Suc by (intro exI [of _ 0]) simp
    next
      case False
      then have "n \<in> t' g"
        using Cons.prems(1) step spec_step_mem [of lim r t t' n g] spec_step_fail [of lim r t _ t']
        by (cases e) auto
      then obtain i where "i < m" "gives g n (rs ! i)" "fst (spec_run lim rs t') ! i = None"
        using Cons.IH [of t' m] Cons.prems Suc run by auto
      then show ?thesis using run Suc by (intro exI [of _ "Suc i"]) simp
    qed
  qed
qed

lemma spec_run_exclusive:
  assumes "i < j" and "j < length rs" and "takes g n (rs ! i)" and "takes g n (rs ! j)"
    and "fst (spec_run lim rs t) ! i = None" and "fst (spec_run lim rs t) ! j = None"
  shows "\<exists>l. i < l \<and> l < j \<and> gives g n (rs ! l) \<and> fst (spec_run lim rs t) ! l = None"
  using assms
proof (induction rs arbitrary: t i j)
  case Nil
  then show ?case by simp
next
  case (Cons r rs)
  obtain e t' where step: "spec_step lim r t = (e, t')" by force
  have run: "fst (spec_run lim (r # rs) t) = e # fst (spec_run lim rs t')"
    by (simp add: step split_beta)
  obtain m where m: "j = Suc m" using Cons.prems(1) by (cases j) auto
  show ?case
  proof (cases i)
    case 0
    then have "n \<in> t' g" using Cons.prems(3,5) run step spec_step_mem [of lim r t t' n g] by simp
    then obtain l where "l < m" "gives g n (rs ! l)" "fst (spec_run lim rs t') ! l = None"
      using spec_run_held [of n t' g m rs lim] Cons.prems m run by auto
    then show ?thesis using run m 0 by (intro exI [of _ "Suc l"]) simp
  next
    case (Suc p)
    then obtain l where "p < l" "l < m" "gives g n (rs ! l)" "fst (spec_run lim rs t') ! l = None"
      using Cons.IH [of p m t'] Cons.prems m run by auto
    then show ?thesis using run m Suc by (intro exI [of _ "Suc l"]) simp
  qed
qed

locale reservations =
  fixes req :: "'g res_req \<Rightarrow> 's \<Rightarrow> (unit, 's) result"
    and lim :: "'g \<Rightarrow> nat"
    and ok :: "'s \<Rightarrow> bool"
    and taken :: "'s \<Rightarrow> 'g table"
  assumes simulates: "ok s \<Longrightarrow>
    holds (\<lambda>_ s'. ok s' \<and> spec_step lim r (taken s) = (None, taken s'))
      (\<lambda>e s'. ok s' \<and> spec_step lim r (taken s) = (Some e, taken s')) (req r s)"
begin

lemma run_refines:
  assumes "ok s"
  shows "\<exists>s'. run_ops req rs s = Some (fst (spec_run lim rs (taken s)), s') \<and> ok s' \<and>
    taken s' = snd (spec_run lim rs (taken s))"
  using assms
proof (induction rs arbitrary: s)
  case Nil
  then show ?case by simp
next
  case (Cons r rs)
  show ?case
  proof (cases "req r s")
    case (Done a s1)
    with simulates [OF Cons.prems, of r] have "ok s1"
      and step: "spec_step lim r (taken s) = (None, taken s1)" by auto
    then show ?thesis using Cons.IH [of s1] Done by (auto simp: split_beta)
  next
    case (Fail e s1)
    with simulates [OF Cons.prems, of r] have "ok s1"
      and step: "spec_step lim r (taken s) = (Some e, taken s1)" by auto
    then show ?thesis using Cons.IH [of s1] Fail by (auto simp: split_beta)
  qed (use simulates [OF Cons.prems, of r] in auto)
qed

lemma run_exclusive:
  assumes "ok s" and "run_ops req rs s = Some (es, s')" and "i < j" and "j < length rs"
    and "takes g n (rs ! i)" and "takes g n (rs ! j)" and "es ! i = None" and "es ! j = None"
  shows "\<exists>l. i < l \<and> l < j \<and> gives g n (rs ! l) \<and> es ! l = None"
  using run_refines [OF assms(1), of rs] spec_run_exclusive [OF assms(3-6), of lim "taken s"] assms
  by auto

end

end
