(* ===== verification/Reserve.thy ===== *)
theory Reserve
  imports Reg_Access Res_Table
begin

text \<open>
  \<open>resource_reserve\<close> keeps the contract of \<open>Res_Table\<close>: the bit of a reservation register is the
  membership of the index, reserving inserts, relinquishing removes.  The theorems assume what the
  register map says of the reservation registers, that they are storage.
\<close>

text \<open>Each of the addresses \<open>A\<close> holds the last value written to it, reading has no effect.\<close>

definition storage :: "'h kernel \<Rightarrow> u32 set \<Rightarrow> bool" where
  "storage k A \<longleftrightarrow>
    (\<forall>a\<in>A. \<forall>h. snd (ioread32 k a h) = h \<and>
      (\<forall>v. \<forall>b\<in>A. fst (ioread32 k b (iowrite32 k v a h)) = (if b = a then v else fst (ioread32 k b h))))"

definition reserv_addrs :: "'h driver \<Rightarrow> u32 set" where
  "reserv_addrs d = range (\<lambda>g. reserv_addr g d)"

definition reserv_ready :: "'h kernel \<Rightarrow> 'h driver \<Rightarrow> bool" where
  "reserv_ready k d \<longleftrightarrow> epu_ptr d \<noteq> 0 \<and> \<not> reg_acc_lock d \<and> storage k (reserv_addrs d)"

text \<open>The indexes of a group that are reserved: the one bits of the group's register.\<close>

definition reserved :: "'h kernel \<Rightarrow> 'h driver \<Rightarrow> RESOURCE_GROUP_ID table" where
  "reserved k d g = {n. bit (fst (ioread32 k (reserv_addr g d) (hw d))) n}"

text \<open>A request as the record that user space passes in.\<close>

fun reserv_op :: "'h kernel \<Rightarrow> RESOURCE_GROUP_ID res_req \<Rightarrow> 'h driver \<Rightarrow> (unit, 'h driver) result" where
  "reserv_op k (Reserve g n) =
    resource_op k LS_DBG_RES_RESERVE \<lparr>resource_grp_id = group_code g, res_index = n, res_usage = 0\<rparr>"
| "reserv_op k (Relinquish g n) =
    resource_op k LS_DBG_RES_RELINQ \<lparr>resource_grp_id = group_code g, res_index = n, res_usage = 0\<rparr>"

section \<open>Masks\<close>

lemma ucast_scast_mask [simp]: "ucast (scast x :: u64) = x" for x :: u32
  by (rule bit_word_eqI) (simp add: bit_simps)

lemma one_bit: "bit (2 ^ m :: u32) n \<longleftrightarrow> n = m \<and> m < 32"
  by (auto simp: bit_exp_iff)

lemma bits_set: "m < 32 \<Longrightarrow> {n. bit (x OR 2 ^ m) n} = insert m {n. bit x n}" for x :: u32
  by (auto simp: bit_or_iff one_bit)

lemma bits_clear: "{n. bit (x AND NOT (2 ^ m)) n} = {n. bit x n} - {m}" for x :: u32
  by (auto simp: bit_and_iff bit_not_iff one_bit dest: bit_imp_le_length)

lemma bit_test: "x AND 2 ^ m = 0 \<longleftrightarrow> \<not> bit x m" for x :: u32
proof -
  have "bit (x AND 2 ^ m) n \<longleftrightarrow> n = m \<and> bit x m" for n
    by (auto simp: bit_and_iff one_bit dest: bit_imp_le_length)
  then show ?thesis by (metis bit_0_eq bot_apply bot_bool_def bit_word_eqI)
qed

section \<open>Addresses\<close>

lemma reserv_addr_inj [simp]: "reserv_addr g d = reserv_addr h d \<longleftrightarrow> g = h"
  by (cases g; cases h) (simp_all add: reserv_addr_def)

lemma reserv_addr_frame [simp, frame_simps]:
  "reserv_addr g (d\<lparr>hw := w\<rparr>) = reserv_addr g d" "reserv_addr g (d\<lparr>reg_acc_lock := b\<rparr>) = reserv_addr g d"
  "reserv_addrs (d\<lparr>hw := w\<rparr>) = reserv_addrs d" "reserv_addrs (d\<lparr>reg_acc_lock := b\<rparr>) = reserv_addrs d"
  by (simp_all add: reserv_addr_def reserv_addrs_def)

lemma reserv_ready_hw [simp]: "reserv_ready k (d\<lparr>hw := w\<rparr>) = reserv_ready k d"
  by (simp add: reserv_ready_def)

lemma reserv_addr_mem [simp]: "reserv_addr g d \<in> reserv_addrs d"
  by (simp add: reserv_addrs_def)

lemma storage_read:
  "storage k (reserv_addrs d) \<Longrightarrow> snd (ioread32 k (reserv_addr g d) h) = h"
  by (simp add: storage_def)

lemma storage_write:
  "storage k (reserv_addrs d) \<Longrightarrow>
    fst (ioread32 k (reserv_addr g' d) (iowrite32 k v (reserv_addr g d) h)) =
      (if g' = g then v else fst (ioread32 k (reserv_addr g' d) h))"
  by (simp add: storage_def)

text \<open>A store to one register changes one set of the table.\<close>

lemma reserved_write:
  assumes "storage k (reserv_addrs d)"
  shows "reserved k (d\<lparr>hw := iowrite32 k v (reserv_addr g d) (hw d)\<rparr>) =
    (reserved k d)(g := {n. bit v n})"
  using assms by (auto simp: reserved_def fun_eq_iff storage_write)

section \<open>The contract\<close>

lemma res_reserve_eq:
  assumes "reserv_ready k d" and "m < 32"
  shows "res_reserve k (reserv_addr g d) (2 ^ m) d =
    (if m \<in> reserved k d g then Fail EBUSY d
     else Done () (d\<lparr>hw := iowrite32 k (fst (ioread32 k (reserv_addr g d) (hw d)) OR 2 ^ m)
       (reserv_addr g d) (hw d)\<rparr>))"
  using assms
  by (simp add: res_reserve_def lock_reg_acc_def unlock_reg_acc_def reserv_ready_def reserv_read_def
      reserv_write_def split_beta storage_read bit_test reserved_def)

lemma res_relinq_eq:
  assumes "reserv_ready k d" and "m < 32"
  shows "res_relinq k (reserv_addr g d) (2 ^ m) d =
    (if m \<notin> reserved k d g then Fail EPERM d
     else Done () (d\<lparr>hw := iowrite32 k (fst (ioread32 k (reserv_addr g d) (hw d)) AND NOT (2 ^ m))
       (reserv_addr g d) (hw d)\<rparr>))"
  using assms
  by (simp add: res_relinq_def lock_reg_acc_def unlock_reg_acc_def reserv_ready_def reserv_read_def
      reserv_write_def split_beta storage_read bit_test reserved_def)

lemma res_limit_le: "res_limit g \<le> 32"
  by (cases g) simp_all

lemma limit_check: "of_nat (res_limit g) \<le> (n :: u32) \<longleftrightarrow> res_limit g \<le> unat n"
  by (cases g) (simp_all add: word_le_nat_alt)

lemma reserv_op_eq:
  "reserv_op k (Reserve g n) d =
    (if res_limit g \<le> unat n then Fail EINVAL d
     else res_reserve k (reserv_addr g d) (2 ^ unat n) d)"
  "reserv_op k (Relinquish g n) d =
    (if res_limit g \<le> unat n then Fail EINVAL d
     else res_relinq k (reserv_addr g d) (2 ^ unat n) d)"
  by (simp_all add: resource_op_def limit_check Let_def)

interpretation reserv: reservations "reserv_op k" res_limit "reserv_ready k" "reserved k" for k
proof
  fix d r
  assume ready: "reserv_ready k d"
  then have st: "storage k (reserv_addrs d)" by (simp add: reserv_ready_def)
  have same: "{n. bit (fst (ioread32 k (reserv_addr g d) (hw d))) n} = reserved k d g" for g
    by (simp add: reserved_def)
  have lt: "\<not> res_limit g \<le> unat n \<Longrightarrow> unat n < 32" for g and n :: u32
    using res_limit_le [of g] by linarith
  show "holds (\<lambda>_ d'. reserv_ready k d' \<and> spec_step res_limit r (reserved k d) = (None, reserved k d'))
      (\<lambda>e d'. reserv_ready k d' \<and> spec_step res_limit r (reserved k d) = (Some e, reserved k d'))
      (reserv_op k r d)"
  proof (cases r)
    case (Reserve g n)
    then show ?thesis
      using ready lt [of g n]
      by (simp add: reserv_op_eq res_reserve_eq reserved_write [OF st] bits_set same del: reserv_op.simps)
  next
    case (Relinquish g n)
    then show ?thesis
      using ready lt [of g n]
      by (simp add: reserv_op_eq res_relinq_eq reserved_write [OF st] bits_clear same del: reserv_op.simps)
  qed
qed

section \<open>What user space sees\<close>

text \<open>C8: The reservation service is a table of sets.  With the EPU found, the register lock free and the
  reservation registers plain storage, every sequence of reserve and relinquish requests returns, gives
  exactly the answers of the abstract table of sets (success, \<open>EBUSY\<close> for an index already taken,
  \<open>EPERM\<close> for giving back a free one, \<open>EINVAL\<close> for an index beyond the group), leaves the registers
  holding exactly the table's sets, and leaves the lock free.\<close>

theorem reservations_refine_sets:
  assumes "reserv_ready k d"
  shows "\<exists>d'. run_ops (reserv_op k) rs d = Some (fst (spec_run res_limit rs (reserved k d)), d') \<and>
    reserv_ready k d' \<and> reserved k d' = snd (spec_run res_limit rs (reserved k d))"
  by (rule reserv.run_refines [OF assms])

lemma range_group: "range f = {f LSDBG_RES_EPU_COUNTER, f LSDBG_RES_EPU_GROUP, f LSDBG_RES_SCU_EVENT, f LSDBG_RES_GDPESCR}"
proof -
  have all: "UNIV = {LSDBG_RES_EPU_COUNTER, LSDBG_RES_EPU_GROUP, LSDBG_RES_SCU_EVENT, LSDBG_RES_GDPESCR}"
    using RESOURCE_GROUP_ID.exhaust by blast
  show ?thesis unfolding all image_insert image_empty by (rule refl)
qed

lemma reserv_addr_bench [simp]:
  "reserv_addr g (bench_driver h) = 0x90000F00 + of_nat ((59 - res_offset_ind g) * 4)"
  by (cases g) (simp_all add: reserv_addr_def)

lemma storage_bench [simp]: "storage bench_kernel (reserv_addrs (bench_driver h))"
  by (simp add: storage_def reserv_addrs_def range_group bench_write_def)

lemma reserv_ready_bench [simp]: "reserv_ready bench_kernel (bench_driver h)"
  by (simp add: reserv_ready_def)

lemma reserved_bench: "reserved bench_kernel (bench_driver bench_world) g = {}"
  by (simp add: reserved_def bench_world_def)

text \<open>The sequence of the driver's own test program \<open>resource_res_normal\<close>.\<close>

definition res_normal :: "RESOURCE_GROUP_ID res_req list" where
  "res_normal =
    [Reserve LSDBG_RES_EPU_COUNTER 15, Reserve LSDBG_RES_EPU_COUNTER 31,
     Reserve LSDBG_RES_EPU_COUNTER 0, Reserve LSDBG_RES_EPU_COUNTER 1,
     Relinquish LSDBG_RES_EPU_COUNTER 15, Reserve LSDBG_RES_EPU_COUNTER 1,
     Relinquish LSDBG_RES_EPU_COUNTER 5]"

lemma reservations_refine_sets_witness:
  "\<exists>d'. run_ops (reserv_op bench_kernel) res_normal (bench_driver bench_world) =
      Some ([None, None, None, None, None, Some EBUSY, Some EPERM], d') \<and>
    reserved bench_kernel d' LSDBG_RES_EPU_COUNTER = {0, 1, 31}"
  using reservations_refine_sets [of bench_kernel "bench_driver bench_world" res_normal]
  by (auto simp: res_normal_def reserved_bench)

text \<open>C13: Two requests for the same index of the same group never both succeed unless the index was
  given back in between, whatever other requests are mixed in.\<close>

theorem reservation_exclusive:
  assumes "reserv_ready k d" and "run_ops (reserv_op k) rs d = Some (es, d')"
    and "i < j" and "j < length rs" and "takes g n (rs ! i)" and "takes g n (rs ! j)"
    and "es ! i = None" and "es ! j = None"
  shows "\<exists>l. i < l \<and> l < j \<and> gives g n (rs ! l) \<and> es ! l = None"
  by (rule reserv.run_exclusive [OF assms])

lemma reservation_exclusive_witness:
  "\<exists>es d'. run_ops (reserv_op bench_kernel)
      [Reserve LSDBG_RES_SCU_EVENT 3, Relinquish LSDBG_RES_SCU_EVENT 3, Reserve LSDBG_RES_SCU_EVENT 3]
      (bench_driver bench_world) = Some (es, d') \<and>
    (\<exists>l>0. l < 2 \<and> es ! l = None)"
proof -
  let ?rs = "[Reserve LSDBG_RES_SCU_EVENT 3, Relinquish LSDBG_RES_SCU_EVENT 3, Reserve LSDBG_RES_SCU_EVENT 3]"
  have "fst (spec_run res_limit ?rs (reserved bench_kernel (bench_driver bench_world))) = [None, None, None]"
    by (simp add: reserved_bench)
  with reserv.run_refines [OF reserv_ready_bench [of bench_world], of ?rs] obtain d' where
      run: "run_ops (reserv_op bench_kernel) ?rs (bench_driver bench_world) = Some ([None, None, None], d')"
    by auto
  have "\<exists>l. 0 < l \<and> l < 2 \<and> gives LSDBG_RES_SCU_EVENT 3 (?rs ! l) \<and> [None, None, None] ! l = (None :: errno option)"
    by (rule reservation_exclusive [OF reserv_ready_bench run]) simp_all
  then show ?thesis using run by blast
qed

text \<open>C22: The requests that \<open>resource_reserve\<close> refuses before it touches a register: a request record
  that cannot be read (\<open>EFAULT\<close>), an unknown group or an index beyond the group's limit (\<open>EINVAL\<close>),
  another command (\<open>ENOTTY\<close>), and a usage query with a null buffer (\<open>EINVAL\<close>).  Nothing changes, with
  or without an EPU and whoever holds the lock.\<close>

theorem resource_reserve_refuses:
  "case copy_reservation k arg (hw d) of
     None \<Rightarrow> resource_reserve k cmd arg d = Fail EFAULT d
   | Some r \<Rightarrow>
      (resource_group (resource_grp_id r) = None \<longrightarrow> resource_reserve k cmd arg d = Fail EINVAL d) \<and>
      (\<forall>g. resource_group (resource_grp_id r) = Some g \<longrightarrow>
        (res_limit g \<le> unat (res_index r) \<longrightarrow> resource_reserve k cmd arg d = Fail EINVAL d) \<and>
        (unat (res_index r) < res_limit g \<and>
          cmd \<notin> {LS_DBG_RES_RESERVE, LS_DBG_RES_RELINQ, LS_DBG_RES_GET_USAGE} \<longrightarrow>
          resource_reserve k cmd arg d = Fail ENOTTY d) \<and>
        (cmd = LS_DBG_RES_GET_USAGE \<and> res_usage r = 0 \<longrightarrow> resource_reserve k cmd arg d = Fail EINVAL d))"
  by (auto simp: resource_reserve_def resource_op_def Let_def limit_check res_get_usage_def
      split: option.split ioctl_cmd.split)

text \<open>The requests of the test program \<open>resource_res_error\<close>, an unknown command, a null buffer.\<close>

definition bench_request :: "u32 \<Rightarrow> u32 \<Rightarrow> u32 \<Rightarrow> bench driver" where
  "bench_request g n u =
    bench_driver (bench_world\<lparr>user_rr := Some \<lparr>resource_grp_id = g, res_index = n, res_usage = u\<rparr>\<rparr>)"

lemma bench_request_simps [simp]:
  "user_rr (hw (bench_request g n u)) = Some \<lparr>resource_grp_id = g, res_index = n, res_usage = u\<rparr>"
  "user_mem (hw (bench_request g n u)) = user_mem bench_world"
  "regs (hw (bench_request g n u)) = regs bench_world"
  "epu_ptr (bench_request g n u) = 0x90000000"
  "reserv_addr h (bench_request g n u) = 0x90000F00 + of_nat ((59 - res_offset_ind h) * 4)"
  by (simp_all only: bench_request_def reserv_addr_bench) simp_all

lemma resource_reserve_refuses_witness:
  "resource_reserve bench_kernel LS_DBG_RES_RESERVE 0 (bench_request 0x1000 15 0) =
      Fail EINVAL (bench_request 0x1000 15 0) \<and>
    resource_reserve bench_kernel LS_DBG_RES_RESERVE 0 (bench_request 0 0xFF 0) =
      Fail EINVAL (bench_request 0 0xFF 0) \<and>
    resource_reserve bench_kernel (Other_cmd 0) 0 (bench_request 0 1 0) =
      Fail ENOTTY (bench_request 0 1 0) \<and>
    resource_reserve bench_kernel LS_DBG_RES_GET_USAGE 0 (bench_request 0 1 0) =
      Fail EINVAL (bench_request 0 1 0)"
  using resource_reserve_refuses [of bench_kernel LS_DBG_RES_RESERVE 0 "bench_request 0x1000 15 0"]
    resource_reserve_refuses [of bench_kernel LS_DBG_RES_RESERVE 0 "bench_request 0 0xFF 0"]
    resource_reserve_refuses [of bench_kernel "Other_cmd 0" 0 "bench_request 0 1 0"]
    resource_reserve_refuses [of bench_kernel LS_DBG_RES_GET_USAGE 0 "bench_request 0 1 0"]
  by (auto simp: resource_group_def)

text \<open>C23: A usage query delivers the group's set: it stores in the caller's buffer the word whose one
  bits are the reserved indexes, or returns \<open>EFAULT\<close> when the buffer cannot be written.  It takes no
  lock, so it also returns while another caller holds it.\<close>

theorem usage_reports_reserved:
  assumes "epu_ptr d \<noteq> 0" and "storage k (reserv_addrs d)" and "buf \<noteq> 0" and "unat n < res_limit g"
  shows "\<exists>v. {m. bit v m} = reserved k d g \<and>
    resource_op k LS_DBG_RES_GET_USAGE
      \<lparr>resource_grp_id = group_code g, res_index = n, res_usage = buf\<rparr> d =
    (case put_user32 k v buf (hw d) of None \<Rightarrow> Fail EFAULT d | Some h \<Rightarrow> Done () (d\<lparr>hw := h\<rparr>))"
  using assms
  by (intro exI [of _ "fst (ioread32 k (reserv_addr g d) (hw d))"])
    (simp add: resource_op_def Let_def limit_check not_le [symmetric] res_get_usage_def reserv_read_def
      split_beta storage_read put_user_state_def reserved_def split: option.split)

definition bench_usage :: "bench driver" where
  "bench_usage =
    bench_driver (bench_world\<lparr>regs := (\<lambda>a. 0)(0x90000FCC := 5), user_mem := (\<lambda>a. Some 0)\<rparr>)"

lemma usage_reports_reserved_witness:
  "\<exists>(v :: u32) d'. resource_op bench_kernel LS_DBG_RES_GET_USAGE
      \<lparr>resource_grp_id = group_code LSDBG_RES_SCU_EVENT, res_index = 0, res_usage = 0x1000\<rparr> bench_usage =
      Done () d' \<and>
    user_mem (hw d') 0x1000 = Some (ucast v) \<and>
    {m. bit v m} = reserved bench_kernel bench_usage LSDBG_RES_SCU_EVENT"
proof -
  have usage: "user_mem (hw bench_usage) = (\<lambda>a. Some 0)" "epu_ptr bench_usage \<noteq> 0"
    "storage bench_kernel (reserv_addrs bench_usage)"
    by (simp_all add: bench_usage_def)
  obtain v where v: "{m. bit v m} = reserved bench_kernel bench_usage LSDBG_RES_SCU_EVENT"
    "resource_op bench_kernel LS_DBG_RES_GET_USAGE
      \<lparr>resource_grp_id = group_code LSDBG_RES_SCU_EVENT, res_index = 0, res_usage = 0x1000\<rparr> bench_usage =
      (case put_user32 bench_kernel v 0x1000 (hw bench_usage) of None \<Rightarrow> Fail EFAULT bench_usage
       | Some h \<Rightarrow> Done () (bench_usage\<lparr>hw := h\<rparr>))"
    using usage_reports_reserved [OF usage(2,3), of "0x1000" 0 LSDBG_RES_SCU_EVENT] by auto
  then show ?thesis by (intro exI [of _ v]) (simp add: usage)
qed

text \<open>Without an EPU in the device tree the EPU pointer stays null, and every well-formed request
  dereferences it: \<open>resource_reserve\<close> has no guard for it.\<close>

theorem reservation_without_epu_undefined:
  assumes "epu_ptr d = 0" and "\<not> reg_acc_lock d" and "unat n < res_limit g"
    and "cmd = LS_DBG_RES_RESERVE \<or> cmd = LS_DBG_RES_RELINQ \<or> cmd = LS_DBG_RES_GET_USAGE \<and> buf \<noteq> 0"
  shows "resource_op k cmd \<lparr>resource_grp_id = group_code g, res_index = n, res_usage = buf\<rparr> d = Undef"
  using assms
  by (auto simp: resource_op_def Let_def limit_check not_le [symmetric] res_reserve_def res_relinq_def
      res_get_usage_def lock_reg_acc_def reserv_read_def)

lemma reservation_without_epu_undefined_witness:
  "resource_op bench_kernel LS_DBG_RES_RESERVE
    \<lparr>resource_grp_id = group_code LSDBG_RES_EPU_COUNTER, res_index = 3, res_usage = 0\<rparr>
    (initial_driver bench_world) = Undef"
  using reservation_without_epu_undefined [of "initial_driver bench_world" 3 LSDBG_RES_EPU_COUNTER
      LS_DBG_RES_RESERVE]
  by (simp add: initial_driver_def)

end
