(* ===== verification/Step_System.thy ===== *)
theory Step_System
  imports Prelude
begin

text \<open>
  Runs of a system: a step relation, the states a run of it reaches, and the rule by which an
  invariant of single steps holds of every reachable state.  \<open>stays\<close> is the statement about one
  operation that such an invariant needs: where \<open>holds\<close> says that a call returns, \<open>stays\<close> says
  something only of the calls that do.
\<close>

section \<open>One operation\<close>

text \<open>If the call returns, \<open>I\<close> holds of the state, whatever was returned; \<open>s\<close> says whether waiting for
  ever is allowed.\<close>

fun stays :: "bool \<Rightarrow> ('s \<Rightarrow> bool) \<Rightarrow> ('a, 's) result \<Rightarrow> bool" where
  "stays s I (Done a t) = I t"
| "stays s I (Fail e t) = I t"
| "stays s I Spin = s"
| "stays s I Undef = True"

lemma holds_stays:
  "holds Q E r \<Longrightarrow> (\<And>a t. Q a t \<Longrightarrow> I t) \<Longrightarrow> (\<And>e t. E e t \<Longrightarrow> I t) \<Longrightarrow> stays s I r"
  by (cases r) auto

lemma stays_mono: "stays s I r \<Longrightarrow> (\<And>t. I t \<Longrightarrow> J t) \<Longrightarrow> (s \<Longrightarrow> s') \<Longrightarrow> stays s' J r"
  by (cases r) auto

lemma stays_and_then: "stays s I r \<Longrightarrow> (\<And>a t. I t \<Longrightarrow> stays s I (f a t)) \<Longrightarrow> stays s I (and_then r f)"
  by (cases r) auto

lemma stays_each: "I t \<Longrightarrow> (\<And>i u. i \<in> set is \<Longrightarrow> I u \<Longrightarrow> stays s I (f i u)) \<Longrightarrow> stays s I (each f is t)"
  by (induction "is" arbitrary: t) (auto intro: stays_and_then)

lemma stays_on_exit: "stays s (\<lambda>t. I (f t)) r \<Longrightarrow> stays s I (on_exit f r)"
  by (cases r) auto

lemma stays_ignore_ret: "stays s I r \<Longrightarrow> stays s I (ignore_ret r)"
  by (cases r) auto

lemma stays_if: "(b \<Longrightarrow> stays s I r) \<Longrightarrow> (\<not> b \<Longrightarrow> stays s I r') \<Longrightarrow> stays s I (if b then r else r')"
  by simp

lemma stays_Let: "stays s I (f v) \<Longrightarrow> stays s I (let x = v in f x)"
  by (simp add: Let_def)

lemma stays_option:
  "(x = None \<Longrightarrow> stays s I r) \<Longrightarrow> (\<And>y. x = Some y \<Longrightarrow> stays s I (f y)) \<Longrightarrow>
    stays s I (case x of None \<Rightarrow> r | Some y \<Rightarrow> f y)"
  by (cases x) auto

lemma stays_sum:
  "(\<And>y. x = Inl y \<Longrightarrow> stays s I (f y)) \<Longrightarrow> (\<And>z. x = Inr z \<Longrightarrow> stays s I (g z)) \<Longrightarrow>
    stays s I (case x of Inl y \<Rightarrow> f y | Inr z \<Rightarrow> g z)"
  by (cases x) auto

lemmas stays_rules = stays_if stays_Let stays_option stays_sum

text \<open>The result of a call that returned, as a relation between states.\<close>

inductive returns :: "('a, 's) result \<Rightarrow> 's \<Rightarrow> bool" where
  "returns (Done a t) t"
| "returns (Fail e t) t"

inductive_simps returns_simps [simp]:
  "returns (Done a s) t" "returns (Fail e s) t" "returns Spin t" "returns Undef t"

lemma stays_returns: "stays s I r \<Longrightarrow> returns r t \<Longrightarrow> I t"
  by (cases r) auto

section \<open>Runs\<close>

inductive reach :: "('s \<Rightarrow> 's \<Rightarrow> bool) \<Rightarrow> 's \<Rightarrow> 's \<Rightarrow> bool" for step where
  reach_refl [intro]: "reach step s s"
| reach_step: "reach step s t \<Longrightarrow> step t u \<Longrightarrow> reach step s u"

lemma reach_trans: "reach step t u \<Longrightarrow> reach step s t \<Longrightarrow> reach step s u"
  by (induction rule: reach.induct) (auto intro: reach_step)

lemma reach_one: "step s t \<Longrightarrow> reach step s t"
  by (rule reach_step [OF reach_refl])

text \<open>Runs from a state with one successor, and from one with none.\<close>

lemma reach_head: "step s t \<Longrightarrow> reach step t u \<Longrightarrow> reach step s u"
  using reach_trans reach_one by metis

lemma reach_only: "reach step s u \<Longrightarrow> (\<And>t. step s t \<longleftrightarrow> t = s1) \<Longrightarrow> u = s \<or> reach step s1 u"
  by (induction rule: reach.induct) (auto intro: reach_step)

lemma reach_end: "reach step s u \<Longrightarrow> (\<And>t. \<not> step s t) \<Longrightarrow> u = s"
  by (induction rule: reach.induct) auto

text \<open>A run of four steps, each of them the only one possible, and no fifth.\<close>

lemma run_of_four:
  assumes "\<And>t. step s t \<longleftrightarrow> t = s1" and "\<And>t. step s1 t \<longleftrightarrow> t = s2" and "\<And>t. step s2 t \<longleftrightarrow> t = s3"
    and "\<And>t. step s3 t \<longleftrightarrow> t = s4" and "\<And>t. \<not> step s4 t"
  shows "reach step s4 s4 \<and> reach step s s4" and "reach step s u \<Longrightarrow> reach step u s4 \<and> u \<in> {s, s1, s2, s3, s4}"
proof -
  have r3: "reach step s3 s4" using assms(4) by (auto intro: reach_one)
  have r2: "reach step s2 s4" using assms(3) r3 by (auto intro: reach_head)
  have r1: "reach step s1 s4" using assms(2) r2 by (auto intro: reach_head)
  have r0: "reach step s s4" using assms(1) r1 by (auto intro: reach_head)
  show "reach step s4 s4 \<and> reach step s s4" using r0 by auto
  assume "reach step s u"
  then have "u \<in> {s, s1, s2, s3, s4}"
    using reach_only [of step s u s1, OF _ assms(1)] reach_only [of step s1 u s2, OF _ assms(2)]
      reach_only [of step s2 u s3, OF _ assms(3)] reach_only [of step s3 u s4, OF _ assms(4)]
      reach_end [of step s4 u, OF _ assms(5)] by blast
  then show "reach step u s4 \<and> u \<in> {s, s1, s2, s3, s4}" using r0 r1 r2 r3 by auto
qed

locale step_invariant =
  fixes step :: "'s \<Rightarrow> 's \<Rightarrow> bool" and I :: "'s \<Rightarrow> bool"
  assumes step_keeps: "step s t \<Longrightarrow> I s \<Longrightarrow> I t"
begin

lemma reach_keeps:
  assumes "reach step s t" and "I s"
  shows "I t"
  using assms by (induction rule: reach.induct) (auto intro: step_keeps)

end

text \<open>A system of operations, each of which returns or not; \<open>live\<close> operations do not wait for ever
  in a state where the invariant holds.\<close>

locale live_system = step_invariant step I
  for step :: "'s \<Rightarrow> 's \<Rightarrow> bool" and I +
  fixes call :: "'o \<Rightarrow> 's \<Rightarrow> ('a, 's) result" and live :: "'o \<Rightarrow> bool"
  assumes call_live: "live c \<Longrightarrow> I s \<Longrightarrow> call c s \<noteq> Spin"
begin

lemma never_stuck: "reach step s t \<Longrightarrow> I s \<Longrightarrow> live c \<Longrightarrow> call c t \<noteq> Spin"
  using reach_keeps call_live by blast

end

end
