(* ===== verification/Interleave.thy ===== *)
theory Interleave
  imports Reserve Step_System
begin

text \<open>
  Reservation requests of several callers at once.  \<open>Reg_Access\<close> runs a request as a whole; here each
  caller is a thread that executes the statements of \<open>resource_reserve\<close> between taking and releasing
  the lock one by one, interleaved with the others and with changes of the device.  Every
  interleaving answers the requests as the abstract table does, in the order in which they decide.
\<close>

section \<open>Threads\<close>

text \<open>Where a thread is: outside, waiting in \<open>spin_lock_irqsave\<close>, before the read of the register, with
  \<open>prev_val\<close> read, before \<open>spin_unlock_irqrestore\<close> with what it will return.\<close>

datatype thread =
  Outside
| Waiting "RESOURCE_GROUP_ID res_req"
| Entered "RESOURCE_GROUP_ID res_req"
| Holding "RESOURCE_GROUP_ID res_req" u32
| Leaving "RESOURCE_GROUP_ID res_req" "errno option"

fun in_section :: "thread \<Rightarrow> bool" where
  "in_section (Entered r) = True"
| "in_section (Holding r v) = True"
| "in_section (Leaving r e) = True"
| "in_section _ = False"

primrec req_group :: "'g res_req \<Rightarrow> 'g" where
  "req_group (Reserve g n) = g"
| "req_group (Relinquish g n) = g"

primrec req_index :: "'g res_req \<Rightarrow> u32" where
  "req_index (Reserve g n) = n"
| "req_index (Relinquish g n) = n"

text \<open>What the code between the read and the unlock makes of \<open>prev_val\<close>: an error or the new value.\<close>

fun decide :: "'g res_req \<Rightarrow> u32 \<Rightarrow> errno + u32" where
  "decide (Reserve g n) prev_val =
    (let val_32b = ucast (scast (push_bit (unat n) 1 :: u32) :: u64) :: u32
     in if prev_val AND val_32b \<noteq> 0 then Inl EBUSY else Inr (prev_val OR val_32b))"
| "decide (Relinquish g n) prev_val =
    (let val_32b = ucast (scast (push_bit (unat n) 1 :: u32) :: u64) :: u32
     in if prev_val AND val_32b = 0 then Inl EPERM else Inr (prev_val AND NOT val_32b))"

text \<open>The driver, the threads by number, and the requests decided so far with their answers.\<close>

record 'h smp =
  sdrv :: "'h driver"
  thr :: "nat \<Rightarrow> thread"
  answered :: "(RESOURCE_GROUP_ID res_req \<times> errno option) list"

definition move :: "nat \<Rightarrow> thread \<Rightarrow> 'h driver \<Rightarrow> 'h smp \<Rightarrow> 'h smp" where
  "move i t d s = s\<lparr>sdrv := d, thr := (thr s)(i := t)\<rparr>"

definition answer :: "RESOURCE_GROUP_ID res_req \<Rightarrow> errno option \<Rightarrow> 'h smp \<Rightarrow> 'h smp" where
  "answer r e s = s\<lparr>answered := answered s @ [(r, e)]\<rparr>"

inductive smp_step :: "'h kernel \<Rightarrow> 'h smp \<Rightarrow> 'h smp \<Rightarrow> bool" for k where
  smp_call: "thr s i = Outside \<Longrightarrow> unat (req_index r) < res_limit (req_group r) \<Longrightarrow>
    smp_step k s (move i (Waiting r) (sdrv s) s)"
| smp_lock: "thr s i = Waiting r \<Longrightarrow> lock_reg_acc (sdrv s) = Done () d \<Longrightarrow>
    smp_step k s (move i (Entered r) d s)"
| smp_read: "thr s i = Entered r \<Longrightarrow>
    reserv_read k (reserv_addr (req_group r) (sdrv s)) (sdrv s) = Done v d \<Longrightarrow>
    smp_step k s (move i (Holding r v) d s)"
| smp_refuse: "thr s i = Holding r v \<Longrightarrow> decide r v = Inl e \<Longrightarrow>
    smp_step k s (answer r (Some e) (move i (Leaving r (Some e)) (sdrv s) s))"
| smp_write: "thr s i = Holding r v \<Longrightarrow> decide r v = Inr v' \<Longrightarrow>
    reserv_write k v' (reserv_addr (req_group r) (sdrv s)) (sdrv s) = Done () d \<Longrightarrow>
    smp_step k s (answer r None (move i (Leaving r None) d s))"
| smp_unlock: "thr s i = Leaving r e \<Longrightarrow> smp_step k s (move i Outside (unlock_reg_acc (sdrv s)) s)"
| smp_device: "(\<And>g. fst (ioread32 k (reserv_addr g (sdrv s)) h) =
      fst (ioread32 k (reserv_addr g (sdrv s)) (hw (sdrv s)))) \<Longrightarrow>
    smp_step k s (s\<lparr>sdrv := (sdrv s)\<lparr>hw := h\<rparr>\<rparr>)"

inductive_cases smp_step_cases: "smp_step k s s'"

lemma move_simps [simp]:
  "sdrv (move i t d s) = d" "thr (move i t d s) = (thr s)(i := t)" "answered (move i t d s) = answered s"
  "sdrv (answer r e s) = sdrv s" "thr (answer r e s) = thr s" "answered (answer r e s) = answered s @ [(r, e)]"
  by (simp_all add: move_def answer_def)

section \<open>Deciding is the abstract step\<close>

lemma spec_run_snoc:
  "spec_run lim rs t = (es, u) \<Longrightarrow> spec_step lim r u = (e, v) \<Longrightarrow> spec_run lim (rs @ [r]) t = (es @ [e], v)"
  by (induction rs arbitrary: t es) (auto simp: Let_def split: prod.splits)

lemma decide_spec:
  assumes "unat (req_index r) < res_limit (req_group r)" and "t (req_group r) = {n. bit v n}"
  shows "decide r v = Inl e \<Longrightarrow> spec_step res_limit r t = (Some e, t)"
    and "decide r v = Inr v' \<Longrightarrow> spec_step res_limit r t = (None, t(req_group r := {n. bit v' n}))"
proof -
  have "unat (req_index r) < 32" using assms(1) res_limit_le [of "req_group r"] by linarith
  with assms show "decide r v = Inl e \<Longrightarrow> spec_step res_limit r t = (Some e, t)"
    and "decide r v = Inr v' \<Longrightarrow> spec_step res_limit r t = (None, t(req_group r := {n. bit v' n}))"
    by (cases r; auto simp: Let_def bit_test bits_set bits_clear split: if_splits)+
qed

section \<open>The invariant\<close>

text \<open>The value of the register of a group.\<close>

definition reserv_value :: "'h kernel \<Rightarrow> RESOURCE_GROUP_ID \<Rightarrow> 'h driver \<Rightarrow> u32" where
  "reserv_value k g d = fst (ioread32 k (reserv_addr g d) (hw d))"

definition sound_thread :: "'h kernel \<Rightarrow> 'h driver \<Rightarrow> thread \<Rightarrow> bool" where
  "sound_thread k d t \<longleftrightarrow>
    (case t of
       Outside \<Rightarrow> True
     | Holding r v \<Rightarrow> unat (req_index r) < res_limit (req_group r) \<and> v = reserv_value k (req_group r) d
     | Waiting r \<Rightarrow> unat (req_index r) < res_limit (req_group r)
     | Entered r \<Rightarrow> unat (req_index r) < res_limit (req_group r)
     | Leaving r e \<Rightarrow> True)"

text \<open>The lock is held exactly when a thread is in its section, which is one thread at most.\<close>

definition one_inside :: "'h smp \<Rightarrow> bool" where
  "one_inside s \<longleftrightarrow> (reg_acc_lock (sdrv s) \<longleftrightarrow> (\<exists>i. in_section (thr s i))) \<and>
    (\<forall>i j. in_section (thr s i) \<and> in_section (thr s j) \<longrightarrow> i = j)"

definition smp_inv :: "'h kernel \<Rightarrow> RESOURCE_GROUP_ID table \<Rightarrow> 'h smp \<Rightarrow> bool" where
  "smp_inv k t0 s \<longleftrightarrow> epu_ptr (sdrv s) \<noteq> 0 \<and> storage k (reserv_addrs (sdrv s)) \<and> one_inside s \<and>
    (\<forall>i. sound_thread k (sdrv s) (thr s i)) \<and>
    spec_run res_limit (map fst (answered s)) t0 = (map snd (answered s), reserved k (sdrv s))"

lemma reserved_value: "reserved k d g = {n. bit (reserv_value k g d) n}"
  by (simp add: reserved_def reserv_value_def)

lemma smp_frame [simp]:
  "reserv_value k g (d\<lparr>reg_acc_lock := b\<rparr>) = reserv_value k g d"
  "reserved k (d\<lparr>reg_acc_lock := b\<rparr>) = reserved k d"
  "sound_thread k (d\<lparr>reg_acc_lock := b\<rparr>) = sound_thread k d"
  by (auto simp: reserv_value_def reserved_def sound_thread_def fun_eq_iff split: thread.split)

lemma inside_only: "one_inside s \<Longrightarrow> in_section (thr s i) \<Longrightarrow> in_section (thr s j) = (j = i)"
  by (auto simp: one_inside_def)

text \<open>A thread that moves within its section, or stays out of it.\<close>

lemma one_inside_same:
  "one_inside s \<Longrightarrow> in_section t = in_section (thr s i) \<Longrightarrow> reg_acc_lock d = reg_acc_lock (sdrv s) \<Longrightarrow>
    one_inside (move i t d s)"
  unfolding one_inside_def by (auto simp: fun_upd_def)

lemma one_inside_answer [simp]: "one_inside (answer r e s) = one_inside s"
  by (simp add: one_inside_def)

lemma sound_move:
  "\<forall>j. sound_thread k d (thr s j) \<Longrightarrow> sound_thread k d t \<Longrightarrow> \<forall>j. sound_thread k d (thr (move i t d' s) j)"
  by simp

text \<open>A store to the register of the thread in the section: no other thread has read it.\<close>

lemma sound_write:
  assumes "smp_inv k t0 s" and "thr s i = Holding r v" and "j \<noteq> i"
  shows "sound_thread k ((sdrv s)\<lparr>hw := h\<rparr>) (thr s j)"
proof -
  have "one_inside s" "in_section (thr s i)" using assms by (simp_all add: smp_inv_def)
  then have "\<not> in_section (thr s j)" using inside_only assms(3) by blast
  moreover have "sound_thread k (sdrv s) (thr s j)" using assms(1) by (simp add: smp_inv_def)
  ultimately show ?thesis by (cases "thr s j") (simp_all add: sound_thread_def)
qed

lemma inv_parts:
  assumes "smp_inv k t0 s"
  shows "epu_ptr (sdrv s) \<noteq> 0" and "storage k (reserv_addrs (sdrv s))" and "one_inside s"
    and "sound_thread k (sdrv s) (thr s i)"
    and "spec_run res_limit (map fst (answered s)) t0 = (map snd (answered s), reserved k (sdrv s))"
  using assms by (simp_all add: smp_inv_def)

lemma smp_invI:
  "epu_ptr (sdrv s) \<noteq> 0 \<Longrightarrow> storage k (reserv_addrs (sdrv s)) \<Longrightarrow> one_inside s \<Longrightarrow>
    (\<And>i. sound_thread k (sdrv s) (thr s i)) \<Longrightarrow>
    spec_run res_limit (map fst (answered s)) t0 = (map snd (answered s), reserved k (sdrv s)) \<Longrightarrow> smp_inv k t0 s"
  by (simp add: smp_inv_def)

lemma reserv_read_value:
  assumes "smp_inv k t0 s"
  shows "reserv_read k (reserv_addr g (sdrv s)) (sdrv s) = Done (reserv_value k g (sdrv s)) (sdrv s)"
  using inv_parts [OF assms] by (simp add: reserv_read_def split_beta storage_read reserv_value_def)

lemma refusal_keeps_inv:
  assumes "smp_inv k t0 s" and "thr s i = Holding r v" and "decide r v = Inl e"
  shows "smp_inv k t0 (answer r (Some e) (move i (Leaving r (Some e)) (sdrv s) s))"
proof -
  have "sound_thread k (sdrv s) (Holding r v)" using inv_parts(4) [OF assms(1), of i] assms(2) by simp
  then have "spec_step res_limit r (reserved k (sdrv s)) = (Some e, reserved k (sdrv s))"
    using assms(3) by (intro decide_spec(1)) (auto simp: sound_thread_def reserved_value)
  moreover have "one_inside (move i (Leaving r (Some e)) (sdrv s) s)"
    using inv_parts(3) [OF assms(1)] assms(2) by (simp add: one_inside_same)
  ultimately show ?thesis
    by (intro smp_invI) (use inv_parts [OF assms(1)] in \<open>simp_all add: spec_run_snoc sound_thread_def [of _ _ "Leaving r e'" for e']\<close>)
qed

lemma write_keeps_inv:
  assumes "smp_inv k t0 s" and "thr s i = Holding r v" and "decide r v = Inr v'"
    and "reserv_write k v' (reserv_addr (req_group r) (sdrv s)) (sdrv s) = Done () d"
  shows "smp_inv k t0 (answer r None (move i (Leaving r None) d s))"
proof -
  have "sound_thread k (sdrv s) (Holding r v)" using inv_parts(4) [OF assms(1), of i] assms(2) by simp
  then have step: "spec_step res_limit r (reserved k (sdrv s)) =
      (None, (reserved k (sdrv s))(req_group r := {n. bit v' n}))"
    using assms(3) by (intro decide_spec(2)) (auto simp: sound_thread_def reserved_value)
  have d: "d = (sdrv s)\<lparr>hw := iowrite32 k v' (reserv_addr (req_group r) (sdrv s)) (hw (sdrv s))\<rparr>"
    using assms(4) inv_parts(1) [OF assms(1)] by (simp add: reserv_write_def)
  have now: "reserved k d = (reserved k (sdrv s))(req_group r := {n. bit v' n})"
    unfolding d by (rule reserved_write [OF inv_parts(2) [OF assms(1)]])
  have "one_inside (move i (Leaving r None) d s)"
    using inv_parts(3) [OF assms(1)] assms(2) d by (simp add: one_inside_same)
  then show ?thesis
    by (intro smp_invI) (use inv_parts [OF assms(1)] step now sound_write [OF assms(1,2)] d
        in \<open>auto simp: spec_run_snoc sound_thread_def [of _ _ "Leaving r e'" for e']\<close>)
qed

lemma smp_inv_step:
  assumes "smp_step k s s'" and inv: "smp_inv k t0 s"
  shows "smp_inv k t0 s'"
  using assms(1)
proof cases
  case (smp_call i r)
  show ?thesis unfolding smp_call(1)
    by (rule smp_invI) (use inv_parts [OF inv] smp_call in \<open>simp_all add: one_inside_same sound_thread_def\<close>)
next
  case (smp_lock i r d)
  then have d: "d = (sdrv s)\<lparr>reg_acc_lock := True\<rparr>" "\<not> reg_acc_lock (sdrv s)"
    by (auto simp: lock_reg_acc_def split: if_splits)
  have "one_inside (move i (Entered r) d s)"
    using inv_parts(3) [OF inv] d by (auto simp: one_inside_def)
  moreover have "sound_thread k (sdrv s) (Entered r)"
    using inv_parts(4) [OF inv, of i] smp_lock(2) by (simp add: sound_thread_def)
  ultimately show ?thesis unfolding smp_lock(1)
    by (intro smp_invI) (use inv_parts [OF inv] d in simp_all)
next
  case (smp_read i r v d)
  then have d: "d = sdrv s" "v = reserv_value k (req_group r) (sdrv s)"
    by (auto simp: reserv_read_value [OF inv])
  have "one_inside (move i (Holding r v) d s)"
    using inv_parts(3) [OF inv] smp_read(2) d by (simp add: one_inside_same)
  moreover have "sound_thread k (sdrv s) (Holding r v)"
    using inv_parts(4) [OF inv, of i] smp_read(2) d by (simp add: sound_thread_def)
  ultimately show ?thesis unfolding smp_read(1)
    by (intro smp_invI) (use inv_parts [OF inv] d in simp_all)
next
  case (smp_refuse i r v e)
  then show ?thesis using refusal_keeps_inv [OF inv] by simp
next
  case (smp_write i r v v' d)
  then show ?thesis using write_keeps_inv [OF inv] by simp
next
  case (smp_unlock i r e)
  have d: "unlock_reg_acc (sdrv s) = (sdrv s)\<lparr>reg_acc_lock := False\<rparr>" by (simp add: unlock_reg_acc_def)
  have "one_inside (move i Outside (unlock_reg_acc (sdrv s)) s)"
    using inside_only [OF inv_parts(3) [OF inv], of i] smp_unlock(2) by (simp add: one_inside_def d)
  then show ?thesis unfolding smp_unlock(1)
    by (intro smp_invI) (use inv_parts [OF inv] in \<open>simp_all add: d sound_thread_def [of _ _ Outside]\<close>)
next
  case (smp_device h)
  have same: "reserv_value k g ((sdrv s)\<lparr>hw := h\<rparr>) = reserv_value k g (sdrv s)" for g
    using smp_device(2) by (simp add: reserv_value_def)
  then have "sound_thread k ((sdrv s)\<lparr>hw := h\<rparr>) = sound_thread k (sdrv s)"
    "reserved k ((sdrv s)\<lparr>hw := h\<rparr>) = reserved k (sdrv s)"
    by (auto simp: sound_thread_def fun_eq_iff reserved_value split: thread.split)
  then show ?thesis unfolding smp_device(1)
    by (intro smp_invI) (use inv_parts [OF inv] in \<open>simp_all add: one_inside_def\<close>)
qed

interpretation smp: step_invariant "smp_step k" "smp_inv k t0" for k t0
  by unfold_locales (rule smp_inv_step)

section \<open>All interleavings\<close>

definition smp_start :: "'h driver \<Rightarrow> 'h smp" where
  "smp_start d = \<lparr>sdrv = d, thr = (\<lambda>_. Outside), answered = []\<rparr>"

lemma smp_start_inv: "reserv_ready k d \<Longrightarrow> smp_inv k (reserved k d) (smp_start d)"
  by (simp add: smp_inv_def smp_start_def reserv_ready_def one_inside_def sound_thread_def)

text \<open>C2: Whatever the interleaving of any number of callers and of changes of the device outside the
  reservation registers: at most one caller is between lock and unlock, no caller acts on a value
  that another has changed since, and the answers given so far, in the order in which they were
  decided, are those of the abstract table, whose sets the registers hold.\<close>

theorem interleaved_requests_linearize:
  assumes "reach (smp_step k) (smp_start d) s" and "reserv_ready k d"
  shows "spec_run res_limit (map fst (answered s)) (reserved k d) =
      (map snd (answered s), reserved k (sdrv s)) \<and>
    (\<forall>i j. in_section (thr s i) \<and> in_section (thr s j) \<longrightarrow> i = j) \<and>
    (\<forall>i r v. thr s i = Holding r v \<longrightarrow> v = fst (ioread32 k (reserv_addr (req_group r) (sdrv s)) (hw (sdrv s))))"
proof -
  have inv: "smp_inv k (reserved k d) s"
    by (rule smp.reach_keeps [OF assms(1) smp_start_inv [OF assms(2)]])
  have "v = reserv_value k (req_group r) (sdrv s)" if "thr s i = Holding r v" for i r v
    using inv_parts(4) [OF inv, of i] that by (simp add: sound_thread_def)
  then show ?thesis
    using inv_parts(3,5) [OF inv] by (auto simp: one_inside_def reserv_value_def)
qed

lemma interleaved_requests_linearize_witness:
  "\<exists>s. reach (smp_step bench_kernel) (smp_start (bench_driver bench_world)) s \<and>
    thr s 1 = Waiting (Reserve LSDBG_RES_SCU_EVENT 3) \<and> answered s = [(Reserve LSDBG_RES_SCU_EVENT 3, None)] \<and>
    reserved bench_kernel (sdrv s) LSDBG_RES_SCU_EVENT = {3}"
proof -
  let ?k = bench_kernel and ?r = "Reserve LSDBG_RES_SCU_EVENT 3" and ?d = "bench_driver bench_world"
  let ?dl = "?d\<lparr>reg_acc_lock := True\<rparr>"
  let ?a = "reserv_addr LSDBG_RES_SCU_EVENT ?d"
  let ?dw = "?dl\<lparr>hw := iowrite32 ?k 8 ?a bench_world\<rparr>"
  define s1 where "s1 = move 0 (Waiting ?r) ?d (smp_start ?d)"
  define s2 where "s2 = move 1 (Waiting ?r) ?d s1"
  define s3 where "s3 = move 0 (Entered ?r) ?dl s2"
  define s4 where "s4 = move 0 (Holding ?r 0) ?dl s3"
  define s5 where "s5 = answer ?r None (move 0 (Leaving ?r None) ?dw s4)"
  note s_defs = s1_def s2_def s3_def s4_def s5_def smp_start_def
  have "smp_step ?k (smp_start ?d) s1" unfolding s1_def
    using smp_call [of "smp_start ?d" 0 ?r ?k] by (simp add: smp_start_def)
  moreover have "smp_step ?k s1 s2" unfolding s2_def
    using smp_call [of s1 1 ?r ?k] by (simp add: s_defs)
  moreover have "smp_step ?k s2 s3" unfolding s3_def
    by (rule smp_lock) (simp_all add: s_defs lock_reg_acc_def)
  moreover have "smp_step ?k s3 s4" unfolding s4_def
    by (rule smp_read) (simp_all add: s_defs reserv_read_def bench_world_def)
  moreover have "smp_step ?k s4 s5" unfolding s5_def
    by (rule smp_write [of _ _ _ 0]) (simp_all add: s_defs reserv_write_def)
  ultimately have run: "reach (smp_step ?k) (smp_start ?d) s5" by (meson reach_refl reach_step)
  moreover have "reserved ?k (sdrv s5) LSDBG_RES_SCU_EVENT = {3}"
  proof -
    have "answered s5 = [(?r, None)]" by (simp add: s_defs)
    then have "spec_run res_limit [?r] (reserved ?k ?d) = ([None], reserved ?k (sdrv s5))"
      using interleaved_requests_linearize [OF run reserv_ready_bench] by simp
    moreover have "snd (spec_run res_limit [?r] (reserved ?k ?d)) LSDBG_RES_SCU_EVENT = {3}"
      by (simp add: reserved_bench)
    ultimately show ?thesis by simp
  qed
  ultimately show ?thesis by (intro exI [of _ s5]) (simp add: s_defs)
qed

text \<open>The answer of a request and the state after it, as the atomic operation gives them.\<close>

fun outcome :: "(unit, 's) result \<Rightarrow> (errno option \<times> 's) option" where
  "outcome (Done a s) = Some (None, s)"
| "outcome (Fail e s) = Some (Some e, s)"
| "outcome Spin = None"
| "outcome Undef = None"

lemma reserv_op_decide:
  assumes "reserv_ready k d" and "unat (req_index r) < res_limit (req_group r)"
  shows "outcome (reserv_op k r d) = Some
    (case decide r (reserv_value k (req_group r) d) of
       Inl e \<Rightarrow> (Some e, d)
     | Inr v \<Rightarrow> (None, d\<lparr>hw := iowrite32 k v (reserv_addr (req_group r) d) (hw d)\<rparr>))"
proof -
  have "unat (req_index r) < 32" using assms(2) res_limit_le [of "req_group r"] by linarith
  then show ?thesis
    using assms
    by (cases r) (auto simp: reserv_op_eq res_reserve_eq res_relinq_eq Let_def reserv_value_def
        reserved_def bit_test not_le [symmetric] simp del: reserv_op.simps)
qed

lemma free_again: "\<not> reg_acc_lock d \<Longrightarrow> d\<lparr>reg_acc_lock := False\<rparr> = d"
  by (cases d) simp

section \<open>One caller alone\<close>

text \<open>A step of the caller \<open>i\<close> between its call and its return: nothing else moves, the device included.\<close>

definition own_step :: "'h kernel \<Rightarrow> nat \<Rightarrow> 'h smp \<Rightarrow> 'h smp \<Rightarrow> bool" where
  "own_step k i s s' \<longleftrightarrow> smp_step k s s' \<and> thr s i \<noteq> Outside \<and> thr s' i \<noteq> thr s i \<and> (\<forall>j. j \<noteq> i \<longrightarrow> thr s' j = thr s j)"

text \<open>What \<open>i\<close> does next, by where it is.\<close>

lemma smp_step_of:
  assumes "smp_step k s s'" and "thr s' i \<noteq> thr s i"
  shows "(\<exists>r. thr s i = Outside \<and> s' = move i (Waiting r) (sdrv s) s) \<or>
    (\<exists>r d. thr s i = Waiting r \<and> lock_reg_acc (sdrv s) = Done () d \<and> s' = move i (Entered r) d s) \<or>
    (\<exists>r v d. thr s i = Entered r \<and>
      reserv_read k (reserv_addr (req_group r) (sdrv s)) (sdrv s) = Done v d \<and> s' = move i (Holding r v) d s) \<or>
    (\<exists>r v e. thr s i = Holding r v \<and> decide r v = Inl e \<and>
      s' = answer r (Some e) (move i (Leaving r (Some e)) (sdrv s) s)) \<or>
    (\<exists>r v v' d. thr s i = Holding r v \<and> decide r v = Inr v' \<and>
      reserv_write k v' (reserv_addr (req_group r) (sdrv s)) (sdrv s) = Done () d \<and>
      s' = answer r None (move i (Leaving r None) d s)) \<or>
    (\<exists>r e. thr s i = Leaving r e \<and> s' = move i Outside (unlock_reg_acc (sdrv s)) s)"
  using assms by cases (auto split: if_splits)

lemma own_move:
  "thr s i \<noteq> Outside \<Longrightarrow> t \<noteq> thr s i \<Longrightarrow> own_step k i s (move i t d s) = smp_step k s (move i t d s)"
  "thr s i \<noteq> Outside \<Longrightarrow> t \<noteq> thr s i \<Longrightarrow>
    own_step k i s (answer r e (move i t d s)) = smp_step k s (answer r e (move i t d s))"
  by (auto simp: own_step_def)

lemma own_steps:
  "thr s i = Waiting r \<Longrightarrow> lock_reg_acc (sdrv s) = Done () d \<Longrightarrow> own_step k i s s' \<longleftrightarrow> s' = move i (Entered r) d s"
  "thr s i = Entered r \<Longrightarrow> reserv_read k (reserv_addr (req_group r) (sdrv s)) (sdrv s) = Done v d \<Longrightarrow>
    own_step k i s s' \<longleftrightarrow> s' = move i (Holding r v) d s"
  "thr s i = Holding r v \<Longrightarrow> decide r v = Inl e \<Longrightarrow>
    own_step k i s s' \<longleftrightarrow> s' = answer r (Some e) (move i (Leaving r (Some e)) (sdrv s) s)"
  "thr s i = Holding r v \<Longrightarrow> decide r v = Inr v' \<Longrightarrow>
    reserv_write k v' (reserv_addr (req_group r) (sdrv s)) (sdrv s) = Done () d \<Longrightarrow>
    own_step k i s s' \<longleftrightarrow> s' = answer r None (move i (Leaving r None) d s)"
  "thr s i = Leaving r e' \<Longrightarrow> own_step k i s s' \<longleftrightarrow> s' = move i Outside (unlock_reg_acc (sdrv s)) s"
  "thr s i = Outside \<Longrightarrow> \<not> own_step k i s s'"
  using smp_step_of [of k s s' i] by (auto simp: own_step_def intro: smp_step.intros)

text \<open>The state when the request of \<open>i\<close> has been answered with \<open>e\<close>, leaving the driver \<open>d\<close>.\<close>

definition answered_by :: "nat \<Rightarrow> RESOURCE_GROUP_ID res_req \<Rightarrow> errno option \<Rightarrow> 'h driver \<Rightarrow> 'h smp \<Rightarrow> 'h smp" where
  "answered_by i r e d s = s\<lparr>sdrv := d, thr := (thr s)(i := Outside), answered := answered s @ [(r, e)]\<rparr>"

text \<open>The states of that run after the lock, the read, and the decision.\<close>

lemma solo_states:
  assumes ready: "reserv_ready k (sdrv s)" and r: "thr s i = Waiting r" "unat (req_index r) < res_limit (req_group r)"
    and out: "outcome (reserv_op k r (sdrv s)) = Some (e, d')"
  shows "\<exists>s1 s2 s3. (\<forall>t. own_step k i s t \<longleftrightarrow> t = s1) \<and> (\<forall>t. own_step k i s1 t \<longleftrightarrow> t = s2) \<and>
    (\<forall>t. own_step k i s2 t \<longleftrightarrow> t = s3) \<and> (\<forall>t. own_step k i s3 t \<longleftrightarrow> t = answered_by i r e d' s) \<and>
    thr s1 i \<noteq> Outside \<and> thr s2 i \<noteq> Outside \<and> thr s3 i \<noteq> Outside"
proof -
  let ?d = "sdrv s" and ?a = "reserv_addr (req_group r) (sdrv s)"
  let ?v = "reserv_value k (req_group r) ?d" and ?dl = "?d\<lparr>reg_acc_lock := True\<rparr>"
  have free: "epu_ptr ?d \<noteq> 0" "\<not> reg_acc_lock ?d" "storage k (reserv_addrs ?d)"
    using ready by (simp_all add: reserv_ready_def)
  define s1 where "s1 = move i (Entered r) ?dl s"
  define s2 where "s2 = move i (Holding r ?v) ?dl s1"
  have lock: "own_step k i s t \<longleftrightarrow> t = s1" for t
    unfolding s1_def by (rule own_steps(1) [OF r(1)]) (use free in \<open>simp add: lock_reg_acc_def\<close>)
  have read: "own_step k i s1 t \<longleftrightarrow> t = s2" for t
    unfolding s2_def by (rule own_steps(2)) (use free storage_read [OF free(3)] in
      \<open>simp_all add: s1_def reserv_read_def reserv_value_def split_beta\<close>)
  note s_defs = s1_def s2_def answered_by_def
  show ?thesis
  proof (cases "decide r ?v")
    case (Inl x)
    let ?s3 = "answer r (Some x) (move i (Leaving r (Some x)) (sdrv s2) s2)"
    have "own_step k i s2 t \<longleftrightarrow> t = ?s3" for t by (rule own_steps(3) [OF _ Inl]) (simp add: s_defs)
    moreover have "answered_by i r e d' s = move i Outside (unlock_reg_acc (sdrv ?s3)) ?s3"
      using out Inl free(2) reserv_op_decide [OF ready r(2)]
      by (auto simp: s_defs unlock_reg_acc_def move_def answer_def free_again)
    then have "own_step k i ?s3 t \<longleftrightarrow> t = answered_by i r e d' s" for t by (simp add: own_steps(5))
    ultimately show ?thesis using lock read by (intro exI [of _ s1] exI [of _ s2] exI [of _ ?s3]) (simp add: s_defs)
  next
    case (Inr x)
    let ?d3 = "?dl\<lparr>hw := iowrite32 k x ?a (hw ?d)\<rparr>"
    let ?s3 = "answer r None (move i (Leaving r None) ?d3 s2)"
    have "own_step k i s2 t \<longleftrightarrow> t = ?s3" for t
      by (rule own_steps(4) [OF _ Inr]) (use free in \<open>simp_all add: s_defs reserv_write_def\<close>)
    moreover have "answered_by i r e d' s = move i Outside (unlock_reg_acc (sdrv ?s3)) ?s3"
      using out Inr free(2) reserv_op_decide [OF ready r(2)]
      by (auto simp: s_defs unlock_reg_acc_def move_def answer_def free_again)
    then have "own_step k i ?s3 t \<longleftrightarrow> t = answered_by i r e d' s" for t by (simp add: own_steps(5))
    ultimately show ?thesis using lock read by (intro exI [of _ s1] exI [of _ s2] exI [of _ ?s3]) (simp add: s_defs)
  qed
qed

text \<open>C12: A caller that runs alone, that is, whatever steps of its own it takes after its call and with
  no step of another caller or of the device in between: it can always go on until it has returned,
  and when it has returned, its answer and the state of the driver are those of the atomic operation
  \<open>resource_reserve\<close> on the state at its call; nothing else has changed.\<close>

theorem solo_run_is_atomic:
  assumes "reserv_ready k (sdrv s)" and "thr s i = Waiting r" and "unat (req_index r) < res_limit (req_group r)"
  shows "\<exists>e d'. outcome (reserv_op k r (sdrv s)) = Some (e, d') \<and>
    reach (own_step k i) s (answered_by i r e d' s) \<and>
    (\<forall>s'. reach (own_step k i) s s' \<longrightarrow> reach (own_step k i) s' (answered_by i r e d' s) \<and>
      (thr s' i = Outside \<longrightarrow> s' = answered_by i r e d' s))"
proof -
  obtain e d' where out: "outcome (reserv_op k r (sdrv s)) = Some (e, d')"
    using reserv_op_decide [OF assms(1,3)] by force
  let ?fin = "answered_by i r e d' s"
  obtain s1 s2 s3 where steps: "\<And>t. own_step k i s t \<longleftrightarrow> t = s1" "\<And>t. own_step k i s1 t \<longleftrightarrow> t = s2"
      "\<And>t. own_step k i s2 t \<longleftrightarrow> t = s3" "\<And>t. own_step k i s3 t \<longleftrightarrow> t = ?fin"
    and inside: "thr s1 i \<noteq> Outside" "thr s2 i \<noteq> Outside" "thr s3 i \<noteq> Outside"
    using solo_states [OF assms out] by blast
  have "\<And>t. \<not> own_step k i ?fin t" by (rule own_steps(6)) (simp add: answered_by_def)
  note run = run_of_four [OF steps this]
  have "thr s i \<noteq> Outside" using assms(2) by simp
  then have "s' = ?fin" if "reach (own_step k i) s s'" "thr s' i = Outside" for s'
    using run(2) [OF that(1)] that(2) inside by auto
  then show ?thesis using out run by blast
qed

text \<open>While another caller waits for the lock, a relinquishment of a counter that is not reserved.\<close>

lemma solo_run_is_atomic_witness:
  "\<exists>s s'. thr s 1 = Waiting (Reserve LSDBG_RES_EPU_COUNTER 5) \<and> reach (own_step bench_kernel 0) s s' \<and>
    answered s' = [(Relinquish LSDBG_RES_EPU_COUNTER 5, Some EPERM)] \<and> thr s' 1 = thr s 1"
proof -
  let ?r = "Relinquish LSDBG_RES_EPU_COUNTER 5" and ?d = "bench_driver bench_world"
  let ?s = "\<lparr>sdrv = ?d, thr = (\<lambda>_. Outside)(0 := Waiting ?r, 1 := Waiting (Reserve LSDBG_RES_EPU_COUNTER 5)),
    answered = []\<rparr>"
  have out: "outcome (reserv_op bench_kernel ?r ?d) = Some (Some EPERM, ?d)"
    by (subst reserv_op_decide) (simp_all add: reserv_value_def bench_world_def)
  have "reserv_ready bench_kernel (sdrv ?s)" "thr ?s 0 = Waiting ?r" "unat (req_index ?r) < res_limit (req_group ?r)"
    by simp_all
  from solo_run_is_atomic [OF this] out
  have "reach (own_step bench_kernel 0) ?s (answered_by 0 ?r (Some EPERM) ?d ?s)" by auto
  then show ?thesis by (intro exI [of _ ?s] exI) (auto simp: answered_by_def)
qed

end
