(* ===== verification/Event_Count.thy ===== *)
theory Event_Count
  imports Vcnt_Irq
begin

text \<open>
  What the virtual counters are for (\<open>VCOUNTER.txt\<close>): a 32-bit counter of the event processing unit and
  its count of overflows are together a long counter of events.  Here the device counts events between
  the overflow interrupts, and the long counter is compared with the number of events.
\<close>

section \<open>A device that counts\<close>

text \<open>
  The counters (\<open>ctr\<close>) and the overflow status (\<open>sts\<close>) of an event processing unit at \<open>base\<close>: an event
  advances its counter, and sets its status bit when the counter wraps around; reading the status has no
  effect, writing ones to it clears them, and a write to a counter is what the counter then holds.
\<close>

definition counting_epu ::
  "'h kernel \<Rightarrow> u32 \<Rightarrow> ('h \<Rightarrow> nat \<Rightarrow> u32) \<Rightarrow> ('h \<Rightarrow> u32) \<Rightarrow> (nat \<Rightarrow> 'h \<Rightarrow> 'h) \<Rightarrow> bool" where
  "counting_epu k base ctr sts event \<longleftrightarrow>
    (\<forall>n<32. \<forall>h. ctr (event n h) = (ctr h)(n := ctr h n + 1) \<and>
      sts (event n h) = (if ctr h n + 1 = 0 then sts h OR push_bit n 1 else sts h)) \<and>
    (\<forall>h. ioread32 k (base + LS_DBG_EPU_EPCTRISR_OFFSET) h = (sts h, h)) \<and>
    (\<forall>v h. ctr (iowrite32 k v (base + LS_DBG_EPU_EPCTRISR_OFFSET) h) = ctr h \<and>
      sts (iowrite32 k v (base + LS_DBG_EPU_EPCTRISR_OFFSET) h) = sts h AND NOT v) \<and>
    (\<forall>n<32. \<forall>v h. ctr (iowrite32 k v (base + (LS_DBG_EPU_EPCTR_OFFSET + of_nat n * 4)) h) = (ctr h)(n := v) \<and>
      sts (iowrite32 k v (base + (LS_DBG_EPU_EPCTR_OFFSET + of_nat n * 4)) h) = sts h)"

section \<open>Runs\<close>

datatype count_act = Event nat | Overflow_interrupt

fun count_step :: "'h kernel \<Rightarrow> (nat \<Rightarrow> 'h \<Rightarrow> 'h) \<Rightarrow> count_act \<Rightarrow> 'h driver \<Rightarrow> (unit, 'h driver) result" where
  "count_step k event (Event n) d = Done () (d\<lparr>hw := event n (hw d)\<rparr>)"
| "count_step k event Overflow_interrupt d = and_then (cntr_overflow_interrupt k d) (\<lambda>_. Done ())"

fun count_run :: "'h kernel \<Rightarrow> (nat \<Rightarrow> 'h \<Rightarrow> 'h) \<Rightarrow> count_act list \<Rightarrow> 'h driver \<Rightarrow> (unit, 'h driver) result" where
  "count_run k event [] d = Done () d"
| "count_run k event (a # acts) d = and_then (count_step k event a d) (\<lambda>_. count_run k event acts)"

text \<open>The long counter \<open>n\<close>: overflows counted, overflows pending, and the counter of the device.\<close>

definition long_counter :: "('h \<Rightarrow> nat \<Rightarrow> u32) \<Rightarrow> ('h \<Rightarrow> u32) \<Rightarrow> 'h driver \<Rightarrow> nat \<Rightarrow> nat" where
  "long_counter ctr sts d n =
    2 ^ 32 * unat (vcntr (vcnt d) ! n) + (if bit (sts (hw d)) n then 2 ^ 32 else 0) + unat (ctr (hw d) n)"

text \<open>The events of \<open>n\<close> that are lost, when the counter starts at \<open>c\<close> and an overflow is pending when \<open>p\<close>:
  those counted since an overflow when its interrupt is handled, because the handler clears the counter,
  and a whole round when the counter wraps around with an overflow pending.\<close>

fun lost :: "nat \<Rightarrow> nat \<Rightarrow> bool \<Rightarrow> count_act list \<Rightarrow> nat" where
  "lost n c p [] = 0"
| "lost n c p (Event i # acts) =
    (if i \<noteq> n then lost n c p acts
     else if c + 1 = 2 ^ 32 then (if p then 2 ^ 32 else 0) + lost n 0 True acts
     else lost n (c + 1) p acts)"
| "lost n c p (Overflow_interrupt # acts) = (if p then c + lost n 0 False acts else lost n c p acts)"

definition ready :: "'h driver \<Rightarrow> bool" where
  "ready d \<longleftrightarrow> epu_mapped d \<and> wf_driver d \<and> \<not> vc_lock d \<and> (\<forall>n<32. unat (vcntr (vcnt d) ! n) < 2 ^ 63)"

section \<open>One step\<close>

lemma cleared_counters:
  assumes "counting_epu k base ctr sts event" and "\<forall>n\<in>set ns. n < 32"
  shows "ctr (fold (\<lambda>n. iowrite32 k 0 (base + (LS_DBG_EPU_EPCTR_OFFSET + of_nat n * 4))) ns h) i =
      (if i \<in> set ns then 0 else ctr h i)"
    and "sts (fold (\<lambda>n. iowrite32 k 0 (base + (LS_DBG_EPU_EPCTR_OFFSET + of_nat n * 4))) ns h) = sts h"
  using assms(2)
  by (induction ns arbitrary: h) (use assms(1) in \<open>simp_all add: counting_epu_def del: LS_DBG_EPU_EPCTR_OFFSET_def\<close>)

lemma ack_effect:
  assumes "counting_epu k (base_addr (maps d ! 7)) ctr sts event"
  shows "ctr (ack_overflows k d m h) n = (if bit m n then 0 else ctr h n)"
    and "sts (ack_overflows k d m h) = sts h AND NOT m"
proof -
  let ?h = "iowrite32 k m (epu_addr d LS_DBG_EPU_EPCTRISR_OFFSET) h"
  have h: "ctr ?h = ctr h" "sts ?h = sts h AND NOT m"
    using assms by (simp_all add: counting_epu_def epu_addr_def del: LS_DBG_EPU_EPCTRISR_OFFSET_def)
  have "\<forall>n\<in>set (bits_of m). n < 32" by (simp add: bits_of_less)
  note clear = cleared_counters [OF assms this, of ?h]
  show "ctr (ack_overflows k d m h) n = (if bit m n then 0 else ctr h n)" "sts (ack_overflows k d m h) = sts h AND NOT m"
    using clear h by (simp_all add: ack_overflows_def epu_addr_def set_bits_of del: LS_DBG_EPU_EPCTR_OFFSET_def)
qed

text \<open>One act advances the long counter by its event, less what is lost.\<close>

definition step_counts ::
  "('h \<Rightarrow> nat \<Rightarrow> u32) \<Rightarrow> ('h \<Rightarrow> u32) \<Rightarrow> nat \<Rightarrow> count_act \<Rightarrow> 'h driver \<Rightarrow> 'h driver \<Rightarrow> bool" where
  "step_counts ctr sts n a d d1 \<longleftrightarrow>
    (\<exists>l. (\<forall>acts. lost n (unat (ctr (hw d) n)) (bit (sts (hw d)) n) (a # acts) =
        l + lost n (unat (ctr (hw d1) n)) (bit (sts (hw d1)) n) acts) \<and>
      (long_counter ctr sts d1 n + l) mod 2 ^ 95 =
        (long_counter ctr sts d n + (if a = Event n then 1 else 0)) mod 2 ^ 95)"

lemma step_countsI:
  assumes "\<And>acts. lost n (unat (ctr (hw d) n)) (bit (sts (hw d)) n) (a # acts) =
      l + lost n (unat (ctr (hw d1) n)) (bit (sts (hw d1)) n) acts"
    and "(long_counter ctr sts d1 n + l) mod 2 ^ 95 =
      (long_counter ctr sts d n + (if a = Event n then 1 else 0)) mod 2 ^ 95"
  shows "step_counts ctr sts n a d d1"
  unfolding step_counts_def using assms by blast

lemma wraps_iff: "x + 1 = 0 \<longleftrightarrow> unat x + 1 = 2 ^ 32" for x :: u32
proof -
  have "unat (x + 1) = (unat x + 1) mod 2 ^ 32" by (simp add: unat_word_ariths)
  moreover have "unat x + 1 \<le> 2 ^ 32" using unsigned_less [where 'a = nat, of x] by simp
  moreover have "x + 1 = 0 \<longleftrightarrow> unat (x + 1) = 0" by (simp add: unat_eq_zero)
  ultimately show ?thesis by (cases "unat x + 1 = 2 ^ 32") simp_all
qed

lemma event_counts:
  assumes "counting_epu k base ctr sts event" and "i < 32" and "n < 32"
  shows "step_counts ctr sts n (Event i) d (d\<lparr>hw := event i (hw d)\<rparr>)"
proof -
  let ?c = "ctr (hw d) n" and ?p = "bit (sts (hw d)) n"
  have ctr: "ctr (event i (hw d)) = (ctr (hw d))(i := ctr (hw d) i + 1)"
    and sts: "sts (event i (hw d)) = (if ctr (hw d) i + 1 = 0 then sts (hw d) OR push_bit i 1 else sts (hw d))"
    using assms(1,2) by (auto simp: counting_epu_def)
  have one: "bit (2 ^ i :: u32) n \<longleftrightarrow> n = i" "bit (2 ^ i :: u32) i" using assms(2,3) by (auto simp: bit_exp_iff)
  consider (other) "n \<noteq> i" | (counts) "n = i" "?c + 1 \<noteq> 0" | (wraps) "n = i" "?c + 1 = 0" by blast
  then show ?thesis
  proof cases
    case other
    then show ?thesis
      by (intro step_countsI [where l = 0]) (simp_all add: long_counter_def ctr sts bit_or_iff one)
  next
    case counts
    then have "unat (?c + 1) = unat ?c + 1" "unat ?c + 1 \<noteq> 2 ^ 32"
      using wraps_iff [of ?c] unatSuc [of ?c] by (auto simp: add.commute)
    then show ?thesis
      using counts by (intro step_countsI [where l = 0]) (simp_all add: long_counter_def ctr sts)
  next
    case wraps
    then have "unat ?c + 1 = 2 ^ 32" using wraps_iff by blast
    moreover have "ctr (event i (hw d)) n = 0" "bit (sts (event i (hw d))) n" using wraps ctr sts one(2) by (simp_all add: bit_or_iff)
    ultimately have "long_counter ctr sts (d\<lparr>hw := event i (hw d)\<rparr>) n + (if ?p then 2 ^ 32 else 0) =
        long_counter ctr sts d n + 1" "\<And>acts. lost n (unat ?c) ?p (Event i # acts) = (if ?p then 2 ^ 32 else 0) +
        lost n (unat (ctr (event i (hw d)) n)) (bit (sts (event i (hw d))) n) acts"
      using wraps(1) by (simp_all add: long_counter_def)
    then show ?thesis using wraps(1) by (intro step_countsI [where l = "if ?p then 2 ^ 32 else 0"]) simp_all
  qed
qed

lemma handled_counts:
  assumes "counting_epu k (base_addr (maps d ! 7)) ctr sts event" and "ready d" and "n < 32"
  shows "step_counts ctr sts n Overflow_interrupt d (d\<lparr>vcnt := (vcnt d)\<lparr>vcntr := count_overflows (sts (hw d)) (vcntr (vcnt d))\<rparr>,
    hw := ack_overflows k d (sts (hw d)) (hw d)\<rparr>)" (is "step_counts _ _ _ _ _ ?d1")
proof -
  let ?m = "sts (hw d)" and ?v = "unat (vcntr (vcnt d) ! n)" and ?c = "unat (ctr (hw d) n)"
  have v: "length (vcntr (vcnt d)) = 32" "?v < 2 ^ 63"
    using assms(2,3) by (simp_all add: ready_def wf_driver_def wf_vcounters_def)
  have d1: "ctr (hw ?d1) n = (if bit ?m n then 0 else ctr (hw d) n)" "sts (hw ?d1) = 0"
    using ack_effect [OF assms(1), of ?m "hw d"] by simp_all
  show ?thesis
  proof (cases "bit ?m n")
    case True
    have "(2 ^ 32 * ((?v + 1) mod 2 ^ 63) + ?c) mod 2 ^ 95 = (2 ^ 32 * (?v + 1) + ?c) mod (2 ^ 95 :: nat)"
      by (simp add: mult_mod_right mod_add_left_eq)
    then show ?thesis
      using True d1 v assms(3) by (intro step_countsI [where l = ?c])
        (simp_all add: long_counter_def nth_count_overflows unat_v_inc ac_simps)
  next
    case False
    then show ?thesis
      using d1 v(1) assms(3) by (intro step_countsI [where l = 0]) (simp_all add: long_counter_def nth_count_overflows)
  qed
qed

lemma interrupt_counts:
  assumes "counting_epu k (base_addr (maps d ! 7)) ctr sts event" and "ready d"
  shows "\<exists>d1. count_step k event Overflow_interrupt d = Done () d1 \<and> ready d1 \<and> maps d1 = maps d \<and>
    (\<forall>n<32. step_counts ctr sts n Overflow_interrupt d d1)"
proof -
  let ?m = "sts (hw d)"
  let ?d1 = "d\<lparr>vcnt := (vcnt d)\<lparr>vcntr := count_overflows ?m (vcntr (vcnt d))\<rparr>, hw := ack_overflows k d ?m (hw d)\<rparr>"
  have r: "epu_mapped d" "wf_driver d" "\<not> vc_lock d" using assms(2) by (simp_all add: ready_def)
  have read: "ioread32 k (epu_addr d LS_DBG_EPU_EPCTRISR_OFFSET) (hw d) = (?m, hw d)"
    using assms(1) by (simp add: counting_epu_def epu_addr_def del: LS_DBG_EPU_EPCTRISR_OFFSET_def)
  have step: "count_step k event Overflow_interrupt d = Done () (if ?m = 0 then d else ?d1)"
    using read by (simp add: interrupt_Done [OF r])
  show ?thesis
  proof (cases "?m = 0")
    case True
    then show ?thesis using assms(2) step by (intro exI [of _ d]) (auto intro!: step_countsI [where l = 0])
  next
    case False
    have "ready ?d1"
      using assms(2) by (auto simp: ready_def epu_mapped_def wf_driver_def wf_vcounters_def nth_count_overflows v_inc_less [simplified])
    then show ?thesis using False step handled_counts [OF assms] by (intro exI [of _ ?d1]) simp
  qed
qed

lemma act_counts:
  assumes "counting_epu k (base_addr (maps d ! 7)) ctr sts event" and "ready d" and "a \<in> insert Overflow_interrupt (Event ` {..<32})"
  shows "\<exists>d1. count_step k event a d = Done () d1 \<and> ready d1 \<and> maps d1 = maps d \<and> (\<forall>n<32. step_counts ctr sts n a d d1)"
proof (cases a)
  case (Event i)
  then show ?thesis
    using assms event_counts [OF assms(1)] by (auto simp: ready_def epu_mapped_def wf_driver_def)
qed (use interrupt_counts [OF assms(1,2)] in simp)

section \<open>Whole runs\<close>

text \<open>C5: The long counters count events.  On a device that counts, after any sequence of events and
  overflow interrupts, every handler has returned, and each long counter (overflows counted by the driver,
  overflow pending, counter of the device) has advanced by exactly the number of its events, modulo the
  \<open>2 ^ 95\<close> that it can hold, less the events lost: those that were counted between an overflow and its
  interrupt, which the handler clears, and a round of the counter completed with an overflow pending.\<close>

theorem long_counters_count_events:
  assumes "counting_epu k (base_addr (maps d ! 7)) ctr sts event" and "ready d"
    and "set acts \<subseteq> insert Overflow_interrupt (Event ` {..<32})"
  shows "\<exists>d'. count_run k event acts d = Done () d' \<and> (\<forall>n<32.
    (long_counter ctr sts d' n + lost n (unat (ctr (hw d) n)) (bit (sts (hw d)) n) acts) mod 2 ^ 95 =
    (long_counter ctr sts d n + count_list acts (Event n)) mod 2 ^ 95)"
  using assms
proof (induction acts arbitrary: d)
  case (Cons a acts)
  obtain d1 where d1: "count_step k event a d = Done () d1" "ready d1" "maps d1 = maps d"
      "\<forall>n<32. step_counts ctr sts n a d d1"
    using act_counts [OF Cons.prems(1,2), of a] Cons.prems(3) by auto
  obtain d' where d': "count_run k event acts d1 = Done () d'" "\<And>n. n < 32 \<Longrightarrow>
      (long_counter ctr sts d' n + lost n (unat (ctr (hw d1) n)) (bit (sts (hw d1)) n) acts) mod 2 ^ 95 =
      (long_counter ctr sts d1 n + count_list acts (Event n)) mod 2 ^ 95"
    using Cons.IH [of d1] Cons.prems d1(2,3) by auto
  have "(long_counter ctr sts d' n + lost n (unat (ctr (hw d) n)) (bit (sts (hw d)) n) (a # acts)) mod 2 ^ 95 =
      (long_counter ctr sts d n + count_list (a # acts) (Event n)) mod 2 ^ 95" if "n < 32" for n
  proof -
    from d1(4) that obtain l where
        l: "lost n (unat (ctr (hw d) n)) (bit (sts (hw d)) n) (a # acts) =
          l + lost n (unat (ctr (hw d1) n)) (bit (sts (hw d1)) n) acts"
        "(long_counter ctr sts d1 n + l) mod 2 ^ 95 =
          (long_counter ctr sts d n + (if a = Event n then 1 else 0)) mod 2 ^ 95"
      unfolding step_counts_def by blast
    from mod_add_cong [OF d' (2) [OF that] refl, of l] mod_add_cong [OF l(2) refl, of "count_list acts (Event n)"]
    show ?thesis unfolding l(1) by (auto simp: ac_simps)
  qed
  then show ?case using d1(1) d'(1) by (intro exI [of _ d']) simp
qed simp

text \<open>Nothing is lost when each interrupt is handled before the next event; one event between an overflow and
  its interrupt is one event lost.\<close>

lemma prompt_interrupts_lose_nothing:
  "c < 2 ^ 32 \<Longrightarrow> lost n c False (concat (map (\<lambda>i. [Event i, Overflow_interrupt]) is)) = 0"
  by (induction "is" arbitrary: c) auto

lemma late_interrupt_loses_event: "lost n (2 ^ 32 - 1) False [Event n, Event n, Overflow_interrupt] = 1"
  by simp

definition bench_ctr :: "bench \<Rightarrow> nat \<Rightarrow> u32" where
  "bench_ctr h n = (if n < 32 then regs h (0x90000A00 + of_nat n * 4) else 0)"

definition bench_sts :: "bench \<Rightarrow> u32" where
  "bench_sts h = regs h 0x90000030"

definition bench_event :: "nat \<Rightarrow> bench \<Rightarrow> bench" where
  "bench_event n h =
    (let a = 0x90000A00 + of_nat n * 4; c = regs h a + 1
     in h\<lparr>regs := (regs h)(a := c, 0x90000030 := if c = 0 then regs h 0x90000030 OR push_bit n 1 else regs h 0x90000030)\<rparr>)"

lemma bench_counter_addr:
  assumes "m < 32"
  shows "n < 32 \<Longrightarrow> of_nat m * 4 = (of_nat n * 4 :: u32) \<longleftrightarrow> m = n" and "0x90000A00 + of_nat m * 4 \<noteq> (0x90000030 :: u32)"
proof -
  have u: "unat (of_nat i * 4 :: u32) = i * 4" if "i < 32" for i
    using that by (simp add: unat_word_ariths unat_of_nat)
  have "m = n" if "n < 32" "of_nat m * 4 = (of_nat n * 4 :: u32)"
    using arg_cong [OF that(2), of unat] unfolding u [OF assms] u [OF that(1)] by simp
  then show "n < 32 \<Longrightarrow> of_nat m * 4 = (of_nat n * 4 :: u32) \<longleftrightarrow> m = n" by blast
  have "of_nat m * 4 \<noteq> (0xFFFFF630 :: u32)" using u [OF assms] assms by auto
  moreover have "of_nat m * 4 = (0xFFFFF630 :: u32)" if "0x90000A00 + of_nat m * 4 = (0x90000030 :: u32)"
    using arg_cong [OF that, of "\<lambda>x. x - 0x90000A00"] by simp
  ultimately show "0x90000A00 + of_nat m * 4 \<noteq> (0x90000030 :: u32)" by blast
qed

lemma counting_bench: "counting_epu bench_kernel 0x90000000 bench_ctr bench_sts bench_event"
  unfolding counting_epu_def
  by (intro conjI allI impI)
    (auto simp: bench_ctr_def bench_sts_def bench_event_def bench_write_def bench_counter_addr fun_eq_iff
      Let_def eq_commute [of "0x90000030"])

definition bench_full :: bench where
  "bench_full = bench_world\<lparr>regs := (\<lambda>a. 0)(0x90000A0C := 0xFFFFFFFF)\<rparr>"

lemma long_counters_count_events_witness:
  "\<exists>d'. count_run bench_kernel bench_event [Event 3, Event 3, Overflow_interrupt, Event 3] (bench_driver bench_full) = Done () d' \<and>
    (long_counter bench_ctr bench_sts d' 3 + 1) mod 2 ^ 95 = 2 ^ 32 - 1 + 3"
proof -
  let ?d = "bench_driver bench_full"
  have "ready ?d" by (simp add: ready_def)
  moreover have "counting_epu bench_kernel (base_addr (maps ?d ! 7)) bench_ctr bench_sts bench_event"
    using counting_bench by simp
  moreover have "bench_ctr bench_full 3 = 0xFFFFFFFF" "bench_sts bench_full = 0"
    by (simp_all add: bench_ctr_def bench_sts_def bench_full_def)
  moreover obtain d' where d': "count_run bench_kernel bench_event [Event 3, Event 3, Overflow_interrupt, Event 3] ?d = Done () d'"
      "\<forall>n<32. (long_counter bench_ctr bench_sts d' n + lost n (unat (bench_ctr (hw ?d) n)) (bit (bench_sts (hw ?d)) n)
          [Event 3, Event 3, Overflow_interrupt, Event 3]) mod 2 ^ 95 =
        (long_counter bench_ctr bench_sts ?d n + count_list [Event 3, Event 3, Overflow_interrupt, Event 3] (Event n)) mod 2 ^ 95"
    using long_counters_count_events [OF calculation(2,1), of "[Event 3, Event 3, Overflow_interrupt, Event 3]"] by auto
  ultimately show ?thesis
    using d'(2) [rule_format, of 3] by (intro exI [of _ d']) (simp add: long_counter_def)
qed

end
