(* ===== verification/Capture_Count.thy ===== *)
theory Capture_Count
  imports Event_Count
begin

text \<open>
  Captures among the events.  The device latches the counters of a group when it is told to capture, and
  \<open>vcntepecr_set\<close> takes a latched value below the one before it for an overflow that nobody has counted.
\<close>

section \<open>A device that counts and captures\<close>

text \<open>
  The device of \<^theory_text>\<open>Event_Count\<close> with latches (\<open>capr\<close>): writing the status bit of event \<open>ev\<close> latches the
  counters of the mask \<open>m\<close>, which is group 0, and nothing else changes a latch.  The event is configured
  for group 0, and the register that is read for the status before the trigger is reserved and reads \<open>0\<close>.
\<close>

definition capturing_epu ::
  "'h kernel \<Rightarrow> u32 \<Rightarrow> nat \<Rightarrow> u32 \<Rightarrow> ('h \<Rightarrow> nat \<Rightarrow> u32) \<Rightarrow> ('h \<Rightarrow> u32) \<Rightarrow> ('h \<Rightarrow> nat \<Rightarrow> u32) \<Rightarrow>
    (nat \<Rightarrow> 'h \<Rightarrow> 'h) \<Rightarrow> bool" where
  "capturing_epu k base ev m ctr sts capr event \<longleftrightarrow>
    pure_reads k \<and> counting_epu k base ctr sts event \<and>
    (\<forall>h. fst (ioread32 k (base + (LS_DBG_EPU_EPGACR_OFFSET + of_nat ev * 4)) h) AND EPGACR_CTCC_MASK = 0) \<and>
    (\<forall>h. fst (ioread32 k (base + LS_DBG_EPU_EPCTRGCR_OFFSET) h) = m) \<and>
    (\<forall>h. fst (ioread32 k (base + (LS_DBG_EPU_EPCTRISR_OFFSET + of_nat (bit_len m) * 4)) h) = 0) \<and>
    (\<forall>n<32. \<forall>h. fst (ioread32 k (base + (LS_DBG_EPU_EPCAPR_OFFSET + of_nat n * 4)) h) = capr h n) \<and>
    (\<forall>v h. v AND EPECR_STS_MASK \<noteq> 0 \<longrightarrow>
      (let h' = iowrite32 k v (base + (LS_DBG_EPU_EPECR_OFFSET + of_nat ev * 4)) h
       in ctr h' = ctr h \<and> sts h' = sts h \<and> capr h' = (\<lambda>n. if bit m n then ctr h n else capr h n))) \<and>
    (\<forall>n<32. \<forall>h. capr (event n h) = capr h) \<and>
    (\<forall>v h. capr (iowrite32 k v (base + LS_DBG_EPU_EPCTRISR_OFFSET) h) = capr h) \<and>
    (\<forall>n<32. \<forall>v h. capr (iowrite32 k v (base + (LS_DBG_EPU_EPCTR_OFFSET + of_nat n * 4)) h) = capr h)"

datatype capture_act = Counting count_act | Capture u64

fun capture_step ::
  "'h kernel \<Rightarrow> nat \<Rightarrow> (nat \<Rightarrow> 'h \<Rightarrow> 'h) \<Rightarrow> capture_act \<Rightarrow> 'h driver \<Rightarrow> (unit, 'h driver) result" where
  "capture_step k ev event (Counting a) d = count_step k event a d"
| "capture_step k ev event (Capture val) d = vcntepecr_set k (vcnt_addr k + vreg_off (Vcntrepecr ev)) val d"

fun capture_run ::
  "'h kernel \<Rightarrow> nat \<Rightarrow> (nat \<Rightarrow> 'h \<Rightarrow> 'h) \<Rightarrow> capture_act list \<Rightarrow> 'h driver \<Rightarrow> (unit, 'h driver) result" where
  "capture_run k ev event [] d = Done () d"
| "capture_run k ev event (a # acts) d = and_then (capture_step k ev event a d) (\<lambda>_. capture_run k ev event acts)"

section \<open>One counter of the device\<close>

record counter =
  count :: nat
  pending :: bool
  latched :: nat

definition counter_of ::
  "('h \<Rightarrow> nat \<Rightarrow> u32) \<Rightarrow> ('h \<Rightarrow> u32) \<Rightarrow> ('h \<Rightarrow> nat \<Rightarrow> u32) \<Rightarrow> 'h \<Rightarrow> nat \<Rightarrow> counter" where
  "counter_of ctr sts capr h n =
    \<lparr>count = unat (ctr h n), pending = bit (sts h) n, latched = unat (capr h n)\<rparr>"

definition handled :: "counter \<Rightarrow> counter" where
  "handled c = c\<lparr>count := if pending c then 0 else count c, pending := False\<rparr>"

text \<open>What an act does to counter \<open>n\<close>, which is in the group when \<open>g\<close>.\<close>

fun next_counter :: "bool \<Rightarrow> nat \<Rightarrow> capture_act \<Rightarrow> counter \<Rightarrow> counter" where
  "next_counter g n (Counting (Event i)) c =
    (if i \<noteq> n then c
     else if count c + 1 = 2 ^ 32 then c\<lparr>count := 0, pending := True\<rparr> else c\<lparr>count := count c + 1\<rparr>)"
| "next_counter g n (Counting Overflow_interrupt) c = handled c"
| "next_counter g n (Capture val) c = handled (if g then c\<lparr>latched := count c\<rparr> else c)"

text \<open>The events that an act loses, and the overflows that it counts although there were none.\<close>

fun missed :: "nat \<Rightarrow> capture_act \<Rightarrow> counter \<Rightarrow> nat" where
  "missed n (Counting (Event i)) c = (if i = n \<and> count c + 1 = 2 ^ 32 \<and> pending c then 2 ^ 32 else 0)"
| "missed n (Counting Overflow_interrupt) c = (if pending c then count c else 0)"
| "missed n (Capture val) c = (if pending c then count c else 0)"

fun surplus :: "bool \<Rightarrow> capture_act \<Rightarrow> counter \<Rightarrow> nat" where
  "surplus g (Counting a) c = 0"
| "surplus g (Capture val) c = (if g \<and> count c < latched c then 1 else 0)"

fun along :: "(capture_act \<Rightarrow> counter \<Rightarrow> nat) \<Rightarrow> (capture_act \<Rightarrow> counter \<Rightarrow> counter) \<Rightarrow> capture_act list \<Rightarrow> counter \<Rightarrow> nat" where
  "along f nxt [] c = 0"
| "along f nxt (a # acts) c = f a c + along f nxt acts (nxt a c)"

section \<open>One act\<close>

definition act_exact ::
  "('h \<Rightarrow> nat \<Rightarrow> u32) \<Rightarrow> ('h \<Rightarrow> u32) \<Rightarrow> ('h \<Rightarrow> nat \<Rightarrow> u32) \<Rightarrow> u32 \<Rightarrow> capture_act \<Rightarrow> nat \<Rightarrow> 'h driver \<Rightarrow> 'h driver \<Rightarrow> bool" where
  "act_exact ctr sts capr m a n d d1 \<longleftrightarrow>
    (let c = counter_of ctr sts capr (hw d) n
     in counter_of ctr sts capr (hw d1) n = next_counter (bit m n) n a c \<and>
       long_counter ctr sts d1 n + missed n a c =
         long_counter ctr sts d n + (if a = Counting (Event n) then 1 else 0) + 2 ^ 32 * surplus (bit m n) a c \<and>
       unat (vcntr (vcnt d1) ! n) \<le> unat (vcntr (vcnt d) ! n) + 2)"

lemma event_exact:
  assumes "capturing_epu k base ev m ctr sts capr event" and "i < 32" and "n < 32"
  shows "act_exact ctr sts capr m (Counting (Event i)) n d (d\<lparr>hw := event i (hw d)\<rparr>)"
proof -
  have e: "ctr (event i (hw d)) = (ctr (hw d))(i := ctr (hw d) i + 1)"
      "sts (event i (hw d)) = (if ctr (hw d) i + 1 = 0 then sts (hw d) OR push_bit i 1 else sts (hw d))"
      "capr (event i (hw d)) = capr (hw d)"
    using assms(1,2) by (auto simp: capturing_epu_def counting_epu_def)
  have one: "bit (2 ^ i :: u32) n \<longleftrightarrow> n = i" "bit (2 ^ i :: u32) i" using assms(2,3) by (auto simp: bit_exp_iff)
  consider (other) "n \<noteq> i" | (counts) "n = i" "ctr (hw d) i + 1 \<noteq> 0" | (wraps) "n = i" "ctr (hw d) i + 1 = 0" by blast
  then show ?thesis
  proof cases
    case other
    then show ?thesis by (simp add: act_exact_def counter_of_def long_counter_def e bit_or_iff one)
  next
    case counts
    then have "unat (ctr (hw d) i + 1) = unat (ctr (hw d) i) + 1" "unat (ctr (hw d) i) + 1 \<noteq> 2 ^ 32"
      using wraps_iff [of "ctr (hw d) i"] unatSuc [of "ctr (hw d) i"] by (auto simp: add.commute)
    then show ?thesis using counts by (simp add: act_exact_def counter_of_def long_counter_def e)
  next
    case wraps
    then have "unat (ctr (hw d) i) + 1 = 2 ^ 32" using wraps_iff by blast
    then show ?thesis using wraps by (simp add: act_exact_def counter_of_def long_counter_def e bit_or_iff one)
  qed
qed

lemma ack_keeps_latches:
  assumes "capturing_epu k (base_addr (maps d ! 7)) ev m ctr sts capr event"
  shows "capr (ack_overflows k d s h) = capr h"
proof -
  have "capr (fold (\<lambda>n. iowrite32 k 0 (epu_addr d (LS_DBG_EPU_EPCTR_OFFSET + of_nat n * 4))) (bits_of s) h') = capr h'" for h'
    by (rule fold_keeps [where I = "\<lambda>x. capr x = capr h'"])
      (use assms in \<open>auto simp: capturing_epu_def epu_addr_def bits_of_less simp del: LS_DBG_EPU_EPCTR_OFFSET_def\<close>)
  then show ?thesis
    using assms by (simp add: ack_overflows_def capturing_epu_def epu_addr_def del: LS_DBG_EPU_EPCTRISR_OFFSET_def)
qed

text \<open>The overflow count of a counter below its limit.\<close>

lemma unat_v_inc_room: "unat x + 2 < 2 ^ 63 \<Longrightarrow> unat (v_inc x) = unat x + 1" "unat x + 2 < 2 ^ 63 \<Longrightarrow> unat (v_inc x + 1) = unat x + 2"
  "unat x + 2 < 2 ^ 63 \<Longrightarrow> unat (x + 1) = unat x + 1"
proof -
  assume x: "unat x + 2 < 2 ^ 63"
  then show v: "unat (v_inc x) = unat x + 1" by (simp add: unat_v_inc)
  have inc: "unat (y + 1) = unat y + 1" if "unat y < 2 ^ 63" for y :: u64
  proof -
    have "unat (y + 1) = (unat y + 1) mod 2 ^ 64" by (simp add: unat_word_ariths)
    then show ?thesis using that by simp
  qed
  have "unat (v_inc x) < 2 ^ 63" "unat x < 2 ^ 63" using x v by simp_all
  from inc [OF this(1)] inc [OF this(2)] show "unat (v_inc x + 1) = unat x + 2" "unat (x + 1) = unat x + 1"
    using v by simp_all
qed

lemma count_overflows_none: "count_overflows 0 xs = xs"
  by (simp add: count_overflows_def)

lemma interrupt_exact:
  assumes "capturing_epu k (base_addr (maps d ! 7)) ev m ctr sts capr event" and "ready d"
    and "\<forall>n<32. unat (vcntr (vcnt d) ! n) + 2 < 2 ^ 63"
  shows "\<exists>d1. count_step k event Overflow_interrupt d = Done () d1 \<and> same_env d d1 \<and>
    (\<forall>n<32. act_exact ctr sts capr m (Counting Overflow_interrupt) n d d1)"
proof -
  let ?s = "sts (hw d)"
  let ?d1 = "d\<lparr>vcnt := (vcnt d)\<lparr>vcntr := count_overflows ?s (vcntr (vcnt d))\<rparr>, hw := ack_overflows k d ?s (hw d)\<rparr>"
  have r: "epu_mapped d" "wf_driver d" "\<not> vc_lock d" using assms(2) by (simp_all add: ready_def)
  have c: "counting_epu k (base_addr (maps d ! 7)) ctr sts event" using assms(1) by (simp add: capturing_epu_def)
  then have "ioread32 k (epu_addr d LS_DBG_EPU_EPCTRISR_OFFSET) (hw d) = (?s, hw d)"
    by (simp add: counting_epu_def epu_addr_def del: LS_DBG_EPU_EPCTRISR_OFFSET_def)
  then have step: "count_step k event Overflow_interrupt d = Done () (if ?s = 0 then d else ?d1)"
    by (simp add: interrupt_Done [OF r])
  have len: "length (vcntr (vcnt d)) = 32" using r(2) by (simp add: wf_driver_def wf_vcounters_def)
  have "act_exact ctr sts capr m (Counting Overflow_interrupt) n d (if ?s = 0 then d else ?d1)" if "n < 32" for n
    using that assms(3) len unat_v_inc_room(1) [of "vcntr (vcnt d) ! n"]
    by (auto simp: act_exact_def counter_of_def long_counter_def handled_def ack_effect [OF c] ack_keeps_latches [OF assms(1)]
        nth_count_overflows)
  moreover have "same_env d (if ?s = 0 then d else ?d1)" by (simp add: same_env_def wf_vcounters_def)
  ultimately show ?thesis using step by blast
qed

lemma capture_exact:
  assumes "capturing_epu k (base_addr (maps d ! 7)) ev m ctr sts capr event" and "ready d" and "unlocked d" and "ev < 16"
    and "\<forall>n<32. unat (vcntr (vcnt d) ! n) + 2 < 2 ^ 63"
  shows "\<exists>d1. capture_step k ev event (Capture val) d = Done () d1 \<and> same_env d d1 \<and>
    (\<forall>n<32. act_exact ctr sts capr m (Capture val) n d d1)"
proof -
  let ?s = "sts (hw d)"
  have r: "pure_reads k" "epu_mapped d" "wf_driver d" using assms(1,2) by (simp_all add: ready_def capturing_epu_def)
  have c: "counting_epu k (base_addr (maps d ! 7)) ctr sts event" using assms(1) by (simp add: capturing_epu_def)
  have regs: "epu_reg k d (LS_DBG_EPU_EPGACR_OFFSET + of_nat ev * 4) (hw d) AND EPGACR_CTCC_MASK = 0"
      "epu_reg k d LS_DBG_EPU_EPCTRGCR_OFFSET h = m" "stray_status k d m = 0" "n < 32 \<Longrightarrow> capture_reg k d n h = capr h n"
      "epu_reg k d LS_DBG_EPU_EPCTRISR_OFFSET h = sts h" for h n
    using assms(1) c
    by (simp_all add: capturing_epu_def counting_epu_def epu_reg_def epu_addr_def stray_status_def capture_reg_def
        del: LS_DBG_EPU_EPGACR_OFFSET_def LS_DBG_EPU_EPCTRGCR_OFFSET_def LS_DBG_EPU_EPCTRISR_OFFSET_def LS_DBG_EPU_EPCAPR_OFFSET_def)
  define t where "t = triggered_hw k d ev m"
  have "(epu_reg k d (LS_DBG_EPU_EPECR_OFFSET + of_nat ev * 4) (hw d) OR EPECR_STS_MASK) AND EPECR_STS_MASK \<noteq> 0"
    by (simp add: bit.conj_disj_distrib2)
  then have t: "ctr t = ctr (hw d)" "sts t = ?s" "capr t = (\<lambda>n. if bit m n then ctr (hw d) n else capr (hw d) n)"
    using assms(1) by (simp_all add: t_def triggered_hw_def handled_hw_def regs(3) capturing_epu_def epu_addr_def Let_def)
  have late: "late_status k d ev m = ?s" by (simp only: late_status_def regs(5) t_def [symmetric] t)
  define h where "h = captured_hw k d ev m"
  have h: "ctr h n = (if bit ?s n then 0 else ctr (hw d) n)" "sts h = 0" "capr h = capr t" for n
    by (auto simp: h_def captured_hw_def handled_hw_def late ack_effect [OF c] ack_keeps_latches [OF assms(1)] t simp flip: t_def)
  obtain d1 where d1: "vcntepecr_set k (vcnt_addr k + vreg_off (Vcntrepecr ev)) val d = Done () d1" "same_env d d1" "hw d1 = h"
      "\<forall>n<32. vcntr (vcnt d1) ! n =
        (if bit m n \<and> capture_reg k d n h < capture_reg k d n (hw d)
         then count_overflows ?s (vcntr (vcnt d)) ! n + 1 else count_overflows ?s (vcntr (vcnt d)) ! n)"
    using capture_result [OF r(1,3) assms(3) r(2) assms(4) regs(1), of val]
    unfolding Let_def regs(2,3) late h_def [symmetric] count_overflows_none by blast
  have len: "length (vcntr (vcnt d)) = 32" using r(3) by (simp add: wf_driver_def wf_vcounters_def)
  have "act_exact ctr sts capr m (Capture val) n d d1" if "n < 32" for n
    using that assms(5) len unat_v_inc_room [of "vcntr (vcnt d) ! n"]
    by (simp add: act_exact_def counter_of_def long_counter_def handled_def d1(3,4) regs(4) h t(3) nth_count_overflows
        word_less_nat_alt Let_def)
  then show ?thesis using d1(1,2) by (intro exI [of _ d1]) simp
qed

lemma act_is_exact:
  assumes "capturing_epu k (base_addr (maps d ! 7)) ev m ctr sts capr event" and "ready d" and "unlocked d" and "ev < 16"
    and "\<forall>n<32. unat (vcntr (vcnt d) ! n) + 2 < 2 ^ 63" and "\<And>i. a = Counting (Event i) \<Longrightarrow> i < 32"
  shows "\<exists>d1. capture_step k ev event a d = Done () d1 \<and> same_env d d1 \<and> (\<forall>n<32. act_exact ctr sts capr m a n d d1)"
proof (cases a)
  case (Counting b)
  show ?thesis
  proof (cases b)
    case (Event i)
    then show ?thesis using event_exact [OF assms(1)] assms(6) Counting by simp
  qed (use Counting interrupt_exact [OF assms(1,2,5)] in simp)
qed (use capture_exact [OF assms(1-5)] in simp)

lemma same_env_ready:
  assumes "same_env d d1" and "ready d" and "\<forall>n<32. unat (vcntr (vcnt d1) ! n) < 2 ^ 63"
  shows "ready d1"
  using assms same_env_wf [OF assms(1)] by (simp add: ready_def same_env_def epu_mapped_def)

section \<open>Whole runs\<close>

text \<open>C6: The long counters when the program captures.  After any sequence of events, overflow interrupts and
  captures every call has returned, and each long counter has advanced by exactly the number of its
  events, less those lost to late handling, plus a whole round of \<open>2 ^ 32\<close> for every capture that latches a
  value below the one latched before: the code takes that for an overflow that nobody has counted, but
  the overflow in between has been counted when its interrupt was handled, or by the capture itself.\<close>

theorem captures_count_overflows_again:
  assumes "capturing_epu k (base_addr (maps d ! 7)) ev m ctr sts capr event" and "ready d" and "unlocked d" and "ev < 16"
    and "\<forall>n<32. unat (vcntr (vcnt d) ! n) + 2 * length acts < 2 ^ 63"
    and "\<And>i. Counting (Event i) \<in> set acts \<Longrightarrow> i < 32"
  shows "\<exists>d'. capture_run k ev event acts d = Done () d' \<and> (\<forall>n<32.
    (let c = counter_of ctr sts capr (hw d) n; nxt = next_counter (bit m n) n
     in long_counter ctr sts d' n + along (missed n) nxt acts c =
       long_counter ctr sts d n + count_list acts (Counting (Event n)) + 2 ^ 32 * along (surplus (bit m n)) nxt acts c))"
  using assms
proof (induction acts arbitrary: d)
  case (Cons a acts)
  have room: "\<forall>n<32. unat (vcntr (vcnt d) ! n) + 2 < 2 ^ 63" using Cons.prems(5) by force
  obtain d1 where d1: "capture_step k ev event a d = Done () d1" "same_env d d1"
      "\<forall>n<32. act_exact ctr sts capr m a n d d1"
    using act_is_exact [OF Cons.prems(1-4) room, of a] Cons.prems(6) by force
  have env: "maps d1 = maps d" "unlocked d1" using d1(2) Cons.prems(3) by (simp_all add: same_env_def unlocked_def)
  have less: "\<forall>n<32. unat (vcntr (vcnt d1) ! n) + 2 * length acts < 2 ^ 63"
    using d1(3) Cons.prems(5) by (fastforce simp: act_exact_def Let_def)
  then have "ready d1" using same_env_ready [OF d1(2) Cons.prems(2)] by force
  then obtain d' where d': "capture_run k ev event acts d1 = Done () d'" "\<forall>n<32.
      (let c = counter_of ctr sts capr (hw d1) n; nxt = next_counter (bit m n) n
       in long_counter ctr sts d' n + along (missed n) nxt acts c =
         long_counter ctr sts d1 n + count_list acts (Counting (Event n)) + 2 ^ 32 * along (surplus (bit m n)) nxt acts c)"
    using Cons.IH [of d1] Cons.prems(1,4,6) env less by auto
  show ?case
    using d1(1,3) d' by (intro exI [of _ d']) (fastforce simp: act_exact_def Let_def)
qed (simp add: Let_def)

section \<open>A device to run on\<close>

text \<open>An event processing unit at \<open>0x90000000\<close> of which there is nothing but its counters, their status and
  their latches; group 0 is counter 1, and event 0 captures it.\<close>

record capture_dev =
  dev_ctr :: "nat \<Rightarrow> u32"
  dev_sts :: u32
  dev_capr :: "nat \<Rightarrow> u32"

definition reg_index :: "u32 \<Rightarrow> u32 \<Rightarrow> nat option" where
  "reg_index b a = (if b \<le> a \<and> a < b + 0x80 then Some (unat (a - b) div 4) else None)"

definition capture_dev_read :: "u32 \<Rightarrow> capture_dev \<Rightarrow> u32" where
  "capture_dev_read a h =
    (if a = 0x90000030 then dev_sts h else if a = 0x90000540 then 2
     else case reg_index 0x90000B00 a of None \<Rightarrow> 0 | Some n \<Rightarrow> dev_capr h n)"

definition capture_dev_write :: "u32 \<Rightarrow> u32 \<Rightarrow> capture_dev \<Rightarrow> capture_dev" where
  "capture_dev_write v a h =
    (if a = 0x90000030 then h\<lparr>dev_sts := dev_sts h AND NOT v\<rparr>
     else if a = 0x90000300
     then (if v AND EPECR_STS_MASK \<noteq> 0 then h\<lparr>dev_capr := (dev_capr h)(1 := dev_ctr h 1)\<rparr> else h)
     else case reg_index 0x90000A00 a of None \<Rightarrow> h | Some n \<Rightarrow> h\<lparr>dev_ctr := (dev_ctr h)(n := v)\<rparr>)"

definition capture_dev_event :: "nat \<Rightarrow> capture_dev \<Rightarrow> capture_dev" where
  "capture_dev_event n h =
    h\<lparr>dev_ctr := (dev_ctr h)(n := dev_ctr h n + 1),
      dev_sts := if dev_ctr h n + 1 = 0 then dev_sts h OR push_bit n 1 else dev_sts h\<rparr>"

definition capture_kernel :: "capture_dev kernel" where
  "capture_kernel =
    \<lparr>vcnt_addr = 0x80000000, ioread32 = (\<lambda>a h. (capture_dev_read a h, h)), iowrite32 = capture_dev_write,
     copy_reg_access = (\<lambda>p h. None), copy_reservation = (\<lambda>p h. None), get_user32 = (\<lambda>p h. None),
     copy_user64 = (\<lambda>p h. None), put_user32 = (\<lambda>v p h. None), put_user64 = (\<lambda>v p h. None),
     find_epu_node = (\<lambda>h. 1), irq_of_parse_and_map = (\<lambda>node i h. (37, h)), set_irq_flags = (\<lambda>n h. h),
     request_irq = (\<lambda>num node h. (0, h)), free_irq = (\<lambda>num node h. h), flush_scheduled_work = (\<lambda>h. h)\<rparr>"

lemma reg_index_array:
  assumes "n < 32" and "b \<le> 0x90000B00" and "0x90000A00 \<le> b"
  shows "reg_index b (b + of_nat n * 4) = Some n" and "b + of_nat n * 4 \<noteq> 0x90000030"
    and "b + of_nat n * 4 \<noteq> 0x90000300" and "b + of_nat n * 4 \<noteq> 0x90000540"
proof -
  have u: "unat (of_nat n * 4 :: u32) = n * 4" using assms(1) by (simp add: unat_word_ariths unat_of_nat)
  have b: "0x90000A00 \<le> unat b" "unat b \<le> 0x90000B00" using assms(2,3) by (simp_all add: word_le_nat_alt)
  then have a: "unat (b + of_nat n * 4) = unat b + n * 4" "unat (b + 0x80) = unat b + 0x80"
    using assms(1) u by (simp_all add: unat_word_ariths)
  have "b + of_nat n * 4 - b = of_nat n * 4" by simp
  then show "reg_index b (b + of_nat n * 4) = Some n"
    using assms(1) a by (simp add: reg_index_def word_le_nat_alt word_less_nat_alt u)
  have "b + of_nat n * 4 \<noteq> c" if "unat c < 0x90000A00" for c using a(1) b(1) that by auto
  then show "b + of_nat n * 4 \<noteq> 0x90000030" "b + of_nat n * 4 \<noteq> 0x90000300" "b + of_nat n * 4 \<noteq> 0x90000540" by simp_all
qed

lemma bit_2: "bit (2 :: u32) n \<longleftrightarrow> n = 1" "bit (2 :: int) n \<longleftrightarrow> n = 1" "bit_len 2 = 2"
proof -
  show "bit (2 :: u32) n \<longleftrightarrow> n = 1" for n using bit_exp_iff [where 'a = u32, of 1 n] by auto
  show bit: "bit (2 :: int) n \<longleftrightarrow> n = 1" for n using bit_exp_iff [where 'a = int, of 1 n] by auto
  have "bits_of 2 = [1]" by code_simp
  then show "bit_len 2 = 2" by (simp add: bit_len_def)
qed

lemma counting_capture_kernel: "counting_epu capture_kernel 0x90000000 dev_ctr dev_sts capture_dev_event"
  unfolding counting_epu_def
proof (intro conjI allI impI)
  fix n v h assume n: "n < (32 :: nat)"
  have a: "0x90000000 + (LS_DBG_EPU_EPCTR_OFFSET + of_nat n * 4) = 0x90000A00 + of_nat n * 4" by simp
  note i = reg_index_array [OF n, of "0x90000A00", simplified]
  show "dev_ctr (iowrite32 capture_kernel v (0x90000000 + (LS_DBG_EPU_EPCTR_OFFSET + of_nat n * 4)) h) = (dev_ctr h)(n := v)"
    "dev_sts (iowrite32 capture_kernel v (0x90000000 + (LS_DBG_EPU_EPCTR_OFFSET + of_nat n * 4)) h) = dev_sts h"
    unfolding a by (simp_all add: capture_kernel_def capture_dev_write_def i)
qed (simp_all add: capture_kernel_def capture_dev_read_def capture_dev_write_def capture_dev_event_def)

lemma capturing_capture_kernel:
  "capturing_epu capture_kernel 0x90000000 0 2 dev_ctr dev_sts dev_capr capture_dev_event"
  unfolding capturing_epu_def
proof (intro conjI allI impI counting_capture_kernel)
  fix n v h assume n: "n < (32 :: nat)"
  have a: "0x90000000 + (LS_DBG_EPU_EPCTR_OFFSET + of_nat n * 4) = 0x90000A00 + of_nat n * 4"
    "0x90000000 + (LS_DBG_EPU_EPCAPR_OFFSET + of_nat n * 4) = 0x90000B00 + of_nat n * 4" by simp_all
  note i = reg_index_array [OF n, of "0x90000A00", simplified] and j = reg_index_array [OF n, of "0x90000B00", simplified]
  show "fst (ioread32 capture_kernel (0x90000000 + (LS_DBG_EPU_EPCAPR_OFFSET + of_nat n * 4)) h) = dev_capr h n"
    unfolding a by (simp add: capture_kernel_def capture_dev_read_def j)
  show "dev_capr (iowrite32 capture_kernel v (0x90000000 + (LS_DBG_EPU_EPCTR_OFFSET + of_nat n * 4)) h) = dev_capr h"
    unfolding a by (simp add: capture_kernel_def capture_dev_write_def i)
qed (auto simp: pure_reads_def capture_kernel_def capture_dev_read_def capture_dev_write_def capture_dev_event_def
    reg_index_def bit_2 Let_def fun_eq_iff)

text \<open>Counter 1 is about to wrap around.  It is captured, an event wraps it around, the interrupt counts the
  overflow, and the next capture counts it again.\<close>

definition capture_start :: "capture_dev driver" where
  "capture_start = (initial_driver \<lparr>dev_ctr = (\<lambda>n. 0)(1 := 0xFFFFFFFF), dev_sts = 0, dev_capr = (\<lambda>n. 0)\<rparr>)
    \<lparr>maps := bench_maps, epu_ptr := 0x90000000\<rparr>"

lemma captures_count_overflows_again_witness:
  "\<exists>d'. capture_run capture_kernel 0 capture_dev_event
      [Capture 1, Counting (Event 1), Counting Overflow_interrupt, Capture 1] capture_start = Done () d' \<and>
    long_counter dev_ctr dev_sts d' 1 = (2 ^ 32 - 1) + 1 + 2 ^ 32"
proof -
  have s: "base_addr (maps capture_start ! 7) = 0x90000000" "ready capture_start" "unlocked capture_start"
      "\<forall>n<32. vcntr (vcnt capture_start) ! n = 0"
    by (simp_all add: capture_start_def initial_driver_def bench_maps_def ready_def epu_mapped_def wf_driver_def unlocked_def)
  let ?acts = "[Capture 1, Counting (Event 1), Counting Overflow_interrupt, Capture 1]"
  have h: "hw capture_start = \<lparr>dev_ctr = (\<lambda>n. 0)(1 := 0xFFFFFFFF), dev_sts = 0, dev_capr = (\<lambda>n. 0)\<rparr>"
    by (simp add: capture_start_def initial_driver_def)
  have events: "Counting (Event i) \<in> set ?acts \<Longrightarrow> i < 32" for i by simp
  have room: "(0 :: nat) < 16" "\<forall>n<32. unat (vcntr (vcnt capture_start) ! n) + 2 * length ?acts < 2 ^ 63" using s(4) by simp_all
  from captures_count_overflows_again [OF _ s(2,3) room events, unfolded s(1), OF capturing_capture_kernel]
  obtain d' where d': "capture_run capture_kernel 0 capture_dev_event ?acts capture_start = Done () d'"
      "\<forall>n<32. (let c = counter_of dev_ctr dev_sts dev_capr (hw capture_start) n; nxt = next_counter (bit (2 :: u32) n) n
       in long_counter dev_ctr dev_sts d' n + along (missed n) nxt ?acts c =
         long_counter dev_ctr dev_sts capture_start n + count_list ?acts (Counting (Event n)) +
           2 ^ 32 * along (surplus (bit (2 :: u32) n)) nxt ?acts c)"
    by blast
  have "long_counter dev_ctr dev_sts capture_start 1 = 2 ^ 32 - 1" using s(4) by (simp add: long_counter_def h)
  then show ?thesis
    using d'(1) d'(2) [rule_format, of 1] by (intro exI [of _ d']) (simp add: counter_of_def handled_def bit_2 h)
qed

end
