(* ===== verification/Phantom_Overflow.thy ===== *)
theory Phantom_Overflow
  imports Vcnt_Capture
begin

text \<open>
  The overflows that a capture handles before its trigger.  The code reads \<open>EPCTRISR + i * 4\<close> with the
  \<open>i\<close> that the first loop left behind, so for a group whose highest counter is \<open>n\<close> it takes the
  register \<open>n + 1\<close> words behind the status register for the status: for a group whose highest counter
  is 3 the capture status register \<open>epctrcsr\<close>.
\<close>

section \<open>The register read instead of the status\<close>

lemma bit_len_highest:
  assumes "bit m hi" and "\<forall>n. bit m n \<longrightarrow> n \<le> hi"
  shows "bit_len m = Suc hi"
proof -
  have mem: "hi \<in> set (bits_of m)" using assms(1) by (simp add: set_bits_of)
  then obtain xs where xs: "bits_of m = xs @ [last (bits_of m)]"
    by (metis append_butlast_last_id list.set_cases list.distinct(1))
  have "sorted (bits_of m)" by (simp add: bits_of_def sorted_wrt_filter)
  then have "\<forall>n\<in>set xs. n \<le> last (bits_of m)" by (subst (asm) xs) (simp add: sorted_append)
  then have "hi \<le> last (bits_of m)" using mem by (subst (asm) xs) auto
  moreover have "last (bits_of m) \<le> hi"
    using assms(2) set_bits_of [of m] xs by (metis in_set_conv_decomp mem_Collect_eq)
  ultimately show ?thesis using assms(1) by (auto simp: bit_len_def)
qed

lemma stray_status_register:
  "bit m hi \<Longrightarrow> \<forall>n. bit m n \<longrightarrow> n \<le> hi \<Longrightarrow>
    stray_status k d m = epu_reg k d (LS_DBG_EPU_EPCTRISR_OFFSET + 4 * (of_nat hi + 1)) (hw d)"
  by (simp add: stray_status_def bit_len_highest algebra_simps)

section \<open>A device without overflows\<close>

text \<open>Its status register reads zero, now and whatever the driver writes.\<close>

definition no_overflows :: "'h kernel \<Rightarrow> 'h driver \<Rightarrow> ('h \<Rightarrow> bool) \<Rightarrow> bool" where
  "no_overflows k d idle \<longleftrightarrow> idle (hw d) \<and> (\<forall>h v a. idle h \<longrightarrow> idle (iowrite32 k v a h)) \<and>
    (\<forall>h. idle h \<longrightarrow> epu_reg k d LS_DBG_EPU_EPCTRISR_OFFSET h = 0)"

lemma handled_idle: "no_overflows k d idle \<Longrightarrow> idle h \<Longrightarrow> idle (handled_hw k d m h)"
  by (auto simp: handled_hw_def ack_overflows_def no_overflows_def intro!: fold_keeps [where I = idle])

lemma no_late_overflow: "no_overflows k d idle \<Longrightarrow> late_status k d ev m = 0"
  using handled_idle [of k d idle "hw d"] by (simp add: late_status_def triggered_hw_def Let_def no_overflows_def)

text \<open>C21: A capture counts overflows that never happened.  On every device on which no counter overflows,
  before or during the capture, and for every group that is not empty: with \<open>x\<close> the content of the
  register \<open>hi + 1\<close> words behind the status register, \<open>hi\<close> the highest counter of the group, each
  counter outside the group counts an overflow exactly when its bit in \<open>x\<close> is set, and all device
  counters whose bits are set there are cleared before the capture is triggered.\<close>

theorem capture_counts_phantom_overflow:
  assumes "pure_reads k" and "wf_driver d" and "unlocked d" and "epu_mapped d" and "ev < 16"
    and "epu_reg k d (LS_DBG_EPU_EPGACR_OFFSET + of_nat ev * 4) (hw d) AND EPGACR_CTCC_MASK = 0"
    and "no_overflows k d idle"
    and "m = epu_reg k d LS_DBG_EPU_EPCTRGCR_OFFSET (hw d)" and "bit m hi" and "\<forall>n. bit m n \<longrightarrow> n \<le> hi"
    and "x = epu_reg k d (LS_DBG_EPU_EPCTRISR_OFFSET + 4 * (of_nat hi + 1)) (hw d)"
    and "ecr = LS_DBG_EPU_EPECR_OFFSET + of_nat ev * 4"
  shows "\<exists>d'. vcntepecr_set k (vcnt_addr k + vreg_off (Vcntrepecr ev)) val d = Done () d' \<and>
    (\<forall>n<32. \<not> bit m n \<longrightarrow>
      vcntr (vcnt d') ! n = (if bit x n then v_inc (vcntr (vcnt d) ! n) else vcntr (vcnt d) ! n)) \<and>
    hw d' = iowrite32 k (epu_reg k d ecr (hw d) OR EPECR_STS_MASK) (epu_addr d ecr)
      (if x = 0 then hw d else ack_overflows k d x (hw d))"
proof -
  have len: "length (vcntr (vcnt d)) = 32" using assms(2) by (simp add: wf_driver_def wf_vcounters_def)
  have stray: "stray_status k d m = x" unfolding assms(11) by (rule stray_status_register [OF assms(9,10)])
  have late: "late_status k d ev m = 0" by (rule no_late_overflow [OF assms(7)])
  have counts: "count_overflows 0 xs = xs" for xs by (simp add: count_overflows_def)
  let ?cap = "\<lambda>n h. capture_reg k d n h"
  obtain d' where "vcntepecr_set k (vcnt_addr k + vreg_off (Vcntrepecr ev)) val d = Done () d'"
      "hw d' = captured_hw k d ev m"
      and all: "\<And>n. n < 32 \<Longrightarrow> vcntr (vcnt d') ! n =
        (if bit m n \<and> ?cap n (captured_hw k d ev m) < ?cap n (hw d) then count_overflows x (vcntr (vcnt d)) ! n + 1
         else count_overflows x (vcntr (vcnt d)) ! n)"
    using capture_result [OF assms(1-6), of val, unfolded Let_def, folded assms(8), unfolded late stray counts]
    by (elim exE conjE) (rule that, assumption, assumption, simp only:)
  moreover have "\<forall>n<32. \<not> bit m n \<longrightarrow> vcntr (vcnt d') ! n = count_overflows x (vcntr (vcnt d)) ! n"
    using all by simp
  moreover have "captured_hw k d ev m = iowrite32 k (epu_reg k d ecr (hw d) OR EPECR_STS_MASK) (epu_addr d ecr)
      (if x = 0 then hw d else ack_overflows k d x (hw d))"
    unfolding captured_hw_def late by (simp add: handled_hw_def triggered_hw_def stray assms(12) Let_def)
  moreover have "count_overflows x (vcntr (vcnt d)) ! n =
      (if bit x n then v_inc (vcntr (vcnt d) ! n) else vcntr (vcnt d) ! n)" if "n < 32" for n
    using that len by (simp add: nth_count_overflows)
  ultimately show ?thesis by (intro exI [of _ d'] conjI) simp_all
qed

text \<open>Counter 3 is the group, nothing has overflowed, and \<open>epctrcsr\<close> (offset \<open>0x40\<close>) is 1.\<close>

definition bench_phantom :: bench where
  "bench_phantom = bench_world\<lparr>regs := (\<lambda>a. 0)(0x90000540 := 8, 0x90000040 := 1)\<rparr>"

lemma bit_8: "bit (8 :: u32) n \<longleftrightarrow> n = 3"
proof -
  have "{n. bit (8 :: u32) n} = {3}" by (simp only: set_bits_of [symmetric] bits_of_8 list.set)
  then show ?thesis by blast
qed

lemma capture_counts_phantom_overflow_witness:
  "\<exists>d'. vcntepecr_set bench_kernel (0x80000000 + vreg_off (Vcntrepecr 0)) 0 (bench_driver bench_phantom) =
      Done () d' \<and>
    regs bench_phantom 0x90000030 = 0 \<and> vcntr (vcnt d') ! 0 = 1 \<and> vcntr (vcnt d') ! 1 = 0"
proof -
  let ?d = "bench_driver bench_phantom"
  have idle: "no_overflows bench_kernel ?d (\<lambda>h. regs h 0x90000030 = 0)"
    by (simp add: no_overflows_def bench_phantom_def bench_write_def)
  have g: "epu_reg bench_kernel ?d (LS_DBG_EPU_EPGACR_OFFSET + of_nat 0 * 4) (hw ?d) AND EPGACR_CTCC_MASK = 0"
    and m: "(8 :: u32) = epu_reg bench_kernel ?d LS_DBG_EPU_EPCTRGCR_OFFSET (hw ?d)"
    and x: "(1 :: u32) = epu_reg bench_kernel ?d (LS_DBG_EPU_EPCTRISR_OFFSET + 4 * (of_nat 3 + 1)) (hw ?d)"
    by (simp_all add: bench_phantom_def)
  have hi: "bit (8 :: u32) 3" "\<forall>n. bit (8 :: u32) n \<longrightarrow> n \<le> 3" using bit_8 by (metis order_refl)+
  obtain d' where d':
      "vcntepecr_set bench_kernel (vcnt_addr bench_kernel + vreg_off (Vcntrepecr 0)) 0 ?d = Done () d'"
      "\<forall>n<32. \<not> bit (8 :: u32) n \<longrightarrow> vcntr (vcnt d') ! n =
        (if bit (1 :: u32) n then v_inc (vcntr (vcnt ?d) ! n) else vcntr (vcnt ?d) ! n)"
    using capture_counts_phantom_overflow [OF pure_reads_bench wf_bench unlocked_bench epu_bench(1)
        zero_less_numeral g idle m hi x refl, of 0] by blast
  have "vcntr (vcnt ?d) ! n = 0" if "n < 32" for n using that by (simp add: bench_driver_def initial_driver_def zero_vcounters_def)
  then have "vcntr (vcnt d') ! 0 = 1" "vcntr (vcnt d') ! 1 = 0"
    using d'(2) by (simp_all add: bit_8 v_inc_0 bit_1_iff)
  then show ?thesis using d'(1) by (auto simp: bench_phantom_def)
qed

end
