(* ===== verification/User_Access.thy ===== *)
theory User_Access
  imports Reg_Access
begin

text \<open>
  Register access by group and offset, as the driver itself and user space see it: the virtual
  registers behind the group \<open>VCOUNT\<close> are a \<open>reg_store\<close>, the physical groups are reached inside
  their mapped window only, and every request that cannot be served is refused with its error number.
\<close>

section \<open>The virtual register group\<close>

text \<open>\<open>vcounters_init\<close> has recorded the object \<open>ls_dbg_vcnt\<close> in the map table.\<close>

definition vcount_mapped :: "'h kernel \<Rightarrow> 'h driver \<Rightarrow> bool" where
  "vcount_mapped k d \<longleftrightarrow> linked k \<and> base_addr (maps d ! 10) = vcnt_addr k \<and> map_size (maps d ! 10) = 584"

lemma vcount_mapped_frame [simp, frame_simps]:
  "vcount_mapped k (d\<lparr>vcnt := v\<rparr>) = vcount_mapped k d" "vcount_mapped k (d\<lparr>hw := h\<rparr>) = vcount_mapped k d"
  by (simp_all add: vcount_mapped_def)

lemma find_vcount:
  "vcount_mapped k d \<Longrightarrow> reg_find_map_ram d (module_code VCOUNT) off =
    (if off < 584 then Inr (vcnt_addr k + off) else Inl EFAULT)"
  by (auto simp: reg_find_map_ram_def vcount_mapped_def NUM_IDS_def Let_def not_less)

lemma internal_vcount:
  assumes "vcount_mapped k d" and "off < 584"
  shows "ls_dbg_read_reg_internal k (module_code VCOUNT) off d = vcounter_reg_read k (vcnt_addr k + off) d"
    and "ls_dbg_write_reg_internal k (module_code VCOUNT) off v d =
      vcounter_reg_write k (vcnt_addr k + off) v d"
  using assms not_IO_VCOUNT
  by (simp_all only: ls_dbg_read_reg_internal_def ls_dbg_write_reg_internal_def find_vcount if_False
      if_True sum.case)

lemma plain_exists: "plain_vreg r \<Longrightarrow> vreg_exists r"
  by (cases r) simp_all

lemma vcount_plain:
  assumes "vcount_mapped k d" and "plain_vreg r"
  shows "ls_dbg_read_reg_internal k (module_code VCOUNT) (vreg_off r) d = Done (vreg_value r (vcnt d)) d"
    and "ls_dbg_write_reg_internal k (module_code VCOUNT) (vreg_off r) v d =
      Done () (d\<lparr>vcnt := vreg_store r v (vcnt d)\<rparr>)"
proof -
  have "linked k" "vreg_off r < 584"
    using assms vreg_off_le plain_exists by (auto simp: vcount_mapped_def)
  then show "ls_dbg_read_reg_internal k (module_code VCOUNT) (vreg_off r) d = Done (vreg_value r (vcnt d)) d"
      "ls_dbg_write_reg_internal k (module_code VCOUNT) (vreg_off r) v d =
        Done () (d\<lparr>vcnt := vreg_store r v (vcnt d)\<rparr>)"
    using assms by (simp_all only: internal_vcount plain_read plain_write)
qed

interpretation vcount: reg_store
  "\<lambda>r. ls_dbg_read_reg_internal k (module_code VCOUNT) (vreg_off r)"
  "\<lambda>r. ls_dbg_write_reg_internal k (module_code VCOUNT) (vreg_off r)"
  plain_vreg
  "\<lambda>d. vcount_mapped k d \<and> wf_vcounters (vcnt d)"
  vreg_fits
  "\<lambda>r d. vreg_value r (vcnt d)"
  "\<lambda>r x d. d\<lparr>vcnt := vreg_store r x (vcnt d)\<rparr>"
  for k
  by unfold_locales
    (simp_all add: vcount_plain vreg_value_store del: module_code.simps vreg_off.simps)

text \<open>The control, counter and capture registers of the virtual group are memory: after any
  sequence of writes to them by offset, a read of one returns the last value written to it (the
  control register cut to 32 bits), or its old value when there was none, and changes nothing.\<close>

theorem virtual_registers_are_memory:
  assumes "vcount_mapped k d" and "wf_vcounters (vcnt d)"
    and "\<forall>(r, v) \<in> set ws. plain_vreg r" and "plain_vreg q"
  shows "\<exists>d'. each (\<lambda>(r, v). ls_dbg_write_reg_internal k (module_code VCOUNT) (vreg_off r) v) ws d = Done () d' \<and>
    ls_dbg_read_reg_internal k (module_code VCOUNT) (vreg_off q) d' =
      Done (case map_of (rev ws) q of None \<Rightarrow> vreg_value q (vcnt d) | Some v \<Rightarrow> vreg_fits q v) d'"
  using vcount.read_after_writes [of k d ws q] assms by auto

lemma vcount_bench [simp]: "vcount_mapped bench_kernel (bench_driver h)"
  by (simp add: vcount_mapped_def linked_def)

lemma virtual_registers_are_memory_witness:
  "\<exists>d'. each (\<lambda>(r, v). ls_dbg_write_reg_internal bench_kernel (module_code VCOUNT) (vreg_off r) v)
      [(Vcntr 3, 7), (Vcntrcapt 3, 8), (Vcntr 3, 9)] (bench_driver bench_world) = Done () d' \<and>
    ls_dbg_read_reg_internal bench_kernel (module_code VCOUNT) (vreg_off (Vcntr 3)) d' = Done 9 d'"
  using virtual_registers_are_memory [OF vcount_bench [of bench_world], of "[(Vcntr 3, 7), (Vcntrcapt 3, 8), (Vcntr 3, 9)]" "Vcntr 3"]
  by (simp del: vreg_off.simps module_code.simps)

section \<open>The map table\<close>

text \<open>C30: Recording a mapping is what the next lookup sees: after \<open>reg_add_map\<close> of a valid id every
  lookup of that id uses the new address and size, every other lookup gives what it gave before; an
  invalid id is refused with \<open>EINVAL\<close> and changes nothing.\<close>

theorem reg_map_insert_lookup:
  assumes "wf_driver d"
  shows "if i < NUM_IDS
    then \<exists>d'. reg_add_map i addr sz d = Done () d' \<and> wf_driver d' \<and>
      (\<forall>j off. reg_find_map_io d' j off =
        (if j = i \<and> i < NUM_IO_IDS then if off < sz then Inr (addr + off) else Inl EFAULT
         else reg_find_map_io d j off)) \<and>
      (\<forall>j off. reg_find_map_ram d' j off =
        (if j = i \<and> i = module_code VCOUNT then if off < sz then Inr (addr + off) else Inl EFAULT
         else reg_find_map_ram d j off))
    else reg_add_map i addr sz d = Fail EINVAL d"
proof (cases "i < NUM_IDS")
  case True
  let ?d = "d\<lparr>maps := (maps d)[unat i := (maps d ! unat i)\<lparr>base_addr := addr, map_size := sz\<rparr>]\<rparr>"
  have len: "unat i < length (maps d)"
    using NUM_IDS_le [OF True] assms by (simp add: wf_driver_def)
  have nth: "maps ?d ! unat j =
      (if j = i then (maps d ! unat i)\<lparr>base_addr := addr, map_size := sz\<rparr> else maps d ! unat j)" for j
    using len by (auto simp: nth_list_update word_unat_eq_iff)
  have vc: "j < module_code VCOUNT \<or> NUM_IDS \<le> j \<or> j = module_code VCOUNT" for j
    by (simp add: NUM_IDS_def word_le_nat_alt word_less_nat_alt word_unat_eq_iff) arith
  have add: "reg_add_map i addr sz d = Done () ?d"
    using True by (simp add: reg_add_map_def)
  have wf: "wf_driver ?d" using assms by (simp add: wf_driver_def)
  have io: "reg_find_map_io ?d j off =
      (if j = i \<and> i < NUM_IO_IDS then if off < sz then Inr (addr + off) else Inl EFAULT
       else reg_find_map_io d j off)" for j off
    unfolding reg_find_map_io_def nth by (auto simp: Let_def)
  have ram: "reg_find_map_ram ?d j off =
      (if j = i \<and> i = module_code VCOUNT then if off < sz then Inr (addr + off) else Inl EFAULT
       else reg_find_map_ram d j off)" for j off
    unfolding reg_find_map_ram_def nth using vc [of j] vc [of i] True
    by (auto simp: Let_def simp del: module_code.simps)
  show ?thesis unfolding if_P [OF True] using add wf io ram by blast
qed (simp add: reg_add_map_def)

lemma reg_map_insert_lookup_witness:
  "\<exists>d'. reg_add_map (module_code EPU) 0x90000000 0x1000 (initial_driver bench_world) = Done () d' \<and>
    reg_find_map_io d' (module_code EPU) 0xFEC = Inr 0x90000FEC \<and>
    reg_find_map_io d' (module_code EPU) 0x1000 = Inl EFAULT \<and>
    reg_find_map_io d' (module_code GDI) 0 = reg_find_map_io (initial_driver bench_world) (module_code GDI) 0"
  using reg_map_insert_lookup [OF wf_initial, of "module_code EPU" "0x90000000" "0x1000" bench_world]
  by (auto simp: NUM_IDS_def NUM_IO_IDS_def)

text \<open>C33: The window check looks at the first byte only: in every mapped group the offset of the last
  byte passes, although the 4-byte access at it reaches beyond the mapping.\<close>

theorem window_check_ignores_width:
  assumes "i < NUM_IO_IDS" and "map_size (maps d ! unat i) \<noteq> 0"
  shows "\<exists>off. reg_find_map_io d i off = Inr (base_addr (maps d ! unat i) + off) \<and>
    unat (map_size (maps d ! unat i)) < unat off + 4"
proof (intro exI conjI)
  let ?sz = "map_size (maps d ! unat i)"
  have "?sz - 1 < ?sz" using assms(2) by (simp add: word_less_nat_alt unat_minus_one unat_gt_0)
  then show "reg_find_map_io d i (?sz - 1) = Inr (base_addr (maps d ! unat i) + (?sz - 1))"
    using assms(1) by (simp add: reg_find_map_io_def Let_def not_le [symmetric])
  show "unat ?sz < unat (?sz - 1) + 4" using assms(2) by (simp add: unat_minus_one)
qed

lemma window_check_ignores_width_witness:
  "\<exists>off. reg_find_map_io (bench_driver bench_world) 7 off = Inr (0x90000000 + off) \<and> 0x1000 < unat off + 4"
  using window_check_ignores_width [of 7 "bench_driver bench_world"] by (simp add: NUM_IO_IDS_def)

section \<open>Requests from user space\<close>

lemma read_refused:
  "NUM_IDS \<le> i \<Longrightarrow> ls_dbg_read_reg_internal k i off d = Fail EINVAL d"
  "i < NUM_IDS \<Longrightarrow> map_size (maps d ! unat i) \<le> off \<Longrightarrow> ls_dbg_read_reg_internal k i off d = Fail EFAULT d"
  by (auto simp: ls_dbg_read_reg_internal_def read_reg_io_def reg_find_map_io_def reg_find_map_ram_def
      IS_IO_MAPPED_MODULE_def NUM_IDS_def NUM_IO_IDS_def Let_def word_le_nat_alt word_less_nat_alt)

lemma write_refused:
  "NUM_IDS \<le> i \<Longrightarrow> ls_dbg_write_reg_internal k i off v d = Fail EINVAL d"
  "i < NUM_IDS \<Longrightarrow> map_size (maps d ! unat i) \<le> off \<Longrightarrow> ls_dbg_write_reg_internal k i off v d = Fail EFAULT d"
  by (auto simp: ls_dbg_write_reg_internal_def write_reg_io_def reg_find_map_io_def reg_find_map_ram_def
      IS_IO_MAPPED_MODULE_def NUM_IDS_def NUM_IO_IDS_def Let_def word_le_nat_alt word_less_nat_alt)

text \<open>C31: The register requests that the \<open>ioctl\<close> refuses: a request record that cannot be read
  (\<open>EFAULT\<close>), a register size other than 32 and 64 bits (\<open>EINVAL\<close>), and for a read, or a write whose
  data can be read, a group that does not exist (\<open>EINVAL\<close>) and an offset outside the group's window
  (\<open>EFAULT\<close>); a write whose data cannot be read gives \<open>EFAULT\<close>.  Nothing changes.\<close>

theorem register_requests_refused:
  "case copy_reg_access k arg (hw d) of
     None \<Rightarrow> reg_access k cmd arg d = Fail EFAULT d
   | Some ra \<Rightarrow>
      (reg_size ra \<notin> {32, 64} \<longrightarrow> reg_access k cmd arg d = Fail EINVAL d) \<and>
      (reg_size ra \<in> {32, 64} \<longrightarrow>
        (let src = (if reg_size ra = 32 then map_option ucast (get_user32 k (ucast (buffer ra)) (hw d))
            else copy_user64 k (ucast (buffer ra)) (hw d)) in
         (cmd = DBG_WRITE_REG \<and> src = None \<longrightarrow> reg_access k cmd arg d = Fail EFAULT d) \<and>
         (cmd = DBG_READ_REG \<or> cmd = DBG_WRITE_REG \<and> src \<noteq> None \<longrightarrow>
           (NUM_IDS \<le> module_id ra \<longrightarrow> reg_access k cmd arg d = Fail EINVAL d) \<and>
           (module_id ra < NUM_IDS \<and> map_size (maps d ! unat (module_id ra)) \<le> offset ra \<longrightarrow>
             reg_access k cmd arg d = Fail EFAULT d))))"
  by (auto simp: reg_access_def read_refused write_refused Let_def split: option.split)

definition bench_access :: "u32 \<Rightarrow> u32 \<Rightarrow> u32 \<Rightarrow> bench driver" where
  "bench_access i off sz = bench_driver (bench_world\<lparr>user_mem := (\<lambda>a. Some 0),
     user_ra := Some \<lparr>module_id = i, offset = off, buffer = 0x1000, reg_size = sz\<rparr>\<rparr>)"

lemma bench_access_simps [simp]:
  "user_ra (hw (bench_access i off sz)) =
    Some \<lparr>module_id = i, offset = off, buffer = 0x1000, reg_size = sz\<rparr>"
  "maps (bench_access i off sz) = maps (bench_driver bench_world)"
  by (simp_all only: bench_access_def bench_driver_simps) (simp_all add: bench_driver_def initial_driver_def)

text \<open>Requests of the test programs \<open>test_invalid_id\<close>, \<open>test_invalid_offset\<close>, \<open>test_invalid_regsize\<close>.\<close>

lemma register_requests_refused_witness:
  "reg_access bench_kernel DBG_READ_REG 0 (bench_access 0xFFFFFFFB 0 32) =
      Fail EINVAL (bench_access 0xFFFFFFFB 0 32) \<and>
    reg_access bench_kernel DBG_READ_REG 0 (bench_access 10 0x100000 32) =
      Fail EFAULT (bench_access 10 0x100000 32) \<and>
    reg_access bench_kernel DBG_READ_REG 0 (bench_access 0 0 100) = Fail EINVAL (bench_access 0 0 100)"
  using register_requests_refused [of bench_kernel DBG_READ_REG 0 "bench_access 0xFFFFFFFB 0 32"]
    register_requests_refused [of bench_kernel DBG_READ_REG 0 "bench_access 10 0x100000 32"]
    register_requests_refused [of bench_kernel DBG_READ_REG 0 "bench_access 0 0 100"]
  by (simp add: NUM_IDS_def Let_def)

section \<open>Virtual registers from user space\<close>

text \<open>C27: What a program writes with a 64-bit request to the control register, a counter or a capture
  register of the virtual counters is what its next 64-bit read request of that register stores in its
  buffer, of the 32-bit control register the low half of it; the write changes that register only, and the
  read fails with \<open>EFAULT\<close> exactly when the buffer cannot be written.  The \<open>vcntrepecr\<close> registers are
  the exception (\<open>plain_vreg\<close>): a write to one of them captures.\<close>

theorem user_write_then_read:
  assumes "vcount_mapped k d" and "wf_vcounters (vcnt d)" and "plain_vreg r"
    and "copy_reg_access k a1 (hw d) =
      Some \<lparr>module_id = module_code VCOUNT, offset = vreg_off r, buffer = b1, reg_size = 64\<rparr>"
    and "copy_user64 k (ucast b1) (hw d) = Some x"
    and "copy_reg_access k a2 (hw d) =
      Some \<lparr>module_id = module_code VCOUNT, offset = vreg_off r, buffer = b2, reg_size = 64\<rparr>"
  shows "\<exists>d1. reg_access_ioctl k DBG_WRITE_REG a1 d = Done () d1 \<and>
    d1 = d\<lparr>vcnt := vreg_store r x (vcnt d)\<rparr> \<and>
    reg_access_ioctl k DBG_READ_REG a2 d1 =
      (case put_user64 k (vreg_fits r x) (ucast b2) (hw d) of
         None \<Rightarrow> Fail EFAULT d1 | Some h \<Rightarrow> Done () (d1\<lparr>hw := h\<rparr>))"
proof (intro exI conjI)
  let ?d = "d\<lparr>vcnt := vreg_store r x (vcnt d)\<rparr>"
  show "reg_access_ioctl k DBG_WRITE_REG a1 d = Done () ?d"
    using assms(1,3,4,5)
    by (simp add: reg_access_ioctl_def reg_access_def vcount_plain Let_def
        del: module_code.simps vreg_off.simps)
  have "ls_dbg_read_reg_internal k (module_code VCOUNT) (vreg_off r) ?d = Done (vreg_fits r x) ?d"
    using assms(1-3) by (simp add: vcount_plain vreg_value_store del: module_code.simps vreg_off.simps)
  then show "reg_access_ioctl k DBG_READ_REG a2 ?d =
      (case put_user64 k (vreg_fits r x) (ucast b2) (hw d) of
         None \<Rightarrow> Fail EFAULT ?d | Some h \<Rightarrow> Done () (?d\<lparr>hw := h\<rparr>))"
    using assms(6)
    by (simp add: reg_access_ioctl_def reg_access_def put_user_state_def Let_def
        del: module_code.simps vreg_off.simps)
qed simp

definition bench_vcntr :: "u32 \<Rightarrow> u64 \<Rightarrow> bench driver" where
  "bench_vcntr off x = bench_driver (bench_world\<lparr>user_mem := (\<lambda>a. Some x),
     user_ra := Some \<lparr>module_id = 10, offset = off, buffer = 0x1000, reg_size = 64\<rparr>\<rparr>)"

lemma bench_vcntr_simps [simp]:
  "user_ra (hw (bench_vcntr off x)) = Some \<lparr>module_id = 10, offset = off, buffer = 0x1000, reg_size = 64\<rparr>"
  "user_mem (hw (bench_vcntr off x)) = (\<lambda>a. Some x)"
  "vcount_mapped bench_kernel (bench_vcntr off x)" "wf_vcounters (vcnt (bench_vcntr off x))"
  "vcnt (bench_vcntr off x) = zero_vcounters"
  by (simp_all only: bench_vcntr_def bench_driver_simps vcount_bench) simp_all

text \<open>The value of the test program \<open>test_read_write_vcount\<close>.\<close>

lemma user_write_then_read_witness:
  "\<exists>d1 d2. reg_access_ioctl bench_kernel DBG_WRITE_REG 0 (bench_vcntr (vreg_off (Vcntr 1)) 0xBAADF00DC5ACCE55) =
      Done () d1 \<and>
    vcntr (vcnt d1) ! 1 = 0xBAADF00DC5ACCE55 \<and>
    reg_access_ioctl bench_kernel DBG_READ_REG 0 d1 = Done () d2 \<and>
    user_mem (hw d2) 0x1000 = Some 0xBAADF00DC5ACCE55"
proof -
  let ?d = "bench_vcntr (vreg_off (Vcntr 1)) 0xBAADF00DC5ACCE55"
  have "copy_reg_access bench_kernel 0 (hw ?d) =
      Some \<lparr>module_id = module_code VCOUNT, offset = vreg_off (Vcntr 1), buffer = 0x1000, reg_size = 64\<rparr>"
    by (simp del: vreg_off.simps)
  with user_write_then_read [of bench_kernel ?d "Vcntr 1" 0 "0x1000" "0xBAADF00DC5ACCE55" 0 "0x1000"]
  obtain d1 where d1: "reg_access_ioctl bench_kernel DBG_WRITE_REG 0 ?d = Done () d1"
      "d1 = ?d\<lparr>vcnt := vreg_store (Vcntr 1) 0xBAADF00DC5ACCE55 (vcnt ?d)\<rparr>"
      "reg_access_ioctl bench_kernel DBG_READ_REG 0 d1 =
        (case put_user64 bench_kernel 0xBAADF00DC5ACCE55 0x1000 (hw ?d) of
           None \<Rightarrow> Fail EFAULT d1 | Some h \<Rightarrow> Done () (d1\<lparr>hw := h\<rparr>))"
    by (auto simp del: vreg_off.simps module_code.simps vreg_store.simps)
  moreover have "vcntr (vcnt d1) ! 1 = 0xBAADF00DC5ACCE55"
    using d1(2) by (simp add: zero_vcounters_def)
  ultimately show ?thesis by auto
qed

text \<open>A write of the control register through the \<open>ioctl\<close> stores the enable bit without binding
  the interrupt, and the debugfs file of the same register then finds the bit already set: enabling
  through it stores the value and binds nothing.\<close>

lemma ioctl_enable_blocks_binding:
  assumes "vcount_mapped k d"
    and "copy_reg_access k arg (hw d) =
      Some \<lparr>module_id = module_code VCOUNT, offset = vreg_off Vcntctrl, buffer = b, reg_size = 32\<rparr>"
    and "get_user32 k (ucast b) (hw d) = Some x"
    and "x AND VCNTR_ENABLE_MASK \<noteq> 0" and "ucast val AND VCNTR_ENABLE_MASK \<noteq> (0 :: u32)"
  shows "\<exists>d1. reg_access_ioctl k DBG_WRITE_REG arg d = Done () d1 \<and>
    intr_num d1 = intr_num d \<and> hw d1 = hw d \<and> vcntctrl (vcnt d1) = x \<and>
    vcntrctrl_set k val d1 = Done () (d1\<lparr>vcnt := (vcnt d1)\<lparr>vcntctrl := ucast val\<rparr>\<rparr>)"
proof (intro exI conjI)
  let ?d = "d\<lparr>vcnt := vreg_store Vcntctrl (ucast x) (vcnt d)\<rparr>"
  show "reg_access_ioctl k DBG_WRITE_REG arg d = Done () ?d"
    using assms(1-3)
    by (simp add: reg_access_ioctl_def reg_access_def vcount_plain Let_def
        del: module_code.simps vreg_off.simps vreg_store.simps)
  show "vcntctrl (vcnt ?d) = x" by simp
  then show "vcntrctrl_set k val ?d = Done () (?d\<lparr>vcnt := (vcnt ?d)\<lparr>vcntctrl := ucast val\<rparr>\<rparr>)"
    using assms(4,5)
    by (subst vcntrctrl_set_same) (simp_all add: store_vcntctrl_def del: VCNTR_ENABLE_MASK_def)
qed simp_all

lemma ioctl_enable_blocks_binding_witness:
  "\<exists>d1. reg_access_ioctl bench_kernel DBG_WRITE_REG 0
      (bench_driver (bench_world\<lparr>user_mem := (\<lambda>a. Some 1),
        user_ra := Some \<lparr>module_id = 10, offset = 0, buffer = 0x1000, reg_size = 32\<rparr>\<rparr>)) = Done () d1 \<and>
    vcntctrl (vcnt d1) = 1 \<and> intr_num d1 = 0"
  using ioctl_enable_blocks_binding [of bench_kernel "bench_driver (bench_world\<lparr>user_mem := (\<lambda>a. Some 1),
      user_ra := Some \<lparr>module_id = 10, offset = 0, buffer = 0x1000, reg_size = 32\<rparr>\<rparr>)" 0 "0x1000" 1 1]
  by auto

text \<open>
  The test program computes the offset of virtual counter \<open>n\<close> as \<open>16 * 4 + 0x10 + n * 4\<close>, as if the
  counters were 32 bits wide and preceded by 16 bytes.
\<close>

definition VCOUNT_VCNTR_OFFSET :: "nat \<Rightarrow> u32" where
  "VCOUNT_VCNTR_OFFSET n = 16 * 4 + 0x10 + of_nat n * 4"

lemma unat_test_offset: "n < 62 \<Longrightarrow> unat (VCOUNT_VCNTR_OFFSET n) = 80 + n * 4"
  by (simp add: VCOUNT_VCNTR_OFFSET_def unat_word_ariths unat_of_nat)

lemma test_offset_region:
  assumes "linked k" and "n < 62"
  shows "\<not> in_region k 0 4 (vcnt_addr k + VCOUNT_VCNTR_OFFSET n) \<and>
    \<not> in_region k 4 72 (vcnt_addr k + VCOUNT_VCNTR_OFFSET n) \<and>
    in_region k 72 328 (vcnt_addr k + VCOUNT_VCNTR_OFFSET n)"
proof -
  have "VCOUNT_VCNTR_OFFSET n \<le> 0x1000"
    using assms(2) by (simp add: word_le_nat_alt unat_test_offset)
  then show ?thesis
    using assms(2)
    by (simp add: in_region_iff [OF assms(1)] word_le_nat_alt word_less_nat_alt unat_test_offset)
qed

text \<open>With the offset that the test program uses for virtual counter \<open>n\<close>, an access reaches counter
  \<open>n / 2 + 1\<close> when \<open>n\<close> is even, and is a misaligned access of undefined behaviour when \<open>n\<close> is odd.\<close>

theorem test_offset_is_another_counter:
  assumes "vcount_mapped k d" and "n < 62"
  shows "ls_dbg_write_reg_internal k (module_code VCOUNT) (VCOUNT_VCNTR_OFFSET n) x d =
    (if even n then Done () (d\<lparr>vcnt := vreg_store (Vcntr (n div 2 + 1)) x (vcnt d)\<rparr>) else Undef)"
proof -
  have linked: "linked k" using assms(1) by (simp add: vcount_mapped_def)
  have less: "VCOUNT_VCNTR_OFFSET n < 584" using assms(2) by (simp add: word_less_nat_alt unat_test_offset)
  show ?thesis
  proof (cases "even n")
    case True
    then have "VCOUNT_VCNTR_OFFSET n = vreg_off (Vcntr (n div 2 + 1))"
      using assms(2)
      by (simp add: word_unat_eq_iff unat_test_offset unat_vreg_off del: vreg_off.simps)
    then show ?thesis
      using True assms vcount_plain(2) [OF assms(1), of "Vcntr (n div 2 + 1)" x]
      by (simp del: vreg_off.simps module_code.simps)
  next
    case False
    then have "(80 + n * 4) mod 8 = 4" by presburger
    then have "VCOUNT_VCNTR_OFFSET n mod 8 \<noteq> 0"
      using assms(2) mod_word_0_iff [of 8 "VCOUNT_VCNTR_OFFSET n"] by (simp add: unat_test_offset)
    then show ?thesis
      using False test_offset_region [OF linked assms(2)]
      by (simp add: internal_vcount [OF assms(1) less] vcounter_reg_write_def vcntr_set_def assign64_def
          store64_def del: module_code.simps)
  qed
qed

lemma test_offset_is_another_counter_witness:
  "ls_dbg_write_reg_internal bench_kernel (module_code VCOUNT) 84 5 (bench_driver bench_world) = Undef"
  using test_offset_is_another_counter [OF vcount_bench, of 1 5 bench_world]
  by (simp add: VCOUNT_VCNTR_OFFSET_def)

end
