(* ===== verification/Debugfs.thy ===== *)
theory Debugfs
  imports User_Access
begin

text \<open>
  The debugfs side of the driver: the creation macros of \<open>dbg_private.h\<close>, the device entry of
  \<open>dbg_device.h\<close>, and \<open>vcounters_init\<close> of \<open>vir_cntrs.c\<close>.  A table of register files
  (\<open>reg_file\<close>) stands for a run of \<open>DBGFS_CREATE_*_X32\<close> statements; the contract
  \<open>debugfs_table\<close> is what such a table owes the struct it exports.
\<close>

section \<open>The debugfs interface and the device entry\<close>

datatype fmode = RO | WO | RW

datatype vcnt_fops = Fops_vcntctrl | Fops_vcntrepecr | Fops_vcntrs

text \<open>
  The services of debugfs and their results: a directory handle, with \<open>None\<close> where
  \<open>IS_ERR_OR_NULL\<close> holds, or whether a file was created.  A file has a name, a mode, a directory
  and the address of its data.
\<close>

record 'h debugfs =
  debugfs_create_dir :: "string \<Rightarrow> u32 \<Rightarrow> 'h \<Rightarrow> u32 option \<times> 'h" \<comment> \<open>name, parent\<close>
  debugfs_create_x32 :: "string \<Rightarrow> fmode \<Rightarrow> u32 \<Rightarrow> u32 \<Rightarrow> 'h \<Rightarrow> bool \<times> 'h"
  debugfs_create_x64 :: "string \<Rightarrow> fmode \<Rightarrow> u32 \<Rightarrow> u32 \<Rightarrow> 'h \<Rightarrow> bool \<times> 'h"
  debugfs_create_file :: "string \<Rightarrow> fmode \<Rightarrow> u32 \<Rightarrow> u32 \<Rightarrow> vcnt_fops \<Rightarrow> 'h \<Rightarrow> 'h"

abbreviation (input) MAX_MEM_RANGE :: nat where "MAX_MEM_RANGE \<equiv> 2"
abbreviation (input) DBFS_REG_NAME_LEN :: nat where "DBFS_REG_NAME_LEN \<equiv> 16"

text \<open>The callbacks of a device entry are known by the device they belong to.\<close>

datatype dbgfs_init_fn = Init_etf | Init_etr | Init_etm | Init_cstf | Init_epu | Init_gdi | Init_core

record dbg_device =
  dt_idx :: nat
  np :: u32
  dbgfs_dir_name :: string
  current_dentry :: u32
  mem_id :: "nat list"
  mem_ptr :: "u32 list"
  init_fn :: dbgfs_init_fn
  has_remove_fn :: bool

section \<open>Names\<close>

text \<open>The decimal digits that \<open>sprintf\<close> prints for \<open>%d\<close> and a number that is not negative.\<close>

fun dec :: "nat \<Rightarrow> string" where
  "dec n = (if n < 10 then [char_of (48 + n)] else dec (n div 10) @ [char_of (48 + n mod 10)])"

declare dec.simps [simp del]

text \<open>A name is a literal or printed into the 16-byte buffer \<open>reg_name\<close>.\<close>

datatype reg_name = Literal string | Printed string nat

fun name_of :: "reg_name \<Rightarrow> string" where
  "name_of (Literal s) = s"
| "name_of (Printed s n) = s @ dec n"

text \<open>Printing a longer name, with its final zero, writes beyond the buffer.\<close>

fun in_buffer :: "reg_name \<Rightarrow> bool" where
  "in_buffer (Literal s) = True"
| "in_buffer (Printed s n) = (length (s @ dec n) < DBFS_REG_NAME_LEN)"

lemma length_dec_1: "n < 10 \<Longrightarrow> length (dec n) = 1"
  by (subst dec.simps) simp

lemma length_dec_2: "n < 100 \<Longrightarrow> length (dec n) \<le> 2"
proof -
  assume "n < 100"
  then have "length (dec (n div 10)) = 1" by (intro length_dec_1) simp
  then show ?thesis by (subst dec.simps) simp
qed

section \<open>Register files\<close>

definition member_offset :: "field list \<Rightarrow> string \<Rightarrow> nat" where
  "member_offset fs n = (case offset_of fs n of Some p \<Rightarrow> p | None \<Rightarrow> 0)"

definition elem_bytes :: "field list \<Rightarrow> string \<Rightarrow> nat" where
  "elem_bytes fs n = (case find (\<lambda>f. fname f = n) fs of Some f \<Rightarrow> elem_size f | None \<Rightarrow> 0)"

text \<open>A file for \<open>&ptr->member[index]\<close>, or for a member of that element, \<open>inner\<close> bytes into it.\<close>

datatype reg_file =
  Reg_file (file_name: reg_name) (file_mode: fmode) (member: string) (index: nat) (inner: nat)

definition reg_offset :: "field list \<Rightarrow> reg_file \<Rightarrow> nat" where
  "reg_offset fs rf =
    member_offset fs (member rf) + index rf * elem_bytes fs (member rf) + inner rf"

section \<open>The creation macros\<close>

type_synonym 'h dev_state = "dbg_device \<times> 'h driver"

definition CREATE_CURRENT_DBGFS_DIR ::
  "'h debugfs \<Rightarrow> u32 \<Rightarrow> string \<Rightarrow> 'h dev_state \<Rightarrow> (u32, 'h dev_state) result" where
  "CREATE_CURRENT_DBGFS_DIR fs parent_dentry name s =
    (let (dev, d) = s in
     case debugfs_create_dir fs name parent_dentry (hw d) of
       (None, h) \<Rightarrow> Fail ENOMEM (dev, d\<lparr>hw := h\<rparr>)
     | (Some de, h) \<Rightarrow> Done de (dev\<lparr>current_dentry := de\<rparr>, d\<lparr>hw := h\<rparr>))"

text \<open>\<open>snprintf\<close> cuts the name to the buffer.\<close>

definition CREATE_CURRENT_DBGFS_DIR_INDEXED ::
  "'h debugfs \<Rightarrow> u32 \<Rightarrow> string \<Rightarrow> nat \<Rightarrow> 'h dev_state \<Rightarrow> (u32, 'h dev_state) result" where
  "CREATE_CURRENT_DBGFS_DIR_INDEXED fs parent_dentry name idx =
    CREATE_CURRENT_DBGFS_DIR fs parent_dentry (take (DBFS_REG_NAME_LEN - 1) (name @ dec idx))"

definition DBGFS_CREATE_X32 ::
  "'h debugfs \<Rightarrow> reg_name \<Rightarrow> fmode \<Rightarrow> u32 \<Rightarrow> u32 \<Rightarrow> 'h dev_state \<Rightarrow> (unit, 'h dev_state) result" where
  "DBGFS_CREATE_X32 fs name mode parent_de data s =
    (let (dev, d) = s in
     if \<not> in_buffer name then Undef
     else case debugfs_create_x32 fs (name_of name) mode parent_de data (hw d) of
       (False, h) \<Rightarrow> Fail ENOMEM (dev, d\<lparr>hw := h\<rparr>)
     | (True, h) \<Rightarrow> Done () (dev, d\<lparr>hw := h\<rparr>))"

text \<open>A run of such statements for registers of the struct at \<open>ptr\<close>.\<close>

definition create_files ::
  "'h debugfs \<Rightarrow> field list \<Rightarrow> u32 \<Rightarrow> reg_file list \<Rightarrow> u32 \<Rightarrow> 'h dev_state \<Rightarrow> (unit, 'h dev_state) result" where
  "create_files fs members ptr files de =
    each (\<lambda>rf. DBGFS_CREATE_X32 fs (file_name rf) (file_mode rf) de (ptr + of_nat (reg_offset members rf))) files"

text \<open>The exits of an initialisation: it returns, with success or \<open>ENOMEM\<close>, and has changed nothing in
  the driver but the hardware state.\<close>

definition dbgfs_frame :: "'h driver \<Rightarrow> 'h driver \<Rightarrow> bool" where
  "dbgfs_frame d0 d \<longleftrightarrow> (\<exists>h. d = d0\<lparr>hw := h\<rparr>)"

abbreviation (input) dbgfs_exits :: "'h driver \<Rightarrow> ('a, 'h dev_state) result \<Rightarrow> bool" where
  "dbgfs_exits d0 r \<equiv> holds (\<lambda>_ s. dbgfs_frame d0 (snd s)) (\<lambda>e s. e = ENOMEM \<and> dbgfs_frame d0 (snd s)) r"

lemma dbgfs_frame_refl [simp]: "dbgfs_frame d d"
  unfolding dbgfs_frame_def by (rule exI [of _ "hw d"]) simp

lemma dbgfs_frame_hw [simp]: "dbgfs_frame d0 d \<Longrightarrow> dbgfs_frame d0 (d\<lparr>hw := h\<rparr>)"
  by (auto simp: dbgfs_frame_def)

lemma create_dir_exits:
  "dbgfs_frame d0 (snd s) \<Longrightarrow> dbgfs_exits d0 (CREATE_CURRENT_DBGFS_DIR fs parent name s)"
  by (auto simp: CREATE_CURRENT_DBGFS_DIR_def split: prod.split option.split)

lemma create_x32_exits:
  "dbgfs_frame d0 (snd s) \<Longrightarrow> in_buffer name \<Longrightarrow> dbgfs_exits d0 (DBGFS_CREATE_X32 fs name mode de data s)"
  by (auto simp: DBGFS_CREATE_X32_def split: prod.split bool.split)

lemma create_files_exits:
  "dbgfs_frame d0 (snd s) \<Longrightarrow> \<forall>rf\<in>set files. in_buffer (file_name rf) \<Longrightarrow>
    dbgfs_exits d0 (create_files fs members ptr files de s)"
  unfolding create_files_def by (rule holds_each) (auto intro: create_x32_exits)

section \<open>The contract of a table\<close>

text \<open>
  Every file names a member of the struct, an element inside it and four bytes of that element, and
  its name fits the buffer.
\<close>

definition file_ok :: "field list \<Rightarrow> reg_file \<Rightarrow> bool" where
  "file_ok members rf \<longleftrightarrow> in_buffer (file_name rf) \<and>
    (case find (\<lambda>f. fname f = member rf) members of
       None \<Rightarrow> False
     | Some f \<Rightarrow> index rf < elem_count f \<and> inner rf + 4 \<le> elem_size f)"

text \<open>A table whose files follow the order of the struct is checked in one walk over both.\<close>

fun walk :: "field list \<Rightarrow> reg_file list \<Rightarrow> bool" where
  "walk fs [] = True"
| "walk [] (rf # rfs) = False"
| "walk (f # fs) (rf # rfs) =
    (if fname f = member rf
     then in_buffer (file_name rf) \<and> index rf < elem_count f \<and> inner rf + 4 \<le> elem_size f \<and>
       walk (f # fs) rfs
     else walk fs (rf # rfs))"

lemma find_distinct:
  assumes "distinct (map fname members)" and "f \<in> set members"
  shows "find (\<lambda>g. fname g = fname f) members = Some f"
proof (cases "find (\<lambda>g. fname g = fname f) members")
  case None
  then show ?thesis using assms(2) by (auto simp: find_None_iff)
next
  case (Some g)
  then have "g \<in> set members" "fname g = fname f" by (auto simp: find_Some_iff)
  then show ?thesis using Some assms by (auto simp: distinct_map inj_on_def)
qed

lemma walk_ok:
  "walk fs rfs \<Longrightarrow> distinct (map fname members) \<Longrightarrow> set fs \<subseteq> set members \<Longrightarrow> list_all (file_ok members) rfs"
proof (induction fs rfs rule: walk.induct)
  case (3 f fs rf rfs)
  show ?case
  proof (cases "fname f = member rf")
    case True
    then show ?thesis using 3 find_distinct [of members f] by (simp add: file_ok_def)
  next
    case False
    then show ?thesis using 3 by simp
  qed
qed simp_all

locale debugfs_table = register_block members bytes for members bytes +
  fixes files :: "reg_file list"
  assumes files_ok: "list_all (file_ok members) files"
begin

lemma offset_exists: "f \<in> set members \<Longrightarrow> \<exists>p. offset_of members (fname f) = Some p"
proof -
  have "f \<in> set fs \<Longrightarrow> \<exists>p. find_offset (fname f) (field_offsets pos fs) = Some p" for fs pos
    by (induction fs arbitrary: pos) (auto simp: Let_def)
  then show "f \<in> set members \<Longrightarrow> \<exists>p. offset_of members (fname f) = Some p"
    by (simp add: offset_of_def)
qed

lemma file_in_block: "rf \<in> set files \<Longrightarrow> reg_offset members rf + 4 \<le> bytes"
proof -
  assume "rf \<in> set files"
  then have "file_ok members rf" using files_ok by (simp add: list_all_iff)
  then obtain f where find: "find (\<lambda>f. fname f = member rf) members = Some f"
    and ok: "index rf < elem_count f" "inner rf + 4 \<le> elem_size f"
    by (auto simp: file_ok_def split: option.splits)
  then have f: "f \<in> set members" "fname f = member rf"
    by (metis find_Some_iff nth_mem, metis (mono_tags, lifting) find_Some_iff)
  obtain p where p: "offset_of members (member rf) = Some p" using offset_exists f by metis
  have "p + index rf * elem_size f + elem_size f \<le> bytes"
    by (rule element_in_block [OF p f ok(1)])
  then show ?thesis using p ok(2) find by (simp add: reg_offset_def member_offset_def elem_bytes_def)
qed

lemma table_in_struct:
  "list_all (\<lambda>rf. file_ok members rf \<and> reg_offset members rf + 4 \<le> struct_size members) files"
  using files_ok file_in_block by (simp add: list_all_iff size_is)

lemma creation_exits:
  "dbgfs_frame d0 (snd s) \<Longrightarrow> dbgfs_exits d0 (create_files fs members ptr files de s)"
  by (rule create_files_exits) (use files_ok in \<open>auto simp: file_ok_def list_all_iff\<close>)

end

end
