(* ===== verification/Dbgfs_Tables.thy ===== *)
theory Dbgfs_Tables
  imports Debugfs
begin

text \<open>
  The register files of each device, one entry per \<open>DBGFS_CREATE_*_X32\<close> statement of the device's
  source file, in the order of the statements, loops as loops; \<open>Printed\<close> names are the ones that
  \<open>sprintf\<close> puts into \<open>reg_name\<close>.
\<close>

section \<open>Event processing unit: dcsr\_epu.c\<close>

definition epu_files :: "reg_file list" where
  "epu_files =
    [Reg_file (Literal ''epgcr'') RW ''epgcr'' 0 0,
     Reg_file (Literal ''epesr'') RW ''epesr'' 0 0,
     Reg_file (Literal ''epctrisr'') RW ''epctrisr'' 0 0,
     Reg_file (Literal ''epctrcsr'') RW ''epctrcsr'' 0 0] @
    map (\<lambda>i. Reg_file (Printed ''episr'' i) RW ''episr'' i 0) [0..<EPU_V2_NO_PROC_INTRPTS] @
    concat (map (\<lambda>i.
      [Reg_file (Printed ''epimcr'' i) RW ''epimcr'' i 0,
       Reg_file (Printed ''epccr'' i) RW ''epccr'' i 0,
       Reg_file (Printed ''epcmpr'' i) RW ''epcmpr'' i 0,
       Reg_file (Printed ''epctr'' i) RW ''epctr'' i 0,
       Reg_file (Printed ''epcapr'' i) RW ''epcapr'' i 0]) [0..<EPU_V2_NO_OF_COUNTERS]) @
    concat (map (\<lambda>i.
      [Reg_file (Printed ''epsmcr'' i) RW ''scu_ctrl'' i (member_offset scu_ctrl_struct ''epsmcr''),
       Reg_file (Printed ''epecr'' i) RW ''epecr'' i 0,
       Reg_file (Printed ''epacr'' i) RW ''epacr'' i 0,
       Reg_file (Printed ''epgacr'' i) RW ''epgacr'' i 0]) [0..<EPU_V2_NO_OF_SCU_EVENTS]) @
    map (\<lambda>i. Reg_file (Printed ''epctrgcr'' i) RW ''epctrgcr'' i 0) [0..<EPU_V2_NO_OF_COUNTER_GROUPS] @
    map (\<lambda>i. Reg_file (Printed ''epegcr'' i) RW ''epegcr'' i 0) [0..<EPU_V2_NO_OF_EVENT_GROUPS] @
    [Reg_file (Literal ''epxtrigcr'') RW ''epxtrigcr'' 0 0] @
    map (\<lambda>i. Reg_file (Printed ''epevtcr'' i) RW ''epevtcr'' i 0) [0..<EPU_V2_NO_EVT_PIN_REGS] @
    [Reg_file (Literal ''epfsmsr0'') RW ''epfsmsr0'' 0 0] @
    concat (map (\<lambda>i.
      [Reg_file (Printed ''epfsmcmpr'' i) RW ''epfsmcmpr'' i 0,
       Reg_file (Printed ''epfsmcr'' i) RW ''epfsmcr'' i 0]) [0..<EPU_V2_NO_FSM_STATES]) @
    map (\<lambda>i. Reg_file (Printed ''eprsrv'' (EPU_V2_NO_RESRV_REGS - 1 - i)) RW ''eprsrv'' i 0) [0..<EPU_V2_NO_RESRV_REGS] @
    map (\<lambda>i. Reg_file (Printed ''ephsr'' (EPU_V2_NO_SEMA_REGS - 1 - i)) RW ''ephsr'' i 0) [0..<EPU_V2_NO_SEMA_REGS]"

section \<open>Cores: dcsr\_core.c\<close>

definition core_files :: "reg_file list" where
  "core_files =
    map (\<lambda>i. Reg_file (Printed ''pmxevcntr'' i) RW ''pmxevcntr'' i 0) [0..<LS_DBG_CORE_NUM_CNTRS] @
    [Reg_file (Literal ''pmccntr'') RW ''pmccntr'' 0 0] @
    map (\<lambda>i. Reg_file (Printed ''pmxevtyper'' i) RW ''pmxevtyper'' i 0) [0..<LS_DBG_CORE_NUM_CNTRS] @
    [Reg_file (Literal ''pmxevtyper31'') RW ''pmxevtyper31'' 0 0,
     Reg_file (Literal ''pmctenset'') RW ''pmctenset'' 0 0,
     Reg_file (Literal ''pmcntenclr'') RW ''pmcntenclr'' 0 0,
     Reg_file (Literal ''pmintenset'') RW ''pmintenset'' 0 0,
     Reg_file (Literal ''pmintenclr'') RW ''pmintenclr'' 0 0,
     Reg_file (Literal ''pmovsr'') RW ''pmovsr'' 0 0,
     Reg_file (Literal ''pmswinc'') WO ''pmswinc'' 0 0,
     Reg_file (Literal ''pmcfgr'') RO ''pmcfgr'' 0 0,
     Reg_file (Literal ''pmcr'') RW ''pmcr'' 0 0,
     Reg_file (Literal ''pmuserenr'') RW ''pmuserenr'' 0 0] @
    map (\<lambda>i. Reg_file (Printed ''pmceid'' i) RO ''pmceid'' i 0) [0..<LS_DBG_CORE_NUM_CM_EV_IDS] @
    [Reg_file (Literal ''pmlar'') WO ''pmlar'' 0 0,
     Reg_file (Literal ''pmlsr'') RO ''pmlsr'' 0 0,
     Reg_file (Literal ''pmauthstatus'') RO ''pmauthstatus'' 0 0,
     Reg_file (Literal ''pmdevtype'') RO ''pmdevtype'' 0 0,
     Reg_file (Literal ''pmpid4'') RO ''pmpid4'' 0 0,
     Reg_file (Literal ''pmpid5'') RO ''pmpid5'' 0 0,
     Reg_file (Literal ''pmpid6'') RO ''pmpid6'' 0 0,
     Reg_file (Literal ''pmpid7'') RO ''pmpid7'' 0 0,
     Reg_file (Literal ''pmpid0'') RO ''pmpid0'' 0 0,
     Reg_file (Literal ''pmpid1'') RO ''pmpid1'' 0 0,
     Reg_file (Literal ''pmpid2'') RO ''pmpid2'' 0 0,
     Reg_file (Literal ''pmpid3'') RO ''pmpid3'' 0 0] @
    map (\<lambda>i. Reg_file (Printed ''pmcid'' i) RO ''pmcid'' i 0) [0..<LS_DBG_CORE_NUM_PMC_IDS]"

section \<open>General debug interface: dcsr\_gdi.c\<close>

definition gdi_files :: "reg_file list" where
  "gdi_files =
    [Reg_file (Literal ''gdcr'') RW ''gdcr'' 0 0,
     Reg_file (Literal ''gdsr'') RW ''gdsr'' 0 0,
     Reg_file (Literal ''gdrescr1'') RW ''gdrescr1'' 0 0,
     Reg_file (Literal ''gdrescr2'') RW ''gdrescr2'' 0 0] @
    map (\<lambda>i. Reg_file (Printed ''gdpescr'' i) RW ''gdpescr'' i 0) [0..<GDI_LS1_NO_OF_GDI_EVNTS] @
    concat (map (\<lambda>i.
      [Reg_file (Printed ''gdgpccr'' i) RW ''gdgpc'' i (member_offset gdgpc_struct ''cr''),
       Reg_file (Printed ''gdgpcmr'' i) RW ''gdgpc'' i (member_offset gdgpc_struct ''mr''),
       Reg_file (Printed ''gdgpcvr'' i) RW ''gdgpc'' i (member_offset gdgpc_struct ''vr'')]) [1..<Suc GDI_LS1_NO_CMP_CNTRL_REG])"

section \<open>Trace funnels: dcsr\_cstf.c\<close>

definition cstf_files :: "reg_file list" where
  "cstf_files =
    [Reg_file (Literal ''cr'') RW ''cr'' 0 0,
     Reg_file (Literal ''pcr'') RW ''pcr'' 0 0,
     Reg_file (Literal ''itatbdata0'') RW ''itatbdata0'' 0 0,
     Reg_file (Literal ''itatbctr2'') RW ''itatbctr2'' 0 0,
     Reg_file (Literal ''itatbctr1'') RW ''itatbctr1'' 0 0,
     Reg_file (Literal ''itatbctr0'') RW ''itatbctr0'' 0 0,
     Reg_file (Literal ''imcr'') RW ''imcr'' 0 0,
     Reg_file (Literal ''ctsr'') RW ''ctsr'' 0 0,
     Reg_file (Literal ''ctcr'') RW ''ctcr'' 0 0,
     Reg_file (Literal ''lar'') WO ''lar'' 0 0,
     Reg_file (Literal ''lsr'') RO ''lsr'' 0 0,
     Reg_file (Literal ''asr'') RO ''asr'' 0 0,
     Reg_file (Literal ''dir'') RO ''dir'' 0 0,
     Reg_file (Literal ''dtir'') RO ''dtir'' 0 0,
     Reg_file (Literal ''pidr4'') RO ''pidr4'' 0 0,
     Reg_file (Literal ''pidr5'') RO ''pidr5'' 0 0,
     Reg_file (Literal ''pidr6'') RO ''pidr6'' 0 0,
     Reg_file (Literal ''pidr7'') RO ''pidr7'' 0 0,
     Reg_file (Literal ''pidr0'') RO ''pidr0'' 0 0,
     Reg_file (Literal ''pidr1'') RO ''pidr1'' 0 0,
     Reg_file (Literal ''pidr2'') RO ''pidr2'' 0 0,
     Reg_file (Literal ''pidr3'') RO ''pidr3'' 0 0] @
    map (\<lambda>i. Reg_file (Printed ''cidr'' i) RO ''cidr'' i 0) [0..<FUNNEL_COMPONENTS]"

section \<open>Trace macrocells: dcsr\_etm.c\<close>

definition etm_files :: "reg_file list" where
  "etm_files =
    [Reg_file (Literal ''etmcr'') RW ''etmcr'' 0 0,
     Reg_file (Literal ''etmccr'') RO ''etmccr'' 0 0,
     Reg_file (Literal ''etmtrigger'') RW ''etmtrigger'' 0 0,
     Reg_file (Literal ''etmasicctlr'') RW ''etmasicctlr'' 0 0,
     Reg_file (Literal ''etmsr'') RW ''etmsr'' 0 0,
     Reg_file (Literal ''etmscr'') RO ''etmscr'' 0 0,
     Reg_file (Literal ''etmtsscr'') RW ''etmtsscr'' 0 0,
     Reg_file (Literal ''etmtecr2'') RW ''etmtecr2'' 0 0,
     Reg_file (Literal ''etmteevr'') RW ''etmteevr'' 0 0,
     Reg_file (Literal ''etmtecr1'') RW ''etmtecr1'' 0 0,
     Reg_file (Literal ''etmfflr'') RW ''etmfflr'' 0 0,
     Reg_file (Literal ''etmvdevr'') RW ''etmvdevr'' 0 0,
     Reg_file (Literal ''etmvdcr1'') RW ''etmvdcr1'' 0 0,
     Reg_file (Literal ''etmvdcr3'') RW ''etmvdcr3'' 0 0] @
    map (\<lambda>i. Reg_file (Printed ''etmacvr'' i) RW ''etmacvr'' (i - 1) 0) [1..<Suc ETM_ADDRESS_COMPARATOR_VALUE_REGISTERS] @
    map (\<lambda>i. Reg_file (Printed ''etmactr'' i) RW ''etmactr'' (i - 1) 0) [1..<Suc ETM_ADDRESS_COMPARATOR_ACCESS_REGISTERS] @
    [Reg_file (Literal ''etmdcvr1'') RW ''etmdcvr1'' 0 0,
     Reg_file (Literal ''etmdcvr3'') RW ''etmdcvr3'' 0 0,
     Reg_file (Literal ''etmdcmr1'') RW ''etmdcmr1'' 0 0,
     Reg_file (Literal ''etmdcmr3'') RW ''etmdcmr3'' 0 0] @
    map (\<lambda>i. Reg_file (Printed ''etmcntrldvr'' i) RW ''etmcntrldvr'' (i - 1) 0) [1..<Suc ETM_RELOAD_VALUE_REGISTERS] @
    map (\<lambda>i. Reg_file (Printed ''etmcntenr'' i) RW ''etmcntenr'' (i - 1) 0) [1..<Suc ETM_COUNTER_ENABLE_REGISTERS] @
    map (\<lambda>i. Reg_file (Printed ''etmcntrldevr'' i) RW ''etmcntrldevr'' (i - 1) 0) [1..<Suc ETM_COUNTER_RELOAD_EVENT_REGISTERS] @
    map (\<lambda>i. Reg_file (Printed ''etmcntvr'' i) RW ''etmcntvr'' (i - 1) 0) [1..<Suc ETM_COUNTER_VALUE_REGISTERS] @
    map (\<lambda>i. Reg_file (Printed ''etmsqabevr'' i) RW ''etmsqabevr'' (i - 1) 0) [1..<Suc ETM_SEQUENCER_STATE_REGISTERS] @
    [Reg_file (Literal ''etmsqr'') RW ''etmsqr'' 0 0] @
    map (\<lambda>i. Reg_file (Printed ''etmextoutevr'' i) RW ''etmextoutevr'' (i - 1) 0) [1..<Suc ETM_EXTERNAL_OUTPUT_EVENT_REGISTERS] @
    [Reg_file (Literal ''etmcidcvr1'') RW ''etmcidcvr1'' 0 0,
     Reg_file (Literal ''etmcidcmr'') RW ''etmcidcmr'' 0 0,
     Reg_file (Literal ''etmsyncfr'') RW ''etmsyncfr'' 0 0,
     Reg_file (Literal ''etmidr'') RO ''etmidr'' 0 0,
     Reg_file (Literal ''etmccer'') RO ''etmccer'' 0 0,
     Reg_file (Literal ''etmextinselr'') RW ''etmextinselr'' 0 0,
     Reg_file (Literal ''etmtsevr'') RW ''etmtsevr'' 0 0,
     Reg_file (Literal ''etmauxcr'') RW ''etmauxcr'' 0 0,
     Reg_file (Literal ''etmtraceidr'') RW ''etmtraceidr'' 0 0,
     Reg_file (Literal ''etmidr2'') RO ''etmidr2'' 0 0,
     Reg_file (Literal ''etmvmidcvr'') WO ''etmvmidcvr'' 0 0,
     Reg_file (Literal ''etmoslar'') WO ''etmoslar'' 0 0,
     Reg_file (Literal ''etmoslsr'') RO ''etmoslsr'' 0 0,
     Reg_file (Literal ''etmossrr'') RW ''etmossrr'' 0 0,
     Reg_file (Literal ''etmpdcr'') RW ''etmpdcr'' 0 0,
     Reg_file (Literal ''etmpdsr'') RO ''etmpdsr'' 0 0,
     Reg_file (Literal ''itmiscout'') WO ''itmiscout'' 0 0,
     Reg_file (Literal ''itmiscin'') RO ''itmiscin'' 0 0,
     Reg_file (Literal ''ittriggerreq'') WO ''ittriggerreq'' 0 0,
     Reg_file (Literal ''itatbdata0'') WO ''itatbdata0'' 0 0,
     Reg_file (Literal ''itatbctr2'') RO ''itatbctr2'' 0 0,
     Reg_file (Literal ''itatbctr1'') WO ''itatbctr1'' 0 0,
     Reg_file (Literal ''itatbctr0'') WO ''itatbctr0'' 0 0,
     Reg_file (Literal ''etmitctrl'') RW ''etmitctrl'' 0 0,
     Reg_file (Literal ''etmclaimset'') RW ''etmclaimset'' 0 0,
     Reg_file (Literal ''etmclaimclr'') RW ''etmclaimclr'' 0 0,
     Reg_file (Literal ''etmlar'') WO ''etmlar'' 0 0,
     Reg_file (Literal ''etmlsr'') RO ''etmlsr'' 0 0,
     Reg_file (Literal ''etmauthstatus'') RO ''etmauthstatus'' 0 0,
     Reg_file (Literal ''etmdevid'') RO ''etmdevid'' 0 0,
     Reg_file (Literal ''etmdevtype'') RO ''etmdevtype'' 0 0,
     Reg_file (Literal ''etmpidr4'') RO ''etmpidr4'' 0 0,
     Reg_file (Literal ''etmpidr5'') RO ''etmpidr5'' 0 0,
     Reg_file (Literal ''etmpidr6'') RO ''etmpidr6'' 0 0,
     Reg_file (Literal ''etmpidr7'') RO ''etmpidr7'' 0 0,
     Reg_file (Literal ''etmpidr0'') RO ''etmpidr0'' 0 0,
     Reg_file (Literal ''etmpidr1'') RO ''etmpidr1'' 0 0,
     Reg_file (Literal ''etmpidr2'') RO ''etmpidr2'' 0 0,
     Reg_file (Literal ''etmpidr3'') RO ''etmpidr3'' 0 0] @
    map (\<lambda>i. Reg_file (Printed ''etmcidr'' i) RO ''etmcidr'' (i - 1) 0) [1..<Suc ETM_COMPONENT_IDENT_REGISTERS]"

section \<open>Trace FIFOs: dcsr\_etf.c\<close>

definition etf_files :: "reg_file list" where
  "etf_files =
    [Reg_file (Literal ''rsz'') RO ''rsz'' 0 0,
     Reg_file (Literal ''sts'') RO ''sts'' 0 0,
     Reg_file (Literal ''rrd'') RO ''rrd'' 0 0,
     Reg_file (Literal ''rrp'') RW ''rrp'' 0 0,
     Reg_file (Literal ''rwp'') RW ''rwp'' 0 0,
     Reg_file (Literal ''trg'') RW ''trg'' 0 0,
     Reg_file (Literal ''ctl'') RW ''ctl'' 0 0,
     Reg_file (Literal ''rwd'') WO ''rwd'' 0 0,
     Reg_file (Literal ''mode'') RW ''mode'' 0 0,
     Reg_file (Literal ''lbuflevel'') RO ''lbuflevel'' 0 0,
     Reg_file (Literal ''cbuflevel'') RO ''cbuflevel'' 0 0,
     Reg_file (Literal ''bufwm'') RW ''bufwm'' 0 0,
     Reg_file (Literal ''rrphi'') RW ''rrphi'' 0 0,
     Reg_file (Literal ''rwphi'') RW ''rwphi'' 0 0,
     Reg_file (Literal ''axictl'') RW ''axictl'' 0 0,
     Reg_file (Literal ''dbalo'') RW ''dbalo'' 0 0,
     Reg_file (Literal ''dbahi'') RW ''dbahi'' 0 0,
     Reg_file (Literal ''ffsr'') RO ''ffsr'' 0 0,
     Reg_file (Literal ''ffcr'') RW ''ffcr'' 0 0,
     Reg_file (Literal ''pscr'') RW ''pscr'' 0 0,
     Reg_file (Literal ''itatbmdata0'') WO ''itatbmdata0'' 0 0,
     Reg_file (Literal ''itatbmctr2'') RO ''itatbmctr2'' 0 0,
     Reg_file (Literal ''itatbmctr1'') WO ''itatbmctr1'' 0 0,
     Reg_file (Literal ''itatbmctr0'') WO ''itatbmctr0'' 0 0,
     Reg_file (Literal ''itmiscop0'') WO ''itmiscop0'' 0 0,
     Reg_file (Literal ''ittrflin'') RO ''ittrflin'' 0 0,
     Reg_file (Literal ''itatbdata0'') RO ''itatbdata0'' 0 0,
     Reg_file (Literal ''itatbctr2'') WO ''itatbctr2'' 0 0,
     Reg_file (Literal ''itatbctr1'') RO ''itatbctr1'' 0 0,
     Reg_file (Literal ''itatbctr0'') RO ''itatbctr0'' 0 0,
     Reg_file (Literal ''itctrl'') RW ''itctrl'' 0 0,
     Reg_file (Literal ''claimset'') RW ''claimset'' 0 0,
     Reg_file (Literal ''claimclr'') RW ''claimclr'' 0 0,
     Reg_file (Literal ''lar'') WO ''lar'' 0 0,
     Reg_file (Literal ''lsr'') RO ''lsr'' 0 0,
     Reg_file (Literal ''authstatus'') RO ''authstatus'' 0 0,
     Reg_file (Literal ''devid'') RO ''devid'' 0 0,
     Reg_file (Literal ''devtype'') RO ''devtype'' 0 0,
     Reg_file (Literal ''periphid4'') RO ''periphid4'' 0 0,
     Reg_file (Literal ''periphid5'') RO ''periphid5'' 0 0,
     Reg_file (Literal ''periphid6'') RO ''periphid6'' 0 0,
     Reg_file (Literal ''periphid7'') RO ''periphid7'' 0 0,
     Reg_file (Literal ''periphid0'') RO ''periphid0'' 0 0,
     Reg_file (Literal ''periphid1'') RO ''periphid1'' 0 0,
     Reg_file (Literal ''periphid2'') RO ''periphid2'' 0 0,
     Reg_file (Literal ''periphid3'') RO ''periphid3'' 0 0,
     Reg_file (Literal ''compid0'') RO ''compid0'' 0 0,
     Reg_file (Literal ''compid1'') RO ''compid1'' 0 0,
     Reg_file (Literal ''compid2'') RO ''compid2'' 0 0,
     Reg_file (Literal ''compid3'') RO ''compid3'' 0 0]"

section \<open>Trace router: dcsr\_etr.c\<close>

definition etr_files :: "reg_file list" where
  "etr_files =
    [Reg_file (Literal ''rsz'') RW ''rsz'' 0 0,
     Reg_file (Literal ''sts'') RO ''sts'' 0 0,
     Reg_file (Literal ''rrd'') RO ''rrd'' 0 0,
     Reg_file (Literal ''rrp'') RW ''rrp'' 0 0,
     Reg_file (Literal ''rwp'') RW ''rwp'' 0 0,
     Reg_file (Literal ''trg'') RW ''trg'' 0 0,
     Reg_file (Literal ''ctl'') RW ''ctl'' 0 0,
     Reg_file (Literal ''rwd'') WO ''rwd'' 0 0,
     Reg_file (Literal ''mode'') RW ''mode'' 0 0,
     Reg_file (Literal ''lbuflevel'') RO ''lbuflevel'' 0 0,
     Reg_file (Literal ''cbuflevel'') RO ''cbuflevel'' 0 0,
     Reg_file (Literal ''bufwm'') RW ''bufwm'' 0 0,
     Reg_file (Literal ''rrphi'') RW ''rrphi'' 0 0,
     Reg_file (Literal ''rwphi'') RW ''rwphi'' 0 0,
     Reg_file (Literal ''axictl'') RW ''axictl'' 0 0,
     Reg_file (Literal ''dbalo'') RW ''dbalo'' 0 0,
     Reg_file (Literal ''dbahi'') RW ''dbahi'' 0 0,
     Reg_file (Literal ''ffsr'') RO ''ffsr'' 0 0,
     Reg_file (Literal ''ffcr'') RW ''ffcr'' 0 0,
     Reg_file (Literal ''pscr'') RW ''pscr'' 0 0,
     Reg_file (Literal ''itatbmdata0'') WO ''itatbmdata0'' 0 0,
     Reg_file (Literal ''itatbmctr2'') RO ''itatbmctr2'' 0 0,
     Reg_file (Literal ''itatbmctr1'') WO ''itatbmctr1'' 0 0,
     Reg_file (Literal ''itatbmctr0'') WO ''itatbmctr0'' 0 0,
     Reg_file (Literal ''itmiscop0'') WO ''itmiscop0'' 0 0,
     Reg_file (Literal ''ittrflin'') RO ''ittrflin'' 0 0,
     Reg_file (Literal ''itatbdata0'') RO ''itatbdata0'' 0 0,
     Reg_file (Literal ''itatbctr2'') WO ''itatbctr2'' 0 0,
     Reg_file (Literal ''itatbctr1'') RO ''itatbctr1'' 0 0,
     Reg_file (Literal ''itatbctr0'') RO ''itatbctr0'' 0 0,
     Reg_file (Literal ''itctrl'') RW ''itctrl'' 0 0,
     Reg_file (Literal ''claimset'') RW ''claimset'' 0 0,
     Reg_file (Literal ''claimclr'') RW ''claimclr'' 0 0,
     Reg_file (Literal ''lar'') WO ''lar'' 0 0,
     Reg_file (Literal ''lsr'') RO ''lsr'' 0 0,
     Reg_file (Literal ''authstatus'') RO ''authstatus'' 0 0,
     Reg_file (Literal ''devid'') RO ''devid'' 0 0,
     Reg_file (Literal ''devtype'') RO ''devtype'' 0 0,
     Reg_file (Literal ''periphid4'') RO ''periphid4'' 0 0,
     Reg_file (Literal ''periphid5'') RO ''periphid5'' 0 0,
     Reg_file (Literal ''periphid6'') RO ''periphid6'' 0 0,
     Reg_file (Literal ''periphid7'') RO ''periphid7'' 0 0,
     Reg_file (Literal ''periphid0'') RO ''periphid0'' 0 0,
     Reg_file (Literal ''periphid1'') RO ''periphid1'' 0 0,
     Reg_file (Literal ''periphid2'') RO ''periphid2'' 0 0,
     Reg_file (Literal ''periphid3'') RO ''periphid3'' 0 0,
     Reg_file (Literal ''compid0'') RO ''compid0'' 0 0,
     Reg_file (Literal ''compid1'') RO ''compid1'' 0 0,
     Reg_file (Literal ''compid2'') RO ''compid2'' 0 0,
     Reg_file (Literal ''compid3'') RO ''compid3'' 0 0]"

end
