(* ===== verification/Dbgfs_Init.thy ===== *)
theory Dbgfs_Init
  imports Dbgfs_Tables
begin

text \<open>
  The debugfs initialisation of each device (\<open>dcsr_*_ls1_init\<close>) and of the virtual counters
  (\<open>vcounters_init\<close>); each register table is shown to keep the contract \<open>debugfs_table\<close>.
\<close>

section \<open>The initialisation functions\<close>

abbreviation (input) DEBUGFS_EPU_NAME :: string where "DEBUGFS_EPU_NAME \<equiv> ''epu''"
abbreviation (input) DEBUGFS_CORE_NAME :: string where "DEBUGFS_CORE_NAME \<equiv> ''core''"
abbreviation (input) DEBUGFS_GDI_NAME :: string where "DEBUGFS_GDI_NAME \<equiv> ''gdi''"
abbreviation (input) DEBUGFS_CSTF_NAME :: string where "DEBUGFS_CSTF_NAME \<equiv> ''cstf''"
abbreviation (input) DEBUGFS_ETM_NAME :: string where "DEBUGFS_ETM_NAME \<equiv> ''etm''"
abbreviation (input) DEBUGFS_ETF_NAME :: string where "DEBUGFS_ETF_NAME \<equiv> ''etf''"
abbreviation (input) DEBUGFS_ETR_NAME :: string where "DEBUGFS_ETR_NAME \<equiv> ''etr''"
abbreviation (input) DEBUGFS_VCOUNTERS_NAME :: string where "DEBUGFS_VCOUNTERS_NAME \<equiv> ''vcounters''"
abbreviation (input) CSTF_NUM_DEVICES :: nat where "CSTF_NUM_DEVICES \<equiv> 2"
abbreviation (input) ETM_NUM_DEVICES :: nat where "ETM_NUM_DEVICES \<equiv> 2"
abbreviation (input) ETF_NUM_DEVICES :: nat where "ETF_NUM_DEVICES \<equiv> 2"

definition dcsr_epu_ls1_init :: "'h debugfs \<Rightarrow> u32 \<Rightarrow> 'h dev_state \<Rightarrow> (unit, 'h dev_state) result" where
  "dcsr_epu_ls1_init fs parent s =
    (let (dev, d) = s; ptr = mem_ptr dev ! 0 in
     and_then (CREATE_CURRENT_DBGFS_DIR fs parent DEBUGFS_EPU_NAME (dev, d\<lparr>epu_ptr := ptr\<rparr>))
       (create_files fs epu_v2 ptr epu_files))"

definition dcsr_core_ls1_init :: "'h debugfs \<Rightarrow> u32 \<Rightarrow> 'h dev_state \<Rightarrow> (unit, 'h dev_state) result" where
  "dcsr_core_ls1_init fs parent s =
    (let ptr = mem_ptr (fst s) ! 0 in
     each (\<lambda>j s.
       if \<not> in_buffer (Printed DEBUGFS_CORE_NAME j) then Undef
       else and_then (CREATE_CURRENT_DBGFS_DIR fs parent (name_of (Printed DEBUGFS_CORE_NAME j)) s)
         (create_files fs core_pmu_struct (ptr + of_nat (j * struct_size core_pmu_struct)) core_files))
       [0..<LS_DBG_NUM_CORES] s)"

definition dcsr_gdi_ls1_init :: "'h debugfs \<Rightarrow> u32 \<Rightarrow> 'h dev_state \<Rightarrow> (unit, 'h dev_state) result" where
  "dcsr_gdi_ls1_init fs parent s =
    (let ptr = mem_ptr (fst s) ! 0 in
     and_then (CREATE_CURRENT_DBGFS_DIR fs parent DEBUGFS_GDI_NAME s) (create_files fs gdi ptr gdi_files))"

definition dcsr_cstf_ls1_init :: "'h debugfs \<Rightarrow> u32 \<Rightarrow> 'h dev_state \<Rightarrow> (unit, 'h dev_state) result" where
  "dcsr_cstf_ls1_init fs parent s =
    (let ptr = mem_ptr (fst s) ! 0 in
     each (\<lambda>k s. and_then (CREATE_CURRENT_DBGFS_DIR_INDEXED fs parent DEBUGFS_CSTF_NAME k s)
       (create_files fs funnel ptr cstf_files)) [0..<CSTF_NUM_DEVICES] s)"

definition dcsr_etm_ls1_init :: "'h debugfs \<Rightarrow> u32 \<Rightarrow> 'h dev_state \<Rightarrow> (unit, 'h dev_state) result" where
  "dcsr_etm_ls1_init fs parent s =
    (let ptr = mem_ptr (fst s) ! 0 in
     each (\<lambda>k s. and_then (CREATE_CURRENT_DBGFS_DIR_INDEXED fs parent DEBUGFS_ETM_NAME k s)
       (create_files fs etm ptr etm_files)) [0..<ETM_NUM_DEVICES] s)"

definition dcsr_etf_ls1_init :: "'h debugfs \<Rightarrow> u32 \<Rightarrow> 'h dev_state \<Rightarrow> (unit, 'h dev_state) result" where
  "dcsr_etf_ls1_init fs parent s =
    each (\<lambda>i s. let ptr = mem_ptr (fst s) ! i in
       and_then (CREATE_CURRENT_DBGFS_DIR_INDEXED fs parent DEBUGFS_ETF_NAME i s)
         (create_files fs etf ptr etf_files)) [0..<ETF_NUM_DEVICES] s"

definition dcsr_etr_ls1_init :: "'h debugfs \<Rightarrow> u32 \<Rightarrow> 'h dev_state \<Rightarrow> (unit, 'h dev_state) result" where
  "dcsr_etr_ls1_init fs parent s =
    (let ptr = mem_ptr (fst s) ! 0 in
     and_then (CREATE_CURRENT_DBGFS_DIR fs parent DEBUGFS_ETR_NAME s) (create_files fs etr ptr etr_files))"

text \<open>The callback of a device entry.\<close>

fun call_dbgfs_init ::
  "dbgfs_init_fn \<Rightarrow> 'h debugfs \<Rightarrow> u32 \<Rightarrow> 'h dev_state \<Rightarrow> (unit, 'h dev_state) result" where
  "call_dbgfs_init Init_etf = dcsr_etf_ls1_init"
| "call_dbgfs_init Init_etr = dcsr_etr_ls1_init"
| "call_dbgfs_init Init_etm = dcsr_etm_ls1_init"
| "call_dbgfs_init Init_cstf = dcsr_cstf_ls1_init"
| "call_dbgfs_init Init_epu = dcsr_epu_ls1_init"
| "call_dbgfs_init Init_gdi = dcsr_gdi_ls1_init"
| "call_dbgfs_init Init_core = dcsr_core_ls1_init"

text \<open>\<open>vcounters_init\<close>: the results of \<open>debugfs_create_file\<close> and of \<open>reg_add_map\<close> are not looked at.\<close>

definition vcnt_file ::
  "'h kernel \<Rightarrow> 'h debugfs \<Rightarrow> reg_name \<Rightarrow> u32 \<Rightarrow> vreg \<Rightarrow> vcnt_fops \<Rightarrow> 'h driver \<Rightarrow> (unit, 'h driver) result" where
  "vcnt_file k fs name de r fops d =
    (if \<not> in_buffer name then Undef
     else Done () (d\<lparr>hw := debugfs_create_file fs (name_of name) RW de (vcnt_addr k + vreg_off r) fops (hw d)\<rparr>))"

definition vcnt_x64 ::
  "'h kernel \<Rightarrow> 'h debugfs \<Rightarrow> reg_name \<Rightarrow> u32 \<Rightarrow> vreg \<Rightarrow> 'h driver \<Rightarrow> (unit, 'h driver) result" where
  "vcnt_x64 k fs name de r d =
    (if \<not> in_buffer name then Undef
     else case debugfs_create_x64 fs (name_of name) RW de (vcnt_addr k + vreg_off r) (hw d) of
       (False, h) \<Rightarrow> Fail ENOMEM (d\<lparr>hw := h\<rparr>)
     | (True, h) \<Rightarrow> Done () (d\<lparr>hw := h\<rparr>))"

definition vcounters_init :: "'h kernel \<Rightarrow> 'h debugfs \<Rightarrow> u32 \<Rightarrow> 'h driver \<Rightarrow> (unit, 'h driver) result" where
  "vcounters_init k fs parent_dentry d =
    (case debugfs_create_dir fs DEBUGFS_VCOUNTERS_NAME parent_dentry (hw d) of
       (None, h) \<Rightarrow> Fail ENOMEM (d\<lparr>hw := h\<rparr>)
     | (Some de, h) \<Rightarrow>
         and_then (each (\<lambda>i d.
           and_then (vcnt_file k fs (Printed ''vcntr'' i) de (Vcntr i) Fops_vcntrs d) (\<lambda>_ d.
           vcnt_x64 k fs (Printed ''vcntrcapt'' i) de (Vcntrcapt i) d))
           [0..<EPU_V2_NO_OF_COUNTERS] (d\<lparr>hw := h\<rparr>)) (\<lambda>_ d.
         and_then (each (\<lambda>i. vcnt_file k fs (Printed ''vcntrepecr'' i) de (Vcntrepecr i) Fops_vcntrepecr)
           [0..<EPU_V2_NO_OF_SCU_EVENTS] d) (\<lambda>_ d.
         and_then (vcnt_file k fs (Literal ''vcntrctrl'') de Vcntctrl Fops_vcntctrl d) (\<lambda>_ d.
         ignore_ret (reg_add_map (module_code VCOUNT) (vcnt_addr k)
           (of_nat (struct_size vcounters_struct)) d)))))"

section \<open>The tables keep the contract\<close>

lemma in_buffer_Printed [simp]: "length s < 14 \<Longrightarrow> n < 100 \<Longrightarrow> in_buffer (Printed s n)"
  using length_dec_2 [of n] by simp

declare in_buffer.simps(2) [simp del]

lemma list_all_loop:
  "list_all P (map f [a..<b]) \<longleftrightarrow> (\<forall>i. a \<le> i \<and> i < b \<longrightarrow> P (f i))"
  "list_all P (concat (map g [a..<b])) \<longleftrightarrow> (\<forall>i. a \<le> i \<and> i < b \<longrightarrow> list_all P (g i))"
  by (auto simp: list_all_iff)

text \<open>The loops from 1 that index from 0.\<close>

lemma shifted_index [layout_simps]: "n \<le> Suc m \<Longrightarrow> (\<forall>i. Suc 0 \<le> i \<and> i < n \<longrightarrow> i - Suc 0 < m) = True"
  by auto

lemma inner_offsets [layout_simps]:
  "member_offset scu_ctrl_struct ''epsmcr'' = 0" "member_offset gdgpc_struct ''cr'' = 0"
  "member_offset gdgpc_struct ''mr'' = 4" "member_offset gdgpc_struct ''vr'' = 8"
  by (simp_all add: struct_eval member_offset_def offset_of_def)

lemmas table_eval = file_ok_def list_all_loop layout_simps

interpretation epu_table: debugfs_table epu_v2 "0x1000" epu_files
  by unfold_locales (simp add: epu_files_def epu_v2_def table_eval del: upt_rec_numeral upt_Suc)

lemmas table_walk = walk_ok [OF _ _ order.refl]

interpretation etr_table: debugfs_table etr "0x1000" etr_files
  by unfold_locales (rule table_walk [OF _ etr_map.names_distinct], simp add: etr_files_def etr_def)

interpretation etf_table: debugfs_table etf "0x1000" etf_files
  by unfold_locales (rule table_walk [OF _ etf_map.names_distinct], simp add: etf_files_def etf_def)

interpretation cstf_table: debugfs_table funnel "0x1000" cstf_files
  by unfold_locales (rule table_walk [OF _ funnel_map.names_distinct], simp add: cstf_files_def funnel_def upt_conv_Cons)

interpretation etm_table: debugfs_table etm "0x1000" etm_files
  by unfold_locales (rule table_walk [OF _ etm_map.names_distinct], simp add: etm_files_def etm_def upt_conv_Cons)

interpretation core_table: debugfs_table core_pmu_struct "0x2000" core_files
  by unfold_locales (rule table_walk [OF _ core_pmu_map.names_distinct],
    simp add: core_files_def core_pmu_struct_def upt_conv_Cons)

end
