(* ===== verification/Dbgfs_Props.thy ===== *)
theory Dbgfs_Props
  imports Dbgfs_Init
begin

text \<open>
  What the debugfs side promises and where it does not keep it: every initialisation returns, the
  files of six devices lie inside their structs, the files of the general debug interface do not,
  two devices show the same registers in both of their directories, the virtual counters are mapped
  when their initialisation succeeds, and the offsets that \<open>vir_cntrs.h\<close> spells out are those of the
  struct.
\<close>

section \<open>Every initialisation returns\<close>

lemma gdi_names: "\<forall>rf\<in>set gdi_files. in_buffer (file_name rf)"
  unfolding list_all_iff [symmetric]
  by (simp add: gdi_files_def list_all_loop del: upt_rec_numeral upt_Suc)

lemma dir_then_files:
  assumes "dbgfs_frame d0 (snd s)" and "\<And>de t. dbgfs_frame d0 (snd t) \<Longrightarrow> dbgfs_exits d0 (f de t)"
  shows "dbgfs_exits d0 (and_then (CREATE_CURRENT_DBGFS_DIR fs parent name s) f)"
  unfolding holds_and_then
  by (rule holds_mono [OF create_dir_exits [OF assms(1)]]) (auto intro: assms(2))

lemma each_dir_then_files:
  assumes "dbgfs_frame d0 (snd s)"
    and "\<And>i t. i \<in> set is \<Longrightarrow> dbgfs_frame d0 (snd t) \<Longrightarrow> dbgfs_exits d0 (f i t)"
  shows "dbgfs_exits d0 (each f is s)"
  using assms by (intro holds_each [where I = "\<lambda>s. dbgfs_frame d0 (snd s)", THEN holds_mono]) auto

lemmas init_defs = dcsr_epu_ls1_init_def dcsr_core_ls1_init_def dcsr_gdi_ls1_init_def dcsr_cstf_ls1_init_def
  dcsr_etm_ls1_init_def dcsr_etf_ls1_init_def dcsr_etr_ls1_init_def CREATE_CURRENT_DBGFS_DIR_INDEXED_def

lemmas table_exits = epu_table.creation_exits core_table.creation_exits cstf_table.creation_exits
  etm_table.creation_exits etf_table.creation_exits etr_table.creation_exits create_files_exits [OF _ gdi_names]

lemma dbgfs_init_exits:
  "holds
    (\<lambda>_ (dev', d'). \<exists>h. d' = d\<lparr>epu_ptr := if fn = Init_epu then mem_ptr dev ! 0 else epu_ptr d, hw := h\<rparr>)
    (\<lambda>e (dev', d'). e = ENOMEM \<and>
      (\<exists>h. d' = d\<lparr>epu_ptr := if fn = Init_epu then mem_ptr dev ! 0 else epu_ptr d, hw := h\<rparr>))
    (call_dbgfs_init fn fs parent (dev, d))"
proof -
  let ?d = "d\<lparr>epu_ptr := if fn = Init_epu then mem_ptr dev ! 0 else epu_ptr d\<rparr>"
  have "dbgfs_frame ?d (snd (dev, d))" if "fn \<noteq> Init_epu" using that by simp
  then have "dbgfs_exits ?d (call_dbgfs_init fn fs parent (dev, d))"
    by (cases fn) (auto simp: init_defs Let_def simp del: holds_and_then
        intro!: each_dir_then_files dir_then_files table_exits)
  then show ?thesis by (rule holds_mono) (auto simp: dbgfs_frame_def)
qed

text \<open>C37: Every debugfs initialisation of a device returns, with success or \<open>ENOMEM\<close>: no register name
  is printed beyond its 16-byte buffer.  Whatever the outcome it changes nothing in the driver but the
  state of debugfs, and the EPU pointer for the EPU.\<close>

theorem dbgfs_init_returns:
  "holds
    (\<lambda>_ (dev', d'). \<exists>h. d' = d\<lparr>epu_ptr := if fn = Init_epu then mem_ptr dev ! 0 else epu_ptr d, hw := h\<rparr>)
    (\<lambda>e (dev', d'). e = ENOMEM \<and>
      (\<exists>h. d' = d\<lparr>epu_ptr := if fn = Init_epu then mem_ptr dev ! 0 else epu_ptr d, hw := h\<rparr>))
    (call_dbgfs_init fn fs parent (dev, d))"
  by (rule dbgfs_init_exits)

section \<open>Files and structs\<close>

text \<open>C38: The files of the comparators of the general debug interface are off by one: the loop runs
  from 1 to 8 over an array of 8, so the files of comparator 8 export three words behind the end of the
  struct, and comparator 0 has no file.\<close>

theorem gdi_comparators_off_by_one:
  "{Reg_file (Printed ''gdgpccr'' 8) RW ''gdgpc'' 8 0, Reg_file (Printed ''gdgpcmr'' 8) RW ''gdgpc'' 8 4,
     Reg_file (Printed ''gdgpcvr'' 8) RW ''gdgpc'' 8 8} \<subseteq> set gdi_files \<and>
   reg_offset gdi (Reg_file (Printed ''gdgpccr'' 8) RW ''gdgpc'' 8 0) = struct_size gdi \<and>
   reg_offset gdi (Reg_file (Printed ''gdgpcmr'' 8) RW ''gdgpc'' 8 4) = struct_size gdi + 4 \<and>
   reg_offset gdi (Reg_file (Printed ''gdgpcvr'' 8) RW ''gdgpc'' 8 8) = struct_size gdi + 8 \<and>
   list_all (\<lambda>rf. \<not> (member rf = ''gdgpc'' \<and> index rf = 0)) gdi_files"
proof -
  have at: "member_offset gdi ''gdgpc'' = 0x300" "elem_bytes gdi ''gdgpc'' = 16"
    by (simp_all add: member_offset_def offset_of_def elem_bytes_def gdi_def struct_eval)
  have "list_all (\<lambda>rf. \<not> (member rf = ''gdgpc'' \<and> index rf = 0)) gdi_files"
    by (simp add: gdi_files_def list_all_loop del: upt_rec_numeral upt_Suc)
  moreover have "{Reg_file (Printed ''gdgpccr'' 8) RW ''gdgpc'' 8 0,
      Reg_file (Printed ''gdgpcmr'' 8) RW ''gdgpc'' 8 4, Reg_file (Printed ''gdgpcvr'' 8) RW ''gdgpc'' 8 8}
      \<subseteq> set gdi_files"
    unfolding gdi_files_def inner_offsets by (auto simp: image_iff)
  ultimately show ?thesis
    by (simp add: reg_offset_def at gdi_map.size_is)
qed

section \<open>Two directories, one set of registers\<close>

text \<open>A debugfs that records what is created.\<close>

datatype made = Made_dir string u32 | Made_file string fmode u32 u32

definition rec_debugfs :: "made list debugfs" where
  "rec_debugfs =
    \<lparr>debugfs_create_dir = (\<lambda>name parent h. (Some (of_nat (length h) + 1), h @ [Made_dir name parent])),
     debugfs_create_x32 = (\<lambda>name mode de data h. (True, h @ [Made_file name mode de data])),
     debugfs_create_x64 = (\<lambda>name mode de data h. (True, h @ [Made_file name mode de data])),
     debugfs_create_file = (\<lambda>name mode de data fops h. h @ [Made_file name mode de data])\<rparr>"

definition made_files :: "field list \<Rightarrow> u32 \<Rightarrow> reg_file list \<Rightarrow> u32 \<Rightarrow> made list" where
  "made_files members ptr files de =
    map (\<lambda>rf. Made_file (name_of (file_name rf)) (file_mode rf) de (ptr + of_nat (reg_offset members rf))) files"

lemma rec_create_dir:
  "CREATE_CURRENT_DBGFS_DIR rec_debugfs parent name (dev, d) =
    Done (of_nat (length (hw d)) + 1)
      (dev\<lparr>current_dentry := of_nat (length (hw d)) + 1\<rparr>, d\<lparr>hw := hw d @ [Made_dir name parent]\<rparr>)"
  by (simp add: CREATE_CURRENT_DBGFS_DIR_def rec_debugfs_def)

lemma rec_create_files:
  "\<forall>rf\<in>set files. in_buffer (file_name rf) \<Longrightarrow>
    create_files rec_debugfs members ptr files de (dev, d) =
      Done () (dev, d\<lparr>hw := hw d @ made_files members ptr files de\<rparr>)"
  unfolding create_files_def
  by (induction files arbitrary: d) (simp_all add: DBGFS_CREATE_X32_def rec_debugfs_def made_files_def)

lemma etm_names: "\<forall>rf\<in>set etm_files. in_buffer (file_name rf)"
  using etm_table.files_ok by (auto simp: list_all_iff file_ok_def)

lemma cstf_names: "\<forall>rf\<in>set cstf_files. in_buffer (file_name rf)"
  using cstf_table.files_ok by (auto simp: list_all_iff file_ok_def)

lemma etf_names: "\<forall>rf\<in>set etf_files. in_buffer (file_name rf)"
  using etf_table.files_ok by (auto simp: list_all_iff file_ok_def)

lemma dec_01: "dec 0 = ''0''" "dec (Suc 0) = ''1''"
  by (simp_all add: dec.simps char_of_eq_iff)

text \<open>The trace macrocells and the funnels get two directories each, but the files of both show the
  registers of the first memory range: only the trace FIFOs use the second range for the second
  directory.\<close>

theorem second_directory_shows_first_device:
  fixes d :: "made list driver"
  shows "(\<exists>s de. dcsr_etm_ls1_init rec_debugfs p (dev, d\<lparr>hw := []\<rparr>) = Done () s \<and> hw (snd s) =
      Made_dir ''etm0'' p # made_files etm (mem_ptr dev ! 0) etm_files 1 @
      Made_dir ''etm1'' p # made_files etm (mem_ptr dev ! 0) etm_files de) \<and>
    (\<exists>s de. dcsr_cstf_ls1_init rec_debugfs p (dev, d\<lparr>hw := []\<rparr>) = Done () s \<and> hw (snd s) =
      Made_dir ''cstf0'' p # made_files funnel (mem_ptr dev ! 0) cstf_files 1 @
      Made_dir ''cstf1'' p # made_files funnel (mem_ptr dev ! 0) cstf_files de) \<and>
    (\<exists>s de. dcsr_etf_ls1_init rec_debugfs p (dev, d\<lparr>hw := []\<rparr>) = Done () s \<and> hw (snd s) =
      Made_dir ''etf0'' p # made_files etf (mem_ptr dev ! 0) etf_files 1 @
      Made_dir ''etf1'' p # made_files etf (mem_ptr dev ! 1) etf_files de)"
  by (simp add: dcsr_etm_ls1_init_def dcsr_cstf_ls1_init_def dcsr_etf_ls1_init_def
      CREATE_CURRENT_DBGFS_DIR_INDEXED_def rec_create_dir rec_create_files etm_names cstf_names
      etf_names dec_01 Let_def upt_conv_Cons) blast

section \<open>The offsets of vir\_cntrs.h\<close>

text \<open>The register offsets that \<open>vir_cntrs.h\<close> spells out are the offsets of the members of
  \<open>struct epu_v2\<close>, and the reservation registers lie at the offset the test program uses.\<close>

lemma epu_offsets_agree:
  "LS_DBG_EPU_EPCTRISR_OFFSET = of_nat (member_offset epu_v2 ''epctrisr'') \<and>
   LS_DBG_EPU_EPECR_OFFSET = of_nat (member_offset epu_v2 ''epecr'') \<and>
   LS_DBG_EPU_EPGACR_OFFSET = of_nat (member_offset epu_v2 ''epgacr'') \<and>
   LS_DBG_EPU_EPCTRGCR_OFFSET = of_nat (member_offset epu_v2 ''epctrgcr'') \<and>
   LS_DBG_EPU_EPCCR_OFFSET = of_nat (member_offset epu_v2 ''epccr'') \<and>
   LS_DBG_EPU_EPCTR_OFFSET = of_nat (member_offset epu_v2 ''epctr'') \<and>
   LS_DBG_EPU_EPCAPR_OFFSET = of_nat (member_offset epu_v2 ''epcapr'') \<and>
   reserv_addr LSDBG_RES_EPU_COUNTER d = epu_ptr d + 0xFEC"
  by (simp add: member_offset_def offset_of_def epu_v2_def struct_eval reserv_addr_def)

section \<open>The virtual counters\<close>

lemma vcnt_file_Done:
  "in_buffer name \<Longrightarrow> \<exists>h. vcnt_file k fs name de r fops d = Done () (d\<lparr>hw := h\<rparr>)"
  by (auto simp: vcnt_file_def)

lemma vcnt_file_frame:
  "dbgfs_frame d0 d \<Longrightarrow> in_buffer name \<Longrightarrow>
    holds (\<lambda>_. dbgfs_frame d0) (\<lambda>e d'. e = ENOMEM \<and> dbgfs_frame d0 d') (vcnt_file k fs name de r fops d)"
  by (simp add: vcnt_file_def)

lemma vcnt_x64_frame:
  "dbgfs_frame d0 d \<Longrightarrow> in_buffer name \<Longrightarrow>
    holds (\<lambda>_. dbgfs_frame d0) (\<lambda>e d'. e = ENOMEM \<and> dbgfs_frame d0 d') (vcnt_x64 k fs name de r d)"
  by (auto simp: vcnt_x64_def split: prod.split bool.split)

lemma vcounters_init_exits:
  assumes "wf_driver d" and "linked k"
  shows "holds (\<lambda>_ d'. wf_driver d' \<and> vcount_mapped k d' \<and> (\<forall>i. i \<noteq> 10 \<longrightarrow> maps d' ! i = maps d ! i) \<and>
      (\<exists>h. d'\<lparr>maps := maps d\<rparr> = d\<lparr>hw := h\<rparr>))
    (\<lambda>e d'. e = ENOMEM \<and> (\<exists>h. d' = d\<lparr>hw := h\<rparr>)) (vcounters_init k fs p d)"
proof -
  have len: "10 < length (maps d)" using assms(1) by (simp add: wf_driver_def)
  have map: "ignore_ret (reg_add_map (module_code VCOUNT) (vcnt_addr k) (of_nat (struct_size vcounters_struct)) d1) =
      Done () (d1\<lparr>maps := (maps d1)[10 := (maps d1 ! 10)\<lparr>base_addr := vcnt_addr k, map_size := 584\<rparr>]\<rparr>)"
    for d1 :: "'a driver"
    by (simp add: reg_add_map_def NUM_IDS_def)
  have last: "wf_driver d2 \<and> vcount_mapped k d2 \<and> (\<forall>i. i \<noteq> 10 \<longrightarrow> maps d2 ! i = maps d ! i) \<and>
      (\<exists>h. d2\<lparr>maps := maps d\<rparr> = d\<lparr>hw := h\<rparr>)"
    if "dbgfs_frame d d1"
      and "d2 = d1\<lparr>maps := (maps d1)[10 := (maps d1 ! 10)\<lparr>base_addr := vcnt_addr k, map_size := 584\<rparr>]\<rparr>"
    for d1 d2
    using that len assms by (auto simp: dbgfs_frame_def vcount_mapped_def wf_driver_def)
  show ?thesis
  proof (cases "debugfs_create_dir fs DEBUGFS_VCOUNTERS_NAME p (hw d)")
    case (Pair r h)
    show ?thesis
    proof (cases r)
      case None
      then show ?thesis using Pair by (auto simp: vcounters_init_def)
    next
      case (Some de)
      let ?E = "\<lambda>e d'. e = ENOMEM \<and> dbgfs_frame d d'"
      let ?Q = "\<lambda>_ d'. wf_driver d' \<and> vcount_mapped k d' \<and> (\<forall>i. i \<noteq> 10 \<longrightarrow> maps d' ! i = maps d ! i) \<and>
          (\<exists>h. d'\<lparr>maps := maps d\<rparr> = d\<lparr>hw := h\<rparr>)"
      have final: "holds ?Q ?E (Done () (d1\<lparr>maps := (maps d1)
            [10 := (maps d1 ! 10)\<lparr>base_addr := vcnt_addr k, map_size := 584\<rparr>]\<rparr>))"
        if "dbgfs_frame d d1" for d1
        unfolding holds.simps by (rule last [OF that refl])
      have "holds ?Q ?E (vcounters_init k fs p d)"
        unfolding vcounters_init_def Pair Some prod.case option.case map
        by (intro holds_step [where I = "dbgfs_frame d"] holds_each vcnt_file_frame vcnt_x64_frame final)
          simp_all
      then show ?thesis by (rule holds_mono) (auto simp: dbgfs_frame_def)
    qed
  qed
qed

text \<open>The initialisation of the virtual counters returns, with \<open>ENOMEM\<close> or with success; on success
  the object \<open>ls_dbg_vcnt\<close> is in the map table with its address and size, so that user space can reach
  every virtual register; on failure the table is unchanged.  Nothing else in the driver changes.\<close>

lemma vcounters_init_maps:
  assumes "wf_driver d" and "linked k"
  shows "holds (\<lambda>_ d'. wf_driver d' \<and> vcount_mapped k d' \<and> (\<forall>i. i \<noteq> 10 \<longrightarrow> maps d' ! i = maps d ! i) \<and>
      (\<exists>h. d'\<lparr>maps := maps d\<rparr> = d\<lparr>hw := h\<rparr>))
    (\<lambda>e d'. e = ENOMEM \<and> (\<exists>h. d' = d\<lparr>hw := h\<rparr>)) (vcounters_init k fs p d)"
  by (rule vcounters_init_exits [OF assms])

definition null_debugfs :: "'h debugfs" where
  "null_debugfs =
    \<lparr>debugfs_create_dir = (\<lambda>name parent h. (Some 1, h)),
     debugfs_create_x32 = (\<lambda>name mode de data h. (True, h)),
     debugfs_create_x64 = (\<lambda>name mode de data h. (True, h)),
     debugfs_create_file = (\<lambda>name mode de data fops h. h)\<rparr>"

lemma vcounters_init_maps_witness:
  "holds (\<lambda>_ d'. vcount_mapped bench_kernel d') (\<lambda>e d'. e = ENOMEM)
    (vcounters_init bench_kernel null_debugfs 0 (initial_driver bench_world))"
  by (rule holds_mono [OF vcounters_init_maps]) (simp_all add: linked_def)

end
