(* ===== verification/Ls_Dbg.thy ===== *)
theory Ls_Dbg
  imports Dbgfs_Props
begin

text \<open>
  The platform driver of \<open>ls_dbg.c\<close>: the list of device entries built from the device tree
  (\<open>add_compatible_devices\<close>), probing and removing (\<open>dcsr_probe\<close>, \<open>dcsr_remove\<close>), the module's
  entry points, and the registration of the character device (\<open>reg_access_init\<close>).
\<close>

text \<open>
  The services used: the nodes of the device tree, the allocation of an entry, mapping a memory range
  of a node (\<open>0\<close> for a range that does not exist or cannot be mapped) and its size, and the
  registrations, with \<open>0\<close> for success.
\<close>

record 'h platform =
  compatible_nodes :: "string \<Rightarrow> 'h \<Rightarrow> u32 list"
  kzalloc_dev :: "'h \<Rightarrow> bool \<times> 'h"
  of_iomap :: "u32 \<Rightarrow> nat \<Rightarrow> 'h \<Rightarrow> u32 \<times> 'h"
  range_size :: "u32 \<Rightarrow> nat \<Rightarrow> 'h \<Rightarrow> u32"
  iounmap :: "u32 \<Rightarrow> 'h \<Rightarrow> 'h"
  misc_register :: "'h \<Rightarrow> u32 \<times> 'h"
  misc_deregister :: "'h \<Rightarrow> 'h"
  debugfs_remove_recursive :: "u32 \<Rightarrow> 'h \<Rightarrow> 'h"
  platform_driver_register :: "'h \<Rightarrow> u32 \<times> 'h"
  platform_driver_unregister :: "'h \<Rightarrow> 'h"

text \<open>The module's state; \<open>0\<close> is a root directory that does not exist.\<close>

record 'h module =
  drv :: "'h driver"
  dbg_devs :: "dbg_device list"
  dbgfs_root_dentry :: u32

definition initial_module :: "'h \<Rightarrow> 'h module" where
  "initial_module h = \<lparr>drv = initial_driver h, dbg_devs = [], dbgfs_root_dentry = 0\<rparr>"

definition on_hw :: "('h \<Rightarrow> 'h) \<Rightarrow> 'h module \<Rightarrow> 'h module" where
  "on_hw f m = m\<lparr>drv := (drv m)\<lparr>hw := f (hw (drv m))\<rparr>\<rparr>"

section \<open>Device entries\<close>

definition alloc_device :: dbg_device where
  "alloc_device = \<lparr>dt_idx = 0, np = 0, dbgfs_dir_name = '''', current_dentry = 0,
     mem_id = replicate MAX_MEM_RANGE 0, mem_ptr = replicate MAX_MEM_RANGE 0,
     init_fn = Init_epu, has_remove_fn = False\<rparr>"

text \<open>One memory range: map it and record the mapping.\<close>

definition map_range :: "'h platform \<Rightarrow> u32 \<Rightarrow> u32 \<Rightarrow> nat \<Rightarrow> nat \<Rightarrow> 'h dev_state \<Rightarrow> 'h dev_state" where
  "map_range pf node gid idx i s =
    (let (dev, d) = s;
         (ptr, h) = of_iomap pf node i (hw d);
         dev = dev\<lparr>mem_id := (mem_id dev)[i := i], mem_ptr := (mem_ptr dev)[i := ptr]\<rparr>;
         d = d\<lparr>hw := h\<rparr>
     in if ptr \<noteq> 0
        then case reg_add_map (gid + of_nat idx + of_nat i) ptr (range_size pf node i h) d of
            Done _ d' \<Rightarrow> (dev, d') | Fail _ d' \<Rightarrow> (dev, d') | _ \<Rightarrow> (dev, d)
        else (dev, d))"

definition add_device ::
  "'h platform \<Rightarrow> string \<Rightarrow> u32 \<Rightarrow> bool \<Rightarrow> dbgfs_init_fn \<Rightarrow> u32 \<Rightarrow> nat \<times> 'h module \<Rightarrow> nat \<times> 'h module" where
  "add_device pf name gid remove_fn init node im =
    (let (idx, m) = im; (ok, h) = kzalloc_dev pf (hw (drv m)); d = (drv m)\<lparr>hw := h\<rparr> in
     if \<not> ok then (idx, m\<lparr>drv := d\<rparr>)
     else let (dev, d) = fold (map_range pf node gid idx) [0..<MAX_MEM_RANGE] (alloc_device, d);
              dev = dev\<lparr>dbgfs_dir_name := name, init_fn := init, has_remove_fn := remove_fn,
                np := node, dt_idx := idx\<rparr>
          in (idx + 1, m\<lparr>drv := d, dbg_devs := dev # dbg_devs m\<rparr>))"

definition add_compatible_devices ::
  "'h platform \<Rightarrow> string \<Rightarrow> string \<Rightarrow> TRACEIP_MODULE \<Rightarrow> bool \<Rightarrow> dbgfs_init_fn \<Rightarrow> 'h module \<Rightarrow> 'h module" where
  "add_compatible_devices pf compatible name gid remove_fn init m =
    snd (fold (add_device pf name (module_code gid) remove_fn init)
      (compatible_nodes pf compatible (hw (drv m))) (0, m))"

text \<open>Unmapping the ranges of an entry and calling its removal callback, of which there is one.\<close>

definition ls_dbg_epu_cleanup :: "dbg_device \<Rightarrow> 'h \<Rightarrow> u32 \<times> 'h" where
  "ls_dbg_epu_cleanup dev h = (0, h)"

definition unmap_device :: "'h platform \<Rightarrow> dbg_device \<Rightarrow> 'h \<Rightarrow> 'h" where
  "unmap_device pf dev h =
    (let h = fold (iounmap pf) (filter (\<lambda>p. p \<noteq> 0) (mem_ptr dev)) h
     in if has_remove_fn dev then snd (ls_dbg_epu_cleanup dev h) else h)"

lemma unmap_device_eq: "unmap_device pf dev = fold (iounmap pf) (filter (\<lambda>p. p \<noteq> 0) (mem_ptr dev))"
  by (rule ext) (simp add: unmap_device_def ls_dbg_epu_cleanup_def Let_def)

definition remove_devices :: "'h platform \<Rightarrow> 'h module \<Rightarrow> 'h module" where
  "remove_devices pf m = on_hw (fold (unmap_device pf) (dbg_devs m)) m\<lparr>dbg_devs := []\<rparr>"

section \<open>Probe and remove\<close>

definition reg_access_init :: "'h platform \<Rightarrow> 'h module \<Rightarrow> (unit, 'h module) result" where
  "reg_access_init pf m =
    (let (ret, h) = misc_register pf (hw (drv m)); m = on_hw (\<lambda>_. h) m
     in if ret \<noteq> 0 then Fail (Errno ret) m else Done () m)"

definition reg_access_cleanup :: "'h platform \<Rightarrow> 'h module \<Rightarrow> 'h module" where
  "reg_access_cleanup pf = on_hw (misc_deregister pf)"

definition add_all_devices :: "'h platform \<Rightarrow> 'h module \<Rightarrow> 'h module" where
  "add_all_devices pf =
    add_compatible_devices pf ''fsl,ls1021a-dcsr-a7cpu'' DEBUGFS_CORE_NAME CORE False Init_core \<circ>
    add_compatible_devices pf ''fsl,ls1021a-dcsr-gdi'' DEBUGFS_GDI_NAME GDI False Init_gdi \<circ>
    add_compatible_devices pf ''fsl,ls1021a-dcsr-epu'' DEBUGFS_EPU_NAME EPU True Init_epu \<circ>
    add_compatible_devices pf ''fsl,ls1021a-dcsr-cstf'' DEBUGFS_CSTF_NAME CSTF0 False Init_cstf \<circ>
    add_compatible_devices pf ''fsl,ls1021a-dcsr-etm'' DEBUGFS_ETM_NAME ETM0 False Init_etm \<circ>
    add_compatible_devices pf ''fsl,ls1021a-dcsr-etr'' DEBUGFS_ETR_NAME ETR False Init_etr \<circ>
    add_compatible_devices pf ''fsl,ls1021a-dcsr-etf'' DEBUGFS_ETF_NAME ETF0 False Init_etf"

text \<open>The debugfs callbacks of all entries; what they return is not looked at.\<close>

fun dbgfs_inits ::
  "'h debugfs \<Rightarrow> u32 \<Rightarrow> dbg_device list \<Rightarrow> 'h driver \<Rightarrow> (dbg_device list, 'h driver) result" where
  "dbgfs_inits fs root [] d = Done [] d"
| "dbgfs_inits fs root (dev # devs) d =
    (case ignore_ret (call_dbgfs_init (init_fn dev) fs root (dev, d)) of
       Done _ (dev', d') \<Rightarrow>
         and_then (dbgfs_inits fs root devs d') (\<lambda>devs' d''. Done (dev' # devs') d'')
     | Fail e (dev', d') \<Rightarrow> Fail e d'
     | Spin \<Rightarrow> Spin
     | Undef \<Rightarrow> Undef)"

definition dcsr_probe :: "'h platform \<Rightarrow> 'h debugfs \<Rightarrow> 'h module \<Rightarrow> (unit, 'h module) result" where
  "dcsr_probe pf fs m =
    (let m = add_all_devices pf m in
     case debugfs_create_dir fs ''ls-dbg'' 0 (hw (drv m)) of
       (None, h) \<Rightarrow> Fail ENOMEM (remove_devices pf (on_hw (\<lambda>_. h) m\<lparr>dbgfs_root_dentry := 0\<rparr>))
     | (Some root, h) \<Rightarrow>
         (case reg_access_init pf (on_hw (\<lambda>_. h) m\<lparr>dbgfs_root_dentry := root\<rparr>) of
            Fail e m \<Rightarrow> Fail e (remove_devices pf m)
          | Done _ m \<Rightarrow>
              (case dbgfs_inits fs root (dbg_devs m) (drv m) of
                 Done devs d \<Rightarrow> Done () (m\<lparr>dbg_devs := devs, drv := d\<rparr>)
               | Fail e d \<Rightarrow> Fail e (m\<lparr>drv := d\<rparr>)
               | Spin \<Rightarrow> Spin
               | Undef \<Rightarrow> Undef)
          | Spin \<Rightarrow> Spin
          | Undef \<Rightarrow> Undef))"

definition dcsr_remove :: "'h kernel \<Rightarrow> 'h platform \<Rightarrow> 'h module \<Rightarrow> (unit, 'h module) result" where
  "dcsr_remove k pf m =
    (case ignore_ret (ls_dbg_epu_unbind_irq k (drv m)) of
       Done _ d \<Rightarrow>
         Done () (reg_access_cleanup pf (remove_devices pf
           (on_hw (debugfs_remove_recursive pf (dbgfs_root_dentry m)) (m\<lparr>drv := d\<rparr>))))
     | Fail e d \<Rightarrow> Fail e (m\<lparr>drv := d\<rparr>)
     | Spin \<Rightarrow> Spin
     | Undef \<Rightarrow> Undef)"

text \<open>The driver is for devices whose node is compatible with an entry of the id table.\<close>

definition dcsr_id_table :: "string list" where
  "dcsr_id_table = [''fsl,dcsr'']"

definition dcsr_matches :: "'h platform \<Rightarrow> 'h \<Rightarrow> bool" where
  "dcsr_matches pf h = list_ex (\<lambda>compatible. compatible_nodes pf compatible h \<noteq> []) dcsr_id_table"

text \<open>Loading the module.  Registering the driver probes the device when the system has one
  (\<open>found\<close>); the result of the probe is the driver core's, not the module's.\<close>

definition dcsr_module_init ::
  "'h kernel \<Rightarrow> 'h platform \<Rightarrow> 'h debugfs \<Rightarrow> bool \<Rightarrow> 'h module \<Rightarrow> (unit, 'h module) result" where
  "dcsr_module_init k pf fs found m =
    (let (ret, h) = platform_driver_register pf (hw (drv m)); m = on_hw (\<lambda>_. h) m in
     if ret \<noteq> 0 then Fail (Errno ret) m
     else and_then (if found then ignore_ret (dcsr_probe pf fs m) else Done () m) (\<lambda>_ m.
       (case vcounters_init k fs (dbgfs_root_dentry m) (drv m) of
          Done _ d \<Rightarrow> Done () (m\<lparr>drv := d\<rparr>)
        | Fail e d \<Rightarrow> Fail e (m\<lparr>drv := d\<rparr>)
        | Spin \<Rightarrow> Spin
        | Undef \<Rightarrow> Undef)))"

text \<open>Unloading.  The driver core calls \<open>dcsr_remove\<close> when a device is bound to the driver (\<open>bound\<close>),
  that is when one was found and its probe succeeded.\<close>

definition dcsr_module_exit ::
  "'h kernel \<Rightarrow> 'h platform \<Rightarrow> bool \<Rightarrow> 'h module \<Rightarrow> (unit, 'h module) result" where
  "dcsr_module_exit k pf bound m =
    and_then (if bound then dcsr_remove k pf m else Done () m) (\<lambda>_ m.
    Done () (on_hw (platform_driver_unregister pf) m))"

end
