(* ===== verification/Lifecycle.thy ===== *)
theory Lifecycle
  imports Ls_Dbg
begin

text \<open>
  The life of the module: what probing, removing and loading leave in the driver's state, in success
  and in failure.
\<close>

section \<open>What the device list does to the driver\<close>

definition map_frame :: "'h driver \<Rightarrow> 'h driver \<Rightarrow> bool" where
  "map_frame d d' \<longleftrightarrow> vcnt d' = vcnt d \<and> vc_lock d' = vc_lock d \<and> reg_acc_lock d' = reg_acc_lock d \<and>
    intr_num d' = intr_num d \<and> epu_ptr d' = epu_ptr d \<and> length (maps d') = length (maps d)"

lemma map_frame_refl [simp]: "map_frame d d"
  by (simp add: map_frame_def)

lemma map_frame_trans [trans]: "map_frame d d' \<Longrightarrow> map_frame d' d'' \<Longrightarrow> map_frame d d''"
  by (simp add: map_frame_def)

lemma map_frame_wf: "map_frame d d' \<Longrightarrow> wf_driver d \<Longrightarrow> wf_driver d'"
  by (simp add: map_frame_def wf_driver_def)

lemma map_frame_hw [simp]: "map_frame d (d'\<lparr>hw := h\<rparr>) = map_frame d d'"
  by (simp add: map_frame_def)

lemma map_range_eq:
  "map_range pf node gid idx i (dev, d) =
    (let (ptr, h) = of_iomap pf node i (hw d); j = gid + of_nat idx + of_nat i in
     (dev\<lparr>mem_id := (mem_id dev)[i := i], mem_ptr := (mem_ptr dev)[i := ptr]\<rparr>,
      if ptr \<noteq> 0 \<and> j < NUM_IDS
      then d\<lparr>hw := h, maps := (maps d)[unat j :=
        (maps d ! unat j)\<lparr>base_addr := ptr, map_size := range_size pf node i h\<rparr>]\<rparr>
      else d\<lparr>hw := h\<rparr>))"
  by (simp add: map_range_def reg_add_map_def split_beta Let_def)

lemma map_range_frame: "map_frame (snd s) (snd (map_range pf node gid idx i s))"
  by (cases s) (simp add: map_range_eq split_beta Let_def, simp add: map_frame_def)

lemma map_range_other:
  "unat (gid + of_nat idx + of_nat i) \<noteq> j \<Longrightarrow>
    maps (snd (map_range pf node gid idx i s)) ! j = maps (snd s) ! j"
  by (cases s) (simp add: map_range_eq split_beta Let_def)

lemma ranges_eq: "fold (map_range pf node gid idx) [0..<MAX_MEM_RANGE] s =
    map_range pf node gid idx 1 (map_range pf node gid idx 0 s)"
  by (simp add: upt_conv_Cons)

lemma add_device_frame:
  "map_frame (drv m) (drv (snd (add_device pf name gid rf init node (idx, m))))"
  using map_range_frame [of "(alloc_device, (drv m)\<lparr>hw := snd (kzalloc_dev pf (hw (drv m)))\<rparr>)" pf node gid idx 0]
    map_range_frame [of "map_range pf node gid idx 0
      (alloc_device, (drv m)\<lparr>hw := snd (kzalloc_dev pf (hw (drv m)))\<rparr>)" pf node gid idx 1]
  by (auto simp: add_device_def ranges_eq split_beta Let_def intro: map_frame_trans)
    (simp add: map_frame_def)

lemma add_device_other:
  "unat (gid + of_nat idx) \<noteq> j \<Longrightarrow> unat (gid + of_nat idx + 1) \<noteq> j \<Longrightarrow>
    maps (drv (snd (add_device pf name gid rf init node (idx, m)))) ! j = maps (drv m) ! j"
  by (simp add: add_device_def ranges_eq split_beta Let_def map_range_other)

lemma add_device_idx: "fst (add_device pf name gid rf init node (idx, m)) \<in> {idx, idx + 1}"
  by (auto simp: add_device_def split_beta Let_def)

lemma add_nodes_frame:
  "map_frame (drv (snd im)) (drv (snd (fold (add_device pf name gid rf init) nodes im)))"
proof (induction nodes arbitrary: im)
  case (Cons node nodes)
  have "map_frame (drv (snd im)) (drv (snd (add_device pf name gid rf init node im)))"
    using add_device_frame [of "snd im" pf name gid rf init node "fst im"] by simp
  also have "map_frame (drv (snd (add_device pf name gid rf init node im)))
      (drv (snd (fold (add_device pf name gid rf init) (node # nodes) im)))"
    using Cons [of "add_device pf name gid rf init node im"] by simp
  finally show ?case .
qed simp

lemma add_compatible_frame:
  "map_frame (drv m) (drv (add_compatible_devices pf compatible name gid rf init m))"
  using add_nodes_frame [of "(0, m)"] by (simp add: add_compatible_devices_def)

lemma add_all_frame: "map_frame (drv m) (drv (add_all_devices pf m))"
  unfolding add_all_devices_def comp_def
  by (rule map_frame_trans [rotated], rule add_compatible_frame)+ simp

text \<open>A group that starts behind the id \<open>j\<close> does not touch it.\<close>

lemma add_nodes_other:
  assumes "j < gn" and "gn + idx + length nodes + 2 < 2 ^ 32"
  shows "maps (drv (snd (fold (add_device pf name (of_nat gn) rf init) nodes (idx, m)))) ! j = maps (drv m) ! j"
  using assms(2)
proof (induction nodes arbitrary: idx m)
  case (Cons node nodes)
  obtain idx' m' where add: "add_device pf name (of_nat gn) rf init node (idx, m) = (idx', m')" by force
  have "unat (of_nat gn + of_nat idx :: u32) = gn + idx" "unat (of_nat gn + of_nat idx + 1 :: u32) = gn + idx + 1"
    using Cons.prems by (simp_all add: unat_word_ariths unat_of_nat)
  then have "maps (drv m') ! j = maps (drv m) ! j"
    using add_device_other [of "of_nat gn" idx j pf name rf init node m] assms(1) add by simp
  moreover have "idx' \<le> idx + 1"
    using add_device_idx [of pf name "of_nat gn" rf init node idx m] add by auto
  ultimately show ?case using Cons.IH [of idx' m'] Cons.prems add by simp
qed simp

lemma add_compatible_other:
  assumes "unat (module_code g) > j" and "length (compatible_nodes pf compatible (hw (drv m))) < 1000"
  shows "maps (drv (add_compatible_devices pf compatible name g rf init m)) ! j = maps (drv m) ! j"
proof -
  have "unat (module_code g) < 11" by (rule module_code_less)
  then show ?thesis
    using add_nodes_other [of j "unat (module_code g)" 0 "compatible_nodes pf compatible (hw (drv m))"] assms
    by (simp add: add_compatible_devices_def)
qed

section \<open>Recording the ranges of a node\<close>

text \<open>C40: A node whose two memory ranges can be mapped records the first under its group's id plus its
  ordinal and the second under the id after that: the second range of a device takes the entry of the
  next group, and overwrites it when that group was recorded before.\<close>

theorem second_range_takes_next_id:
  assumes "kzalloc_dev pf (hw (drv m)) = (True, h)"
    and "of_iomap pf node 0 h = (p0, h0)" and "p0 \<noteq> 0"
    and "of_iomap pf node 1 h0 = (p1, h1)" and "p1 \<noteq> 0"
    and "gid + of_nat idx + 1 < NUM_IDS" and "gid + of_nat idx < NUM_IDS" and "wf_driver (drv m)"
  shows "\<exists>m'. add_device pf name gid rf init node (idx, m) = (idx + 1, m') \<and>
    base_addr (maps (drv m') ! unat (gid + of_nat idx)) = p0 \<and>
    map_size (maps (drv m') ! unat (gid + of_nat idx)) = range_size pf node 0 h0 \<and>
    base_addr (maps (drv m') ! unat (gid + of_nat idx + 1)) = p1 \<and>
    map_size (maps (drv m') ! unat (gid + of_nat idx + 1)) = range_size pf node 1 h1 \<and>
    (\<exists>dev. dbg_devs m' = dev # dbg_devs m \<and> mem_ptr dev = [p0, p1] \<and> dt_idx dev = idx \<and> np dev = node)"
proof -
  have less: "unat (gid + of_nat idx) < 16" "unat (gid + of_nat idx + 1) < 16"
    using assms(6,7) NUM_IDS_le by blast+
  then have len: "unat (gid + of_nat idx) < length (maps (drv m))"
      "unat (gid + of_nat idx + 1) < length (maps (drv m))"
    using assms(8) by (simp_all add: wf_driver_def)
  have ne: "unat (gid + of_nat idx) \<noteq> unat (gid + of_nat idx + 1)"
    by (simp add: word_unat_eq_iff [symmetric])
  show ?thesis
    using assms(1-7) len ne
    by (simp add: add_device_def ranges_eq map_range_eq alloc_device_def Let_def numeral_2_eq_2)
qed

text \<open>A device tree with one trace FIFO of one range and one trace router of two; everything can be
  mapped and registered, the system has one node per compatible string given.\<close>

definition bench_platform :: "(string \<Rightarrow> u32 list) \<Rightarrow> (u32 \<Rightarrow> nat \<Rightarrow> u32) \<Rightarrow> u32 \<Rightarrow> bench platform" where
  "bench_platform nodes addr misc =
    \<lparr>compatible_nodes = (\<lambda>c h. nodes c), kzalloc_dev = (\<lambda>h. (True, h)),
     of_iomap = (\<lambda>n i h. (addr n i, h)), range_size = (\<lambda>n i h. 0x1000), iounmap = (\<lambda>p h. h),
     misc_register = (\<lambda>h. (misc, h)), misc_deregister = (\<lambda>h. h),
     debugfs_remove_recursive = (\<lambda>r h. h), platform_driver_register = (\<lambda>h. (0, h)),
     platform_driver_unregister = (\<lambda>h. h)\<rparr>"

lemma bench_platform_simps [simp]:
  "compatible_nodes (bench_platform nodes addr misc) = (\<lambda>c h. nodes c)"
  "kzalloc_dev (bench_platform nodes addr misc) = (\<lambda>h. (True, h))"
  "of_iomap (bench_platform nodes addr misc) = (\<lambda>n i h. (addr n i, h))"
  "range_size (bench_platform nodes addr misc) = (\<lambda>n i h. 0x1000)"
  "iounmap (bench_platform nodes addr misc) = (\<lambda>p h. h)"
  "misc_register (bench_platform nodes addr misc) = (\<lambda>h. (misc, h))"
  "misc_deregister (bench_platform nodes addr misc) = (\<lambda>h. h)"
  "debugfs_remove_recursive (bench_platform nodes addr misc) = (\<lambda>r h. h)"
  "platform_driver_register (bench_platform nodes addr misc) = (\<lambda>h. (0, h))"
  "platform_driver_unregister (bench_platform nodes addr misc) = (\<lambda>h. h)"
  by (simp_all add: bench_platform_def)

definition bench_addr :: "u32 \<Rightarrow> nat \<Rightarrow> u32" where
  "bench_addr n i = n + of_nat i * 0x10000"

text \<open>The second range of the router takes the id of the first FIFO.\<close>

lemma second_range_takes_next_id_witness:
  "\<exists>m'. add_device (bench_platform (\<lambda>c. []) bench_addr 0) ''etr'' (module_code ETR) False Init_etr 0x80000000
      (0, initial_module bench_world) = (1, m') \<and>
    base_addr (maps (drv m') ! unat (module_code ETF0)) = 0x80010000"
  using second_range_takes_next_id [of "bench_platform (\<lambda>c. []) bench_addr 0" "initial_module bench_world"
      bench_world "0x80000000" "0x80000000" bench_world "0x80010000" bench_world "module_code ETR" 0
      "''etr''" False Init_etr]
  by (auto simp: bench_addr_def initial_module_def NUM_IDS_def initial_driver_def
      wf_initial [unfolded initial_driver_def])

section \<open>Probing\<close>

lemma dbgfs_inits_Done:
  "\<exists>devs' d'. dbgfs_inits fs root devs d = Done devs' d' \<and>
    (\<exists>h. d' = d\<lparr>hw := h, epu_ptr := fold (\<lambda>dev p. if init_fn dev = Init_epu then mem_ptr dev ! 0 else p)
      devs (epu_ptr d)\<rparr>)"
proof (induction devs arbitrary: d)
  case Nil
  show ?case by (auto intro: exI [of _ "hw d"])
next
  case (Cons dev devs)
  let ?p = "if init_fn dev = Init_epu then mem_ptr dev ! 0 else epu_ptr d"
  have "\<exists>dev' h. ignore_ret (call_dbgfs_init (init_fn dev) fs root (dev, d)) =
      Done () (dev', d\<lparr>epu_ptr := ?p, hw := h\<rparr>)"
    using dbgfs_init_exits [where d = d and dev = dev and fn = "init_fn dev" and fs = fs and parent = root]
    by (cases "call_dbgfs_init (init_fn dev) fs root (dev, d)") auto
  then obtain dev' h where init:
      "ignore_ret (call_dbgfs_init (init_fn dev) fs root (dev, d)) = Done () (dev', d\<lparr>epu_ptr := ?p, hw := h\<rparr>)"
    by blast
  from Cons [of "d\<lparr>epu_ptr := ?p, hw := h\<rparr>"] obtain devs' h' where
      "dbgfs_inits fs root devs (d\<lparr>epu_ptr := ?p, hw := h\<rparr>) = Done devs' (d\<lparr>hw := h', epu_ptr :=
        fold (\<lambda>dev p. if init_fn dev = Init_epu then mem_ptr dev ! 0 else p) devs ?p\<rparr>)"
    by auto
  then show ?case unfolding dbgfs_inits.simps init by (auto intro: exI [of _ h'])
qed

lemma dbgfs_inits_total [simp]:
  "dbgfs_inits fs root devs d \<noteq> Fail e d'" "dbgfs_inits fs root devs d \<noteq> Spin"
  "dbgfs_inits fs root devs d \<noteq> Undef"
  using dbgfs_inits_Done [of fs root devs d] by auto

lemma dcsr_probe_cases:
  fixes pf fs m
  defines "m1 \<equiv> add_all_devices pf m"
  shows "(\<exists>h. dcsr_probe pf fs m =
      Fail ENOMEM (remove_devices pf (m1\<lparr>drv := (drv m1)\<lparr>hw := h\<rparr>, dbgfs_root_dentry := 0\<rparr>))) \<or>
    (\<exists>root h e. dcsr_probe pf fs m =
      Fail (Errno e) (remove_devices pf (m1\<lparr>dbgfs_root_dentry := root, drv := (drv m1)\<lparr>hw := h\<rparr>\<rparr>))) \<or>
    (\<exists>root h devs. dcsr_probe pf fs m = Done () (m1\<lparr>dbgfs_root_dentry := root, dbg_devs := devs,
      drv := (drv m1)\<lparr>hw := h, epu_ptr := fold (\<lambda>dev p. if init_fn dev = Init_epu then mem_ptr dev ! 0 else p)
        (dbg_devs m1) (epu_ptr (drv m1))\<rparr>\<rparr>))"
proof (cases "debugfs_create_dir fs ''ls-dbg'' 0 (hw (drv m1))")
  case (Pair r h)
  show ?thesis
  proof (cases r)
    case None
    then show ?thesis using Pair by (auto simp: dcsr_probe_def on_hw_def Let_def m1_def)
  next
    case (Some root)
    let ?m2 = "on_hw (\<lambda>_. h) m1\<lparr>dbgfs_root_dentry := root\<rparr>"
    obtain ret h2 where misc: "misc_register pf h = (ret, h2)" by force
    show ?thesis
    proof (cases "ret = 0")
      case False
      then show ?thesis
        using Pair Some misc by (auto simp: dcsr_probe_def reg_access_init_def on_hw_def Let_def m1_def)
    next
      case True
      obtain devs d h3 where "dbgfs_inits fs root (dbg_devs m1) ((drv m1)\<lparr>hw := h2\<rparr>) = Done devs d"
          "d = (drv m1)\<lparr>hw := h3, epu_ptr := fold (\<lambda>dev p. if init_fn dev = Init_epu then mem_ptr dev ! 0 else p)
            (dbg_devs m1) (epu_ptr (drv m1))\<rparr>"
        using dbgfs_inits_Done [of fs root "dbg_devs m1" "(drv m1)\<lparr>hw := h2\<rparr>"] by auto
      then show ?thesis
        using Pair Some misc True
        by (auto simp: dcsr_probe_def reg_access_init_def on_hw_def Let_def m1_def intro!: exI [of _ h3])
    qed
  qed
qed

text \<open>A probe that fails, because the root directory or the character device cannot be created,
  unmaps every range of every device and frees the device list, but leaves the map table as the
  devices were recorded in it: later accesses through the table go to unmapped addresses.\<close>

theorem failed_probe_keeps_mappings:
  assumes "dcsr_probe pf fs m = Fail e m'"
  shows "maps (drv m') = maps (drv (add_all_devices pf m)) \<and> dbg_devs m' = [] \<and>
    (\<exists>h. hw (drv m') = fold (unmap_device pf) (dbg_devs (add_all_devices pf m)) h)"
  using dcsr_probe_cases [of pf fs m] assms by (auto simp: remove_devices_def on_hw_def)

definition bench_nodes :: "string \<Rightarrow> u32 list" where
  "bench_nodes c = (if c = ''fsl,ls1021a-dcsr-epu'' then [0x90000000] else [])"

text \<open>One range per node.\<close>

definition one_range :: "u32 \<Rightarrow> nat \<Rightarrow> u32" where
  "one_range n i = (if i = 0 then n else 0)"

lemma bench_add_all:
  "maps (drv (add_all_devices (bench_platform bench_nodes one_range misc) (initial_module bench_world))) ! 7 =
    \<lparr>map_id = 0, base_addr = 0x90000000, map_size = 0x1000\<rparr>"
  by (simp add: add_all_devices_def add_compatible_devices_def bench_nodes_def add_device_def ranges_eq
      map_range_eq one_range_def NUM_IDS_def initial_module_def initial_driver_def zero_map_def)

lemma failed_probe_keeps_mappings_witness:
  "\<exists>m'. dcsr_probe (bench_platform bench_nodes one_range 16) null_debugfs (initial_module bench_world) =
      Fail (Errno 16) m' \<and>
    reg_find_map_io (drv m') (module_code EPU) 0x30 = Inr 0x90000030"
proof -
  let ?pf = "bench_platform bench_nodes one_range 16"
  obtain m' where fail: "dcsr_probe ?pf null_debugfs (initial_module bench_world) = Fail (Errno 16) m'"
    by (simp add: dcsr_probe_def null_debugfs_def reg_access_init_def Let_def)
  from failed_probe_keeps_mappings [OF this]
  have "maps (drv m') ! 7 = \<lparr>map_id = 0, base_addr = 0x90000000, map_size = 0x1000\<rparr>"
    by (simp only: bench_add_all)
  then show ?thesis using fail by (simp add: epu_find epu_addr_def)
qed

section \<open>A probed EPU\<close>

text \<open>The new entries of a device have its initialisation callback.\<close>

lemma add_nodes_devs:
  "\<exists>new. dbg_devs (snd (fold (add_device pf name gid rf init) nodes im)) = new @ dbg_devs (snd im) \<and>
    (\<forall>dev\<in>set new. init_fn dev = init)"
proof (induction nodes arbitrary: im)
  case (Cons node nodes)
  obtain idx m where im: "im = (idx, m)" by force
  have "\<exists>new. dbg_devs (snd (add_device pf name gid rf init node im)) = new @ dbg_devs m \<and>
      (\<forall>dev\<in>set new. init_fn dev = init)"
    unfolding im by (auto simp: add_device_def split_beta Let_def)
  then obtain new where new: "dbg_devs (snd (add_device pf name gid rf init node im)) = new @ dbg_devs m"
      "\<forall>dev\<in>set new. init_fn dev = init" by blast
  obtain more where "dbg_devs (snd (fold (add_device pf name gid rf init) (node # nodes) im)) =
      more @ new @ dbg_devs m" "\<forall>dev\<in>set more. init_fn dev = init"
    using Cons [of "add_device pf name gid rf init node im"] new by auto
  then show ?case using new(2) im by (intro exI [of _ "more @ new"]) auto
qed simp

lemma add_compatible_devs:
  "\<exists>new. dbg_devs (add_compatible_devices pf compatible name g rf init m) = new @ dbg_devs m \<and>
    (\<forall>dev\<in>set new. init_fn dev = init)"
  using add_nodes_devs [of pf name "module_code g" rf init _ "(0, m)"] by (simp add: add_compatible_devices_def)

lemma add_compatible_no_epu:
  "init \<noteq> Init_epu \<Longrightarrow> \<forall>dev\<in>set (dbg_devs m). init_fn dev \<noteq> Init_epu \<Longrightarrow>
    \<forall>dev\<in>set (dbg_devs (add_compatible_devices pf compatible name g rf init m)). init_fn dev \<noteq> Init_epu"
  using add_compatible_devs [of pf compatible name g rf init m] by auto

lemma fold_epu_skip:
  "\<forall>dev\<in>set devs. init_fn dev \<noteq> Init_epu \<Longrightarrow>
    fold (\<lambda>dev p. if init_fn dev = Init_epu then mem_ptr dev ! 0 else p) devs p = p"
  by (induction devs) auto

text \<open>A device tree whose only EPU node is \<open>n\<close>, with one memory range of at least the size of
  \<open>struct epu_v2\<close> that can be mapped at \<open>p\<close>.\<close>

definition epu_node :: "'h platform \<Rightarrow> (string \<Rightarrow> u32 list) \<Rightarrow> u32 \<Rightarrow> u32 \<Rightarrow> bool" where
  "epu_node pf nodes n p \<longleftrightarrow>
    (\<forall>c h. compatible_nodes pf c h = nodes c) \<and> (\<forall>c. length (nodes c) < 1000) \<and>
    nodes ''fsl,ls1021a-dcsr-epu'' = [n] \<and> p \<noteq> 0 \<and>
    (\<forall>h. fst (kzalloc_dev pf h) \<and> fst (of_iomap pf n 0 h) = p \<and> fst (of_iomap pf n 1 h) = 0 \<and>
      0x1000 \<le> range_size pf n 0 h)"

lemma add_epu:
  fixes m m1 :: "'h module" and name :: string and rf :: bool
  assumes "epu_node pf nodes n p" and "wf_driver (drv m)"
  defines "m1 \<equiv> add_compatible_devices pf ''fsl,ls1021a-dcsr-epu'' name EPU rf Init_epu m"
  shows "epu_mapped (drv m1) \<and> base_addr (maps (drv m1) ! 7) = p \<and>
    (\<exists>dev. dbg_devs m1 = dev # dbg_devs m \<and> init_fn dev = Init_epu \<and> mem_ptr dev ! 0 = p)"
proof -
  have len: "7 < length (maps (drv m))" using assms(2) by (simp add: wf_driver_def)
  have node: "compatible_nodes pf ''fsl,ls1021a-dcsr-epu'' h = [n]" "fst (kzalloc_dev pf h)"
      "fst (of_iomap pf n 0 h) = p" "fst (of_iomap pf n (Suc 0) h) = 0" "0x1000 \<le> range_size pf n 0 h"
      "p \<noteq> 0" for h
    using assms(1) by (simp_all add: epu_node_def)
  show ?thesis
    using len node
    by (simp add: m1_def add_compatible_devices_def add_device_def ranges_eq map_range_eq split_beta
        alloc_device_def NUM_IDS_def epu_mapped_def)
qed

lemma add_all_epu:
  fixes m m1 :: "'h module"
  assumes "epu_node pf nodes n p" and "wf_driver (drv m)"
    and "\<forall>dev\<in>set (dbg_devs m). init_fn dev \<noteq> Init_epu"
  defines "m1 \<equiv> add_all_devices pf m"
  shows "epu_mapped (drv m1) \<and> base_addr (maps (drv m1) ! 7) = p \<and>
    fold (\<lambda>dev q. if init_fn dev = Init_epu then mem_ptr dev ! 0 else q) (dbg_devs m1) q = p"
proof -
  let ?add = "add_compatible_devices pf"
  define a where "a = ?add ''fsl,ls1021a-dcsr-cstf'' DEBUGFS_CSTF_NAME CSTF0 False Init_cstf
    (?add ''fsl,ls1021a-dcsr-etm'' DEBUGFS_ETM_NAME ETM0 False Init_etm
    (?add ''fsl,ls1021a-dcsr-etr'' DEBUGFS_ETR_NAME ETR False Init_etr
    (?add ''fsl,ls1021a-dcsr-etf'' DEBUGFS_ETF_NAME ETF0 False Init_etf m)))"
  define b where "b = ?add ''fsl,ls1021a-dcsr-epu'' DEBUGFS_EPU_NAME EPU True Init_epu a"
  define c where "c = ?add ''fsl,ls1021a-dcsr-gdi'' DEBUGFS_GDI_NAME GDI False Init_gdi b"
  have m1: "m1 = ?add ''fsl,ls1021a-dcsr-a7cpu'' DEBUGFS_CORE_NAME CORE False Init_core c"
    by (simp add: m1_def add_all_devices_def a_def b_def c_def)
  have "map_frame (drv m) (drv a)"
    unfolding a_def by (rule map_frame_trans [rotated], rule add_compatible_frame)+ simp
  then have wf: "wf_driver (drv a)" using assms(2) by (rule map_frame_wf)
  have no_epu: "\<forall>dev\<in>set (dbg_devs a). init_fn dev \<noteq> Init_epu"
    unfolding a_def by (intro add_compatible_no_epu assms(3)) simp_all
  have static: "length (compatible_nodes pf s h) < 1000" for s h
    using assms(1) by (simp add: epu_node_def)
  have keep: "maps (drv m1) ! 7 = maps (drv b) ! 7"
    unfolding m1 c_def by (simp add: add_compatible_other static)
  obtain dev where b: "epu_mapped (drv b)" "base_addr (maps (drv b) ! 7) = p"
      "dbg_devs b = dev # dbg_devs a" "init_fn dev = Init_epu" "mem_ptr dev ! 0 = p"
    using add_epu [OF assms(1) wf, of DEBUGFS_EPU_NAME True] by (auto simp: b_def)
  obtain new where c: "dbg_devs c = new @ dbg_devs b" "\<forall>dev\<in>set new. init_fn dev \<noteq> Init_epu"
    using add_compatible_devs [of pf _ DEBUGFS_GDI_NAME GDI False Init_gdi b] by (fastforce simp: c_def)
  obtain new2 where d: "dbg_devs m1 = new2 @ dbg_devs c" "\<forall>dev\<in>set new2. init_fn dev \<noteq> Init_epu"
    using add_compatible_devs [of pf _ DEBUGFS_CORE_NAME CORE False Init_core c] by (fastforce simp: m1)
  have "fold (\<lambda>dev q. if init_fn dev = Init_epu then mem_ptr dev ! 0 else q) (dbg_devs m1) q = p"
    using b(3-5) c d no_epu by (simp add: fold_epu_skip)
  then show ?thesis using b(1,2) keep by (simp add: epu_mapped_def)
qed

lemma probe_maps:
  assumes "epu_node pf nodes n p" and "wf_driver (drv m)"
    and "\<forall>dev\<in>set (dbg_devs m). init_fn dev \<noteq> Init_epu"
  shows "holds (\<lambda>_ m'. epu_mapped (drv m') \<and> (\<forall>off. epu_addr (drv m') off = p + off) \<and>
      epu_ptr (drv m') = p \<and> wf_driver (drv m') \<and> unlocked (drv m') = unlocked (drv m) \<and>
      intr_num (drv m') = intr_num (drv m) \<and> vcnt (drv m') = vcnt (drv m))
    (\<lambda>e m'. dbg_devs m' = [] \<and> wf_driver (drv m')) (dcsr_probe pf fs m)"
proof -
  let ?m1 = "add_all_devices pf m"
  have frame: "map_frame (drv m) (drv ?m1)" by (rule add_all_frame)
  have wf: "wf_driver (drv ?m1)" using frame assms(2) by (rule map_frame_wf)
  have same: "unlocked (drv ?m1) = unlocked (drv m)" "intr_num (drv ?m1) = intr_num (drv m)"
      "vcnt (drv ?m1) = vcnt (drv m)"
    using frame by (simp_all add: map_frame_def unlocked_def)
  from dcsr_probe_cases [of pf fs m] show ?thesis
    using add_all_epu [OF assms] wf same
    by (auto simp: remove_devices_def on_hw_def wf_driver_def epu_mapped_def epu_addr_def unlocked_def)
qed

text \<open>C35: A probe always returns.  With one EPU in the device tree whose registers can be mapped at
  \<open>p\<close>, a successful probe leaves the whole EPU mapped at \<open>p\<close> in the map table and the EPU pointer at
  \<open>p\<close>, so that the virtual counters and the reservations work on the same registers; locks,
  interrupt number and virtual counters are untouched.\<close>

theorem probe_maps_epu:
  assumes "epu_node pf nodes n p" and "wf_driver (drv m)"
    and "\<forall>dev\<in>set (dbg_devs m). init_fn dev \<noteq> Init_epu"
  shows "holds (\<lambda>_ m'. epu_mapped (drv m') \<and> (\<forall>off. epu_addr (drv m') off = p + off) \<and>
      epu_ptr (drv m') = p \<and> wf_driver (drv m') \<and> unlocked (drv m') = unlocked (drv m) \<and>
      intr_num (drv m') = intr_num (drv m) \<and> vcnt (drv m') = vcnt (drv m))
    (\<lambda>e m'. dbg_devs m' = [] \<and> wf_driver (drv m')) (dcsr_probe pf fs m)"
  by (rule probe_maps [OF assms])

lemma bench_epu_node: "epu_node (bench_platform bench_nodes one_range 0) bench_nodes 0x90000000 0x90000000"
  by (simp add: epu_node_def bench_nodes_def one_range_def)

lemma bench_probe_Done:
  "\<exists>m'. dcsr_probe (bench_platform bench_nodes one_range 0) null_debugfs (initial_module bench_world) = Done () m'"
proof -
  let ?pf = "bench_platform bench_nodes one_range 0"
  have "holds (\<lambda>_ m'. True) (\<lambda>e m'. False) (dcsr_probe ?pf null_debugfs (initial_module bench_world))"
    by (auto simp: dcsr_probe_def null_debugfs_def reg_access_init_def Let_def split: result.split)
  then show ?thesis by (cases "dcsr_probe ?pf null_debugfs (initial_module bench_world)") auto
qed

lemma probe_maps_epu_witness:
  "\<exists>m'. dcsr_probe (bench_platform bench_nodes one_range 0) null_debugfs (initial_module bench_world) =
      Done () m' \<and> epu_mapped (drv m') \<and> epu_ptr (drv m') = 0x90000000"
proof -
  have "holds (\<lambda>_ m'. epu_mapped (drv m') \<and> epu_ptr (drv m') = 0x90000000) (\<lambda>e m'. True)
      (dcsr_probe (bench_platform bench_nodes one_range 0) null_debugfs (initial_module bench_world))"
    by (rule holds_mono [OF probe_maps_epu [OF bench_epu_node]]) (simp_all add: initial_module_def)
  with bench_probe_Done show ?thesis by auto
qed

section \<open>Removing the driver\<close>

lemma remove_unbinds:
  "\<exists>d m'. dcsr_remove k pf m = Done () m' \<and>
    (ls_dbg_epu_unbind_irq k (drv m) = Done () d \<or> ls_dbg_epu_unbind_irq k (drv m) = Fail EFAULT d) \<and>
    intr_num (drv m') = 0 \<and> dbg_devs m' = [] \<and> maps (drv m') = maps (drv m) \<and>
    hw (drv m') = misc_deregister pf (fold (unmap_device pf) (dbg_devs m)
      (debugfs_remove_recursive pf (dbgfs_root_dentry m) (hw d)))"
proof -
  have "holds (\<lambda>_ d. intr_num d = 0 \<and> maps d = maps (drv m))
      (\<lambda>e d. e = EFAULT \<and> intr_num d = 0 \<and> maps d = maps (drv m)) (ls_dbg_epu_unbind_irq k (drv m))"
    unfolding ls_dbg_epu_unbind_irq_def Let_def holds_on_exit
    by (rule holds_mono [OF holds_write_all_epccr]) (auto simp: release_irq_def)
  then show ?thesis
    by (cases "ls_dbg_epu_unbind_irq k (drv m)")
      (auto simp: dcsr_remove_def reg_access_cleanup_def remove_devices_def on_hw_def)
qed

text \<open>C36: Removing the driver always succeeds.  The interrupt is unbound, with its number forgotten,
  before any register window is unmapped; the device list is emptied.  The character device is
  deregistered last, after the windows are gone, and the map table still names them.\<close>

theorem remove_unbinds_before_unmapping:
  "\<exists>d m'. dcsr_remove k pf m = Done () m' \<and>
    (ls_dbg_epu_unbind_irq k (drv m) = Done () d \<or> ls_dbg_epu_unbind_irq k (drv m) = Fail EFAULT d) \<and>
    intr_num (drv m') = 0 \<and> dbg_devs m' = [] \<and> maps (drv m') = maps (drv m) \<and>
    hw (drv m') = misc_deregister pf (fold (unmap_device pf) (dbg_devs m)
      (debugfs_remove_recursive pf (dbgfs_root_dentry m) (hw d)))"
  by (rule remove_unbinds)

section \<open>Loading the module\<close>

lemma probe_total:
  "\<exists>m'. ignore_ret (dcsr_probe pf fs m) = Done () m' \<and> length (maps (drv m')) = length (maps (drv m)) \<and>
    vcnt (drv m') = vcnt (drv m)"
proof -
  have frame: "map_frame (drv m) (drv (add_all_devices pf m))" by (rule add_all_frame)
  from dcsr_probe_cases [of pf fs m] show ?thesis
    using frame by (auto simp: map_frame_def remove_devices_def on_hw_def)
qed

text \<open>C34: Loading the module returns, whether or not a device is found and its probe succeeds; when it
  reports success, the virtual registers are in the map table and user space can reach them.\<close>

theorem module_init_maps_virtual_registers:
  assumes "wf_driver (drv m)" and "linked k"
  shows "holds (\<lambda>_ m'. vcount_mapped k (drv m') \<and> wf_driver (drv m')) (\<lambda>e m'. wf_driver (drv m'))
    (dcsr_module_init k pf fs found m)"
proof -
  have vc: "holds (\<lambda>_ m'. vcount_mapped k (drv m') \<and> wf_driver (drv m')) (\<lambda>e m'. wf_driver (drv m'))
      (case vcounters_init k fs (dbgfs_root_dentry m1) (drv m1) of
         Done _ d \<Rightarrow> Done () (m1\<lparr>drv := d\<rparr>) | Fail e d \<Rightarrow> Fail e (m1\<lparr>drv := d\<rparr>)
       | Spin \<Rightarrow> Spin | Undef \<Rightarrow> Undef)" if "wf_driver (drv m1)" for m1 :: "'a module"
    using vcounters_init_exits [OF that assms(2), of fs "dbgfs_root_dentry m1"] that
    by (cases "vcounters_init k fs (dbgfs_root_dentry m1) (drv m1)") (auto simp: wf_driver_def)
  obtain ret h where reg: "platform_driver_register pf (hw (drv m)) = (ret, h)" by force
  let ?m = "on_hw (\<lambda>_. h) m"
  have wf: "wf_driver (drv ?m)" using assms(1) by (simp add: on_hw_def wf_driver_def)
  obtain m1 where m1: "(if found then ignore_ret (dcsr_probe pf fs ?m) else Done () ?m) = Done () m1"
      "wf_driver (drv m1)"
  proof (cases found)
    case True
    from probe_total [of pf fs ?m] obtain m2 where "ignore_ret (dcsr_probe pf fs ?m) = Done () m2"
        "length (maps (drv m2)) = length (maps (drv ?m))" "vcnt (drv m2) = vcnt (drv ?m)"
      by blast
    with True wf show ?thesis by (intro that [of m2]) (simp_all add: wf_driver_def)
  next
    case False
    with wf show ?thesis by (intro that [of ?m]) simp_all
  qed
  show ?thesis
    using m1(1) vc [OF m1(2)] wf unfolding dcsr_module_init_def reg Let_def prod.case by simp
qed

lemma module_init_maps_virtual_registers_witness:
  "holds (\<lambda>_ m'. vcount_mapped bench_kernel (drv m')) (\<lambda>e m'. wf_driver (drv m'))
    (dcsr_module_init bench_kernel (bench_platform bench_nodes one_range 0) null_debugfs True
      (initial_module bench_world))"
  by (rule holds_mono [OF module_init_maps_virtual_registers]) (simp_all add: linked_def initial_module_def)

end
