(* ===== verification/Sys_Calls.thy ===== *)
theory Sys_Calls
  imports Lifecycle Step_System
begin

text \<open>
  The loaded driver as a system: everything that can call into it (the \<open>ioctl\<close> of the character
  device, the debugfs files of the virtual counters, the overflow interrupt), the device changing
  by itself, and what holds in every state that a run of such calls reaches.
\<close>

section \<open>The debugfs files of the virtual counters\<close>

text \<open>The attributes that \<open>DEFINE_SIMPLE_ATTRIBUTE\<close> makes: a read of the file calls the first function,
  a write the second, with the data pointer that the file was created with.\<close>

fun attr_get :: "vcnt_fops \<Rightarrow> 'h kernel \<Rightarrow> u32 \<Rightarrow> 'h driver \<Rightarrow> (u64, 'h driver) result" where
  "attr_get Fops_vcntctrl k data d = vcntrctrl_get d"
| "attr_get Fops_vcntrepecr k data d = vcntepecr_get k data d"
| "attr_get Fops_vcntrs k data d = vcntr_get k data d"

fun attr_set :: "vcnt_fops \<Rightarrow> 'h kernel \<Rightarrow> u32 \<Rightarrow> u64 \<Rightarrow> 'h driver \<Rightarrow> (unit, 'h driver) result" where
  "attr_set Fops_vcntctrl k data val d = vcntrctrl_set k val d"
| "attr_set Fops_vcntrepecr k data val d = vcntepecr_set k data val d"
| "attr_set Fops_vcntrs k data val d = vcntr_set k data val d"

text \<open>The attribute that \<open>vcounters_init\<close> gives the file of a virtual register; the capture registers
  are plain 64-bit files.\<close>

fun vreg_fops :: "vreg \<Rightarrow> vcnt_fops option" where
  "vreg_fops Vcntctrl = Some Fops_vcntctrl"
| "vreg_fops (Vcntrepecr n) = Some Fops_vcntrepecr"
| "vreg_fops (Vcntr n) = Some Fops_vcntrs"
| "vreg_fops (Vcntrcapt n) = None"

definition vfile_read :: "'h kernel \<Rightarrow> vreg \<Rightarrow> 'h driver \<Rightarrow> (u64, 'h driver) result" where
  "vfile_read k r d =
    (let data = vcnt_addr k + vreg_off r in
     case vreg_fops r of Some f \<Rightarrow> attr_get f k data d | None \<Rightarrow> deref64 k data d)"

definition vfile_write :: "'h kernel \<Rightarrow> vreg \<Rightarrow> u64 \<Rightarrow> 'h driver \<Rightarrow> (unit, 'h driver) result" where
  "vfile_write k r val d =
    (let data = vcnt_addr k + vreg_off r in
     case vreg_fops r of Some f \<Rightarrow> attr_set f k data val d | None \<Rightarrow> assign64 k data val d)"

section \<open>Calls and steps\<close>

datatype sys_call =
  Ioctl ioctl_cmd u32 | Overflow_irq | File_read vreg | File_write vreg u64

text \<open>A file exists for the registers that exist.\<close>

fun call_exists :: "sys_call \<Rightarrow> bool" where
  "call_exists (File_read r) = vreg_exists r"
| "call_exists (File_write r v) = vreg_exists r"
| "call_exists c = True"

fun run_call :: "'h kernel \<Rightarrow> sys_call \<Rightarrow> 'h driver \<Rightarrow> (unit, 'h driver) result" where
  "run_call k (Ioctl cmd arg) d = reg_access_ioctl k cmd arg d"
| "run_call k Overflow_irq d = and_then (cntr_overflow_interrupt k d) (\<lambda>_. Done ())"
| "run_call k (File_read r) d = and_then (vfile_read k r d) (\<lambda>_. Done ())"
| "run_call k (File_write r v) d = vfile_write k r v d"

text \<open>A step is a call that returns, or a change outside the driver: the device counts, user space
  writes its memory, a debugfs file of a device register is written.  \<open>A\<close> restricts the calls.\<close>

inductive sys_step :: "'h kernel \<Rightarrow> (sys_call \<Rightarrow> bool) \<Rightarrow> 'h driver \<Rightarrow> 'h driver \<Rightarrow> bool" for k A where
  sys_call: "A c \<Longrightarrow> call_exists c \<Longrightarrow> returns (run_call k c d) d' \<Longrightarrow> sys_step k A d d'"
| sys_outside: "sys_step k A d (d\<lparr>hw := h\<rparr>)"

inductive_cases sys_step_cases: "sys_step k A d d'"

abbreviation (input) any_call :: "sys_call \<Rightarrow> bool" where
  "any_call \<equiv> (\<lambda>_. True)"

section \<open>What the parts of a call keep\<close>

text \<open>\<open>kept m p d\<close>: the arrays have their lengths, the access lock is free, the map table is \<open>m\<close> and
  the EPU pointer \<open>p\<close>.\<close>

definition kept :: "map_info list \<Rightarrow> u32 \<Rightarrow> 'h driver \<Rightarrow> bool" where
  "kept m p d \<longleftrightarrow> wf_driver d \<and> \<not> reg_acc_lock d \<and> maps d = m \<and> epu_ptr d = p"

lemma kept_simps [simp]:
  "kept m p (d\<lparr>hw := h\<rparr>) = kept m p d" "kept m p (d\<lparr>vc_lock := b\<rparr>) = kept m p d"
  "kept m p (d\<lparr>intr_num := n\<rparr>) = kept m p d" "kept m p (unlock_vc d) = kept m p d"
  "kept m p (d\<lparr>vcnt := (vcnt d)\<lparr>vcntctrl := x\<rparr>\<rparr>) = kept m p d"
  by (auto simp: kept_def wf_driver_def wf_vcounters_def unlock_vc_def)

lemma kept_same_env: "same_env d d' \<Longrightarrow> kept m p d \<Longrightarrow> kept m p d'"
  by (auto simp: kept_def same_env_def wf_driver_def)

lemma kept_store: "wf_vcounters v \<Longrightarrow> kept m p d \<Longrightarrow> kept m p (d\<lparr>vcnt := v\<rparr>)"
  by (auto simp: kept_def wf_driver_def)

lemma kept_epu_read: "kept m p d \<Longrightarrow> stays s (kept m p) (epu_read k off d)"
  by (simp add: epu_read_eq)

lemma kept_epu_write: "kept m p d \<Longrightarrow> stays s (kept m p) (epu_write k off v d)"
  by (simp add: epu_write_eq)

lemma kept_read_io: "kept m p d \<Longrightarrow> stays s (kept m p) (read_reg_io k i off d)"
  by (auto simp: read_reg_io_def split: sum.split prod.split)

lemma kept_write_io: "kept m p d \<Longrightarrow> stays s (kept m p) (write_reg_io k i off v d)"
  by (auto simp: write_reg_io_def split: sum.split)

lemma kept_mem:
  assumes "kept m p d"
  shows "stays s (kept m p) (deref32 k a d)" and "stays s (kept m p) (deref64 k a d)"
    and "stays s (kept m p) (assign32 k a x d)" and "stays s (kept m p) (assign64 k a y d)"
  using assms
  by (auto simp: deref32_def deref64_def assign32_def assign64_def kept_def wf_driver_def
      split: option.split dest: store_wf)

lemma kept_lock_vc: "kept m p d \<Longrightarrow> stays True (kept m p) (lock_vc d)"
  by (simp add: lock_vc_def)

lemma kept_event_get: "kept m p d \<Longrightarrow> stays True (kept m p) (vcntepecr_get k a d)"
  unfolding vcntepecr_get_def
  by (intro stays_and_then stays_Let kept_lock_vc kept_epu_read kept_mem) simp_all

lemma kept_event_set: "kept m p d \<Longrightarrow> stays True (kept m p) (vcntepecr_set k a val d)"
  unfolding vcntepecr_set_def
  by (intro stays_and_then kept_lock_vc stays_on_exit holds_stays [OF vcntepecr_set_body_env [OF same_env_refl]])
    (auto intro: kept_same_env)

lemma kept_vreg:
  assumes "kept m p d"
  shows "stays True (kept m p) (vcounter_reg_read k a d)" and "stays True (kept m p) (vcounter_reg_write k a x d)"
  unfolding vcounter_reg_read_def vcounter_reg_write_def vcntr_get_def vcntr_set_def
  by (intro stays_if stays_and_then kept_mem kept_event_get kept_event_set; simp add: assms)+

lemma kept_internal:
  assumes "kept m p d"
  shows "stays True (kept m p) (ls_dbg_read_reg_internal k i off d)"
    and "stays True (kept m p) (ls_dbg_write_reg_internal k i off v d)"
  unfolding ls_dbg_read_reg_internal_def ls_dbg_write_reg_internal_def
  by (intro stays_rules kept_read_io kept_write_io kept_vreg; simp add: assms)+

lemma kept_put: "kept m p d \<Longrightarrow> stays s (kept m p) (put_user_state put d)"
  by (auto simp: put_user_state_def split: option.split)

lemma kept_reg_access:
  assumes "kept m p d"
  shows "stays True (kept m p) (reg_access k cmd arg d)"
  using assms unfolding reg_access_def
  by (cases cmd; simp only: ioctl_cmd.case)
    (intro stays_rules stays_and_then kept_internal kept_put; simp)+

lemma kept_reserve:
  assumes "kept m p d"
  shows "stays s (kept m p) (resource_reserve k cmd arg d)"
proof -
  have "stays s (kept m p) (res_reserve k a v d)" "stays s (kept m p) (res_relinq k a v d)"
      "stays s (kept m p) (res_get_usage k a buf d)" for a v buf
    using assms
    by (auto simp: res_reserve_def res_relinq_def res_get_usage_def lock_reg_acc_def unlock_reg_acc_def
        reserv_read_def reserv_write_def put_user_state_def kept_def wf_driver_def split: prod.split option.split)
  then show ?thesis
    using assms unfolding resource_reserve_def resource_op_def
    by (intro stays_rules; cases cmd) simp_all
qed

lemma kept_ioctl: "kept m p d \<Longrightarrow> stays True (kept m p) (reg_access_ioctl k cmd arg d)"
  unfolding reg_access_ioctl_def by (intro stays_if kept_reg_access kept_reserve)


lemma kept_interrupt:
  assumes "kept m p d"
  shows "stays True (kept m p) (cntr_overflow_interrupt k d)"
proof -
  have "stays True (kept m p) (and_then (lock_vc d1) (\<lambda>_ d. and_then (ignore_ret (update_vcounters k c d))
      (\<lambda>_ d. Done IRQ_HANDLED (unlock_vc d))))" if "kept m p d1" for c d1
    using that
    by (intro stays_and_then kept_lock_vc stays_ignore_ret holds_stays [OF update_vcounters_env [OF same_env_refl]])
      (auto intro: kept_same_env)
  then show ?thesis
    using assms by (simp add: cntr_overflow_interrupt_def epu_read_eq Let_def)
qed

lemma kept_bind: "kept m p d \<Longrightarrow> stays s (kept m p) (ls_dbg_epu_bind_irq k d)"
  unfolding ls_dbg_epu_bind_irq_def Let_def
  by (intro stays_and_then kept_epu_write)
    (auto split: prod.split intro!: holds_stays [OF holds_write_all_epccr])

lemma kept_unbind:
  assumes "kept m p d"
  shows "stays s (kept m p) (ls_dbg_epu_unbind_irq k d)"
  unfolding ls_dbg_epu_unbind_irq_def Let_def
  by (intro stays_on_exit holds_stays [OF holds_write_all_epccr])
    (use assms in \<open>auto simp: release_irq_def\<close>)

lemma kept_ctrl_set: "kept m p d \<Longrightarrow> stays s (kept m p) (vcntrctrl_set k val d)"
  unfolding vcntrctrl_set_def Let_def
  by (intro stays_on_exit) (auto intro: kept_bind kept_unbind)

lemma kept_file:
  assumes "kept m p d"
  shows "stays True (kept m p) (vfile_read k r d)" and "stays True (kept m p) (vfile_write k r v d)"
  using assms kept_mem [OF assms] kept_event_get [OF assms] kept_event_set [OF assms]
    stays_mono [OF kept_ctrl_set [OF assms]]
  by (cases r; simp add: vfile_read_def vfile_write_def vcntrctrl_get_def vcntr_get_def vcntr_set_def
      del: vreg_off.simps)+

lemma kept_call: "kept m p d \<Longrightarrow> stays True (kept m p) (run_call k c d)"
  by (cases c) (auto intro!: stays_and_then kept_ioctl kept_interrupt kept_file)

interpretation kept: step_invariant "sys_step k A" "kept m p" for k A m p
  by unfold_locales (auto elim!: sys_step_cases dest: stays_returns [OF kept_call])


section \<open>The counter lock with an event processing unit\<close>

text \<open>\<open>idle m p d\<close>: as \<open>kept m p d\<close>, and the counter lock is free as well.\<close>

definition idle :: "map_info list \<Rightarrow> u32 \<Rightarrow> 'h driver \<Rightarrow> bool" where
  "idle m p d \<longleftrightarrow> kept m p d \<and> \<not> vc_lock d"

definition epu_window :: "map_info list \<Rightarrow> bool" where
  "epu_window m \<longleftrightarrow> 0x1000 \<le> map_size (m ! 7)"

lemma idle_mapped: "idle m p d \<Longrightarrow> epu_window m \<Longrightarrow> epu_mapped d"
  by (auto simp: idle_def kept_def epu_window_def epu_mapped_def)

lemma idle_simps [simp]:
  "idle m p (d\<lparr>hw := h\<rparr>) = idle m p d" "idle m p (d\<lparr>intr_num := n\<rparr>) = idle m p d"
  "idle m p (d\<lparr>vcnt := (vcnt d)\<lparr>vcntctrl := x\<rparr>\<rparr>) = idle m p d"
  "idle m p (unlock_vc d) = kept m p d"
  by (simp_all add: idle_def unlock_vc_def [THEN arg_cong [of _ _ vc_lock]])

lemma idle_same_env: "same_env d d' \<Longrightarrow> idle m p d \<Longrightarrow> idle m p d'"
  by (auto simp: idle_def same_env_def intro: kept_same_env)

lemma idle_store: "wf_vcounters v \<Longrightarrow> idle m p d \<Longrightarrow> idle m p (d\<lparr>vcnt := v\<rparr>)"
  by (simp add: idle_def kept_store)

lemma idle_mem:
  assumes "idle m p d"
  shows "stays s (idle m p) (deref32 k a d)" and "stays s (idle m p) (deref64 k a d)"
    and "stays s (idle m p) (assign32 k a x d)" and "stays s (idle m p) (assign64 k a y d)"
proof -
  have "wf_vcounters (vcnt d)" using assms by (simp add: idle_def kept_def wf_driver_def)
  with assms show "stays s (idle m p) (deref32 k a d)" and "stays s (idle m p) (deref64 k a d)"
    and "stays s (idle m p) (assign32 k a x d)" and "stays s (idle m p) (assign64 k a y d)"
    by (auto simp: deref32_def deref64_def assign32_def assign64_def split: option.split
        intro!: idle_store dest: store_wf)
qed

text \<open>An address among the \<open>vcntrepecr\<close> registers gives the offset of a register of the window.\<close>

lemma region_event_offset:
  assumes "linked k" and "in_region k 4 72 a"
  shows "LS_DBG_EPU_EPECR_OFFSET + event_index k a * 4 < 0x1000"
proof -
  let ?x = "a - (vcnt_addr k + 4)"
  have base: "unat (vcnt_addr k + 4) = unat (vcnt_addr k) + 4" "unat (vcnt_addr k + 72) = unat (vcnt_addr k) + 72"
    using assms(1) by (simp_all add: linked_def unat_word_ariths)
  have "vcnt_addr k + 4 \<le> a" "a < vcnt_addr k + 72" using assms(2) by (simp_all add: in_region_def)
  then have x: "unat ?x < 68" using base by (simp add: unat_sub word_le_nat_alt word_less_nat_alt)
  then have d: "unat (?x div 4) \<le> 16" by (simp add: unat_div)
  then have "unat (?x div 4 * 4) = unat (?x div 4) * 4" by (simp add: unat_word_ariths)
  with d show ?thesis by (simp add: event_index_def word_less_nat_alt unat_word_ariths)
qed

lemma idle_event_get:
  assumes "idle m p d" and "epu_window m" and "LS_DBG_EPU_EPECR_OFFSET + event_index k a * 4 < 0x1000"
  shows "stays s (idle m p) (vcntepecr_get k a d)"
proof -
  have kept: "kept m p d" and lock: "lock_vc d = Done () (d\<lparr>vc_lock := True\<rparr>)"
    using assms(1) by (simp_all add: idle_def lock_vc_def)
  have wf: "wf_vcounters (vcnt d)" using kept by (simp add: kept_def wf_driver_def)
  have "epu_mapped (d\<lparr>vc_lock := True\<rparr>)" using idle_mapped [OF assms(1,2)] by simp
  then show ?thesis
    unfolding vcntepecr_get_def Let_def lock
    by (auto simp: epu_read_Done [OF _ assms(3)] assign32_def kept split: option.split
        simp del: LS_DBG_EPU_EPECR_OFFSET_def intro!: kept_store dest: store_wf(1) [OF _ wf])
qed

lemma idle_event_set: "idle m p d \<Longrightarrow> stays s (idle m p) (vcntepecr_set k a val d)"
  by (rule holds_stays [OF vcntepecr_set_env]) (auto simp: idle_def [of m p d] intro: idle_same_env)


lemma idle_vreg:
  assumes "idle m p d" and "epu_window m" and "linked k"
  shows "stays s (idle m p) (vcounter_reg_read k a d)" and "stays s (idle m p) (vcounter_reg_write k a x d)"
  using assms unfolding vcounter_reg_read_def vcounter_reg_write_def vcntr_get_def vcntr_set_def
  by (intro stays_if stays_and_then idle_mem idle_event_get idle_event_set region_event_offset; simp)+

lemma idle_internal:
  assumes "idle m p d" and "epu_window m" and "linked k"
  shows "stays s (idle m p) (ls_dbg_read_reg_internal k i off d)"
    and "stays s (idle m p) (ls_dbg_write_reg_internal k i off v d)"
proof -
  have "stays s (idle m p) (read_reg_io k i off d)" "stays s (idle m p) (write_reg_io k i off v d)"
    using assms(1) by (auto simp: read_reg_io_def write_reg_io_def split: sum.split prod.split)
  with assms show "stays s (idle m p) (ls_dbg_read_reg_internal k i off d)"
    and "stays s (idle m p) (ls_dbg_write_reg_internal k i off v d)"
    unfolding ls_dbg_read_reg_internal_def ls_dbg_write_reg_internal_def
    by (auto intro!: stays_rules intro: idle_vreg)
qed

lemma idle_reg_access:
  assumes "idle m p d" and "epu_window m" and "linked k"
  shows "stays s (idle m p) (reg_access k cmd arg d)"
proof -
  have put: "stays s (idle m p) (put_user_state put d1)" if "idle m p d1" for put d1
    using that by (auto simp: put_user_state_def split: option.split)
  show ?thesis
    using assms unfolding reg_access_def
    by (cases cmd; simp only: ioctl_cmd.case)
      (intro stays_rules stays_and_then idle_internal put; simp)+
qed

lemma idle_reserve:
  assumes "idle m p d"
  shows "stays s (idle m p) (resource_reserve k cmd arg d)"
proof -
  have "stays s (idle m p) (res_reserve k a v d)" "stays s (idle m p) (res_relinq k a v d)"
      "stays s (idle m p) (res_get_usage k a buf d)" for a v buf
    using assms
    by (auto simp: res_reserve_def res_relinq_def res_get_usage_def lock_reg_acc_def unlock_reg_acc_def
        reserv_read_def reserv_write_def put_user_state_def idle_def kept_def wf_driver_def
        split: prod.split option.split)
  then show ?thesis
    using assms unfolding resource_reserve_def resource_op_def
    by (intro stays_rules; cases cmd) simp_all
qed

lemma idle_interrupt:
  assumes "idle m p d" and "epu_window m"
  shows "stays s (idle m p) (cntr_overflow_interrupt k d)"
proof -
  have "wf_driver d" "\<not> vc_lock d" using assms(1) by (simp_all add: idle_def kept_def)
  then show ?thesis
    using assms idle_mapped [OF assms]
    by (auto simp: interrupt_Done split_beta Let_def wf_driver_def wf_vcounters_def [of "vcnt d"]
        intro!: idle_store wf_vcounters_update)
qed

lemma idle_ctrl_set:
  assumes "idle m p d"
  shows "stays s (idle m p) (vcntrctrl_set k val d)"
proof -
  have "stays s (idle m p) (ls_dbg_epu_bind_irq k d)"
    using assms unfolding ls_dbg_epu_bind_irq_def Let_def
    by (intro stays_and_then) (auto simp: epu_write_eq split: prod.split intro!: holds_stays [OF holds_write_all_epccr])
  moreover have "stays s (idle m p) (ls_dbg_epu_unbind_irq k d)"
    unfolding ls_dbg_epu_unbind_irq_def Let_def
    by (intro stays_on_exit holds_stays [OF holds_write_all_epccr])
      (use assms in \<open>auto simp: release_irq_def\<close>)
  ultimately show ?thesis
    unfolding vcntrctrl_set_def Let_def using assms by (intro stays_on_exit) auto
qed

lemma idle_file:
  assumes "idle m p d" and "epu_window m" and "vreg_exists r"
  shows "stays s (idle m p) (vfile_read k r d)" and "stays s (idle m p) (vfile_write k r v d)"
proof -
  have "stays s (idle m p) (vcntepecr_get k (vcnt_addr k + vreg_off (Vcntrepecr n)) d)" if "n < 16" for n
    using epu_event_offset [OF that, of "0x300"]
    by (intro idle_event_get [OF assms(1,2)]) (simp add: event_index_vreg [OF that] del: vreg_off.simps)
  with assms(1,3) idle_mem [OF assms(1)] idle_event_set [OF assms(1)] idle_ctrl_set [OF assms(1)]
  show "stays s (idle m p) (vfile_read k r d)" and "stays s (idle m p) (vfile_write k r v d)"
    by (cases r; simp add: vfile_read_def vfile_write_def vcntrctrl_get_def vcntr_get_def vcntr_set_def
        del: vreg_off.simps)+
qed

lemma idle_call:
  assumes "idle m p d" and "epu_window m" and "linked k" and "call_exists c"
  shows "stays False (idle m p) (run_call k c d)"
  using assms
  by (cases c)
    (auto simp: reg_access_ioctl_def intro!: stays_and_then stays_if idle_reg_access idle_reserve idle_interrupt idle_file)

text \<open>A system with an event processing unit, and the calls that exist: the guard of the calls of
  another system is false.\<close>

definition with_epu :: "'h kernel \<Rightarrow> map_info list \<Rightarrow> bool" where
  "with_epu k m \<longleftrightarrow> epu_window m \<and> linked k"

interpretation idle: live_system "sys_step k A" "\<lambda>d. with_epu k m \<and> idle m p d" "run_call k" call_exists
  for k A m p
proof
  fix d d' :: "'a driver"
  assume "sys_step k A d d'" "with_epu k m \<and> idle m p d"
  then show "with_epu k m \<and> idle m p d'"
    by (auto simp: with_epu_def elim!: sys_step_cases dest: stays_returns [OF idle_call])
next
  fix c and d :: "'a driver"
  assume "call_exists c" "with_epu k m \<and> idle m p d"
  then show "run_call k c d \<noteq> Spin"
    using idle_call [of m p d k c] by (auto simp: with_epu_def)
qed

section \<open>Every reachable state\<close>

text \<open>C9: In every state that a run of calls reaches, whatever user space, the device and the interrupt
  do and whether or not there is an EPU: the map table has its 16 entries, all as they were, the
  arrays of the virtual counters have their lengths, the EPU pointer is unchanged and the lock of the
  reservation code is free.\<close>

theorem runs_keep_driver_well_formed:
  assumes "reach (sys_step k any_call) d d'" and "wf_driver d" and "\<not> reg_acc_lock d"
  shows "wf_driver d' \<and> length (maps d') = 16 \<and> maps d' = maps d \<and> epu_ptr d' = epu_ptr d \<and>
    wf_vcounters (vcnt d') \<and> \<not> reg_acc_lock d'"
  using kept.reach_keeps [OF assms(1), of "maps d" "epu_ptr d"] assms(2,3)
  by (auto simp: kept_def wf_driver_def)

lemma interrupt_run: "\<exists>d'. reach (sys_step bench_kernel any_call) (bench_driver bench_pending) d' \<and>
    vcntr (vcnt d') ! 3 = 1"
proof -
  let ?d = "bench_driver bench_pending"
  let ?d' = "?d\<lparr>vcnt := (vcnt ?d)\<lparr>vcntr := count_overflows 8 (vcntr (vcnt ?d))\<rparr>,
    hw := ack_overflows bench_kernel ?d 8 bench_pending\<rparr>"
  have "ioread32 bench_kernel (epu_addr ?d LS_DBG_EPU_EPCTRISR_OFFSET) (hw ?d) = (8, bench_pending)"
    by (simp add: bench_pending_def)
  then have "cntr_overflow_interrupt bench_kernel ?d = Done IRQ_HANDLED ?d'"
    by (subst interrupt_Done) simp_all
  then have "sys_step bench_kernel any_call ?d ?d'"
    using sys_call [of any_call Overflow_irq bench_kernel ?d ?d'] by simp
  moreover have "vcntr (vcnt ?d') ! 3 = 1"
  proof -
    have "bit (8 :: u32) 3" "\<not> bit (1 :: u64) 63" by (simp_all add: bit_iff_odd)
    then show ?thesis by (simp add: nth_count_overflows v_inc_def ovflow_value_bit)
  qed
  ultimately show ?thesis using reach_one by metis
qed

lemma runs_keep_driver_well_formed_witness:
  "\<exists>d'. reach (sys_step bench_kernel any_call) (bench_driver bench_pending) d' \<and> vcntr (vcnt d') ! 3 = 1 \<and>
    maps d' ! 7 = \<lparr>map_id = 0, base_addr = 0x90000000, map_size = 0x1000\<rparr>"
proof -
  obtain d' where "reach (sys_step bench_kernel any_call) (bench_driver bench_pending) d'" "vcntr (vcnt d') ! 3 = 1"
    using interrupt_run by blast
  then show ?thesis
    using runs_keep_driver_well_formed [of bench_kernel "bench_driver bench_pending" d'] by auto
qed

text \<open>With the EPU mapped no run of calls gets stuck: in every reachable state both locks are free
  and every call returns, none waits for a lock (a misaligned access of the virtual registers, which
  C leaves undefined, excepted).\<close>

lemma runs_never_deadlock:
  assumes "reach (sys_step k any_call) d d'" and "wf_driver d" and "unlocked d"
    and "epu_mapped d" and "linked k"
  shows "unlocked d' \<and> (\<forall>c. call_exists c \<longrightarrow> run_call k c d' = Undef \<or> (\<exists>d''. returns (run_call k c d') d''))"
proof -
  have start: "with_epu k (maps d) \<and> idle (maps d) (epu_ptr d) d"
    using assms by (auto simp: with_epu_def idle_def kept_def unlocked_def epu_window_def epu_mapped_def)
  have "idle (maps d) (epu_ptr d) d'" using idle.reach_keeps [OF assms(1) start] by simp
  then have "unlocked d'" by (simp add: idle_def kept_def unlocked_def)
  moreover have "run_call k c d' = Undef \<or> (\<exists>d''. returns (run_call k c d') d'')" if "call_exists c" for c
    using idle.never_stuck [OF assms(1) start that]
    by (cases "run_call k c d'") auto
  ultimately show ?thesis by blast
qed

lemma runs_never_deadlock_witness:
  "\<exists>d'. reach (sys_step bench_kernel any_call) (bench_driver bench_pending) d' \<and> vcntr (vcnt d') ! 3 = 1 \<and>
    unlocked d' \<and> run_call bench_kernel (File_read (Vcntrepecr 0)) d' \<noteq> Spin"
proof -
  obtain d' where "reach (sys_step bench_kernel any_call) (bench_driver bench_pending) d'" "vcntr (vcnt d') ! 3 = 1"
    using interrupt_run by blast
  moreover from this have "unlocked d'" and
      "run_call bench_kernel (File_read (Vcntrepecr 0)) d' = Undef \<or>
        (\<exists>d''. returns (run_call bench_kernel (File_read (Vcntrepecr 0)) d') d'')"
    using runs_never_deadlock [of bench_kernel "bench_driver bench_pending" d']
    by (simp_all add: linked_def del: run_call.simps)
  ultimately show ?thesis by (intro exI [of _ d']) (auto simp del: run_call.simps)
qed

end
