(* ===== verification/Binding.thy ===== *)
theory Binding
  imports Sys_Calls
begin

text \<open>
  The overflow interrupt over a run of calls: as long as the control register is written through its
  debugfs file only, an interrupt is held only while the enable bit is set, so that it is requested
  and freed in turns; a write of the control register through the character device breaks this.
\<close>

section \<open>Calls that leave the control register and the interrupt alone\<close>

definition ctl_frame :: "u32 \<Rightarrow> u32 \<Rightarrow> 'h driver \<Rightarrow> bool" where
  "ctl_frame c n d \<longleftrightarrow> vcntctrl (vcnt d) = c \<and> intr_num d = n"

lemma ctl_frame_simps [simp]:
  "ctl_frame c n (d\<lparr>hw := h\<rparr>) = ctl_frame c n d" "ctl_frame c n (d\<lparr>vc_lock := b\<rparr>) = ctl_frame c n d"
  "ctl_frame c n (d\<lparr>reg_acc_lock := b\<rparr>) = ctl_frame c n d" "ctl_frame c n (unlock_vc d) = ctl_frame c n d"
  by (simp_all add: ctl_frame_def unlock_vc_def)

lemma ctl_frame_same_env: "same_env d d' \<Longrightarrow> ctl_frame c n d \<Longrightarrow> ctl_frame c n d'"
  by (simp add: ctl_frame_def same_env_def)

lemma store_off_ctrl:
  "store32 off x v = Some v' \<Longrightarrow> off \<noteq> 0 \<Longrightarrow> vcntctrl v' = vcntctrl v"
  "store64 off y v = Some v' \<Longrightarrow> vcntctrl v' = vcntctrl v"
  by (auto simp: store32_def store64_def split: if_splits)

lemma ctl_mem:
  assumes "ctl_frame c n d"
  shows "stays s (ctl_frame c n) (deref32 k a d)" and "stays s (ctl_frame c n) (deref64 k a d)"
    and "a \<noteq> vcnt_addr k \<Longrightarrow> stays s (ctl_frame c n) (assign32 k a x d)"
    and "stays s (ctl_frame c n) (assign64 k a y d)"
  using assms
  by (auto simp: deref32_def deref64_def assign32_def assign64_def ctl_frame_def
      split: option.split dest: store_off_ctrl)

lemma region_off_ctrl:
  assumes "linked k" and "in_region k 4 72 a"
  shows "a \<noteq> vcnt_addr k"
  using in_region_iff [OF assms(1), of 4 72 0] assms(2) by auto

lemma ctl_lock: "ctl_frame c n d \<Longrightarrow> stays True (ctl_frame c n) (lock_vc d)"
  by (simp add: lock_vc_def)

lemma ctl_event_get:
  "ctl_frame c n d \<Longrightarrow> a \<noteq> vcnt_addr k \<Longrightarrow> stays True (ctl_frame c n) (vcntepecr_get k a d)"
  unfolding vcntepecr_get_def Let_def
  by (intro stays_and_then ctl_lock ctl_mem) (simp_all add: epu_read_eq)

lemma ctl_event_set: "ctl_frame c n d \<Longrightarrow> stays True (ctl_frame c n) (vcntepecr_set k a val d)"
  unfolding vcntepecr_set_def
  by (intro stays_and_then ctl_lock stays_on_exit holds_stays [OF vcntepecr_set_body_env [OF same_env_refl]])
    (auto intro: ctl_frame_same_env)

lemma ctl_vreg_read:
  assumes "ctl_frame c n d" and "linked k"
  shows "stays True (ctl_frame c n) (vcounter_reg_read k a d)"
  using assms unfolding vcounter_reg_read_def vcntr_get_def
  by (intro stays_if stays_and_then ctl_mem ctl_event_get region_off_ctrl; simp)

lemma ctl_ioctl:
  assumes "ctl_frame c n d" and "linked k" and "cmd \<noteq> DBG_WRITE_REG"
  shows "stays True (ctl_frame c n) (reg_access_ioctl k cmd arg d)"
proof -
  have "stays True (ctl_frame c n) (put_user_state put d1)" if "ctl_frame c n d1" for put d1
    using that by (auto simp: put_user_state_def split: option.split)
  moreover have "stays True (ctl_frame c n) (ls_dbg_read_reg_internal k i off d)" for i off
    using assms ctl_vreg_read [OF assms(1,2)]
    by (auto simp: ls_dbg_read_reg_internal_def read_reg_io_def split: sum.split prod.split)
  moreover have "stays True (ctl_frame c n) (res_reserve k a v d)" "stays True (ctl_frame c n) (res_relinq k a v d)"
      "stays True (ctl_frame c n) (res_get_usage k a buf d)" for a v buf
    using assms(1)
    by (auto simp: res_reserve_def res_relinq_def res_get_usage_def lock_reg_acc_def unlock_reg_acc_def
        reserv_read_def reserv_write_def put_user_state_def split: prod.split option.split)
  ultimately show ?thesis
    using assms unfolding reg_access_ioctl_def resource_reserve_def resource_op_def reg_access_def Let_def
    by (cases cmd) (auto intro!: stays_and_then split: option.split)
qed

lemma ctl_interrupt:
  assumes "ctl_frame c n d"
  shows "stays True (ctl_frame c n) (cntr_overflow_interrupt k d)"
proof -
  have "stays True (ctl_frame c n) (and_then (lock_vc d1) (\<lambda>_ d. and_then (ignore_ret (update_vcounters k m d))
      (\<lambda>_ d. Done IRQ_HANDLED (unlock_vc d))))" if "ctl_frame c n d1" for m d1
    using that
    by (intro stays_and_then ctl_lock stays_ignore_ret holds_stays [OF update_vcounters_env [OF same_env_refl]])
      (auto intro: ctl_frame_same_env)
  then show ?thesis
    using assms by (simp add: cntr_overflow_interrupt_def epu_read_eq Let_def)
qed

section \<open>The invariant\<close>

definition held_only_enabled :: "'h driver \<Rightarrow> bool" where
  "held_only_enabled d \<longleftrightarrow> (vcntctrl (vcnt d) AND VCNTR_ENABLE_MASK = 0 \<longrightarrow> intr_num d = 0)"

lemma held_hw [simp]: "held_only_enabled (d\<lparr>hw := h\<rparr>) = held_only_enabled d"
  by (simp add: held_only_enabled_def)

fun no_reg_write :: "sys_call \<Rightarrow> bool" where
  "no_reg_write (Ioctl cmd arg) = (cmd \<noteq> DBG_WRITE_REG)"
| "no_reg_write _ = True"

lemma held_ctl: "held_only_enabled d \<Longrightarrow> ctl_frame (vcntctrl (vcnt d)) (intr_num d) d' \<Longrightarrow> held_only_enabled d'"
  by (simp add: held_only_enabled_def ctl_frame_def)

lemma bind_stays: "stays s (\<lambda>_. True) (ls_dbg_epu_bind_irq k d)"
  unfolding ls_dbg_epu_bind_irq_def Let_def
  by (intro stays_and_then) (auto simp: epu_write_eq split: prod.split intro!: holds_stays [OF holds_write_all_epccr])

lemma held_ctrl_set:
  assumes "held_only_enabled d"
  shows "stays s held_only_enabled (vcntrctrl_set k val d)"
proof (cases "ucast val AND VCNTR_ENABLE_MASK = (0 :: u32)")
  case True
  have "stays s (\<lambda>d. intr_num d = 0) (ls_dbg_epu_unbind_irq k d)"
    by (rule holds_stays [OF unbind_forgets_irq]) auto
  then have "stays s (\<lambda>d. intr_num d = 0) (if vcntctrl (vcnt d) AND VCNTR_ENABLE_MASK \<noteq> 0
      then ls_dbg_epu_unbind_irq k d else Done () d)"
    using assms by (simp add: held_only_enabled_def del: VCNTR_ENABLE_MASK_def)
  then show ?thesis
    unfolding vcntrctrl_set_def Let_def
    by (intro stays_on_exit) (simp add: True held_only_enabled_def del: VCNTR_ENABLE_MASK_def)
next
  case False
  then show ?thesis
    unfolding vcntrctrl_set_def Let_def
    by (intro stays_on_exit)
      (simp add: held_only_enabled_def bind_stays del: VCNTR_ENABLE_MASK_def)
qed

lemma held_call:
  assumes "held_only_enabled d" and "linked k" and "no_reg_write c" and "call_exists c"
  shows "stays True held_only_enabled (run_call k c d)"
proof -
  let ?I = "ctl_frame (vcntctrl (vcnt d)) (intr_num d)"
  have here: "?I d" by (simp add: ctl_frame_def)
  have frame: "stays True held_only_enabled r" if "stays True ?I r" for r :: "(unit, 'a driver) result"
    by (rule stays_mono [OF that]) (auto intro: held_ctl [OF assms(1)])
  have event: "vcnt_addr k + vreg_off (Vcntrepecr n) \<noteq> vcnt_addr k" if "n < 16" for n
  proof -
    have "vreg_off (Vcntrepecr n) \<noteq> 0" using unat_vreg_off(1) [OF that] by (metis add_is_0 unat_0 zero_neq_numeral)
    then show ?thesis by (simp del: vreg_off.simps)
  qed
  show ?thesis
  proof (cases c)
    case (Ioctl cmd arg)
    then show ?thesis using assms ctl_ioctl [OF here] by (auto intro!: frame)
  next
    case Overflow_irq
    then show ?thesis by (auto intro!: frame stays_and_then ctl_interrupt here)
  next
    case (File_read r)
    then show ?thesis
      using assms(1,4) here ctl_mem [OF here] ctl_event_get [OF here event]
      by (cases r) (auto simp: vfile_read_def vcntrctrl_get_def vcntr_get_def intro!: frame stays_and_then
          simp del: vreg_off.simps)
  next
    case (File_write r v)
    then show ?thesis
      using held_ctrl_set [OF assms(1)] ctl_mem [OF here] ctl_event_set [OF here]
      by (cases r) (auto simp: vfile_write_def vcntr_set_def intro!: frame simp del: vreg_off.simps)
  qed
qed

interpretation held: step_invariant "sys_step k no_reg_write" "\<lambda>d. linked k \<and> held_only_enabled d" for k
  by unfold_locales
    (auto elim!: sys_step_cases dest: stays_returns [OF held_call])

text \<open>C11: As long as nobody writes registers through the character device, in every reachable state an
  interrupt is held only while the enable bit is set: every enabling starts without an interrupt, so
  none is requested twice, and every disabling leaves without one.\<close>

theorem files_hold_irq_only_while_enabled:
  assumes "reach (sys_step k no_reg_write) d d'" and "linked k" and "intr_num d = 0"
  shows "vcntctrl (vcnt d') AND VCNTR_ENABLE_MASK = 0 \<longrightarrow> intr_num d' = 0"
  using held.reach_keeps [OF assms(1)] assms(2,3) by (simp add: held_only_enabled_def)

lemma files_hold_irq_only_while_enabled_witness:
  "\<exists>d1 d2. vfile_write bench_kernel Vcntctrl 1 (bench_driver bench_world) = Done () d1 \<and> intr_num d1 = 37 \<and>
    vfile_write bench_kernel Vcntctrl 0 d1 = Done () d2 \<and> intr_num d2 = 0"
proof -
  let ?d = "bench_driver bench_world"
  obtain d1 where d1: "vcntrctrl_set bench_kernel 1 ?d = Done () d1" "vcntctrl (vcnt d1) = 1" "intr_num d1 = 37"
      "epu_mapped d1"
    using enable_result [of ?d 1 bench_kernel 37 "bench_write 0xFFFFFFFF 0x90000030 bench_world"
        "bench_write 0xFFFFFFFF 0x90000030 bench_world"]
    by (auto simp: bench_world_def)
  obtain d2 where d2: "vcntrctrl_set bench_kernel 0 d1 = Done () d2" "vcntctrl (vcnt d2) = 0"
    using d1 by (simp add: vcntrctrl_set_disable unbind_irq_eq store_vcntctrl_def)
  have "sys_step bench_kernel no_reg_write ?d d1" "sys_step bench_kernel no_reg_write d1 d2"
    using sys_call [of no_reg_write "File_write Vcntctrl 1" bench_kernel ?d d1]
      sys_call [of no_reg_write "File_write Vcntctrl 0" bench_kernel d1 d2] d1(1) d2(1)
    by (simp_all add: vfile_write_def)
  then have "reach (sys_step bench_kernel no_reg_write) ?d d2"
    by (rule reach_step [OF reach_one])
  then have "intr_num d2 = 0"
    using files_hold_irq_only_while_enabled [of bench_kernel ?d d2] d2(2) by (simp add: linked_def)
  then show ?thesis using d1 d2 by (auto simp: vfile_write_def)
qed

text \<open>C26: A write of the control register through the character device that clears the enable bit leaves
  a bound interrupt held, and the file can no longer free it: disabling through the file finds the
  bit clear and only stores the value, enabling binds a second time over the number that is held.\<close>

theorem ioctl_disable_leaks_irq:
  assumes "vcount_mapped k d" and "ucast v AND VCNTR_ENABLE_MASK = (0 :: u32)"
  shows "\<exists>d1. ls_dbg_write_reg_internal k (module_code VCOUNT) (vreg_off Vcntctrl) v d = Done () d1 \<and>
    intr_num d1 = intr_num d \<and> hw d1 = hw d \<and>
    vfile_write k Vcntctrl 0 d1 = Done () (store_vcntctrl 0 d1) \<and>
    vfile_write k Vcntctrl 1 d1 = on_exit (store_vcntctrl 1) (ls_dbg_epu_bind_irq k d1)"
proof -
  let ?d = "d\<lparr>vcnt := vreg_store Vcntctrl v (vcnt d)\<rparr>"
  have w: "ls_dbg_write_reg_internal k (module_code VCOUNT) (vreg_off Vcntctrl) v d = Done () ?d"
    by (rule vcount_plain(2) [OF assms(1)]) simp
  have ctl: "vcntctrl (vcnt ?d) AND VCNTR_ENABLE_MASK = 0" using assms(2) by simp
  have "vcntrctrl_set k 0 ?d = Done () (store_vcntctrl 0 ?d)"
    by (rule vcntrctrl_set_same) (use ctl in simp)
  moreover have "vcntrctrl_set k 1 ?d = on_exit (store_vcntctrl 1) (ls_dbg_epu_bind_irq k ?d)"
    by (rule vcntrctrl_set_enable [OF _ ctl]) simp
  ultimately show ?thesis by (intro exI [of _ ?d]) (simp add: w vfile_write_def del: vreg_store.simps vreg_off.simps module_code.simps)
qed

lemma ioctl_disable_leaks_irq_witness:
  "\<exists>d1. ls_dbg_write_reg_internal bench_kernel (module_code VCOUNT) (vreg_off Vcntctrl) 0
      ((bench_driver bench_world)\<lparr>intr_num := 37\<rparr>) = Done () d1 \<and> intr_num d1 = 37"
proof -
  have "vcount_mapped bench_kernel ((bench_driver bench_world)\<lparr>intr_num := 37\<rparr>)"
    by (simp add: vcount_mapped_def linked_def)
  from ioctl_disable_leaks_irq [OF this, of 0] show ?thesis by auto
qed

end
