(* ===== verification/Irq_Race.thy ===== *)
theory Irq_Race
  imports Sys_Calls
begin

text \<open>
  The overflow interrupt on one core while the other captures.  The handler reads the interrupt
  status before it takes the counter lock; here it is cut at that point, so that a call of the other
  core can run in between.
\<close>

text \<open>The handler up to \<open>spin_lock_irqsave\<close>: the status, when there is something to handle; and from
  there on.\<close>

definition handler_status :: "'h kernel \<Rightarrow> 'h driver \<Rightarrow> (u32 option, 'h driver) result" where
  "handler_status k d =
    (case epu_read k LS_DBG_EPU_EPCTRISR_OFFSET d of
       Done val d \<Rightarrow> Done (if (ucast val :: u32) = 0 then None else Some (ucast val)) d
     | Fail e d \<Rightarrow> Fail e d
     | Spin \<Rightarrow> Spin
     | Undef \<Rightarrow> Undef)"

definition handler_update :: "'h kernel \<Rightarrow> u32 \<Rightarrow> 'h driver \<Rightarrow> (irqreturn, 'h driver) result" where
  "handler_update k ctrisr d =
    and_then (lock_vc d) (\<lambda>_ d.
    and_then (ignore_ret (update_vcounters k ctrisr d)) (\<lambda>_ d.
    Done IRQ_HANDLED (unlock_vc d)))"

text \<open>Run without a break the two parts are the handler.\<close>

lemma handler_parts:
  "cntr_overflow_interrupt k d =
    (case handler_status k d of
       Done None d \<Rightarrow> Done IRQ_NONE d
     | Done (Some m) d \<Rightarrow> handler_update k m d
     | Fail e d \<Rightarrow> Done IRQ_HANDLED d
     | Spin \<Rightarrow> Spin
     | Undef \<Rightarrow> Undef)"
  by (simp add: cntr_overflow_interrupt_def handler_status_def handler_update_def Let_def
      split: result.split)

lemma handler_update_Done:
  assumes "epu_mapped d" and "wf_driver d" and "\<not> vc_lock d"
  shows "handler_update k m d = Done IRQ_HANDLED
    (d\<lparr>vcnt := (vcnt d)\<lparr>vcntr := count_overflows m (vcntr (vcnt d))\<rparr>, hw := ack_overflows k d m (hw d)\<rparr>)"
  using assms
  by (simp add: handler_update_def lock_vc_def unlock_vc_def update_vcounters_Done wf_driver_def)

text \<open>C15: Whatever the other core does between the two parts of the handler (any run of calls with the
  locks free again), the handler counts the overflows of the status it has read: if the other core
  has counted and acknowledged the same overflow in the meantime, it is counted twice.\<close>

theorem stale_status_is_counted_again:
  assumes "reach (sys_step k any_call) d1 d2" and "wf_driver d1" and "unlocked d1" and "epu_mapped d1"
    and "linked k" and "handler_status k d = Done (Some m) d1" and "bit m n" and "unat (vcntr (vcnt d2) ! n) < 2 ^ 63"
  shows "\<exists>d3. handler_update k m d2 = Done IRQ_HANDLED d3 \<and>
    unat (vcntr (vcnt d3) ! n) = (unat (vcntr (vcnt d2) ! n) + 1) mod 2 ^ 63"
proof -
  have start: "with_epu k (maps d1) \<and> idle (maps d1) (epu_ptr d1) d1"
    using assms by (auto simp: with_epu_def idle_def kept_def unlocked_def epu_window_def epu_mapped_def)
  then have "idle (maps d1) (epu_ptr d1) d2" using idle.reach_keeps [OF assms(1) start] by simp
  then have d2: "epu_mapped d2" "wf_driver d2" "\<not> vc_lock d2"
    using start by (auto simp: with_epu_def idle_def kept_def epu_window_def epu_mapped_def)
  have "n < 32" using assms(7) by (rule bit_32_less)
  with d2 assms(7,8) show ?thesis
    by (simp add: handler_update_Done nth_count_overflows unat_v_inc wf_driver_def wf_vcounters_def)
qed

text \<open>One overflow of counter 3 on the test bench: the handler has read the status, a capture on the
  other core handles the overflow, then the handler goes on: the counter ends at 2.\<close>

lemma capture_handles_pending:
  "\<exists>d2. vcntepecr_set bench_kernel (0x80000000 + vreg_off (Vcntrepecr 0)) 0 (bench_driver bench_pending) =
      Done () d2 \<and> vcntr (vcnt d2) ! 3 = 1"
proof -
  let ?d = "bench_driver bench_pending"
  have regs: "regs bench_pending = (\<lambda>a. 0)(0x90000030 := 8, 0x90000A0C := 7)"
    by (simp add: bench_pending_def)
  have group: "epu_reg bench_kernel ?d 0x540 (hw ?d) = 0" by (simp add: regs)
  have stray: "stray_status bench_kernel ?d 0 = 8"
    by (simp add: stray_status_def bit_len_def regs)
  have late: "late_status bench_kernel ?d 0 0 = 0"
    by (simp add: late_status_def triggered_hw_def handled_hw_def stray ack_overflows_def bits_of_8
        bench_write_def regs)
  have "epu_reg bench_kernel ?d (LS_DBG_EPU_EPGACR_OFFSET + of_nat 0 * 4) (hw ?d) AND EPGACR_CTCC_MASK = 0"
    by (simp add: regs)
  from capture_result [OF pure_reads_bench wf_bench unlocked_bench epu_bench(1) _ this, of 0]
  obtain d' where
      set: "vcntepecr_set bench_kernel (0x80000000 + vreg_off (Vcntrepecr 0)) 0 ?d = Done () d'"
    and counts: "vcntr (vcnt d') ! 3 = count_overflows (late_status bench_kernel ?d 0 0)
        (count_overflows (stray_status bench_kernel ?d 0) (vcntr (vcnt ?d))) ! 3"
    by (auto simp: Let_def group [simplified])
  have "vcntr (vcnt d') ! 3 = 1"
    unfolding counts late stray by (simp add: nth_count_overflows v_inc_0 bit_iff_odd)
  then show ?thesis using set by blast
qed

lemma stale_status_is_counted_again_witness:
  "\<exists>d2 d3. handler_status bench_kernel (bench_driver bench_pending) = Done (Some 8) (bench_driver bench_pending) \<and>
    run_call bench_kernel (File_write (Vcntrepecr 0) 0) (bench_driver bench_pending) = Done () d2 \<and>
    handler_update bench_kernel 8 d2 = Done IRQ_HANDLED d3 \<and> unat (vcntr (vcnt d3) ! 3) = 2"
proof -
  let ?d = "bench_driver bench_pending"
  obtain d2 where d2: "vcntepecr_set bench_kernel (0x80000000 + vreg_off (Vcntrepecr 0)) 0 ?d = Done () d2"
      "vcntr (vcnt d2) ! 3 = 1"
    using capture_handles_pending by blast
  then have call: "run_call bench_kernel (File_write (Vcntrepecr 0) 0) ?d = Done () d2"
    by (simp add: vfile_write_def del: vreg_off.simps)
  then have "reach (sys_step bench_kernel any_call) ?d d2"
    using sys_call [of any_call "File_write (Vcntrepecr 0) 0" bench_kernel ?d d2]
    by (intro reach_one) (simp del: run_call.simps)
  moreover have status: "handler_status bench_kernel ?d = Done (Some 8) ?d"
  proof -
    have "?d\<lparr>hw := bench_pending\<rparr> = ?d" by (simp add: bench_driver_def initial_driver_def)
    then show ?thesis by (simp add: handler_status_def epu_read_Done) (simp add: bench_pending_def)
  qed
  ultimately show ?thesis
    using stale_status_is_counted_again [of bench_kernel ?d d2 ?d 8 3] d2(2) call
    by (auto simp: linked_def bit_iff_odd simp del: run_call.simps)
qed

end
