(* ===== verification/System.thy ===== *)
theory System
  imports Binding Irq_Race
begin

text \<open>
  The loaded module: what the driver holds after a successful load, and what that promises to every run
  of calls after it.
\<close>

section \<open>The loaded module\<close>

definition ready_driver :: "u32 \<Rightarrow> 'h driver \<Rightarrow> bool" where
  "ready_driver p d \<longleftrightarrow> wf_driver d \<and> unlocked d \<and> epu_mapped d \<and> base_addr (maps d ! 7) = p \<and>
    intr_num d = 0 \<and> vcnt d = zero_vcounters"

lemma probed_driver:
  assumes "epu_node pf nodes n p" and "m = on_hw f (initial_module h)"
  shows "\<exists>m'. ignore_ret (dcsr_probe pf fs m) = Done () m' \<and> ready_driver p (drv m')"
proof -
  have m: "wf_driver (drv m)" "unlocked (drv m)" "intr_num (drv m) = 0" "vcnt (drv m) = zero_vcounters"
      "dbg_devs m = []"
    by (simp_all add: assms(2) on_hw_def initial_module_def initial_driver_def unlocked_def wf_driver_def)
  have frame: "map_frame (drv m) (drv (add_all_devices pf m))" by (rule add_all_frame)
  have "ready_driver p (drv (add_all_devices pf m))"
    using add_all_epu [OF assms(1) m(1)] m frame map_frame_wf [OF frame m(1)]
    by (simp add: ready_driver_def map_frame_def unlocked_def)
  then have "ready_driver p ((drv (add_all_devices pf m))\<lparr>hw := w\<rparr>)"
      "ready_driver p ((drv (add_all_devices pf m))\<lparr>hw := w, epu_ptr := q\<rparr>)" for w q
    by (auto simp: ready_driver_def wf_driver_def unlocked_def epu_mapped_def)
  then show ?thesis
    using dcsr_probe_cases [of pf fs m] by (auto simp: remove_devices_def on_hw_def)
qed

lemma loaded_driver:
  assumes "epu_node pf nodes n p" and "linked k"
    and "dcsr_module_init k pf fs True (initial_module h) = Done () m"
  shows "ready_driver p (drv m) \<and> vcount_mapped k (drv m)"
proof -
  obtain ret w where reg: "platform_driver_register pf h = (ret, w)" by force
  let ?m = "on_hw (\<lambda>_. w) (initial_module h)"
  obtain m1 where m1: "ignore_ret (dcsr_probe pf fs ?m) = Done () m1" "ready_driver p (drv m1)"
    using probed_driver [OF assms(1) refl] by blast
  have wf: "wf_driver (drv m1)" using m1(2) by (simp add: ready_driver_def)
  have hw: "hw (drv (initial_module h)) = h" by (simp add: initial_module_def initial_driver_def)
  have "ret = 0" and vc: "(case vcounters_init k fs (dbgfs_root_dentry m1) (drv m1) of
       Done _ d \<Rightarrow> Done () (m1\<lparr>drv := d\<rparr>) | Fail e d \<Rightarrow> Fail e (m1\<lparr>drv := d\<rparr>)
     | Spin \<Rightarrow> Spin | Undef \<Rightarrow> Undef) = Done () m"
    using assms(3) m1(1) by (simp_all add: dcsr_module_init_def hw reg Let_def split: if_splits)
  obtain d where d: "vcounters_init k fs (dbgfs_root_dentry m1) (drv m1) = Done () d" "drv m = d"
    using vc by (cases "vcounters_init k fs (dbgfs_root_dentry m1) (drv m1)") auto
  have "wf_driver d" "vcount_mapped k d" "maps d ! 7 = maps (drv m1) ! 7"
      "\<exists>h. d\<lparr>maps := maps (drv m1)\<rparr> = (drv m1)\<lparr>hw := h\<rparr>"
    using vcounters_init_exits [OF wf assms(2), of fs "dbgfs_root_dentry m1"] d(1) by auto
  moreover from this(4) have "vcnt d = vcnt (drv m1)" "intr_num d = intr_num (drv m1)"
      "vc_lock d = vc_lock (drv m1)" "reg_acc_lock d = reg_acc_lock (drv m1)"
    by (auto dest: arg_cong [where f = vcnt] arg_cong [where f = intr_num] arg_cong [where f = vc_lock]
        arg_cong [where f = reg_acc_lock])
  ultimately show ?thesis
    using m1(2) d(2) by (simp add: ready_driver_def unlocked_def epu_mapped_def)
qed

text \<open>C1: From loading to every later call, on a system whose device tree has an EPU: when the module
  reports that it is loaded, the EPU is mapped, the virtual registers are reachable and zero, and no
  interrupt is held; and in every state that any run of calls from there reaches, both locks are
  free and no call waits for ever.\<close>

theorem loaded_module_never_deadlocks:
  assumes "epu_node pf nodes n p" and "linked k"
    and "dcsr_module_init k pf fs True (initial_module h) = Done () m"
  shows "epu_mapped (drv m) \<and> base_addr (maps (drv m) ! 7) = p \<and> vcount_mapped k (drv m) \<and>
    vcnt (drv m) = zero_vcounters \<and> intr_num (drv m) = 0 \<and>
    (\<forall>d c. reach (sys_step k any_call) (drv m) d \<longrightarrow> call_exists c \<longrightarrow>
      wf_driver d \<and> unlocked d \<and> run_call k c d \<noteq> Spin)"
proof -
  have ready: "ready_driver p (drv m)" "vcount_mapped k (drv m)" using loaded_driver [OF assms] by simp_all
  then have start: "wf_driver (drv m)" "unlocked (drv m)" "epu_mapped (drv m)" by (simp_all add: ready_driver_def)
  have "wf_driver d \<and> unlocked d \<and> run_call k c d \<noteq> Spin"
    if run: "reach (sys_step k any_call) (drv m) d" and c: "call_exists c" for d c
  proof -
    have "wf_driver d" using kept.reach_keeps [OF run, of "maps (drv m)" "epu_ptr (drv m)"] start(1,2)
      by (simp add: kept_def unlocked_def)
    moreover have "unlocked d" and "run_call k c d = Undef \<or> (\<exists>d'. returns (run_call k c d) d')"
      using runs_never_deadlock [OF run start assms(2)] c by auto
    ultimately show ?thesis by auto
  qed
  then show ?thesis using ready by (simp add: ready_driver_def)
qed

text \<open>On the test bench nothing fails.\<close>

lemma bench_vcounters_Done: "holds (\<lambda>_ d'. True) (\<lambda>e d'. False) (vcounters_init k null_debugfs q d)"
  for d :: "'a driver"
proof -
  have x64: "holds (\<lambda>_ _. True) (\<lambda>e d'. False) (vcnt_x64 k null_debugfs (Printed ''vcntrcapt'' i) de r d1)"
    if "i < 32" for i de r and d1 :: "'a driver"
    using that by (simp add: vcnt_x64_def null_debugfs_def)
  have fl: "holds (\<lambda>_ _. True) (\<lambda>e d'. False) (vcnt_file k null_debugfs nm de r f d1)"
    if "in_buffer nm" for nm de r f and d1 :: "'a driver"
    using that by (simp add: vcnt_file_def)
  have add: "holds (\<lambda>_ _. True) (\<lambda>e d'. False) (ignore_ret (reg_add_map i a sz d1))"
    for i a sz and d1 :: "'a driver"
    by (simp add: reg_add_map_def)
  have dir: "debugfs_create_dir null_debugfs = (\<lambda>n p h. (Some 1, h))" by (simp add: null_debugfs_def)
  show ?thesis
    unfolding vcounters_init_def dir prod.case option.case
    by (intro holds_step [where I = "\<lambda>_. True"] holds_each x64 fl add) simp_all
qed

lemma bench_init_Done:
  "\<exists>m. dcsr_module_init bench_kernel (bench_platform bench_nodes one_range 0) null_debugfs True
    (initial_module bench_world) = Done () m"
proof -
  let ?pf = "bench_platform bench_nodes one_range 0"
  obtain m1 where m1: "dcsr_probe ?pf null_debugfs (initial_module bench_world) = Done () m1"
    using bench_probe_Done by blast
  have same: "on_hw (\<lambda>_. hw (drv (initial_module bench_world))) (initial_module bench_world) = initial_module bench_world"
    by (simp add: on_hw_def initial_module_def initial_driver_def)
  from bench_vcounters_Done [of bench_kernel "dbgfs_root_dentry m1" "drv m1"]
  obtain d where "vcounters_init bench_kernel null_debugfs (dbgfs_root_dentry m1) (drv m1) = Done () d"
    by (cases "vcounters_init bench_kernel null_debugfs (dbgfs_root_dentry m1) (drv m1)") auto
  then show ?thesis by (simp add: dcsr_module_init_def same m1)
qed

lemma loaded_module_never_deadlocks_witness:
  "\<exists>m. dcsr_module_init bench_kernel (bench_platform bench_nodes one_range 0) null_debugfs True
      (initial_module bench_world) = Done () m \<and> vcount_mapped bench_kernel (drv m) \<and>
    run_call bench_kernel (File_write Vcntctrl 1) (drv m) \<noteq> Spin"
proof -
  let ?pf = "bench_platform bench_nodes one_range 0"
  obtain m where m: "dcsr_module_init bench_kernel ?pf null_debugfs True (initial_module bench_world) = Done () m"
    using bench_init_Done by blast
  have "linked bench_kernel" by (simp add: linked_def)
  from loaded_module_never_deadlocks [OF bench_epu_node this m] m show ?thesis
    using reach_refl [of "sys_step bench_kernel any_call" "drv m"] call_exists.simps(2) [of Vcntctrl 1]
    by (metis vreg_exists.simps(1))
qed

end
