(* ===== verification/Load_Unload.thy ===== *)
theory Load_Unload
  imports System
begin

text \<open>
  Loading and unloading the module on a system whose services succeed: the module is loaded, and what
  the services leave alone outside the driver, such as the value of a register, is the same after
  loading and unloading.
\<close>

section \<open>Services that succeed\<close>

definition services_succeed :: "'h platform \<Rightarrow> 'h debugfs \<Rightarrow> bool" where
  "services_succeed pf fs \<longleftrightarrow>
    (\<forall>h. fst (platform_driver_register pf h) = 0 \<and> fst (misc_register pf h) = 0 \<and>
      (\<forall>name p. fst (debugfs_create_dir fs name p h) \<noteq> None) \<and>
      (\<forall>name mode de a. fst (debugfs_create_x64 fs name mode de a h)))"

lemma services:
  assumes "services_succeed pf fs"
  shows "\<exists>h'. platform_driver_register pf h = (0, h')" and "\<exists>h'. misc_register pf h = (0, h')"
    and "\<exists>de h'. debugfs_create_dir fs name p h = (Some de, h')"
    and "\<exists>h'. debugfs_create_x64 fs name mode de a h = (True, h')"
  using assms unfolding services_succeed_def by (metis prod.collapse option.exhaust_sel)+

lemma probe_succeeds:
  assumes "services_succeed pf fs"
  shows "\<exists>m'. dcsr_probe pf fs m = Done () m'"
proof -
  let ?m = "add_all_devices pf m"
  obtain root h1 where dir: "debugfs_create_dir fs ''ls-dbg'' 0 (hw (drv ?m)) = (Some root, h1)"
    using services(3) [OF assms] by blast
  obtain h2 where misc: "misc_register pf h1 = (0, h2)" using services(2) [OF assms] by blast
  obtain devs d where "dbgfs_inits fs root (dbg_devs ?m) ((drv ?m)\<lparr>hw := h2\<rparr>) = Done devs d"
    using dbgfs_inits_Done [of fs root "dbg_devs ?m" "(drv ?m)\<lparr>hw := h2\<rparr>"] by blast
  then show ?thesis by (simp add: dcsr_probe_def dir reg_access_init_def on_hw_def misc Let_def)
qed

lemma vcounters_init_succeeds:
  assumes "services_succeed pf fs"
  shows "holds (\<lambda>_ d'. True) (\<lambda>e d'. False) (vcounters_init k fs q d)"
proof -
  have x64: "holds (\<lambda>_ _. True) (\<lambda>e d'. False) (vcnt_x64 k fs (Printed ''vcntrcapt'' i) de r d1)"
    if "i < 32" for i de r d1
  proof -
    obtain h' where "debugfs_create_x64 fs (name_of (Printed ''vcntrcapt'' i)) RW de (vcnt_addr k + vreg_off r) (hw d1) =
        (True, h')"
      using services(4) [OF assms] by blast
    then show ?thesis using that by (simp add: vcnt_x64_def del: vreg_off.simps name_of.simps)
  qed
  have fl: "holds (\<lambda>_ _. True) (\<lambda>e d'. False) (vcnt_file k fs nm de r f d1)"
    if "in_buffer nm" for nm de r f d1
    using that by (simp add: vcnt_file_def)
  have add: "holds (\<lambda>_ _. True) (\<lambda>e d'. False) (ignore_ret (reg_add_map i a sz d1))"
    for i a sz and d1 :: "'a driver"
    by (simp add: reg_add_map_def)
  obtain de h' where dir: "debugfs_create_dir fs DEBUGFS_VCOUNTERS_NAME q (hw d) = (Some de, h')"
    using services(3) [OF assms] by blast
  show ?thesis
    unfolding vcounters_init_def dir prod.case option.case
    by (intro holds_step [where I = "\<lambda>_. True"] holds_each x64 fl add) simp_all
qed

lemma module_init_succeeds:
  assumes "services_succeed pf fs"
  shows "\<exists>m'. dcsr_module_init k pf fs found m = Done () m'"
proof -
  obtain h where reg: "platform_driver_register pf (hw (drv m)) = (0, h)"
    using services(1) [OF assms] by blast
  obtain m1 where m1: "(if found then ignore_ret (dcsr_probe pf fs (on_hw (\<lambda>_. h) m))
      else Done () (on_hw (\<lambda>_. h) m)) = Done () m1"
    using probe_succeeds [OF assms, of "on_hw (\<lambda>_. h) m"] by (cases found) auto
  show ?thesis
    using vcounters_init_succeeds [OF assms, of k "dbgfs_root_dentry m1" "drv m1"]
    unfolding dcsr_module_init_def reg Let_def prod.case m1
    by (cases "vcounters_init k fs (dbgfs_root_dentry m1) (drv m1)") simp_all
qed

section \<open>What the services leave alone\<close>

text \<open>\<open>J\<close> holds after every service of the platform and of debugfs when it held before.\<close>

definition services_keep :: "('h \<Rightarrow> bool) \<Rightarrow> 'h platform \<Rightarrow> 'h debugfs \<Rightarrow> bool" where
  "services_keep J pf fs \<longleftrightarrow>
    (\<forall>h. J h \<longrightarrow>
      J (snd (kzalloc_dev pf h)) \<and> (\<forall>n i. J (snd (of_iomap pf n i h))) \<and> (\<forall>a. J (iounmap pf a h)) \<and>
      J (snd (misc_register pf h)) \<and> J (misc_deregister pf h) \<and> (\<forall>r. J (debugfs_remove_recursive pf r h)) \<and>
      J (snd (platform_driver_register pf h)) \<and> J (platform_driver_unregister pf h) \<and>
      (\<forall>name p. J (snd (debugfs_create_dir fs name p h))) \<and>
      (\<forall>name mode de a. J (snd (debugfs_create_x32 fs name mode de a h))) \<and>
      (\<forall>name mode de a. J (snd (debugfs_create_x64 fs name mode de a h))) \<and>
      (\<forall>name mode de a f. J (debugfs_create_file fs name mode de a f h)))"

text \<open>What unbinding the interrupt does to the hardware: the control registers of the counters of the
  EPU at \<open>p\<close>, and the release of the interrupt.\<close>

definition unbinding_keeps :: "('h \<Rightarrow> bool) \<Rightarrow> 'h kernel \<Rightarrow> u32 \<Rightarrow> bool" where
  "unbinding_keeps J k p \<longleftrightarrow>
    (\<forall>h. J h \<longrightarrow> (\<forall>i<32. \<forall>v. J (iowrite32 k v (p + (LS_DBG_EPU_EPCCR_OFFSET + of_nat i * 4)) h)) \<and>
      (\<forall>num node. J (free_irq k num node h)) \<and> J (flush_scheduled_work k h))"

lemma service_keeps:
  assumes "services_keep J pf fs" and "J h"
  shows "kzalloc_dev pf h = (b, h1) \<Longrightarrow> J h1" and "of_iomap pf n i h = (a, h1) \<Longrightarrow> J h1"
    and "J (iounmap pf a h)" and "misc_register pf h = (r, h1) \<Longrightarrow> J h1" and "J (misc_deregister pf h)"
    and "J (debugfs_remove_recursive pf r h)" and "platform_driver_register pf h = (r, h1) \<Longrightarrow> J h1"
    and "J (platform_driver_unregister pf h)"
    and "debugfs_create_dir fs name p h = (q, h1) \<Longrightarrow> J h1"
    and "debugfs_create_x32 fs name mode de a h = (b, h1) \<Longrightarrow> J h1"
    and "debugfs_create_x64 fs name mode de a h = (b, h1) \<Longrightarrow> J h1"
    and "J (debugfs_create_file fs name mode de a f h)"
  using assms unfolding services_keep_def by (metis snd_conv)+

lemma create_dir_keeps:
  assumes "services_keep J pf fs" and "J (hw (snd s))"
  shows "stays b (\<lambda>s. J (hw (snd s))) (CREATE_CURRENT_DBGFS_DIR fs parent name s)"
  using service_keeps(9) [OF assms]
  by (auto simp: CREATE_CURRENT_DBGFS_DIR_def split: prod.split option.split)

lemma create_files_keep:
  assumes "services_keep J pf fs" and "J (hw (snd s))"
  shows "stays b (\<lambda>s. J (hw (snd s))) (create_files fs members ptr files de s)"
  unfolding create_files_def
  by (rule stays_each)
    (use assms service_keeps(10) [OF assms(1)] in \<open>auto simp: DBGFS_CREATE_X32_def split: prod.split bool.split\<close>)

lemma dbgfs_init_keeps:
  assumes "services_keep J pf fs" and "J (hw (snd s))"
  shows "stays b (\<lambda>s. J (hw (snd s))) (call_dbgfs_init fn fs parent s)"
proof -
  note keep = stays_and_then stays_each create_dir_keeps [OF assms(1)] create_files_keep [OF assms(1)]
  show ?thesis
    using assms(2)
    by (cases fn)
      (auto simp: dcsr_epu_ls1_init_def dcsr_core_ls1_init_def dcsr_gdi_ls1_init_def dcsr_cstf_ls1_init_def
        dcsr_etm_ls1_init_def dcsr_etf_ls1_init_def dcsr_etr_ls1_init_def CREATE_CURRENT_DBGFS_DIR_INDEXED_def
        split_beta Let_def intro!: keep)
qed

lemma dbgfs_inits_keep:
  assumes "services_keep J pf fs" and "J (hw d)"
  shows "stays b (\<lambda>d. J (hw d)) (dbgfs_inits fs root devs d)"
  using assms(2)
proof (induction devs arbitrary: d)
  case Nil
  then show ?case by simp
next
  case (Cons dev devs)
  have "stays b (\<lambda>s. J (hw (snd s))) (ignore_ret (call_dbgfs_init (init_fn dev) fs root (dev, d)))"
    by (intro stays_ignore_ret dbgfs_init_keeps [OF assms(1)]) (simp add: Cons.prems)
  then show ?case
    by (cases "ignore_ret (call_dbgfs_init (init_fn dev) fs root (dev, d))") (auto intro!: stays_and_then [OF Cons.IH])
qed

section \<open>The device list\<close>

text \<open>An invariant of the driver that allocating and mapping keep holds of the driver after the device
  list has been built.\<close>

lemma add_all_keeps:
  assumes alloc: "\<And>d. I d \<Longrightarrow> I (d\<lparr>hw := snd (kzalloc_dev pf (hw d))\<rparr>)"
    and range: "\<And>node gid idx i dev d. I d \<Longrightarrow> I (snd (map_range pf node gid idx i (dev, d)))"
    and "I (drv m)"
  shows "I (drv (add_all_devices pf m))"
proof -
  have one: "I (drv (snd (add_device pf name gid rf init node im)))" if "I (drv (snd im))"
    for name gid rf init node im
  proof -
    have "I (snd (map_range pf node gid idx i s))" if "I (snd s)" for idx i s
      using range [of "snd s" node gid idx i "fst s"] that by simp
    then show ?thesis
      using alloc [OF that] by (cases im) (auto simp: add_device_def ranges_eq split_beta Let_def)
  qed
  have nodes: "I (drv (snd (fold (add_device pf name gid rf init) ns im)))" if "I (drv (snd im))"
    for name gid rf init ns im
    using that by (rule fold_keeps [where I = "\<lambda>im. I (drv (snd im))"]) (rule one)
  have "I (drv (add_compatible_devices pf c name g rf init m'))" if "I (drv m')" for c name g rf init m'
    using nodes [of "(0, m')"] that by (simp add: add_compatible_devices_def)
  then show ?thesis using assms(3) by (simp add: add_all_devices_def)
qed

text \<open>The windows of the map table.\<close>

definition windows_le :: "u32 \<Rightarrow> 'h driver \<Rightarrow> bool" where
  "windows_le n d \<longleftrightarrow> (\<forall>e\<in>set (maps d). map_size e \<le> n)"

lemma windows_le_hw [simp]: "windows_le n (d\<lparr>hw := h\<rparr>) = windows_le n d"
  by (simp add: windows_le_def)

lemma windows_le_update:
  assumes "windows_le n d" and "map_size e \<le> n"
  shows "windows_le n (d\<lparr>hw := h, maps := (maps d)[i := e]\<rparr>)"
  using assms set_update_subset_insert [of "maps d" i e] by (auto simp: windows_le_def)

lemma add_all_windows:
  assumes "\<forall>node i h. range_size pf node i h \<le> n" and "windows_le n (drv m)"
  shows "windows_le n (drv (add_all_devices pf m))"
  by (rule add_all_keeps) (use assms in \<open>auto simp: map_range_eq split_beta Let_def intro: windows_le_update\<close>)

lemma add_all_hw:
  assumes "services_keep J pf fs" and "J (hw (drv m))"
  shows "J (hw (drv (add_all_devices pf m)))"
proof (rule add_all_keeps [where I = "\<lambda>d. J (hw d)"])
  fix d :: "'a driver" assume d: "J (hw d)"
  show "J (hw (d\<lparr>hw := snd (kzalloc_dev pf (hw d))\<rparr>))"
    using service_keeps(1) [OF assms(1) d prod.collapse [symmetric]] by simp
  fix node gid idx i dev
  have "J (snd (of_iomap pf node i (hw d)))" using service_keeps(2) [OF assms(1) d prod.collapse [symmetric]] .
  then show "J (hw (snd (map_range pf node gid idx i (dev, d))))"
    by (simp add: map_range_eq split_beta Let_def)
qed (rule assms(2))

section \<open>Loading and unloading\<close>

lemma unmap_devices_keep:
  assumes "services_keep J pf fs" and "J h"
  shows "J (fold (unmap_device pf) devs h)"
proof (rule fold_keeps [where I = J, OF assms(2)])
  fix dev h assume "J h"
  then show "J (unmap_device pf dev h)"
    unfolding unmap_device_eq by (rule fold_keeps [where I = J]) (rule service_keeps(3) [OF assms(1)])
qed

lemma remove_devices_keep:
  "services_keep J pf fs \<Longrightarrow> J (hw (drv m)) \<Longrightarrow> J (hw (drv (remove_devices pf m)))"
  by (simp add: remove_devices_def on_hw_def unmap_devices_keep)

lemma probe_keeps_hw:
  assumes "services_keep J pf fs" and "J (hw (drv m))"
  shows "stays b (\<lambda>m. J (hw (drv m))) (dcsr_probe pf fs m)"
proof -
  let ?m = "add_all_devices pf m"
  obtain r h1 where dir: "debugfs_create_dir fs ''ls-dbg'' 0 (hw (drv ?m)) = (r, h1)" by force
  obtain e h2 where misc: "misc_register pf h1 = (e, h2)" by force
  have h: "J h1" "J h2"
    using service_keeps(9) [OF assms(1) add_all_hw [OF assms] dir] service_keeps(4) [OF assms(1) _ misc] by blast+
  have "stays b (\<lambda>d. J (hw d)) (dbgfs_inits fs root (dbg_devs ?m) ((drv ?m)\<lparr>hw := h2\<rparr>))" for root
    by (rule dbgfs_inits_keep [OF assms(1)]) (simp add: h)
  then have inits: "dbgfs_inits fs root (dbg_devs ?m) ((drv ?m)\<lparr>hw := h2\<rparr>) = Done devs d \<Longrightarrow> J (hw d)" for root devs d
    by (metis stays.simps(1))
  show ?thesis
    using h
    by (cases r; cases "e = 0")
      (auto simp: dcsr_probe_def dir reg_access_init_def misc on_hw_def Let_def
        split: result.split dest: inits intro!: remove_devices_keep [OF assms(1)])
qed

lemma vcounters_init_keeps:
  assumes "services_keep J pf fs" and "J (hw d)"
  shows "stays b (\<lambda>d. J (hw d)) (vcounters_init k fs q d)"
proof -
  note fl = service_keeps(12) [OF assms(1)] and x64 = service_keeps(11) [OF assms(1)]
  have "stays b (\<lambda>d. J (hw d)) (vcnt_file k fs name de r f d)" if "J (hw d)" for name de r f d
    using that fl by (simp add: vcnt_file_def)
  moreover have "stays b (\<lambda>d. J (hw d)) (vcnt_x64 k fs name de r d)" if "J (hw d)" for name de r d
    using that x64 by (auto simp: vcnt_x64_def split: prod.split bool.split)
  moreover have "stays b (\<lambda>d. J (hw d)) (ignore_ret (reg_add_map i a sz d))" if "J (hw d)" for i a sz d
    using that by (simp add: reg_add_map_def)
  moreover obtain q' h where "debugfs_create_dir fs DEBUGFS_VCOUNTERS_NAME q (hw d) = (q', h)" by force
  moreover from this have "J h" using service_keeps(9) [OF assms] by blast
  ultimately show ?thesis
    by (auto simp: vcounters_init_def split: option.split intro!: stays_and_then stays_each)
qed

lemma module_init_keeps:
  assumes "services_keep J pf fs" and "J (hw (drv m))"
  shows "stays b (\<lambda>m. J (hw (drv m))) (dcsr_module_init k pf fs found m)"
proof -
  obtain ret h where reg: "platform_driver_register pf (hw (drv m)) = (ret, h)" by force
  then have h: "J h" using service_keeps(7) [OF assms] by blast
  have probe: "stays b (\<lambda>m. J (hw (drv m)))
      (if found then ignore_ret (dcsr_probe pf fs (on_hw (\<lambda>_. h) m)) else Done () (on_hw (\<lambda>_. h) m))"
    using h by (auto simp: on_hw_def intro!: stays_ignore_ret probe_keeps_hw [OF assms(1)])
  have vc: "stays b (\<lambda>m. J (hw (drv m)))
      (case vcounters_init k fs (dbgfs_root_dentry m1) (drv m1) of
         Done _ d \<Rightarrow> Done () (m1\<lparr>drv := d\<rparr>) | Fail e d \<Rightarrow> Fail e (m1\<lparr>drv := d\<rparr>)
       | Spin \<Rightarrow> Spin | Undef \<Rightarrow> Undef)" if "J (hw (drv m1))" for m1
    using vcounters_init_keeps [OF assms(1) that, of b k "dbgfs_root_dentry m1"]
    by (cases "vcounters_init k fs (dbgfs_root_dentry m1) (drv m1)") auto
  show ?thesis
    unfolding dcsr_module_init_def reg Let_def prod.case
    by (intro stays_if stays_and_then [OF probe] vc) (simp_all add: on_hw_def h)
qed

lemma unbind_keeps:
  assumes "unbinding_keeps J k (base_addr (maps d ! 7))" and "J (hw d)"
  shows "stays b (\<lambda>d. J (hw d)) (ls_dbg_epu_unbind_irq k d)"
proof -
  let ?I = "\<lambda>d'. J (hw d') \<and> maps d' = maps d"
  have "stays b ?I (write_all_epccr k 0 d)"
    unfolding write_all_epccr_def
    by (rule stays_each)
      (use assms in \<open>auto simp: epu_write_eq epu_addr_def unbinding_keeps_def simp del: LS_DBG_EPU_EPCCR_OFFSET_def\<close>)
  then have "stays b (\<lambda>d'. J (hw (release_irq k node d'))) (write_all_epccr k 0 d)" for node
    by (rule stays_mono) (use assms(1) in \<open>auto simp: release_irq_def unbinding_keeps_def\<close>)
  then show ?thesis unfolding ls_dbg_epu_unbind_irq_def Let_def by (rule stays_on_exit)
qed

lemma module_exit_keeps:
  assumes "services_keep J pf fs" and "unbinding_keeps J k (base_addr (maps (drv m) ! 7))" and "J (hw (drv m))"
  shows "\<exists>m'. dcsr_module_exit k pf bound m = Done () m' \<and> J (hw (drv m'))"
proof (cases bound)
  case False
  then show ?thesis using service_keeps(8) [OF assms(1,3)] by (simp add: dcsr_module_exit_def on_hw_def)
next
  case True
  obtain d m' where rem: "dcsr_remove k pf m = Done () m'"
      "ls_dbg_epu_unbind_irq k (drv m) = Done () d \<or> ls_dbg_epu_unbind_irq k (drv m) = Fail EFAULT d"
      "hw (drv m') = misc_deregister pf (fold (unmap_device pf) (dbg_devs m)
        (debugfs_remove_recursive pf (dbgfs_root_dentry m) (hw d)))"
    using remove_unbinds [of k pf m] by blast
  have "J (hw d)" using unbind_keeps [OF assms(2,3), of True] rem(2) by auto
  then have "J (hw (drv m'))"
    unfolding rem(3) by (intro service_keeps(5,6) [OF assms(1)] unmap_devices_keep [OF assms(1)])
  then show ?thesis
    using True rem(1) service_keeps(8) [OF assms(1)] by (simp add: dcsr_module_exit_def on_hw_def)
qed

section \<open>A loaded module\<close>

text \<open>The driver after loading: as \<open>ready_driver\<close>, and the virtual counters and the EPU pointer are set.\<close>

definition loaded_ok :: "'h kernel \<Rightarrow> u32 \<Rightarrow> u32 \<Rightarrow> 'h driver \<Rightarrow> bool" where
  "loaded_ok k p n d \<longleftrightarrow> ready_driver p d \<and> vcount_mapped k d \<and> epu_ptr d = p \<and> windows_le n d"

text \<open>Whether the driver core binds the device when the module is loaded.\<close>

definition probe_binds :: "'h platform \<Rightarrow> 'h debugfs \<Rightarrow> 'h \<Rightarrow> bool" where
  "probe_binds pf fs h \<longleftrightarrow> dcsr_matches pf h \<and>
    (case dcsr_probe pf fs (on_hw (\<lambda>h. snd (platform_driver_register pf h)) (initial_module h)) of
       Done _ _ \<Rightarrow> True | _ \<Rightarrow> False)"

lemma probe_binds_services:
  "services_succeed pf fs \<Longrightarrow> dcsr_matches pf h \<Longrightarrow> probe_binds pf fs h"
  using probe_succeeds [of pf fs "on_hw (\<lambda>h. snd (platform_driver_register pf h)) (initial_module h)"]
  by (auto simp: probe_binds_def)

lemma loading:
  assumes "epu_node pf nodes node p" and "linked k" and "services_succeed pf fs"
    and "\<forall>node i h. range_size pf node i h \<le> n" and "584 \<le> n"
  shows "\<exists>m. dcsr_module_init k pf fs True (initial_module h) = Done () m \<and> loaded_ok k p n (drv m)"
proof -
  obtain w where reg: "platform_driver_register pf h = (0, w)" using services(1) [OF assms(3)] by blast
  let ?m = "on_hw (\<lambda>_. w) (initial_module h)"
  have hw: "hw (drv (initial_module h)) = h" by (simp add: initial_module_def initial_driver_def)
  have fresh: "wf_driver (drv ?m)" "dbg_devs ?m = []" "windows_le n (drv ?m)"
    by (simp_all add: on_hw_def initial_module_def initial_driver_def wf_driver_def windows_le_def zero_map_def)
  obtain m1 where m1: "dcsr_probe pf fs ?m = Done () m1" using probe_succeeds [OF assms(3)] by blast
  have ptr: "epu_ptr (drv m1) = p" and wf: "wf_driver (drv m1)"
    using probe_maps [OF assms(1) fresh(1), of fs] m1 fresh(2) by auto
  have win: "windows_le n (drv m1)"
    using dcsr_probe_cases [of pf fs ?m] m1 add_all_windows [OF assms(4) fresh(3)] by (auto simp: windows_le_def)
  obtain d where d: "vcounters_init k fs (dbgfs_root_dentry m1) (drv m1) = Done () d"
    using vcounters_init_succeeds [OF assms(3), of k "dbgfs_root_dentry m1" "drv m1"]
    by (cases "vcounters_init k fs (dbgfs_root_dentry m1) (drv m1)") simp_all
  have init: "dcsr_module_init k pf fs True (initial_module h) = Done () (m1\<lparr>drv := d\<rparr>)"
    unfolding dcsr_module_init_def hw reg Let_def prod.case by (simp add: m1 d)
  have vc: "wf_driver d" "vcount_mapped k d" "\<forall>i. i \<noteq> 10 \<longrightarrow> maps d ! i = maps (drv m1) ! i"
      "\<exists>h. d\<lparr>maps := maps (drv m1)\<rparr> = (drv m1)\<lparr>hw := h\<rparr>"
    using vcounters_init_exits [OF wf assms(2), of fs "dbgfs_root_dentry m1"] d by auto
  have "epu_ptr d = p" using vc(4) ptr by (auto dest: arg_cong [where f = epu_ptr])
  moreover have "map_size (maps d ! i) \<le> n" if "i < length (maps d)" for i
  proof (cases "i = 10")
    case True
    then show ?thesis using vc(2) assms(5) by (simp add: vcount_mapped_def)
  next
    case False
    then have "maps d ! i \<in> set (maps (drv m1))" using vc(1,3) wf that by (simp add: wf_driver_def)
    then show ?thesis using win by (simp add: windows_le_def)
  qed
  then have "windows_le n d" by (auto simp: windows_le_def in_set_conv_nth)
  moreover have "ready_driver p d" "vcount_mapped k d"
    using loaded_driver [OF assms(1,2) init] by simp_all
  ultimately show ?thesis using init by (auto simp: loaded_ok_def)
qed

end
