(* ===== verification/Module_Life.thy ===== *)
theory Module_Life
  imports Load_Unload
begin

text \<open>
  The module over its whole life: loading, calls into the driver, unbinding the device and binding it
  again, unloading, and loading once more.
\<close>

section \<open>Runs of the module\<close>

text \<open>Whether the module is loaded and a device is bound to its driver.  \<open>Broken\<close> is a load that failed
  after the driver was registered: the kernel frees the module and the driver stays registered, and what
  happens then is not in this code.\<close>

datatype phase = Unloaded | Unbound | Bound | Broken

fun loaded :: "phase \<Rightarrow> bool" where
  "loaded Unbound = True"
| "loaded Bound = True"
| "loaded _ = False"

text \<open>Loading starts with fresh data and probes the device when the device tree has one; the driver core
  probes an unbound device and removes a bound one; calls come at any time while the module is
  loaded; unloading removes the device when one is bound.\<close>

inductive life_step ::
  "'h kernel \<Rightarrow> 'h platform \<Rightarrow> 'h debugfs \<Rightarrow> phase \<times> 'h module \<Rightarrow> phase \<times> 'h module \<Rightarrow> bool" for k pf fs where
  life_load: "dcsr_module_init k pf fs (dcsr_matches pf (hw (drv m))) (initial_module (hw (drv m))) = Done () m' \<Longrightarrow>
    life_step k pf fs (Unloaded, m) (if probe_binds pf fs (hw (drv m)) then Bound else Unbound, m')"
| life_load_refused: "fst (platform_driver_register pf (hw (drv m))) \<noteq> 0 \<Longrightarrow>
    dcsr_module_init k pf fs (dcsr_matches pf (hw (drv m))) (initial_module (hw (drv m))) = Fail e m' \<Longrightarrow>
    life_step k pf fs (Unloaded, m) (Unloaded, m')"
| life_load_fails: "fst (platform_driver_register pf (hw (drv m))) = 0 \<Longrightarrow>
    dcsr_module_init k pf fs (dcsr_matches pf (hw (drv m))) (initial_module (hw (drv m))) = Fail e m' \<Longrightarrow>
    life_step k pf fs (Unloaded, m) (Broken, m')"
| life_call: "loaded p \<Longrightarrow> sys_step k any_call (drv m) d \<Longrightarrow> life_step k pf fs (p, m) (p, m\<lparr>drv := d\<rparr>)"
| life_probe: "dcsr_probe pf fs m = Done () m' \<Longrightarrow> life_step k pf fs (Unbound, m) (Bound, m')"
| life_probe_fails: "dcsr_probe pf fs m = Fail e m' \<Longrightarrow> life_step k pf fs (Unbound, m) (Unbound, m')"
| life_remove: "dcsr_remove k pf m = Done () m' \<Longrightarrow> life_step k pf fs (Bound, m) (Unbound, m')"
| life_unload: "loaded p \<Longrightarrow> dcsr_module_exit k pf (p = Bound) m = Done () m' \<Longrightarrow>
    life_step k pf fs (p, m) (Unloaded, m')"

inductive_cases life_step_cases: "life_step k pf fs (p, m) (p', m')"

section \<open>The invariant\<close>

text \<open>No memory range of the device tree is recorded under the id of the virtual counters.  The code
  records the second range of a node, and a second node, under the ids after that of the group, so for
  a core node with two ranges this fails.\<close>

definition spares_vcount :: "'h platform \<Rightarrow> bool" where
  "spares_vcount pf \<longleftrightarrow>
    (\<forall>m. wf_driver (drv m) \<longrightarrow> maps (drv (add_all_devices pf m)) ! 10 = maps (drv m) ! 10)"

definition life_ok :: "'h module \<Rightarrow> bool" where
  "life_ok m \<longleftrightarrow> wf_driver (drv m) \<and> \<not> reg_acc_lock (drv m)"

definition life_inv :: "'h kernel \<Rightarrow> 'h platform \<Rightarrow> phase \<times> 'h module \<Rightarrow> bool" where
  "life_inv k pf pm \<longleftrightarrow> (case pm of (p, m) \<Rightarrow>
    life_ok m \<and> (p = Unloaded \<or> p = Unbound \<longrightarrow> dbg_devs m = []) \<and>
    (loaded p \<and> spares_vcount pf \<longrightarrow> vcount_mapped k (drv m)))"

lemma life_ok_initial [simp]: "life_ok (initial_module h)" "dbg_devs (initial_module h) = []"
  using wf_initial [of h] unlocked_initial [of h] by (simp_all add: life_ok_def initial_module_def unlocked_def)

lemma life_ok_on_hw [simp]: "life_ok (on_hw f m) = life_ok m" "dbg_devs (on_hw f m) = dbg_devs m"
    "maps (drv (on_hw f m)) = maps (drv m)"
  by (simp_all add: life_ok_def on_hw_def wf_driver_def)

lemma probe_keeps:
  assumes "life_ok m"
  shows "holds (\<lambda>_ m'. life_ok m' \<and> (spares_vcount pf \<longrightarrow> maps (drv m') ! 10 = maps (drv m) ! 10))
    (\<lambda>e m'. life_ok m' \<and> dbg_devs m' = [] \<and> (spares_vcount pf \<longrightarrow> maps (drv m') ! 10 = maps (drv m) ! 10))
    (dcsr_probe pf fs m)"
proof -
  have frame: "map_frame (drv m) (drv (add_all_devices pf m))" by (rule add_all_frame)
  then have "life_ok (add_all_devices pf m)"
    using assms map_frame_wf [OF frame] by (auto simp: map_frame_def life_ok_def)
  moreover have "spares_vcount pf \<Longrightarrow> maps (drv (add_all_devices pf m)) ! 10 = maps (drv m) ! 10"
    using assms by (simp add: spares_vcount_def life_ok_def)
  ultimately show ?thesis
    using dcsr_probe_cases [of pf fs m] by (auto simp: remove_devices_def on_hw_def wf_driver_def life_ok_def)
qed

lemma remove_keeps:
  assumes "life_ok m"
  shows "holds (\<lambda>_ m'. life_ok m' \<and> dbg_devs m' = [] \<and> intr_num (drv m') = 0 \<and> maps (drv m') = maps (drv m))
    (\<lambda>e m'. False) (dcsr_remove k pf m)"
proof -
  let ?P = "\<lambda>d'. intr_num d' = 0 \<and> wf_driver d' \<and> \<not> reg_acc_lock d' \<and> maps d' = maps (drv m)"
  have "holds (\<lambda>_. ?P) (\<lambda>e. ?P) (ls_dbg_epu_unbind_irq k (drv m))"
    by (rule holds_mono [OF unbind_forgets_irq]) (use assms in \<open>auto simp: wf_driver_def life_ok_def\<close>)
  then show ?thesis
    by (cases "ls_dbg_epu_unbind_irq k (drv m)")
      (auto simp: dcsr_remove_def reg_access_cleanup_def remove_devices_def on_hw_def wf_driver_def life_ok_def)
qed

lemma exit_keeps:
  assumes "life_ok m" and "\<not> bound \<longrightarrow> dbg_devs m = []"
  shows "holds (\<lambda>_ m'. life_ok m' \<and> dbg_devs m' = [] \<and> (bound \<longrightarrow> intr_num (drv m') = 0)) (\<lambda>e m'. False)
    (dcsr_module_exit k pf bound m)"
proof (cases bound)
  case True
  have "holds (\<lambda>_ m'. life_ok m' \<and> dbg_devs m' = [] \<and> intr_num (drv m') = 0) (\<lambda>e m'. False) (dcsr_remove k pf m)"
    by (rule holds_mono [OF remove_keeps [OF assms(1)]]) auto
  then show ?thesis using True
    by (cases "dcsr_remove k pf m") (auto simp: dcsr_module_exit_def, simp_all add: on_hw_def)
next
  case False
  then show ?thesis using assms by (simp add: dcsr_module_exit_def)
qed

text \<open>Loading.  After a failed probe, or with no device, no entry is left.\<close>

lemma init_keeps:
  fixes h :: 'h
  assumes "linked k"
  shows "holds (\<lambda>_ m'. life_ok m' \<and> vcount_mapped k (drv m') \<and> (\<not> probe_binds pf fs h \<longrightarrow> dbg_devs m' = []))
    (\<lambda>e m'. life_ok m' \<and> (fst (platform_driver_register pf h) \<noteq> 0 \<longrightarrow> dbg_devs m' = []))
    (dcsr_module_init k pf fs (dcsr_matches pf h) (initial_module h))"
proof -
  obtain ret w where reg: "platform_driver_register pf h = (ret, w)" by force
  let ?m = "on_hw (\<lambda>_. w) (initial_module h)" and ?none = "\<lambda>m :: 'h module. \<not> probe_binds pf fs h \<longrightarrow> dbg_devs m = []"
  have hw: "hw (drv (initial_module h)) = h" by (simp add: initial_module_def initial_driver_def)
  have same: "on_hw (\<lambda>h. snd (platform_driver_register pf h)) (initial_module h) = ?m"
    by (simp add: on_hw_def initial_module_def initial_driver_def reg)
  have probe: "\<exists>m1. (if dcsr_matches pf h then ignore_ret (dcsr_probe pf fs ?m) else Done () ?m) = Done () m1 \<and>
      life_ok m1 \<and> ?none m1"
    using probe_keeps [of ?m pf fs]
    by (cases "dcsr_probe pf fs ?m") (simp_all add: probe_binds_def same)
  then obtain m1 where m1: "(if dcsr_matches pf h then ignore_ret (dcsr_probe pf fs ?m) else Done () ?m) = Done () m1"
      "life_ok m1" "?none m1"
    by blast
  have wf: "wf_driver (drv m1)" "\<not> reg_acc_lock (drv m1)" using m1(2) by (simp_all add: life_ok_def)
  have vc: "holds (\<lambda>_ d. wf_driver d \<and> \<not> reg_acc_lock d \<and> vcount_mapped k d) (\<lambda>e d. wf_driver d \<and> \<not> reg_acc_lock d)
      (vcounters_init k fs (dbgfs_root_dentry m1) (drv m1))"
    by (rule holds_mono [OF vcounters_init_exits [OF wf(1) assms]])
      (use wf in \<open>auto simp: wf_driver_def dest: arg_cong [where f = reg_acc_lock]\<close>)
  have ok: "life_ok ?m" "dbg_devs ?m = []" by simp_all
  show ?thesis
    unfolding dcsr_module_init_def hw reg Let_def prod.case m1(1)
    using vc m1(3) ok
    by (cases "vcounters_init k fs (dbgfs_root_dentry m1) (drv m1)") (auto simp: life_ok_def simp del: life_ok_on_hw)
qed

lemma life_call_keeps:
  assumes "sys_step k any_call (drv m) d" and "life_ok m"
  shows "life_ok (m\<lparr>drv := d\<rparr>) \<and> maps d = maps (drv m)"
  using kept.step_keeps [OF assms(1), of "maps (drv m)" "epu_ptr (drv m)"] assms(2)
  by (simp add: kept_def life_ok_def)

lemma vcount_same: "vcount_mapped k d \<Longrightarrow> maps d' ! 10 = maps d ! 10 \<Longrightarrow> vcount_mapped k d'"
  by (simp add: vcount_mapped_def)

lemma life_inv_step:
  assumes "life_step k pf fs s t" and "life_inv k pf s" and "linked k"
  shows "life_inv k pf t"
proof -
  obtain p m where s: "s = (p, m)" by force
  have ok: "life_ok m" and none: "p = Unloaded \<or> p = Unbound \<Longrightarrow> dbg_devs m = []"
    and vc: "loaded p \<Longrightarrow> spares_vcount pf \<Longrightarrow> vcount_mapped k (drv m)"
    using assms(2) unfolding life_inv_def s prod.case by blast+
  from assms(1) show ?thesis unfolding s
  proof cases
    case (life_load m')
    then show ?thesis using init_keeps [OF assms(3), of pf fs "hw (drv m)"] by (auto simp: life_inv_def)
  next
    case (life_load_refused e m')
    then show ?thesis using init_keeps [OF assms(3), of pf fs "hw (drv m)"] by (auto simp: life_inv_def)
  next
    case (life_load_fails e m')
    then show ?thesis using init_keeps [OF assms(3), of pf fs "hw (drv m)"] by (auto simp: life_inv_def)
  next
    case (life_call d)
    then show ?thesis
      using life_call_keeps [OF life_call(3) ok] none vc vcount_same [of k "drv m" d] by (auto simp: life_inv_def)
  next
    case (life_probe m')
    then show ?thesis
      using probe_keeps [OF ok, of pf fs] vc vcount_same [of k "drv m" "drv m'"] by (auto simp: life_inv_def)
  next
    case (life_probe_fails e m')
    then show ?thesis
      using probe_keeps [OF ok, of pf fs] vc vcount_same [of k "drv m" "drv m'"] by (auto simp: life_inv_def)
  next
    case (life_remove m')
    then show ?thesis
      using remove_keeps [OF ok, of k pf] vc vcount_same [of k "drv m" "drv m'"] by (auto simp: life_inv_def)
  next
    case (life_unload m')
    have "\<not> p = Bound \<longrightarrow> dbg_devs m = []" using none life_unload(2) by (cases p) auto
    then show ?thesis using life_unload exit_keeps [OF ok, of "p = Bound" k pf] by (auto simp: life_inv_def)
  qed
qed

interpretation life: step_invariant "life_step k pf fs" "\<lambda>s. linked k \<and> life_inv k pf s" for k pf fs
  by unfold_locales (use life_inv_step in blast)

text \<open>C10: Over the whole life of the module, in every state that loading, calls, unbinding and binding, and
  unloading reach, in any order and any number of times: the driver's data has its shape, the lock of the
  reservation code is free, and no device entry is left when no device is bound; while the module is
  loaded, whether or not a device is bound, the virtual registers stay in the map table, provided the
  device tree has no range that the code records under their id; and every next operation
  returns: a probe; a removal, which clears the interrupt number and the list; an unload, which leaves no entry;
  and a load, from fresh data.\<close>

theorem module_runs_keep_shape:
  assumes "reach (life_step k pf fs) (Unloaded, initial_module h) (p, m)" and "linked k"
  shows "wf_driver (drv m) \<and> \<not> reg_acc_lock (drv m) \<and> (p = Unloaded \<or> p = Unbound \<longrightarrow> dbg_devs m = []) \<and>
    (loaded p \<and> spares_vcount pf \<longrightarrow> vcount_mapped k (drv m)) \<and>
    (\<exists>m'. returns (dcsr_probe pf fs m) m') \<and>
    (\<exists>m'. dcsr_remove k pf m = Done () m' \<and> intr_num (drv m') = 0 \<and> dbg_devs m' = []) \<and>
    (loaded p \<longrightarrow> (\<exists>m'. dcsr_module_exit k pf (p = Bound) m = Done () m' \<and> dbg_devs m' = [])) \<and>
    (\<exists>m'. returns (dcsr_module_init k pf fs (dcsr_matches pf (hw (drv m))) (initial_module (hw (drv m)))) m')"
proof -
  have "life_inv k pf (Unloaded, initial_module h)" by (simp add: life_inv_def)
  then have inv: "life_inv k pf (p, m)" using life.reach_keeps [OF assms(1)] assms(2) by blast
  then have ok: "life_ok m" by (simp add: life_inv_def)
  have "\<exists>m'. returns (dcsr_probe pf fs m) m'"
    using probe_keeps [OF ok, of pf fs] by (cases "dcsr_probe pf fs m") auto
  moreover have "\<exists>m'. dcsr_remove k pf m = Done () m' \<and> intr_num (drv m') = 0 \<and> dbg_devs m' = []"
    using remove_keeps [OF ok, of k pf] by (cases "dcsr_remove k pf m") auto
  moreover have "\<exists>m'. dcsr_module_exit k pf (p = Bound) m = Done () m' \<and> dbg_devs m' = []" if "loaded p"
    using exit_keeps [OF ok, of "p = Bound" k pf] inv that
    by (cases "dcsr_module_exit k pf (p = Bound) m"; cases p) (auto simp: life_inv_def)
  moreover have "\<exists>m'. returns (dcsr_module_init k pf fs (dcsr_matches pf (hw (drv m))) (initial_module (hw (drv m)))) m'"
    using init_keeps [OF assms(2), of pf fs "hw (drv m)"]
    by (cases "dcsr_module_init k pf fs (dcsr_matches pf (hw (drv m))) (initial_module (hw (drv m)))") auto
  ultimately show ?thesis using inv by (auto simp: life_inv_def life_ok_def)
qed

text \<open>A board with the debug device and one event processing unit: the module is loaded, the device unbound
  and bound again.\<close>

definition life_nodes :: "string \<Rightarrow> u32 list" where
  "life_nodes c = (if c = ''fsl,ls1021a-dcsr-epu'' then [0x90000000] else if c = ''fsl,dcsr'' then [0x1000] else [])"

lemma life_board:
  "spares_vcount (bench_platform life_nodes one_range 0)"
  "services_succeed (bench_platform life_nodes one_range 0) null_debugfs"
  "dcsr_matches (bench_platform life_nodes one_range 0) h"
  by (auto simp: spares_vcount_def add_all_devices_def add_compatible_devices_def life_nodes_def add_device_def
      ranges_eq map_range_eq one_range_def NUM_IDS_def services_succeed_def null_debugfs_def dcsr_matches_def
      dcsr_id_table_def bench_platform_def Let_def)

lemma module_runs_keep_shape_witness:
  "\<exists>m m'. reach (life_step bench_kernel (bench_platform life_nodes one_range 0) null_debugfs)
      (Unloaded, initial_module bench_world) (Bound, m) \<and> vcount_mapped bench_kernel (drv m) \<and>
    dcsr_module_exit bench_kernel (bench_platform life_nodes one_range 0) True m = Done () m' \<and> dbg_devs m' = []"
proof -
  let ?k = bench_kernel and ?pf = "bench_platform life_nodes one_range 0"
  let ?h = "hw (drv (initial_module bench_world))"
  have linked: "linked ?k" by (simp add: linked_def)
  obtain m1 where "dcsr_module_init ?k ?pf null_debugfs (dcsr_matches ?pf ?h) (initial_module ?h) = Done () m1"
    using module_init_succeeds [OF life_board(2)] by blast
  from life_load [OF this] have "life_step ?k ?pf null_debugfs (Unloaded, initial_module bench_world) (Bound, m1)"
    using probe_binds_services [OF life_board(2,3)] by simp
  note loaded = reach_one [of "life_step ?k ?pf null_debugfs", OF this]
  obtain m2 where "dcsr_remove ?k ?pf m1 = Done () m2" using module_runs_keep_shape [OF loaded linked] by blast
  note unbound = reach_step [OF loaded life_remove [OF this]]
  obtain m3 where "dcsr_probe ?pf null_debugfs m2 = Done () m3" using probe_succeeds [OF life_board(2)] by blast
  note bound = reach_step [OF unbound life_probe [OF this]]
  from module_runs_keep_shape [OF bound linked] bound life_board(1) show ?thesis by auto
qed

end
