(* ===== verification/Ctrl_Race.thy ===== *)
theory Ctrl_Race
  imports Irq_Control
begin

text \<open>
  Two writers of the file \<open>vcntrctrl\<close> at once.  \<open>vcntrctrl_set\<close> takes no lock, and the lock of a simple
  attribute is one per open file: two programs that have each opened the file write at the same time.
  The function reads the old value, binds or unbinds the interrupt and stores the new value; here it is
  cut after the read and before the store, so that a second writer can run in between.
\<close>

section \<open>The parts of a write\<close>

text \<open>Between the read of \<open>orig_val\<close> and the store.\<close>

definition ctrl_act :: "'h kernel \<Rightarrow> u64 \<Rightarrow> u32 \<Rightarrow> 'h driver \<Rightarrow> (unit, 'h driver) result" where
  "ctrl_act k val orig_val d =
    (let new_val = ucast val :: u32 in
     if new_val AND VCNTR_ENABLE_MASK \<noteq> 0
     then (if orig_val AND VCNTR_ENABLE_MASK = 0 then ls_dbg_epu_bind_irq k d else Done () d)
     else (if orig_val AND VCNTR_ENABLE_MASK \<noteq> 0 then ls_dbg_epu_unbind_irq k d else Done () d))"

text \<open>Run without a break the parts are the function.\<close>

lemma ctrl_parts:
  "vcntrctrl_set k val d = on_exit (store_vcntctrl val) (ctrl_act k val (vcntctrl (vcnt d)) d)"
  by (simp add: vcntrctrl_set_def ctrl_act_def store_vcntctrl_def [abs_def] Let_def)

section \<open>Handlers\<close>

text \<open>\<open>n h\<close> is the number of handlers that the kernel has registered for the driver: a granted request adds
  one, a release takes one away, and nothing else that binding and unbinding do changes it.  The
  interrupt is shared, so that a second request is granted as well.\<close>

definition counts_handlers :: "'h kernel \<Rightarrow> ('h \<Rightarrow> nat) \<Rightarrow> bool" where
  "counts_handlers k n \<longleftrightarrow>
    (\<forall>v a h. n (iowrite32 k v a h) = n h) \<and>
    (\<forall>node i h. n (snd (irq_of_parse_and_map k node i h)) = n h) \<and>
    (\<forall>num h. n (set_irq_flags k num h) = n h) \<and> (\<forall>h. n (flush_scheduled_work k h) = n h) \<and>
    (\<forall>num node h. n (snd (request_irq k num node h)) =
      (if fst (request_irq k num node h) = 0 then n h + 1 else n h)) \<and>
    (\<forall>num node h. n (free_irq k num node h) = n h - 1)"

definition irq_available :: "'h kernel \<Rightarrow> bool" where
  "irq_available k \<longleftrightarrow> (\<forall>node i h. fst (irq_of_parse_and_map k node i h) \<noteq> 0) \<and>
    (\<forall>num node h. fst (request_irq k num node h) = 0)"

lemma all_epccr_handlers: "counts_handlers k n \<Longrightarrow> n (all_epccr k d val h) = n h"
  unfolding all_epccr_def by (rule fold_keeps [where I = "\<lambda>h'. n h' = n h"]) (simp_all add: counts_handlers_def)

lemma bind_adds_handler:
  assumes "epu_mapped d" and "counts_handlers k n" and "irq_available k"
  shows "\<exists>num h. ls_dbg_epu_bind_irq k d = Done () (d\<lparr>intr_num := num, hw := h\<rparr>) \<and> num \<noteq> 0 \<and> n h = n (hw d) + 1"
proof -
  obtain num h where f: "found_irq k d = (num, h)" by force
  obtain st h' where r: "requested_irq k d = (st, h')" by force
  have "num = fst (found_irq k d)" "h = snd (found_irq k d)" "st = fst (requested_irq k d)" "h' = snd (requested_irq k d)"
    by (simp_all add: f r)
  then have "num \<noteq> 0" "st = 0" "n h' = n (hw d) + 1"
    using assms(2,3)
    by (simp_all add: found_irq_def requested_irq_def cleared_status_def irq_available_def counts_handlers_def split_beta)
  then show ?thesis
    using assms(1) f r all_epccr_handlers [OF assms(2)]
    by (intro exI [of _ num] exI [of _ "all_epccr k d 0x180 h'"]) (simp add: bind_irq_eq)
qed

lemma unbind_removes_handler:
  assumes "epu_mapped d" and "counts_handlers k n"
  shows "\<exists>h. ls_dbg_epu_unbind_irq k d = Done () (d\<lparr>intr_num := 0, hw := h\<rparr>) \<and>
    n h = (if intr_num d \<noteq> 0 then n (hw d) - 1 else n (hw d))"
proof -
  let ?h = "all_epccr k d 0 (hw d)"
  have here: "n ?h = n (hw d)" by (rule all_epccr_handlers [OF assms(2)])
  show ?thesis
  proof (cases "intr_num d = 0")
    case True
    then have "d\<lparr>hw := ?h\<rparr> = d\<lparr>intr_num := 0, hw := ?h\<rparr>" by (cases d) simp
    then show ?thesis
      using assms(1) True here by (intro exI [of _ ?h]) (simp add: unbind_irq_eq release_irq_def)
  next
    case False
    let ?h' = "free_irq k (intr_num d) (find_epu_node k (hw d)) (flush_scheduled_work k ?h)"
    have "n ?h' = n (hw d) - 1" using assms(2) here by (simp add: counts_handlers_def)
    then show ?thesis
      using assms(1) False by (intro exI [of _ ?h']) (simp add: unbind_irq_eq release_irq_def)
  qed
qed

section \<open>The race\<close>

text \<open>C16: Two writers set the enable bit at once, the second reading the old value before the first stores
  the new one.  Both bind: the kernel holds two handlers for the driver.  A later write that clears the
  bit releases one of them, and so does nothing after it: the control register says disabled, the
  interrupt number is forgotten, and also the unbinding that removes the device leaves a handler of a
  driver that is gone.\<close>

theorem concurrent_enables_leak_handler:
  assumes "epu_mapped d" and "counts_handlers k n" and "irq_available k"
    and "vcntctrl (vcnt d) AND VCNTR_ENABLE_MASK = 0"
    and "ucast v AND VCNTR_ENABLE_MASK \<noteq> (0 :: u32)" and "ucast w AND VCNTR_ENABLE_MASK \<noteq> (0 :: u32)"
  shows "\<exists>d1 d2 d3 d4.
    ctrl_act k v (vcntctrl (vcnt d)) d = Done () d1 \<and>
    ctrl_act k w (vcntctrl (vcnt d)) d1 = Done () d2 \<and> n (hw d2) = n (hw d) + 2 \<and>
    vcntrctrl_set k 0 (store_vcntctrl w (store_vcntctrl v d2)) = Done () d3 \<and>
    n (hw d3) = n (hw d) + 1 \<and> vcntctrl (vcnt d3) = 0 \<and> intr_num d3 = 0 \<and>
    vcntrctrl_set k 0 d3 = Done () d3 \<and>
    ls_dbg_epu_unbind_irq k d3 = Done () d4 \<and> n (hw d4) = n (hw d) + 1"
proof -
  obtain num1 h1 where b1: "ls_dbg_epu_bind_irq k d = Done () (d\<lparr>intr_num := num1, hw := h1\<rparr>)"
      "n h1 = n (hw d) + 1"
    using bind_adds_handler [OF assms(1-3)] by blast
  let ?d1 = "d\<lparr>intr_num := num1, hw := h1\<rparr>"
  have m1: "epu_mapped ?d1" using assms(1) by (simp add: epu_mapped_def)
  obtain num2 h2 where b2: "ls_dbg_epu_bind_irq k ?d1 = Done () (?d1\<lparr>intr_num := num2, hw := h2\<rparr>)"
      "num2 \<noteq> 0" "n h2 = n h1 + 1"
    using bind_adds_handler [OF m1 assms(2,3)] by auto
  let ?d2 = "d\<lparr>intr_num := num2, hw := h2\<rparr>"
  let ?s = "store_vcntctrl w (store_vcntctrl v ?d2)"
  have s: "epu_mapped ?s" "intr_num ?s = num2" "hw ?s = h2" "vcntctrl (vcnt ?s) = ucast w"
    using assms(1) by (simp_all add: store_vcntctrl_def epu_mapped_def)
  obtain h3 where u: "ls_dbg_epu_unbind_irq k ?s = Done () (?s\<lparr>intr_num := 0, hw := h3\<rparr>)" "n h3 = n h2 - 1"
    using unbind_removes_handler [OF s(1) assms(2)] s(2,3) b2(2) by auto
  let ?d3 = "store_vcntctrl 0 (?s\<lparr>intr_num := 0, hw := h3\<rparr>)"
  have off: "vcntrctrl_set k 0 ?s = Done () ?d3"
    using assms(6) s(4) u(1) by (simp add: vcntrctrl_set_disable del: VCNTR_ENABLE_MASK_def)
  have d3: "epu_mapped ?d3" "intr_num ?d3 = 0" "hw ?d3 = h3" "vcntctrl (vcnt ?d3) = 0"
    using s(1) by (simp_all add: store_vcntctrl_def epu_mapped_def)
  have "vcntrctrl_set k 0 ?d3 = Done () (store_vcntctrl 0 ?d3)" by (rule vcntrctrl_set_same) (simp add: d3(4))
  then have again: "vcntrctrl_set k 0 ?d3 = Done () ?d3" by (simp add: store_vcntctrl_def)
  obtain h4 where r: "ls_dbg_epu_unbind_irq k ?d3 = Done () (?d3\<lparr>intr_num := 0, hw := h4\<rparr>)" "n h4 = n h3"
    using unbind_removes_handler [OF d3(1) assms(2)] d3(2,3) by auto
  have "ctrl_act k v (vcntctrl (vcnt d)) d = Done () ?d1" "ctrl_act k w (vcntctrl (vcnt d)) ?d1 = Done () ?d2"
    using assms(4-6) b1(1) b2(1) by (simp_all add: ctrl_act_def del: VCNTR_ENABLE_MASK_def)
  then show ?thesis
    using b1(2) b2(3) u(2) off d3 again r
    by (intro exI [of _ ?d1] exI [of _ ?d2] exI [of _ ?d3] exI [of _ "?d3\<lparr>intr_num := 0, hw := h4\<rparr>"]) simp
qed

text \<open>A kernel of which nothing is seen but the number of handlers, and an EPU at \<open>0x90000000\<close>.\<close>

definition counting_kernel :: "nat kernel" where
  "counting_kernel =
    \<lparr>vcnt_addr = 0x80000000, ioread32 = (\<lambda>a h. (0, h)), iowrite32 = (\<lambda>v a h. h),
     copy_reg_access = (\<lambda>p h. None), copy_reservation = (\<lambda>p h. None), get_user32 = (\<lambda>p h. None),
     copy_user64 = (\<lambda>p h. None), put_user32 = (\<lambda>v p h. None), put_user64 = (\<lambda>v p h. None),
     find_epu_node = (\<lambda>h. 1), irq_of_parse_and_map = (\<lambda>node i h. (37, h)), set_irq_flags = (\<lambda>n h. h),
     request_irq = (\<lambda>num node h. (0, h + 1)), free_irq = (\<lambda>num node h. h - 1),
     flush_scheduled_work = (\<lambda>h. h)\<rparr>"

definition counting_driver :: "nat driver" where
  "counting_driver = (initial_driver 0)\<lparr>maps := bench_maps, epu_ptr := 0x90000000\<rparr>"

lemma concurrent_enables_leak_handler_witness:
  "\<exists>d1 d2 d3. ctrl_act counting_kernel 1 0 counting_driver = Done () d1 \<and>
    ctrl_act counting_kernel 1 0 d1 = Done () d2 \<and> hw d2 = 2 \<and>
    vcntrctrl_set counting_kernel 0 (store_vcntctrl 1 (store_vcntctrl 1 d2)) = Done () d3 \<and> hw d3 = 1"
proof -
  have "epu_mapped counting_driver" "vcntctrl (vcnt counting_driver) = 0" "hw counting_driver = 0"
    by (simp_all add: counting_driver_def initial_driver_def bench_maps_def epu_mapped_def zero_vcounters_def)
  moreover have "counts_handlers counting_kernel (\<lambda>h. h)" "irq_available counting_kernel"
    by (simp_all add: counts_handlers_def irq_available_def counting_kernel_def)
  ultimately show ?thesis
    using concurrent_enables_leak_handler [of counting_driver counting_kernel "\<lambda>h. h" 1 1] by auto
qed

end
