(* ===== verification/Failed_Probe.thy ===== *)
theory Failed_Probe
  imports Ctrl_Race Load_Unload
begin

text \<open>
  A module that was loaded although its probe failed.  \<open>dcsr_module_init\<close> does not see the result of the
  probe and creates the files of the virtual counters all the same; the driver core calls \<open>dcsr_remove\<close>
  only for a device that is bound.
\<close>

lemma loaded_after_failed_probe:
  assumes "epu_node pf nodes node a" and "\<forall>h. fst (misc_register pf h) \<noteq> 0" and "linked k"
    and "dcsr_module_init k pf fs True (initial_module h0) = Done () m1"
  shows "dbg_devs m1 = [] \<and> epu_mapped (drv m1) \<and> base_addr (maps (drv m1) ! 7) = a \<and> vcntctrl (vcnt (drv m1)) = 0"
proof -
  let ?m = "on_hw (\<lambda>_. snd (platform_driver_register pf h0)) (initial_module h0)"
  let ?all = "add_all_devices pf ?m"
  have m: "wf_driver (drv ?m)" "dbg_devs ?m = []" "vcnt (drv ?m) = zero_vcounters"
    by (simp_all add: on_hw_def initial_module_def initial_driver_def wf_driver_def)
  have "dcsr_probe pf fs ?m \<noteq> Done () m'" for m'
    using assms(2) by (auto simp: dcsr_probe_def reg_access_init_def split_beta Let_def split: option.splits)
  moreover obtain m2 where m2: "ignore_ret (dcsr_probe pf fs ?m) = Done () m2" using probe_total [of pf fs ?m] by blast
  ultimately obtain e where fail: "dcsr_probe pf fs ?m = Fail e m2"
    by (cases "dcsr_probe pf fs ?m") auto
  have all: "maps (drv m2) = maps (drv ?all)" "dbg_devs m2 = []" "vcnt (drv m2) = zero_vcounters" "wf_driver (drv m2)"
    using dcsr_probe_cases [of pf fs ?m] fail map_frame_wf [OF add_all_frame m(1), of pf] add_all_frame [of ?m pf] m(3)
    by (auto simp: remove_devices_def on_hw_def wf_driver_def map_frame_def)
  have epu: "epu_mapped (drv ?all)" "base_addr (maps (drv ?all) ! 7) = a"
    using add_all_epu [OF assms(1) m(1)] m(2) by simp_all
  have "\<exists>d. vcounters_init k fs (dbgfs_root_dentry m2) (drv m2) = Done () d \<and> m1 = m2\<lparr>drv := d\<rparr>"
    using assms(4) m2 by (cases "vcounters_init k fs (dbgfs_root_dentry m2) (drv m2)")
      (auto simp: dcsr_module_init_def split_beta Let_def initial_module_def initial_driver_def on_hw_def split: if_splits)
  then obtain d where d: "vcounters_init k fs (dbgfs_root_dentry m2) (drv m2) = Done () d" "m1 = m2\<lparr>drv := d\<rparr>" by blast
  have "maps d ! 7 = maps (drv m2) ! 7" "vcnt d = vcnt (drv m2)"
    using vcounters_init_exits [OF all(4) assms(3), of fs "dbgfs_root_dentry m2"] d(1)
    by (auto dest: arg_cong [where f = vcnt])
  then show ?thesis using all epu d(2) by (simp add: epu_mapped_def zero_vcounters_def)
qed

text \<open>C19: When the character device cannot be registered, the probe fails and the device is not bound, but
  loading may succeed.  Then the map table still has the window of the event processing unit, which is
  unmapped; enabling the virtual counters through their file writes to it and binds the interrupt; and
  unloading the module does nothing but unregister the driver: the interrupt is not freed, its handler is
  in a module that is gone, and the files of the virtual counters are not removed.\<close>

theorem unload_after_failed_probe_keeps_handler:
  assumes "epu_node pf nodes node a" and "\<forall>h. fst (misc_register pf h) \<noteq> 0" and "linked k"
    and "dcsr_module_init k pf fs True (initial_module h0) = Done () m1"
    and "counts_handlers k n" and "irq_available k" and "\<forall>h. n (platform_driver_unregister pf h) = n h"
    and "ucast v AND VCNTR_ENABLE_MASK \<noteq> (0 :: u32)"
  shows "dbg_devs m1 = [] \<and> base_addr (maps (drv m1) ! 7) = a \<and>
    (\<exists>d m2. vcntrctrl_set k v (drv m1) = Done () d \<and> n (hw d) = n (hw (drv m1)) + 1 \<and>
      dcsr_module_exit k pf False (m1\<lparr>drv := d\<rparr>) = Done () m2 \<and>
      hw (drv m2) = platform_driver_unregister pf (hw d) \<and>
      n (hw (drv m2)) = n (hw (drv m1)) + 1 \<and> intr_num (drv m2) \<noteq> 0)"
proof -
  have m1: "dbg_devs m1 = []" "epu_mapped (drv m1)" "base_addr (maps (drv m1) ! 7) = a" "vcntctrl (vcnt (drv m1)) = 0"
    using loaded_after_failed_probe [OF assms(1-4)] by simp_all
  obtain num h where b: "ls_dbg_epu_bind_irq k (drv m1) = Done () ((drv m1)\<lparr>intr_num := num, hw := h\<rparr>)" "num \<noteq> 0"
      "n h = n (hw (drv m1)) + 1"
    using bind_adds_handler [OF m1(2) assms(5,6)] by blast
  let ?d = "store_vcntctrl v ((drv m1)\<lparr>intr_num := num, hw := h\<rparr>)"
  have "vcntrctrl_set k v (drv m1) = Done () ?d"
    using assms(8) m1(4) b(1) by (simp add: vcntrctrl_set_enable del: VCNTR_ENABLE_MASK_def)
  moreover have "hw ?d = h" "intr_num ?d = num" by (simp_all add: store_vcntctrl_def)
  ultimately show ?thesis
    using m1(1,3) b(2,3) assms(7)
    by (intro conjI exI [of _ ?d] exI [of _ "on_hw (platform_driver_unregister pf) (m1\<lparr>drv := ?d\<rparr>)"])
      (simp_all add: dcsr_module_exit_def on_hw_def)
qed

text \<open>A system with one event processing unit on which the name of the character device is taken; a debugfs
  that creates everything.\<close>

definition busy_platform :: "nat platform" where
  "busy_platform =
    \<lparr>compatible_nodes = (\<lambda>c h. bench_nodes c), kzalloc_dev = (\<lambda>h. (True, h)),
     of_iomap = (\<lambda>n i h. (one_range n i, h)), range_size = (\<lambda>n i h. 0x1000), iounmap = (\<lambda>p h. h),
     misc_register = (\<lambda>h. (16, h)), misc_deregister = (\<lambda>h. h),
     debugfs_remove_recursive = (\<lambda>r h. h), platform_driver_register = (\<lambda>h. (0, h)),
     platform_driver_unregister = (\<lambda>h. h)\<rparr>"

lemma busy_platform_loads:
  "\<exists>m1. dcsr_module_init counting_kernel busy_platform null_debugfs True (initial_module 0) = Done () m1"
proof -
  let ?pf = "busy_platform\<lparr>misc_register := (\<lambda>h. (0, h))\<rparr>"
  have "services_succeed ?pf null_debugfs" by (simp add: services_succeed_def null_debugfs_def busy_platform_def)
  note vc = vcounters_init_succeeds [OF this, of counting_kernel]
  obtain m2 where m2: "ignore_ret (dcsr_probe busy_platform null_debugfs (initial_module 0)) = Done () m2"
    using probe_total [of busy_platform null_debugfs "initial_module 0"] by blast
  have reg: "platform_driver_register busy_platform h = (0, h)" for h by (simp add: busy_platform_def)
  have "on_hw (\<lambda>_. hw (drv (initial_module 0))) (initial_module 0) = (initial_module 0 :: nat module)"
    by (simp add: on_hw_def initial_module_def initial_driver_def)
  then show ?thesis
    using vc [of "dbgfs_root_dentry m2" "drv m2"] m2
    by (cases "vcounters_init counting_kernel null_debugfs (dbgfs_root_dentry m2) (drv m2)")
      (simp_all add: dcsr_module_init_def reg Let_def)
qed

lemma unload_after_failed_probe_keeps_handler_witness:
  "\<exists>m1 d m2. dcsr_module_init counting_kernel busy_platform null_debugfs True (initial_module 0) = Done () m1 \<and>
    dbg_devs m1 = [] \<and> vcntrctrl_set counting_kernel 1 (drv m1) = Done () d \<and>
    dcsr_module_exit counting_kernel busy_platform False (m1\<lparr>drv := d\<rparr>) = Done () m2 \<and>
    hw (drv m2) = hw (drv m1) + 1"
proof -
  obtain m1 where m1: "dcsr_module_init counting_kernel busy_platform null_debugfs True (initial_module 0) = Done () m1"
    using busy_platform_loads by blast
  have "epu_node busy_platform bench_nodes 0x90000000 0x90000000"
    by (simp add: epu_node_def busy_platform_def bench_nodes_def one_range_def)
  moreover have "counts_handlers counting_kernel (\<lambda>h. h)" "irq_available counting_kernel" "linked counting_kernel"
    by (simp_all add: counts_handlers_def irq_available_def counting_kernel_def linked_def)
  moreover have "\<forall>h. fst (misc_register busy_platform h) \<noteq> 0" "\<forall>h. platform_driver_unregister busy_platform h = h"
    by (simp_all add: busy_platform_def)
  ultimately show ?thesis
    using unload_after_failed_probe_keeps_handler [OF _ _ _ m1, of bench_nodes "0x90000000" "0x90000000" "\<lambda>h. h" 1] m1 by auto
qed

end
