(* ===== verification/Rebind.thy ===== *)
theory Rebind
  imports Load_Unload
begin

text \<open>
  Binding the device again.  An administrator can unbind the device from the driver and bind it again
  while the module stays loaded: the driver core calls \<open>dcsr_remove\<close> and \<open>dcsr_probe\<close>, but not
  \<open>dcsr_module_init\<close>, which alone creates the files of the virtual counters.
\<close>

section \<open>A probe creates no directory of virtual counters\<close>

text \<open>The debugfs that refuses this one directory: a probe does not notice the difference.\<close>

definition elsewhere :: "'h debugfs \<Rightarrow> 'h debugfs" where
  "elsewhere fs = fs\<lparr>debugfs_create_dir := (\<lambda>name p h.
    if name = DEBUGFS_VCOUNTERS_NAME then (None, h) else debugfs_create_dir fs name p h)\<rparr>"

lemma create_dir_elsewhere:
  "name \<noteq> DEBUGFS_VCOUNTERS_NAME \<Longrightarrow> CREATE_CURRENT_DBGFS_DIR (elsewhere fs) parent name = CREATE_CURRENT_DBGFS_DIR fs parent name"
  by (simp add: fun_eq_iff CREATE_CURRENT_DBGFS_DIR_def elsewhere_def)

lemma create_indexed_elsewhere:
  "name \<noteq> [] \<Longrightarrow> hd name \<noteq> CHR ''v'' \<Longrightarrow>
    CREATE_CURRENT_DBGFS_DIR_INDEXED (elsewhere fs) parent name = CREATE_CURRENT_DBGFS_DIR_INDEXED fs parent name"
  by (cases name) (auto simp: fun_eq_iff CREATE_CURRENT_DBGFS_DIR_INDEXED_def create_dir_elsewhere)

lemma create_core_elsewhere:
  "CREATE_CURRENT_DBGFS_DIR (elsewhere fs) parent (name_of (Printed ''core'' j)) =
    CREATE_CURRENT_DBGFS_DIR fs parent (name_of (Printed ''core'' j))"
  by (rule create_dir_elsewhere) simp

lemma create_x32_elsewhere: "DBGFS_CREATE_X32 (elsewhere fs) = DBGFS_CREATE_X32 fs"
  by (simp add: fun_eq_iff DBGFS_CREATE_X32_def elsewhere_def)

lemma create_files_elsewhere: "create_files (elsewhere fs) = create_files fs"
  by (intro ext) (simp add: create_files_def create_x32_elsewhere)

lemma dbgfs_init_elsewhere: "call_dbgfs_init fn (elsewhere fs) = call_dbgfs_init fn fs"
  by (cases fn; intro ext)
    (simp_all add: init_defs(1-7) create_core_elsewhere create_dir_elsewhere create_indexed_elsewhere create_files_elsewhere
      del: name_of.simps cong: if_cong)

lemma dbgfs_inits_elsewhere: "dbgfs_inits (elsewhere fs) root devs d = dbgfs_inits fs root devs d"
  by (induction devs arbitrary: d) (simp_all add: dbgfs_init_elsewhere split: result.split)

lemma probe_elsewhere: "dcsr_probe pf (elsewhere fs) m = dcsr_probe pf fs m"
proof -
  have "debugfs_create_dir (elsewhere fs) ''ls-dbg'' = debugfs_create_dir fs ''ls-dbg''"
    by (simp add: elsewhere_def fun_eq_iff)
  then show ?thesis unfolding dcsr_probe_def dbgfs_inits_elsewhere by (simp only:)
qed

section \<open>Unbinding and binding\<close>

text \<open>C20: Unbinding the device from the driver, in whatever state, succeeds and removes the files of the virtual
  counters with the root directory they are in (\<open>present\<close> says that they exist); binding it again returns,
  and whether it succeeds or not it does not bring them back, although the module was loaded all the time.\<close>

theorem rebinding_loses_virtual_counters:
  fixes pf :: "'h platform"
  assumes "services_keep (\<lambda>h. \<not> present h) pf (elsewhere fs)"
    and "\<forall>h. \<not> present (debugfs_remove_recursive pf (dbgfs_root_dentry m) h)"
  shows "\<exists>m1. dcsr_remove k pf m = Done () m1 \<and> \<not> present (hw (drv m1)) \<and>
    holds (\<lambda>_ m2. \<not> present (hw (drv m2))) (\<lambda>e m2. \<not> present (hw (drv m2))) (dcsr_probe pf fs m1)"
proof -
  let ?J = "\<lambda>h. \<not> present h"
  obtain d :: "'h driver" and m1 where rem: "dcsr_remove k pf m = Done () m1"
      "hw (drv m1) = misc_deregister pf (fold (unmap_device pf) (dbg_devs m)
        (debugfs_remove_recursive pf (dbgfs_root_dentry m) (hw d)))"
    using remove_unbinds [of k pf m] by blast
  have gone: "\<not> present (hw (drv m1))"
    unfolding rem(2) by (rule service_keeps(5) [OF assms(1)], rule unmap_devices_keep [OF assms(1)]) (simp add: assms(2))
  have "stays False (\<lambda>m. \<not> present (hw (drv m))) (dcsr_probe pf fs m1)"
    using probe_keeps_hw [OF assms(1) gone] by (simp add: probe_elsewhere)
  then show ?thesis
    using rem(1) gone probe_total [of pf fs m1] by (intro exI [of _ m1]) (cases "dcsr_probe pf fs m1"; simp)
qed

text \<open>On a debugfs that records what it creates: the list of what exists, emptied with the root directory.\<close>

definition rebind_platform :: "made list platform" where
  "rebind_platform =
    \<lparr>compatible_nodes = (\<lambda>c h. bench_nodes c), kzalloc_dev = (\<lambda>h. (True, h)),
     of_iomap = (\<lambda>n i h. (one_range n i, h)), range_size = (\<lambda>n i h. 0x1000), iounmap = (\<lambda>p h. h),
     misc_register = (\<lambda>h. (0, h)), misc_deregister = (\<lambda>h. h),
     debugfs_remove_recursive = (\<lambda>r h. []), platform_driver_register = (\<lambda>h. (0, h)),
     platform_driver_unregister = (\<lambda>h. h)\<rparr>"

definition has_vcounters :: "made list \<Rightarrow> bool" where
  "has_vcounters h \<longleftrightarrow> (\<exists>p. Made_dir DEBUGFS_VCOUNTERS_NAME p \<in> set h)"

lemma rebind_services:
  "services_succeed rebind_platform rec_debugfs"
  "services_keep (\<lambda>h. \<not> has_vcounters h) rebind_platform (elsewhere rec_debugfs)"
  by (auto simp: services_succeed_def services_keep_def rebind_platform_def rec_debugfs_def elsewhere_def has_vcounters_def)

text \<open>Once the directory is created nothing in the rest of \<open>vcounters_init\<close> removes it.\<close>

lemma vcounters_init_shows:
  fixes k :: "made list kernel"
  shows "stays True (\<lambda>d. has_vcounters (hw d)) (vcounters_init k rec_debugfs q d)"
proof -
  let ?h = "hw d @ [Made_dir DEBUGFS_VCOUNTERS_NAME q]"
  let ?fs = "rec_debugfs\<lparr>debugfs_create_dir := (\<lambda>name p h. (Some (of_nat (length (hw d)) + 1), h))\<rparr>"
  let ?pf = "rebind_platform\<lparr>debugfs_remove_recursive := (\<lambda>r h. h)\<rparr>"
  have "vcnt_file k ?fs = vcnt_file k rec_debugfs" "vcnt_x64 k ?fs = vcnt_x64 k rec_debugfs"
    by (intro ext, simp add: vcnt_file_def vcnt_x64_def)+
  moreover have "debugfs_create_dir rec_debugfs DEBUGFS_VCOUNTERS_NAME q (hw d) = (Some (of_nat (length (hw d)) + 1), ?h)"
    by (simp add: rec_debugfs_def)
  ultimately have same: "vcounters_init k rec_debugfs q d = vcounters_init k ?fs q (d\<lparr>hw := ?h\<rparr>)"
    by (simp add: vcounters_init_def)
  have "services_keep has_vcounters ?pf ?fs"
    by (auto simp: services_keep_def rebind_platform_def rec_debugfs_def has_vcounters_def)
  from vcounters_init_keeps [OF this, of "d\<lparr>hw := ?h\<rparr>"] show ?thesis
    unfolding same by (auto simp: has_vcounters_def)
qed

lemma load_shows:
  "\<exists>m. dcsr_module_init k rebind_platform rec_debugfs True (initial_module []) = Done () m \<and> has_vcounters (hw (drv m))"
proof -
  obtain m where load: "dcsr_module_init k rebind_platform rec_debugfs True (initial_module []) = Done () m"
    using module_init_succeeds [OF rebind_services(1)] by blast
  have reg: "platform_driver_register rebind_platform h = (0, h)" for h by (simp add: rebind_platform_def)
  obtain m1 where m1: "ignore_ret (dcsr_probe rebind_platform rec_debugfs
      (on_hw (\<lambda>_. hw (drv (initial_module []))) (initial_module []))) = Done () m1"
    using probe_total by blast
  show ?thesis
    using load vcounters_init_shows [of k "dbgfs_root_dentry m1" "drv m1"]
    unfolding dcsr_module_init_def reg Let_def prod.case if_True m1
    by (auto simp: m1 split: result.splits)
qed

lemma rebinding_loses_virtual_counters_witness:
  "\<forall>k. \<exists>m m1. dcsr_module_init k rebind_platform rec_debugfs True (initial_module []) = Done () m \<and>
    has_vcounters (hw (drv m)) \<and> dcsr_remove k rebind_platform m = Done () m1 \<and>
    holds (\<lambda>_ m2. \<not> has_vcounters (hw (drv m2))) (\<lambda>e m2. \<not> has_vcounters (hw (drv m2)))
      (dcsr_probe rebind_platform rec_debugfs m1)"
proof (intro allI)
  fix k :: "made list kernel"
  obtain m where m: "dcsr_module_init k rebind_platform rec_debugfs True (initial_module []) = Done () m"
      "has_vcounters (hw (drv m))"
    using load_shows by blast
  have "\<forall>h. \<not> has_vcounters (debugfs_remove_recursive rebind_platform (dbgfs_root_dentry m) h)"
    by (simp add: has_vcounters_def rebind_platform_def)
  from rebinding_loses_virtual_counters [OF rebind_services(2) this, of k] m show "\<exists>m m1.
      dcsr_module_init k rebind_platform rec_debugfs True (initial_module []) = Done () m \<and>
      has_vcounters (hw (drv m)) \<and> dcsr_remove k rebind_platform m = Done () m1 \<and>
      holds (\<lambda>_ m2. \<not> has_vcounters (hw (drv m2))) (\<lambda>e m2. \<not> has_vcounters (hw (drv m2)))
        (dcsr_probe rebind_platform rec_debugfs m1)"
    by blast
qed

end
