(* ===== verification/Dbgfs_Complete.thy ===== *)
theory Dbgfs_Complete
  imports Dbgfs_Props "HOL-Library.Multiset"
begin

text \<open>
  The tables of files are complete: a device's directory has exactly one file for each register of the
  device's struct, and no two files of the directory have the same name, which debugfs would refuse.
\<close>

section \<open>The registers of a struct\<close>

text \<open>The padding between registers has names that start with \<open>reserved\<close>.\<close>

definition is_padding :: "field \<Rightarrow> bool" where
  "is_padding f \<longleftrightarrow> take 8 (fname f) = ''reserved''"

definition registers :: "field list \<Rightarrow> (string \<times> nat) list" where
  "registers members =
    concat (map (\<lambda>f. map (Pair (fname f)) [0..<elem_count f]) (filter (Not \<circ> is_padding) members))"

definition exported :: "reg_file list \<Rightarrow> (string \<times> nat) list" where
  "exported files = map (\<lambda>rf. (member rf, index rf)) files"

section \<open>Loops as multisets\<close>

lemma mset_concat_Cons:
  "mset (concat (map (\<lambda>i. f i # g i) is)) = mset (map f is) + mset (concat (map g is))"
  by (induction "is") auto

lemma mset_concat_Nil: "concat (map (\<lambda>i. []) is) = []"
  by simp

lemma exported_parts:
  "exported [] = []" "exported (rf # files) = (member rf, index rf) # exported files"
  "exported (files @ files') = exported files @ exported files'"
  "exported (map f is) = map (\<lambda>i. (member (f i), index (f i))) is"
  "exported (concat (map g is)) = concat (map (\<lambda>i. exported (g i)) is)"
  by (simp_all add: exported_def map_concat comp_def)

lemmas table_registers = registers_def is_padding_def comp_def exported_parts mset_concat_Cons mset_concat_Nil

lemma epu_exported: "mset (exported epu_files) = mset (registers epu_v2)"
  by (simp add: table_registers epu_files_def epu_v2_def struct_eval del: upt_rec_numeral upt_Suc)

lemma etr_exported: "mset (exported etr_files) = mset (registers etr)"
  by (rule arg_cong [where f = mset]) (simp add: table_registers etr_files_def etr_def)

lemma etf_exported: "mset (exported etf_files) = mset (registers etf)"
  by (rule arg_cong [where f = mset]) (simp add: table_registers etf_files_def etf_def)

lemma cstf_exported: "mset (exported cstf_files) = mset (registers funnel)"
  by (simp add: table_registers cstf_files_def funnel_def del: upt_rec_numeral upt_Suc)

lemma etm_exported: "mset (exported etm_files) = mset (registers etm)"
  by (rule arg_cong [where f = mset]) (simp add: table_registers etm_files_def etm_def upt_conv_Cons)

lemma core_exported: "mset (exported core_files) = mset (registers core_pmu_struct)"
  by (simp add: table_registers core_files_def core_pmu_struct_def del: upt_rec_numeral upt_Suc)

section \<open>Names\<close>

text \<open>A name is its stem and the digits at its end, so that printed names can be told apart without
  printing them.\<close>

definition is_digit :: "char \<Rightarrow> bool" where
  "is_digit c \<longleftrightarrow> c \<in> set ''0123456789''"

definition name_key :: "string \<Rightarrow> string \<times> string" where
  "name_key s = (rev (dropWhile is_digit (rev s)), rev (takeWhile is_digit (rev s)))"

lemma digit_char: "n < 10 \<Longrightarrow> is_digit (char_of (48 + n))" for n :: nat
proof -
  have "list_all (\<lambda>n. is_digit (char_of (48 + n))) [0..<10]" by code_simp
  then show "n < 10 \<Longrightarrow> is_digit (char_of (48 + n))" by (simp add: list_all_iff)
qed

lemma dec_digits: "\<forall>c\<in>set (dec n). is_digit c"
proof (induction n rule: dec.induct)
  case (1 n)
  show ?case
  proof (cases "n < 10")
    case True
    then show ?thesis using digit_char [of n] by (subst dec.simps) simp
  next
    case False
    then show ?thesis using 1 digit_char [of "n mod 10"] by (subst dec.simps) simp
  qed
qed

lemma digit_inj: "m < 10 \<Longrightarrow> n < 10 \<Longrightarrow> char_of (48 + m) = (char_of (48 + n) :: char) \<longleftrightarrow> m = n" for m n :: nat
  by (auto simp: char_of_eq_iff take_bit_nat_eq_self)

lemma dec_nonempty: "dec n \<noteq> []"
  by (subst dec.simps) simp

lemma dec_inject [simp]: "dec m = dec n \<longleftrightarrow> m = n"
proof
  show "dec m = dec n \<Longrightarrow> m = n"
  proof (induction m arbitrary: n rule: dec.induct)
    case (1 m)
    have long: "length (dec i) \<noteq> 1" if "\<not> i < 10" for i
      using that dec_nonempty [of "i div 10"] by (subst dec.simps) (cases "dec (i div 10)"; simp)
    show ?case
    proof (cases "m < 10")
      case True
      then have "length (dec n) = 1" using "1.prems" length_dec_1 by metis
      then have "n < 10" using long by blast
      then show ?thesis using "1.prems" True digit_inj by (simp add: dec.simps)
    next
      case False
      then have "\<not> n < 10" using "1.prems" long length_dec_1 by metis
      then have "dec (m div 10) = dec (n div 10)" "m mod 10 = n mod 10"
        using "1.prems" False digit_inj [of "m mod 10" "n mod 10"] dec.simps [of m] dec.simps [of n] by simp_all
      then have "m div 10 = n div 10" using "1.IH" [OF False] by blast
      then show ?thesis using \<open>m mod 10 = n mod 10\<close> by (metis div_mult_mod_eq)
    qed
  qed
qed simp

lemma name_key_printed:
  "s = [] \<or> \<not> is_digit (last s) \<Longrightarrow> name_key (s @ dec n) = (s, dec n)"
proof -
  have all: "takeWhile is_digit (rev (dec n)) = rev (dec n)" using dec_digits by (simp add: takeWhile_eq_all_conv)
  show "s = [] \<or> \<not> is_digit (last s) \<Longrightarrow> name_key (s @ dec n) = (s, dec n)"
    using dec_digits [of n]
    by (cases s rule: rev_cases) (auto simp: name_key_def takeWhile_append dropWhile_append all)
qed

lemma dec_1: "n < 10 \<Longrightarrow> dec n = [char_of (48 + n)]"
  by (subst dec.simps) simp

section \<open>Loops of names\<close>

definition keys :: "reg_file list \<Rightarrow> (string \<times> string) list" where
  "keys files = map (\<lambda>rf. name_key (name_of (file_name rf))) files"

lemma keys_distinct: "distinct (keys files) \<Longrightarrow> distinct (map (\<lambda>rf. name_of (file_name rf)) files)"
  unfolding keys_def by (simp add: distinct_map inj_on_def)

lemma keys_parts:
  "keys [] = []" "keys (rf # files) = name_key (name_of (file_name rf)) # keys files"
  "keys (files @ files') = keys files @ keys files'"
  "keys (map f is) = map (\<lambda>i. name_key (name_of (file_name (f i)))) is"
  "keys (concat (map g is)) = concat (map (\<lambda>i. keys (g i)) is)"
  by (simp_all add: keys_def map_concat comp_def)

lemma distinct_concat_Cons:
  "distinct (concat (map (\<lambda>i. f i # g i) is)) \<longleftrightarrow>
    distinct (map f is) \<and> distinct (concat (map g is)) \<and> set (map f is) \<inter> set (concat (map g is)) = {}"
proof -
  have "mset (concat (map (\<lambda>i. f i # g i) is)) = mset (map f is @ concat (map g is))"
    by (simp add: mset_concat_Cons)
  from mset_eq_imp_distinct_iff [OF this] show ?thesis by simp
qed

lemma set_concat_Cons:
  "set (concat (map (\<lambda>i. f i # g i) is)) = set (map f is) \<union> set (concat (map g is))"
  by auto

lemma keys_of [simp]:
  "s \<noteq> [] \<Longrightarrow> \<not> is_digit (last s) \<Longrightarrow> name_key (name_of (Printed s n)) = (s, dec n)"
  "name_key (name_of (Literal s)) = (rev (dropWhile is_digit (rev s)), rev (takeWhile is_digit (rev s)))"
  by (simp only: name_of.simps name_key_printed simp_thms) (simp add: name_key_def)

lemmas table_names = keys_parts distinct_concat_Cons set_concat_Cons is_digit_def

lemma epu_names: "distinct (keys epu_files)"
  by (simp add: table_names epu_files_def distinct_map inj_on_def del: name_of.simps upt_rec_numeral upt_Suc) auto

lemma gdi_names_distinct: "distinct (keys gdi_files)"
  by (simp add: table_names gdi_files_def distinct_map inj_on_def del: name_of.simps upt_rec_numeral upt_Suc) auto

lemma etm_names_distinct: "distinct (keys etm_files)"
  by (simp add: table_names etm_files_def distinct_map inj_on_def del: name_of.simps upt_rec_numeral upt_Suc) auto

lemma etf_names_distinct: "distinct (keys etf_files)"
  by (simp add: table_names etf_files_def del: name_of.simps)

lemma etr_names_distinct: "distinct (keys etr_files)"
  by (simp add: table_names etr_files_def del: name_of.simps)

lemma cstf_names_distinct: "distinct (keys cstf_files)"
  by (simp add: table_names cstf_files_def distinct_map inj_on_def del: name_of.simps upt_rec_numeral upt_Suc) auto

lemma core_names_distinct: "distinct (keys core_files)"
  by (simp add: table_names core_files_def upt_conv_Cons dec_1 del: name_of.simps)

section \<open>Complete directories\<close>

text \<open>C24: For the EPU, the trace router, FIFOs, funnels and macrocells and the core monitors the table of
  files is exactly the registers of the device's struct: one file for each element of each register
  array and none for padding; every file exports four bytes that lie in the struct, and no two files
  of a directory have the same name.\<close>

theorem device_files_complete:
  "list_all (\<lambda>(members, files).
      mset (exported files) = mset (registers members) \<and>
      list_all (\<lambda>rf. file_ok members rf \<and> reg_offset members rf + 4 \<le> struct_size members) files \<and>
      distinct (map (\<lambda>rf. name_of (file_name rf)) files))
    [(epu_v2, epu_files), (etr, etr_files), (etf, etf_files), (funnel, cstf_files), (etm, etm_files),
     (core_pmu_struct, core_files)]"
  by (simp only: list.pred_inject prod.case simp_thms epu_table.table_in_struct etr_table.table_in_struct
      etf_table.table_in_struct cstf_table.table_in_struct etm_table.table_in_struct core_table.table_in_struct
      epu_exported etr_exported etf_exported cstf_exported etm_exported core_exported
      keys_distinct [OF epu_names] keys_distinct [OF etr_names_distinct] keys_distinct [OF etf_names_distinct]
      keys_distinct [OF cstf_names_distinct] keys_distinct [OF etm_names_distinct] keys_distinct [OF core_names_distinct])

text \<open>The directory of the general debug interface has no name twice either.\<close>

lemma gdi_directory: "distinct (map (\<lambda>rf. name_of (file_name rf)) gdi_files)"
  by (rule keys_distinct [OF gdi_names_distinct])

end
