(* ===== verification/Debugfs_Tree.thy ===== *)
theory Debugfs_Tree
  imports Dbgfs_Complete Load_Unload
begin

text \<open>
  A debugfs as its user sees it: a map from a directory and a name to an entry, in which a name can be
  taken once.  What the initialisations of the devices make of it: each creates the directories of its
  own kind and leaves those of the others alone.
\<close>

section \<open>The documented behaviour of debugfs\<close>

datatype entry = Dir u32 | File fmode u32

text \<open>
  \<open>look h p n\<close> is the entry \<open>n\<close> of the directory \<open>p\<close> in the state \<open>h\<close>.  Creating the driver's root directory
  gives \<open>root\<close>, empty, when its name is free.  Creating a directory in it either changes nothing, or
  the name was free and stands for a new directory, empty, whose handle no other entry has.  Creating a file in a
  directory of the driver either changes nothing, or the name was free and stands for the file.  Either can fail for
  want of memory, but the directories \<open>must\<close> and their files fail only when the name is taken.
\<close>

definition tree_debugfs :: "'h debugfs \<Rightarrow> ('h \<Rightarrow> u32 \<Rightarrow> string \<Rightarrow> entry option) \<Rightarrow> u32 \<Rightarrow> string set \<Rightarrow> bool" where
  "tree_debugfs fs look root must \<longleftrightarrow>
    (\<forall>h. look h 0 ''ls-dbg'' = None \<longrightarrow>
      (\<exists>h'. debugfs_create_dir fs ''ls-dbg'' 0 h = (Some root, h') \<and> look h' root = Map.empty)) \<and>
    (\<forall>h name. case debugfs_create_dir fs name root h of
       (None, h') \<Rightarrow> look h' = look h \<and> (name \<in> must \<longrightarrow> look h root name \<noteq> None)
     | (Some q, h') \<Rightarrow> look h root name = None \<and> q \<noteq> root \<and> look h q = Map.empty \<and>
         (\<forall>n. look h root n \<noteq> Some (Dir q)) \<and> look h' = (look h)(root := (look h root)(name \<mapsto> Dir q))) \<and>
    (\<forall>h name mode p data n. look h root n = Some (Dir p) \<longrightarrow>
      (case debugfs_create_x32 fs name mode p data h of (ok, h') \<Rightarrow>
         if ok then look h p name = None \<and> look h' = (look h)(p := (look h p)(name \<mapsto> File mode data))
         else look h' = look h \<and> (n \<in> must \<longrightarrow> look h p name \<noteq> None)))"

lemma tree_root:
  "tree_debugfs fs look root must \<Longrightarrow> look h 0 ''ls-dbg'' = None \<Longrightarrow>
    \<exists>h'. debugfs_create_dir fs ''ls-dbg'' 0 h = (Some root, h') \<and> look h' root = Map.empty"
  unfolding tree_debugfs_def by (drule conjunct1) blast

lemma tree_dir:
  assumes "tree_debugfs fs look root must" and "debugfs_create_dir fs name root h = (r, h')"
  shows "r = None \<Longrightarrow> look h' = look h" and "r = None \<Longrightarrow> name \<in> must \<Longrightarrow> look h root name \<noteq> None"
    and "r = Some q \<Longrightarrow> look h root name = None" and "r = Some q \<Longrightarrow> q \<noteq> root"
    and "r = Some q \<Longrightarrow> look h q = Map.empty" and "r = Some q \<Longrightarrow> look h root n \<noteq> Some (Dir q)"
    and "r = Some q \<Longrightarrow> look h' = (look h)(root := (look h root)(name \<mapsto> Dir q))"
  using assms(1) [unfolded tree_debugfs_def, THEN conjunct2, THEN conjunct1, rule_format, of h name,
      unfolded assms(2) prod.case]
  by simp_all

lemma tree_file:
  assumes "tree_debugfs fs look root must" and "look h root n = Some (Dir p)"
    and "debugfs_create_x32 fs name mode p data h = (ok, h')"
  shows "ok \<Longrightarrow> look h p name = None" and "ok \<Longrightarrow> look h' = (look h)(p := (look h p)(name \<mapsto> File mode data))"
    and "\<not> ok \<Longrightarrow> look h' = look h" and "\<not> ok \<Longrightarrow> n \<in> must \<Longrightarrow> look h p name \<noteq> None"
  using assms(1) [unfolded tree_debugfs_def, THEN conjunct2, THEN conjunct2, rule_format, OF assms(2),
      of name mode data, unfolded assms(3) prod.case]
  by simp_all

section \<open>What other kinds leave alone\<close>

text \<open>The names \<open>N\<close> in the root directory stand for \<open>A\<close>, and the directories among them hold \<open>X\<close>.\<close>

definition watched ::
  "('h \<Rightarrow> u32 \<Rightarrow> string \<Rightarrow> entry option) \<Rightarrow> u32 \<Rightarrow> string set \<Rightarrow> (string \<Rightarrow> entry option) \<Rightarrow>
    (u32 \<Rightarrow> string \<Rightarrow> entry option) \<Rightarrow> 'h \<Rightarrow> bool" where
  "watched look root N A X h \<longleftrightarrow>
    (\<forall>n\<in>N. look h root n = A n \<and> (\<forall>q. A n = Some (Dir q) \<longrightarrow> q \<noteq> root \<and> look h q = X q))"

lemma watched_same: "look h' = look h \<Longrightarrow> watched look root N A X h' = watched look root N A X h"
  by (simp add: watched_def)

lemma dir_watched:
  assumes "tree_debugfs fs look root must" and "debugfs_create_dir fs name root h = (Some q, h')"
    and "watched look root N A X h" and "name \<notin> N"
  shows "watched look root N A X h'" and "look h' root name = Some (Dir q)" and "q \<noteq> root"
    and "\<forall>n\<in>N. A n \<noteq> Some (Dir q)"
  using tree_dir(4,6,7) [OF assms(1,2) refl] assms(3,4) by (auto simp: watched_def)

lemma file_watched:
  assumes "tree_debugfs fs look root must" and "look h root n = Some (Dir p)"
    and "debugfs_create_x32 fs name mode p data h = (ok, h')"
    and "watched look root N A X h" and "p \<noteq> root" and "\<forall>n\<in>N. A n \<noteq> Some (Dir p)"
  shows "watched look root N A X h' \<and> look h' root n = Some (Dir p)"
proof (cases ok)
  case True
  then show ?thesis using tree_file(2) [OF assms(1-3)] assms(2,4-6) by (auto simp: watched_def)
next
  case False
  then show ?thesis using tree_file(3) [OF assms(1-3)] assms(2,4) by (simp add: watched_def)
qed

lemma files_watched:
  assumes "tree_debugfs fs look root must" and "p \<noteq> root" and "\<forall>n\<in>N. A n \<noteq> Some (Dir p)"
    and "watched look root N A X (hw (snd s))" and "look (hw (snd s)) root n = Some (Dir p)"
  shows "stays b (\<lambda>s. watched look root N A X (hw (snd s))) (create_files fs members ptr files p s)"
proof -
  have "stays b (\<lambda>s. watched look root N A X (hw (snd s)) \<and> look (hw (snd s)) root n = Some (Dir p))
      (create_files fs members ptr files p s)"
    unfolding create_files_def
  proof (rule stays_each)
    fix rf and u :: "'a dev_state"
    assume u: "watched look root N A X (hw (snd u)) \<and> look (hw (snd u)) root n = Some (Dir p)"
    obtain dev d where s: "u = (dev, d)" by force
    obtain ok h where x: "debugfs_create_x32 fs (name_of (file_name rf)) (file_mode rf) p
        (ptr + of_nat (reg_offset members rf)) (hw d) = (ok, h)" by force
    have "watched look root N A X h \<and> look h root n = Some (Dir p)"
      by (rule file_watched [OF assms(1) _ x _ assms(2,3)]) (use u in \<open>simp_all add: s\<close>)
    then show "stays b (\<lambda>s. watched look root N A X (hw (snd s)) \<and> look (hw (snd s)) root n = Some (Dir p))
      (DBGFS_CREATE_X32 fs (file_name rf) (file_mode rf) p (ptr + of_nat (reg_offset members rf)) u)"
      by (cases ok) (simp_all add: DBGFS_CREATE_X32_def s x)
  qed (simp add: assms(4,5))
  then show ?thesis by (rule stays_mono) auto
qed

lemma directory_watched:
  assumes "tree_debugfs fs look root must" and "name \<notin> N" and "watched look root N A X (hw (snd s))"
  shows "stays b (\<lambda>s. watched look root N A X (hw (snd s)))
    (and_then (CREATE_CURRENT_DBGFS_DIR fs root name s) (create_files fs members ptr files))"
proof -
  obtain dev d where s: "s = (dev, d)" by force
  obtain r h where r: "debugfs_create_dir fs name root (hw d) = (r, h)" by force
  show ?thesis
  proof (cases r)
    case None
    have "watched look root N A X h"
      using watched_same [where look = look, OF tree_dir(1) [OF assms(1) r None]] assms(3) by (simp add: s)
    then show ?thesis by (simp add: CREATE_CURRENT_DBGFS_DIR_def s r None)
  next
    case (Some q)
    have w: "watched look root N A X (hw d)" using assms(3) by (simp add: s)
    note new = dir_watched [OF assms(1) r [unfolded Some] w assms(2)]
    have "stays b (\<lambda>s. watched look root N A X (hw (snd s)))
        (create_files fs members ptr files q (dev\<lparr>current_dentry := q\<rparr>, d\<lparr>hw := h\<rparr>))"
      by (rule files_watched [OF assms(1) new(3,4), where n = name]) (simp_all add: new(1,2))
    then show ?thesis by (simp add: CREATE_CURRENT_DBGFS_DIR_def s r Some)
  qed
qed

text \<open>The directories that an initialisation creates.\<close>

fun dir_names :: "dbgfs_init_fn \<Rightarrow> string set" where
  "dir_names Init_etf = {''etf0'', ''etf1''}"
| "dir_names Init_etr = {''etr''}"
| "dir_names Init_etm = {''etm0'', ''etm1''}"
| "dir_names Init_cstf = {''cstf0'', ''cstf1''}"
| "dir_names Init_epu = {''epu''}"
| "dir_names Init_gdi = {''gdi''}"
| "dir_names Init_core = {''core0'', ''core1''}"

lemma dir_names_disjoint: "f \<noteq> g \<Longrightarrow> n \<in> dir_names f \<Longrightarrow> n \<notin> dir_names g"
  by (cases f; cases g) auto

lemma init_watched:
  assumes "tree_debugfs fs look root must" and "watched look root N A X (hw (snd s))" and "\<forall>n\<in>dir_names fn. n \<notin> N"
  shows "stays b (\<lambda>s. watched look root N A X (hw (snd s))) (call_dbgfs_init fn fs root s)"
proof -
  have dir: "stays b (\<lambda>s. watched look root N A X (hw (snd s)))
      (and_then (CREATE_CURRENT_DBGFS_DIR fs root name u) (create_files fs members ptr files))"
    if "watched look root N A X (hw (snd u))" "name \<in> dir_names fn" for u name members ptr files
    by (rule directory_watched [OF assms(1) _ that(1)]) (use that(2) assms(3) in blast)
  obtain dev d where s: "s = (dev, d)" by force
  have w: "watched look root N A X (hw d)" using assms(2) by (simp add: s)
  show ?thesis
  proof (cases fn)
    case Init_etf
    show ?thesis unfolding Init_etf call_dbgfs_init.simps dcsr_etf_ls1_init_def CREATE_CURRENT_DBGFS_DIR_INDEXED_def Let_def
      by (rule stays_each, rule assms(2), rule dir) (auto simp: dec_01 less_2_cases_iff Init_etf)
  next
    case Init_etr
    show ?thesis unfolding Init_etr call_dbgfs_init.simps dcsr_etr_ls1_init_def Let_def
      by (rule dir [OF assms(2)]) (simp add: Init_etr)
  next
    case Init_etm
    show ?thesis unfolding Init_etm call_dbgfs_init.simps dcsr_etm_ls1_init_def CREATE_CURRENT_DBGFS_DIR_INDEXED_def Let_def
      by (rule stays_each, rule assms(2), rule dir) (auto simp: dec_01 less_2_cases_iff Init_etm)
  next
    case Init_cstf
    show ?thesis unfolding Init_cstf call_dbgfs_init.simps dcsr_cstf_ls1_init_def CREATE_CURRENT_DBGFS_DIR_INDEXED_def Let_def
      by (rule stays_each, rule assms(2), rule dir) (auto simp: dec_01 less_2_cases_iff Init_cstf)
  next
    case Init_epu
    show ?thesis unfolding Init_epu call_dbgfs_init.simps dcsr_epu_ls1_init_def Let_def s prod.case
      by (rule dir) (simp_all add: Init_epu w)
  next
    case Init_gdi
    show ?thesis unfolding Init_gdi call_dbgfs_init.simps dcsr_gdi_ls1_init_def Let_def
      by (rule dir [OF assms(2)]) (simp add: Init_gdi)
  next
    case Init_core
    show ?thesis unfolding Init_core call_dbgfs_init.simps dcsr_core_ls1_init_def Let_def
      by (rule stays_each, rule assms(2), rule stays_if, simp, rule dir) (auto simp: dec_01 less_2_cases_iff Init_core)
  qed
qed

end
