(* ===== verification/Dbgfs_Twice.thy ===== *)
theory Dbgfs_Twice
  imports Debugfs_Tree
begin

text \<open>
  Several nodes of one kind in the device tree.  The initialisation of a trace macrocell creates the
  directories \<open>etm0\<close> and \<open>etm1\<close>, whatever the node; for the next node debugfs refuses them, because
  they exist.  The same holds of the funnels.
\<close>

section \<open>Two directories\<close>

text \<open>The loop of \<open>dcsr_etm_ls1_init\<close> and \<open>dcsr_cstf_ls1_init\<close>.\<close>

definition two_dirs ::
  "'h debugfs \<Rightarrow> u32 \<Rightarrow> string \<Rightarrow> field list \<Rightarrow> reg_file list \<Rightarrow> 'h dev_state \<Rightarrow> (unit, 'h dev_state) result" where
  "two_dirs fs parent name members files s =
    (let ptr = mem_ptr (fst s) ! 0 in
     each (\<lambda>k s. and_then (CREATE_CURRENT_DBGFS_DIR_INDEXED fs parent name k s) (create_files fs members ptr files)) [0..<2] s)"

lemma two_dirs_inits:
  "dcsr_etm_ls1_init fs parent = two_dirs fs parent DEBUGFS_ETM_NAME etm etm_files"
  "dcsr_cstf_ls1_init fs parent = two_dirs fs parent DEBUGFS_CSTF_NAME funnel cstf_files"
  by (simp_all add: fun_eq_iff two_dirs_def dcsr_etm_ls1_init_def dcsr_cstf_ls1_init_def)

text \<open>What a directory with the registers at \<open>ptr\<close> holds, by name.\<close>

definition reg_entries :: "field list \<Rightarrow> reg_file list \<Rightarrow> u32 \<Rightarrow> string \<Rightarrow> entry option" where
  "reg_entries members files ptr = map_of (map (\<lambda>rf.
    (name_of (file_name rf), File (file_mode rf) (ptr + of_nat (reg_offset members rf)))) files)"

text \<open>Both directories exist and hold exactly the registers at \<open>ptr\<close>.\<close>

definition node_shown ::
  "('h \<Rightarrow> u32 \<Rightarrow> string \<Rightarrow> entry option) \<Rightarrow> u32 \<Rightarrow> string \<Rightarrow> field list \<Rightarrow> reg_file list \<Rightarrow> u32 \<Rightarrow> 'h \<Rightarrow> bool" where
  "node_shown look root name members files ptr h \<longleftrightarrow>
    (\<exists>q0 q1. look h root (name @ ''0'') = Some (Dir q0) \<and> look h root (name @ ''1'') = Some (Dir q1) \<and>
      q0 \<noteq> root \<and> q1 \<noteq> root \<and>
      look h q0 = reg_entries members files ptr \<and> look h q1 = reg_entries members files ptr)"

lemma all_files_created:
  assumes "tree_debugfs fs look root must" and "n \<in> must" and "p \<noteq> root"
  shows "look (hw d) root n = Some (Dir p) \<Longrightarrow>
    \<forall>rf\<in>set files. in_buffer (file_name rf) \<and> look (hw d) p (name_of (file_name rf)) = None \<Longrightarrow>
    distinct (map (\<lambda>rf. name_of (file_name rf)) files) \<Longrightarrow>
    \<exists>h. create_files fs members ptr files p (dev, d) = Done () (dev, d\<lparr>hw := h\<rparr>) \<and>
      look h = (look (hw d))(p := look (hw d) p ++ reg_entries members files ptr)"
  unfolding create_files_def
proof (induction files arbitrary: d)
  case Nil
  then show ?case by (intro exI [of _ "hw d"]) (simp add: reg_entries_def)
next
  case (Cons rf files)
  let ?name = "name_of (file_name rf)" and ?a = "ptr + of_nat (reg_offset members rf)"
  obtain ok h where x: "debugfs_create_x32 fs ?name (file_mode rf) p ?a (hw d) = (ok, h)" by force
  note created = tree_file [OF assms(1) Cons.prems(1) x]
  have ok: ok using created(4) assms(2) Cons.prems(2) by auto
  then have h: "look h = (look (hw d))(p := (look (hw d) p)(?name \<mapsto> File (file_mode rf) ?a))" by (rule created(2))
  let ?d = "d\<lparr>hw := h\<rparr>"
  have "look (hw ?d) root n = Some (Dir p)" using Cons.prems(1) assms(3) by (simp add: h)
  moreover have "\<forall>rf'\<in>set files. in_buffer (file_name rf') \<and> look (hw ?d) p (name_of (file_name rf')) = None"
    using Cons.prems(2,3) by (auto simp: h image_iff)
  ultimately obtain h' where rest:
      "each (\<lambda>rf. DBGFS_CREATE_X32 fs (file_name rf) (file_mode rf) p (ptr + of_nat (reg_offset members rf))) files (dev, ?d) =
        Done () (dev, ?d\<lparr>hw := h'\<rparr>)"
      "look h' = (look (hw ?d))(p := look (hw ?d) p ++ reg_entries members files ptr)"
    using Cons.IH [of ?d] Cons.prems(3) unfolding list.map distinct.simps by blast
  have "?name \<notin> dom (reg_entries members files ptr)"
    using Cons.prems(3) by (auto simp: reg_entries_def dom_map_of_conv_image_fst image_image)
  then have "look h' = (look (hw d))(p := look (hw d) p ++ reg_entries members (rf # files) ptr)"
    by (simp add: rest(2) h reg_entries_def map_add_upd_left)
  moreover have "DBGFS_CREATE_X32 fs (file_name rf) (file_mode rf) p ?a (dev, d) = Done () (dev, ?d)"
    using ok Cons.prems(2) by (simp add: DBGFS_CREATE_X32_def x)
  ultimately show ?case using rest(1) by (intro exI [of _ h']) simp
qed

lemma directory_created:
  assumes "tree_debugfs fs look root must" and "n \<in> must" and "look (hw d) root n = None"
    and "\<forall>rf\<in>set files. in_buffer (file_name rf)" and "distinct (map (\<lambda>rf. name_of (file_name rf)) files)"
  shows "\<exists>q dev' h. and_then (CREATE_CURRENT_DBGFS_DIR fs root n (dev, d)) (create_files fs members ptr files) =
      Done () (dev', d\<lparr>hw := h\<rparr>) \<and> mem_ptr dev' = mem_ptr dev \<and> q \<noteq> root \<and> (\<forall>n'. look (hw d) root n' \<noteq> Some (Dir q)) \<and>
    look h = (look (hw d))(root := (look (hw d) root)(n \<mapsto> Dir q), q := reg_entries members files ptr)"
proof -
  obtain r h where r: "debugfs_create_dir fs n root (hw d) = (r, h)" by force
  then obtain q where q: "r = Some q" using tree_dir(2) [OF assms(1) r _ assms(2)] assms(3) by (cases r) auto
  note new = tree_dir(3-7) [OF assms(1) r q]
  have at: "look (hw (d\<lparr>hw := h\<rparr>)) root n = Some (Dir q)" "look (hw (d\<lparr>hw := h\<rparr>)) q = Map.empty"
    using new(2,3) by (simp_all add: new(5))
  obtain h' where "create_files fs members ptr files q (dev\<lparr>current_dentry := q\<rparr>, d\<lparr>hw := h\<rparr>) =
      Done () (dev\<lparr>current_dentry := q\<rparr>, d\<lparr>hw := h\<rparr>\<lparr>hw := h'\<rparr>)"
      "look h' = (look (hw (d\<lparr>hw := h\<rparr>)))(q := look (hw (d\<lparr>hw := h\<rparr>)) q ++ reg_entries members files ptr)"
    using all_files_created [OF assms(1,2) new(2) at(1), of files members ptr "dev\<lparr>current_dentry := q\<rparr>"] assms(4,5) at(2)
    by auto
  then show ?thesis
    using new(2,4) at(2)
    by (intro exI [of _ q] exI [of _ "dev\<lparr>current_dentry := q\<rparr>"] exI [of _ h'])
      (simp add: CREATE_CURRENT_DBGFS_DIR_def r q new(5))
qed

lemma indexed_names:
  "length name < 10 \<Longrightarrow> CREATE_CURRENT_DBGFS_DIR_INDEXED fs p name 0 = CREATE_CURRENT_DBGFS_DIR fs p (name @ ''0'')"
  "length name < 10 \<Longrightarrow> CREATE_CURRENT_DBGFS_DIR_INDEXED fs p name (Suc 0) = CREATE_CURRENT_DBGFS_DIR fs p (name @ ''1'')"
  by (simp_all add: fun_eq_iff CREATE_CURRENT_DBGFS_DIR_INDEXED_def dec_01)

text \<open>The first initialisation of the kind creates both directories.\<close>

lemma first_node_shown:
  assumes "tree_debugfs fs look root must" and "{name @ ''0'', name @ ''1''} \<subseteq> must" and "length name < 10"
    and "look (hw d) root (name @ ''0'') = None" and "look (hw d) root (name @ ''1'') = None"
    and "\<forall>rf\<in>set files. in_buffer (file_name rf)" and "distinct (map (\<lambda>rf. name_of (file_name rf)) files)"
  shows "\<exists>dev' h. two_dirs fs root name members files (dev, d) = Done () (dev', d\<lparr>hw := h\<rparr>) \<and>
    node_shown look root name members files (mem_ptr dev ! 0) h"
proof -
  let ?ptr = "mem_ptr dev ! 0"
  obtain q0 dev0 h0 where c0: "and_then (CREATE_CURRENT_DBGFS_DIR fs root (name @ ''0'') (dev, d)) (create_files fs members ?ptr files) =
      Done () (dev0, d\<lparr>hw := h0\<rparr>)" "q0 \<noteq> root"
      "look h0 = (look (hw d))(root := (look (hw d) root)(name @ ''0'' \<mapsto> Dir q0), q0 := reg_entries members files ?ptr)"
    using directory_created [OF assms(1) _ assms(4,6,7)] assms(2) by blast
  have "look (hw (d\<lparr>hw := h0\<rparr>)) root (name @ ''1'') = None" using c0(2) assms(5) by (simp add: c0(3))
  then obtain q1 dev1 h1 where c1: "and_then (CREATE_CURRENT_DBGFS_DIR fs root (name @ ''1'') (dev0, d\<lparr>hw := h0\<rparr>))
        (create_files fs members ?ptr files) = Done () (dev1, d\<lparr>hw := h0\<rparr>\<lparr>hw := h1\<rparr>)" "q1 \<noteq> root"
      "\<forall>n'. look h0 root n' \<noteq> Some (Dir q1)"
      "look h1 = (look h0)(root := (look h0 root)(name @ ''1'' \<mapsto> Dir q1), q1 := reg_entries members files ?ptr)"
    using directory_created [OF assms(1) _ _ assms(6,7), of "name @ ''1''" "d\<lparr>hw := h0\<rparr>" dev0 members ?ptr] assms(2)
    by auto
  have at0: "look h0 root (name @ ''0'') = Some (Dir q0)" "look h0 q0 = reg_entries members files ?ptr"
    using c0(2) by (simp_all add: c0(3))
  have "q0 \<noteq> q1" using c1(3) at0(1) by blast
  then have "node_shown look root name members files ?ptr h1"
    unfolding node_shown_def
    using c0(2) c1(2) at0 by (intro exI [of _ q0] exI [of _ q1]) (simp add: c1(4))
  then show ?thesis
    using c0(1) c1(1)
    by (intro exI [of _ dev1] exI [of _ h1]) (simp add: two_dirs_def numeral_2_eq_2 indexed_names assms(3))
qed

text \<open>A later one fails at once and changes nothing.\<close>

lemma second_node_refused:
  assumes "tree_debugfs fs look root must" and "length name < 10" and "node_shown look root name members files ptr (hw d)"
  shows "\<exists>h. two_dirs fs root name members' files' (dev, d) = Fail ENOMEM (dev, d\<lparr>hw := h\<rparr>) \<and> look h = look (hw d)"
proof -
  obtain r h where r: "debugfs_create_dir fs (name @ ''0'') root (hw d) = (r, h)" by force
  have "look (hw d) root (name @ ''0'') \<noteq> None" using assms(3) by (auto simp: node_shown_def)
  then have none: "r = None" using tree_dir(3) [OF assms(1) r] by (cases r) auto
  then show ?thesis
    using tree_dir(1) [OF assms(1) r]
    by (intro exI [of _ h]) (simp add: two_dirs_def numeral_2_eq_2 indexed_names assms(2) CREATE_CURRENT_DBGFS_DIR_def r)
qed

lemma shown_watched:
  "node_shown look root name members files ptr h \<Longrightarrow>
    watched look root {name @ ''0'', name @ ''1''} (look h root) (\<lambda>_. reg_entries members files ptr) h"
  by (auto simp: node_shown_def watched_def)

lemma watched_shown:
  assumes "node_shown look root name members files ptr h"
    and "watched look root {name @ ''0'', name @ ''1''} (look h root) (\<lambda>_. reg_entries members files ptr) h'"
  shows "node_shown look root name members files ptr h'"
  using assms by (auto simp: node_shown_def watched_def)

section \<open>All devices of a probe\<close>

text \<open>A kind of device with two directories, its callback and its table.\<close>

definition two_kind :: "dbgfs_init_fn \<Rightarrow> string \<Rightarrow> field list \<Rightarrow> reg_file list \<Rightarrow> bool" where
  "two_kind fn name members files \<longleftrightarrow>
    fn = Init_etm \<and> name = ''etm'' \<and> members = etm \<and> files = etm_files \<or>
    fn = Init_cstf \<and> name = ''cstf'' \<and> members = funnel \<and> files = cstf_files"

definition two_names :: "string set" where
  "two_names = {''etm0'', ''etm1'', ''cstf0'', ''cstf1''}"

lemma two_kind:
  assumes "two_kind fn name members files"
  shows "call_dbgfs_init fn fs root = two_dirs fs root name members files"
    and "dir_names fn = {name @ ''0'', name @ ''1''}" and "{name @ ''0'', name @ ''1''} \<subseteq> two_names"
    and "length name < 10" and "\<forall>rf\<in>set files. in_buffer (file_name rf)"
    and "distinct (map (\<lambda>rf. name_of (file_name rf)) files)"
  using assms etm_names cstf_names keys_distinct [OF etm_names_distinct] keys_distinct [OF cstf_names_distinct]
  by (auto simp: two_kind_def two_dirs_inits two_names_def)

lemma init_watched_driver:
  assumes "tree_debugfs fs look root must" and "watched look root N A X (hw d)" and "\<forall>n\<in>dir_names (init_fn dev). n \<notin> N"
  shows "\<exists>dev' d'. ignore_ret (call_dbgfs_init (init_fn dev) fs root (dev, d)) = Done () (dev', d') \<and>
    watched look root N A X (hw d')"
proof -
  have "stays False (\<lambda>s. watched look root N A X (hw (snd s))) (call_dbgfs_init (init_fn dev) fs root (dev, d))"
    by (rule init_watched [OF assms(1) _ assms(3)]) (simp add: assms(2))
  then show ?thesis
    using dbgfs_init_exits [where fn = "init_fn dev" and fs = fs and parent = root and dev = dev and d = d]
    by (cases "call_dbgfs_init (init_fn dev) fs root (dev, d)") auto
qed

text \<open>After one node of the kind: the directories stay as they are.\<close>

lemma inits_after:
  assumes tree: "tree_debugfs fs look root two_names" and kind: "two_kind fn name members files"
  shows "node_shown look root name members files ptr (hw d) \<Longrightarrow>
    \<exists>devs' d'. dbgfs_inits fs root devs d = Done devs' d' \<and> node_shown look root name members files ptr (hw d')"
proof (induction devs arbitrary: d)
  case (Cons dev devs)
  note k = two_kind [OF kind]
  have "\<exists>dev' d'. ignore_ret (call_dbgfs_init (init_fn dev) fs root (dev, d)) = Done () (dev', d') \<and>
      node_shown look root name members files ptr (hw d')"
  proof (cases "init_fn dev = fn")
    case True
    obtain h where "two_dirs fs root name members files (dev, d) = Fail ENOMEM (dev, d\<lparr>hw := h\<rparr>)" "look h = look (hw d)"
      using second_node_refused [OF tree k(4) Cons.prems] by blast
    then show ?thesis using Cons.prems by (simp add: True k(1) node_shown_def)
  next
    case False
    then have "\<forall>n\<in>dir_names (init_fn dev). n \<notin> {name @ ''0'', name @ ''1''}"
      using dir_names_disjoint [OF False] k(2) by blast
    from init_watched_driver [OF tree shown_watched [OF Cons.prems] this]
    show ?thesis using watched_shown [OF Cons.prems] by blast
  qed
  then obtain dev' d' where d': "ignore_ret (call_dbgfs_init (init_fn dev) fs root (dev, d)) = Done () (dev', d')"
      "node_shown look root name members files ptr (hw d')"
    by blast
  from Cons.IH [OF d'(2)] obtain devs' d'' where "dbgfs_inits fs root devs d' = Done devs' d''"
      "node_shown look root name members files ptr (hw d'')"
    by blast
  then show ?case by (simp add: d'(1))
qed simp

text \<open>From an empty root directory: the node whose entry comes first is the one shown.\<close>

lemma inits_show_first:
  assumes tree: "tree_debugfs fs look root two_names" and kind: "two_kind fn name members files"
    and dev: "init_fn dev = fn"
  shows "\<forall>dev'\<in>set pre. init_fn dev' \<noteq> fn \<Longrightarrow> watched look root (dir_names fn) (\<lambda>_. None) X (hw d) \<Longrightarrow>
    \<exists>devs' d'. dbgfs_inits fs root (pre @ dev # post) d = Done devs' d' \<and>
      node_shown look root name members files (mem_ptr dev ! 0) (hw d')"
proof (induction pre arbitrary: d)
  case Nil
  note k = two_kind [OF kind]
  have "look (hw d) root (name @ ''0'') = None" "look (hw d) root (name @ ''1'') = None"
    using Nil(2) by (auto simp: watched_def k(2))
  from first_node_shown [OF tree k(3,4) this k(5,6), of members dev]
  obtain dev' h where first: "two_dirs fs root name members files (dev, d) = Done () (dev', d\<lparr>hw := h\<rparr>)"
      "node_shown look root name members files (mem_ptr dev ! 0) h"
    by blast
  have "node_shown look root name members files (mem_ptr dev ! 0) (hw (d\<lparr>hw := h\<rparr>))" using first(2) by simp
  from inits_after [OF tree kind this] obtain devs' d' where "dbgfs_inits fs root post (d\<lparr>hw := h\<rparr>) = Done devs' d'"
      "node_shown look root name members files (mem_ptr dev ! 0) (hw d')"
    by blast
  then show ?case by (simp add: dev k(1) first(1))
next
  case (Cons dev0 pre)
  have "\<forall>n\<in>dir_names (init_fn dev0). n \<notin> dir_names fn" using Cons.prems(1) dir_names_disjoint by auto
  from init_watched_driver [OF tree Cons.prems(2) this]
  obtain dev' d' where d': "ignore_ret (call_dbgfs_init (init_fn dev0) fs root (dev0, d)) = Done () (dev', d')"
      "watched look root (dir_names fn) (\<lambda>_. None) X (hw d')"
    by blast
  from Cons.IH [OF _ d'(2)] Cons.prems(1) obtain devs' d'' where "dbgfs_inits fs root (pre @ dev # post) d' = Done devs' d''"
      "node_shown look root name members files (mem_ptr dev ! 0) (hw d'')"
    by auto
  then show ?case by (simp add: d'(1))
qed

section \<open>The device list\<close>

text \<open>The services around debugfs leave it alone; entries can be allocated, the first range of the node \<open>n\<close> is
  mapped at \<open>addr n\<close>, and the character device can be registered.\<close>

definition tree_platform ::
  "'h platform \<Rightarrow> ('h \<Rightarrow> u32 \<Rightarrow> string \<Rightarrow> entry option) \<Rightarrow> (u32 \<Rightarrow> u32) \<Rightarrow> bool" where
  "tree_platform pf look addr \<longleftrightarrow>
    (\<forall>h. fst (kzalloc_dev pf h) \<and> look (snd (kzalloc_dev pf h)) = look h) \<and>
    (\<forall>n i h. look (snd (of_iomap pf n i h)) = look h) \<and> (\<forall>n h. fst (of_iomap pf n 0 h) = addr n) \<and>
    (\<forall>h. fst (misc_register pf h) = 0 \<and> look (snd (misc_register pf h)) = look h)"

lemma last_node_first:
  assumes "tree_platform pf look addr" and "\<forall>h. compatible_nodes pf c h = ns @ [n]"
  shows "\<exists>dev devs. dbg_devs (add_compatible_devices pf c name g rf init m) = dev # devs \<and>
    init_fn dev = init \<and> mem_ptr dev ! 0 = addr n"
proof -
  have "\<exists>idx m' dev. add_device pf name gid rf init n im = (idx, m') \<and> dbg_devs m' = dev # dbg_devs (snd im) \<and>
      init_fn dev = init \<and> mem_ptr dev ! 0 = addr n" for gid im
    using assms(1)
    by (cases im) (simp add: add_device_def ranges_eq map_range_eq split_beta Let_def tree_platform_def alloc_device_def
        numeral_2_eq_2)
  from this [of "module_code g" "fold (add_device pf name (module_code g) rf init) ns (0, m)"] show ?thesis
    by (auto simp: add_compatible_devices_def assms(2))
qed

lemma added_later:
  assumes "dbg_devs m = pre @ dev # post" and "\<forall>d\<in>set pre. init_fn d \<noteq> fn" and "init \<noteq> fn"
  shows "\<exists>pre'. dbg_devs (add_compatible_devices pf c name g rf init m) = pre' @ dev # post \<and>
    (\<forall>d\<in>set pre'. init_fn d \<noteq> fn)"
proof -
  obtain new where "dbg_devs (add_compatible_devices pf c name g rf init m) = new @ dbg_devs m"
      "\<forall>dev\<in>set new. init_fn dev = init"
    using add_compatible_devs [of pf c name g rf init m] by blast
  then show ?thesis using assms by (intro exI [of _ "new @ pre"]) auto
qed

lemma all_devices_split:
  assumes "tree_platform pf look addr"
  shows "\<forall>h. compatible_nodes pf ''fsl,ls1021a-dcsr-etm'' h = ns @ [n] \<Longrightarrow>
      \<exists>pre dev post. dbg_devs (add_all_devices pf m) = pre @ dev # post \<and> (\<forall>d\<in>set pre. init_fn d \<noteq> Init_etm) \<and>
        init_fn dev = Init_etm \<and> mem_ptr dev ! 0 = addr n"
    and "\<forall>h. compatible_nodes pf ''fsl,ls1021a-dcsr-cstf'' h = ns @ [n] \<Longrightarrow>
      \<exists>pre dev post. dbg_devs (add_all_devices pf m) = pre @ dev # post \<and> (\<forall>d\<in>set pre. init_fn d \<noteq> Init_cstf) \<and>
        init_fn dev = Init_cstf \<and> mem_ptr dev ! 0 = addr n"
proof -
  define m1 where "m1 = add_compatible_devices pf ''fsl,ls1021a-dcsr-etr'' DEBUGFS_ETR_NAME ETR False Init_etr
    (add_compatible_devices pf ''fsl,ls1021a-dcsr-etf'' DEBUGFS_ETF_NAME ETF0 False Init_etf m)"
  define m2 where "m2 = add_compatible_devices pf ''fsl,ls1021a-dcsr-etm'' DEBUGFS_ETM_NAME ETM0 False Init_etm m1"
  define m3 where "m3 = add_compatible_devices pf ''fsl,ls1021a-dcsr-cstf'' DEBUGFS_CSTF_NAME CSTF0 False Init_cstf m2"
  define m4 where "m4 = add_compatible_devices pf ''fsl,ls1021a-dcsr-epu'' DEBUGFS_EPU_NAME EPU True Init_epu m3"
  define m5 where "m5 = add_compatible_devices pf ''fsl,ls1021a-dcsr-gdi'' DEBUGFS_GDI_NAME GDI False Init_gdi m4"
  have all: "add_all_devices pf m =
      add_compatible_devices pf ''fsl,ls1021a-dcsr-a7cpu'' DEBUGFS_CORE_NAME CORE False Init_core m5"
    by (simp add: add_all_devices_def m1_def m2_def m3_def m4_def m5_def)
  have last: "\<exists>pre'. dbg_devs (add_all_devices pf m) = pre' @ dev # post \<and> (\<forall>d\<in>set pre'. init_fn d \<noteq> fn)"
    if m3: "dbg_devs m3 = pre @ dev # post" "\<forall>d\<in>set pre. init_fn d \<noteq> fn" and fn: "fn = Init_etm \<or> fn = Init_cstf"
    for pre dev post fn
  proof -
    have ne: "Init_epu \<noteq> fn" "Init_gdi \<noteq> fn" "Init_core \<noteq> fn" using fn by auto
    obtain p4 where p4: "dbg_devs m4 = p4 @ dev # post" "\<forall>d\<in>set p4. init_fn d \<noteq> fn"
      using added_later [OF m3 ne(1)] unfolding m4_def by blast
    obtain p5 where p5: "dbg_devs m5 = p5 @ dev # post" "\<forall>d\<in>set p5. init_fn d \<noteq> fn"
      using added_later [OF p4 ne(2)] unfolding m5_def by blast
    show ?thesis unfolding all by (rule added_later [OF p5 ne(3)])
  qed
  {
    assume nodes: "\<forall>h. compatible_nodes pf ''fsl,ls1021a-dcsr-etm'' h = ns @ [n]"
    obtain dev devs where "dbg_devs m2 = dev # devs" and dev2: "init_fn dev = Init_etm" "mem_ptr dev ! 0 = addr n"
      using last_node_first [OF assms nodes] unfolding m2_def by metis
    then have dev: "dbg_devs m2 = [] @ dev # devs" by simp
    have "\<exists>pre. dbg_devs m3 = pre @ dev # devs \<and> (\<forall>d\<in>set pre. init_fn d \<noteq> Init_etm)"
      unfolding m3_def by (rule added_later [OF dev]) simp_all
    then obtain pre where "dbg_devs m3 = pre @ dev # devs" "\<forall>d\<in>set pre. init_fn d \<noteq> Init_etm" by blast
    then show "\<exists>pre dev post. dbg_devs (add_all_devices pf m) = pre @ dev # post \<and> (\<forall>d\<in>set pre. init_fn d \<noteq> Init_etm) \<and>
        init_fn dev = Init_etm \<and> mem_ptr dev ! 0 = addr n"
      using last [of pre dev devs Init_etm] dev2 by blast
  }
  assume nodes: "\<forall>h. compatible_nodes pf ''fsl,ls1021a-dcsr-cstf'' h = ns @ [n]"
  obtain dev devs where "dbg_devs m3 = dev # devs" and dev2: "init_fn dev = Init_cstf" "mem_ptr dev ! 0 = addr n"
    using last_node_first [OF assms nodes] unfolding m3_def by metis
  then have dev: "dbg_devs m3 = [] @ dev # devs" by simp
  show "\<exists>pre dev post. dbg_devs (add_all_devices pf m) = pre @ dev # post \<and> (\<forall>d\<in>set pre. init_fn d \<noteq> Init_cstf) \<and>
      init_fn dev = Init_cstf \<and> mem_ptr dev ! 0 = addr n"
    using last [OF dev, of Init_cstf] dev2 by auto
qed

lemma add_all_look:
  assumes "tree_platform pf look addr"
  shows "look (hw (drv (add_all_devices pf m))) = look (hw (drv m))"
proof (rule add_all_keeps [where I = "\<lambda>d. look (hw d) = look (hw (drv m))"])
qed (use assms in \<open>simp_all add: tree_platform_def map_range_eq split_beta Let_def\<close>)

section \<open>A probe\<close>

lemma probe_start:
  assumes tree: "tree_debugfs fs look root must" and pf: "tree_platform pf look addr"
    and free: "look (hw (drv m)) 0 ''ls-dbg'' = None"
  shows "\<exists>h1 h2. debugfs_create_dir fs ''ls-dbg'' 0 (hw (drv (add_all_devices pf m))) = (Some root, h1) \<and>
    misc_register pf h1 = (0, h2) \<and> look h2 root = Map.empty"
proof -
  have "look (hw (drv (add_all_devices pf m))) 0 ''ls-dbg'' = None" using free add_all_look [OF pf, of m] by simp
  then obtain h1 where dir: "debugfs_create_dir fs ''ls-dbg'' 0 (hw (drv (add_all_devices pf m))) = (Some root, h1)"
      "look h1 root = Map.empty"
    using tree_root [OF tree] by blast
  have "misc_register pf h1 = (0, snd (misc_register pf h1))" "look (snd (misc_register pf h1)) = look h1"
    using pf by (simp_all add: tree_platform_def prod_eq_iff)
  then show ?thesis using dir by metis
qed

lemma probe_returns:
  assumes "tree_debugfs fs look root must" and "tree_platform pf look addr" and "look (hw (drv m)) 0 ''ls-dbg'' = None"
  shows "\<exists>m'. dcsr_probe pf fs m = Done () m'"
proof -
  let ?m = "add_all_devices pf m"
  obtain h1 h2 where start: "debugfs_create_dir fs ''ls-dbg'' 0 (hw (drv ?m)) = (Some root, h1)"
      "misc_register pf h1 = (0, h2)"
    using probe_start [OF assms] by blast
  obtain devs d where "dbgfs_inits fs root (dbg_devs ?m) ((drv ?m)\<lparr>hw := h2\<rparr>) = Done devs d"
    using dbgfs_inits_Done [of fs root "dbg_devs ?m" "(drv ?m)\<lparr>hw := h2\<rparr>"] by blast
  then show ?thesis by (simp add: dcsr_probe_def start reg_access_init_def on_hw_def Let_def)
qed

lemma probe_shows:
  assumes tree: "tree_debugfs fs look root two_names" and pf: "tree_platform pf look addr"
    and free: "look (hw (drv m)) 0 ''ls-dbg'' = None" and kind: "two_kind fn name members files"
    and devs: "dbg_devs (add_all_devices pf m) = pre @ dev # post" "\<forall>d\<in>set pre. init_fn d \<noteq> fn"
      "init_fn dev = fn" "mem_ptr dev ! 0 = p"
  shows "\<exists>m'. dcsr_probe pf fs m = Done () m' \<and> node_shown look root name members files p (hw (drv m'))"
proof -
  let ?m = "add_all_devices pf m"
  obtain h1 h2 where dir: "debugfs_create_dir fs ''ls-dbg'' 0 (hw (drv ?m)) = (Some root, h1)"
    and misc: "misc_register pf h1 = (0, h2)" and empty: "look h2 root = Map.empty"
    using probe_start [OF tree pf free] by blast
  have "watched look root (dir_names fn) (\<lambda>_. None) (\<lambda>_ _. None) (hw ((drv ?m)\<lparr>hw := h2\<rparr>))"
    by (simp add: watched_def empty)
  from inits_show_first [OF tree kind devs(3,2) this]
  obtain devs' d' where "dbgfs_inits fs root (pre @ dev # post) ((drv ?m)\<lparr>hw := h2\<rparr>) = Done devs' d'"
      "node_shown look root name members files p (hw d')"
    using devs(4) by blast
  then show ?thesis
    by (simp add: dcsr_probe_def dir misc reg_access_init_def on_hw_def Let_def devs(1))
qed

text \<open>C39: On a system whose debugfs and services behave as documented (\<open>tree_debugfs\<close>, \<open>tree_platform\<close>), with
  any other nodes in the device tree, among them an EPU: a probe succeeds; when there are trace macrocells,
  the directories \<open>etm0\<close> and \<open>etm1\<close> both hold exactly the registers of the macrocell that comes last in
  the device tree, and of no other: the list has the last node first, its initialisation takes both names,
  and the ones of the other nodes fail on the first name, unnoticed.  The same holds of the funnels.\<close>

theorem only_last_node_shown:
  assumes "tree_debugfs fs look root {''etm0'', ''etm1'', ''cstf0'', ''cstf1''}" and "tree_platform pf look addr"
    and "look (hw (drv m)) 0 ''ls-dbg'' = None"
  shows "\<exists>m'. dcsr_probe pf fs m = Done () m' \<and>
    (\<forall>ns n. (\<forall>h. compatible_nodes pf ''fsl,ls1021a-dcsr-etm'' h = ns @ [n]) \<longrightarrow>
      node_shown look root ''etm'' etm etm_files (addr n) (hw (drv m'))) \<and>
    (\<forall>ns n. (\<forall>h. compatible_nodes pf ''fsl,ls1021a-dcsr-cstf'' h = ns @ [n]) \<longrightarrow>
      node_shown look root ''cstf'' funnel cstf_files (addr n) (hw (drv m')))"
proof -
  note tree = assms(1) [folded two_names_def]
  have kinds: "two_kind Init_etm ''etm'' etm etm_files" "two_kind Init_cstf ''cstf'' funnel cstf_files"
    by (simp_all add: two_kind_def)
  obtain m' where m': "dcsr_probe pf fs m = Done () m'" using probe_returns [OF tree assms(2,3)] by blast
  have "node_shown look root ''etm'' etm etm_files (addr n) (hw (drv m'))"
    if nodes: "\<forall>h. compatible_nodes pf ''fsl,ls1021a-dcsr-etm'' h = ns @ [n]" for ns n
  proof -
    obtain pre dev post where "dbg_devs (add_all_devices pf m) = pre @ dev # post" "\<forall>d\<in>set pre. init_fn d \<noteq> Init_etm"
        "init_fn dev = Init_etm" "mem_ptr dev ! 0 = addr n"
      using all_devices_split(1) [OF assms(2) nodes] by blast
    from probe_shows [OF tree assms(2,3) kinds(1) this] show ?thesis by (simp add: m')
  qed
  moreover have "node_shown look root ''cstf'' funnel cstf_files (addr n) (hw (drv m'))"
    if nodes: "\<forall>h. compatible_nodes pf ''fsl,ls1021a-dcsr-cstf'' h = ns @ [n]" for ns n
  proof -
    obtain pre dev post where "dbg_devs (add_all_devices pf m) = pre @ dev # post" "\<forall>d\<in>set pre. init_fn d \<noteq> Init_cstf"
        "init_fn dev = Init_cstf" "mem_ptr dev ! 0 = addr n"
      using all_devices_split(2) [OF assms(2) nodes] by blast
    from probe_shows [OF tree assms(2,3) kinds(2) this] show ?thesis by (simp add: m')
  qed
  ultimately show ?thesis using m' by blast
qed

text \<open>A board with an EPU, two trace macrocells and two funnels.  Its debugfs has room for the directories of
  these; its state is the list of the directories and that of the files.\<close>

type_synonym shelf = "string list \<times> ((u32 \<times> string) \<times> entry) list"

definition handle_of :: "string \<Rightarrow> u32" where
  "handle_of name =
    (if name = ''etm0'' then 2 else if name = ''etm1'' then 3 else if name = ''cstf0'' then 4
     else if name = ''cstf1'' then 5 else if name = ''epu'' then 6 else 0)"

definition shelf_look :: "shelf \<Rightarrow> u32 \<Rightarrow> string \<Rightarrow> entry option" where
  "shelf_look h p name =
    (if p = 0 then if ''ls-dbg'' \<in> set (fst h) \<and> name = ''ls-dbg'' then Some (Dir 1) else None
     else if p = 1 then if name \<in> set (fst h) \<and> handle_of name \<noteq> 0 then Some (Dir (handle_of name)) else None
     else if \<exists>n\<in>set (fst h). handle_of n = p then map_of (snd h) (p, name) else None)"

definition shelf_debugfs :: "shelf debugfs" where
  "shelf_debugfs =
    \<lparr>debugfs_create_dir = (\<lambda>name p h.
       if p = 0 then (Some 1, ([name], []))
       else if handle_of name = 0 \<or> name \<in> set (fst h) then (None, h)
       else (Some (handle_of name), (name # fst h, filter (\<lambda>e. fst (fst e) \<noteq> handle_of name) (snd h)))),
     debugfs_create_x32 = (\<lambda>name mode de data h.
       if shelf_look h de name \<noteq> None then (False, h) else (True, (fst h, ((de, name), File mode data) # snd h))),
     debugfs_create_x64 = (\<lambda>name mode de data h. (True, h)),
     debugfs_create_file = (\<lambda>name mode de data fops h. h)\<rparr>"

lemma handle_of_inj: "handle_of n \<noteq> 0 \<Longrightarrow> handle_of n = handle_of n' \<Longrightarrow> n = n'"
  by (auto simp: handle_of_def split: if_splits)

lemma handle_of_range: "handle_of n \<noteq> 1"
  by (simp add: handle_of_def)

lemma map_of_other: "q \<noteq> p \<Longrightarrow> map_of (filter (\<lambda>e. fst (fst e) \<noteq> p) es) (q, name) = map_of es (q, name)"
  "map_of (filter (\<lambda>e. fst (fst e) \<noteq> p) es) (p, name) = None"
  by (induction es) auto

lemma shelf_dir:
  assumes "handle_of name \<noteq> 0" and "name \<notin> set ds"
  shows "shelf_look (name # ds, filter (\<lambda>e. fst (fst e) \<noteq> handle_of name) es) =
    (shelf_look (ds, es))(1 := (shelf_look (ds, es) 1)(name \<mapsto> Dir (handle_of name)))"
proof (intro ext)
  fix p n
  have "name \<noteq> ''ls-dbg''" using assms(1) by (auto simp: handle_of_def)
  moreover have "map_of es (handle_of name, n) = None \<or> \<not> (\<exists>n'\<in>set ds. handle_of n' = handle_of name)"
    using handle_of_inj [OF assms(1)] assms(2) by metis
  ultimately show "shelf_look (name # ds, filter (\<lambda>e. fst (fst e) \<noteq> handle_of name) es) p n =
      ((shelf_look (ds, es))(1 := (shelf_look (ds, es) 1)(name \<mapsto> Dir (handle_of name)))) p n"
    using assms handle_of_inj [OF assms(1)]
    by (cases "p = handle_of name") (auto simp: shelf_look_def map_of_other)
qed

lemma shelf_tree: "tree_debugfs shelf_debugfs shelf_look 1 {''etm0'', ''etm1'', ''cstf0'', ''cstf1''}"
  unfolding tree_debugfs_def
proof (intro conjI allI impI)
  fix h :: shelf
  show "\<exists>h'. debugfs_create_dir shelf_debugfs ''ls-dbg'' 0 h = (Some 1, h') \<and> shelf_look h' 1 = Map.empty"
    by (auto simp: shelf_debugfs_def shelf_look_def handle_of_def)
next
  fix h :: shelf and name
  have must: "name \<in> {''etm0'', ''etm1'', ''cstf0'', ''cstf1''} \<Longrightarrow> handle_of name \<noteq> 0"
    by (auto simp: handle_of_def)
  have "name \<notin> set (fst h) \<Longrightarrow> handle_of name \<noteq> 0 \<Longrightarrow> shelf_look h (handle_of name) = Map.empty"
    using handle_of_inj handle_of_range by (auto simp: shelf_look_def fun_eq_iff)
  moreover have "name \<notin> set (fst h) \<Longrightarrow> handle_of name \<noteq> 0 \<Longrightarrow> shelf_look h 1 n \<noteq> Some (Dir (handle_of name))" for n
    using handle_of_inj by (auto simp: shelf_look_def)
  ultimately show "case debugfs_create_dir shelf_debugfs name 1 h of
      (None, h') \<Rightarrow> shelf_look h' = shelf_look h \<and>
        (name \<in> {''etm0'', ''etm1'', ''cstf0'', ''cstf1''} \<longrightarrow> shelf_look h 1 name \<noteq> None)
    | (Some q, h') \<Rightarrow> shelf_look h 1 name = None \<and> q \<noteq> 1 \<and> shelf_look h q = Map.empty \<and>
        (\<forall>n. shelf_look h 1 n \<noteq> Some (Dir q)) \<and>
        shelf_look h' = (shelf_look h)(1 := (shelf_look h 1)(name \<mapsto> Dir q))"
    using must shelf_dir [of name "fst h" "snd h"] handle_of_range [of name]
    by (auto simp: shelf_debugfs_def) (auto simp: shelf_look_def)
next
  fix h :: shelf and name mode p data n
  assume "shelf_look h 1 n = Some (Dir p)"
  then have p: "p \<noteq> 0" "p \<noteq> 1" "\<exists>n\<in>set (fst h). handle_of n = p"
    using handle_of_range by (auto simp: shelf_look_def split: if_splits)
  then have "shelf_look (fst h, ((p, name), File mode data) # snd h) =
      (shelf_look h)(p := (shelf_look h p)(name \<mapsto> File mode data))"
    by (auto simp: shelf_look_def fun_eq_iff)
  then show "case debugfs_create_x32 shelf_debugfs name mode p data h of (ok, h') \<Rightarrow>
      if ok then shelf_look h p name = None \<and> shelf_look h' = (shelf_look h)(p := (shelf_look h p)(name \<mapsto> File mode data))
      else shelf_look h' = shelf_look h \<and> (n \<in> {''etm0'', ''etm1'', ''cstf0'', ''cstf1''} \<longrightarrow> shelf_look h p name \<noteq> None)"
    by (auto simp: shelf_debugfs_def)
qed

definition shelf_platform :: "shelf platform" where
  "shelf_platform =
    \<lparr>compatible_nodes = (\<lambda>c h. if c = ''fsl,ls1021a-dcsr-etm'' then [0x10000, 0x20000]
       else if c = ''fsl,ls1021a-dcsr-cstf'' then [0x30000, 0x40000]
       else if c = ''fsl,ls1021a-dcsr-epu'' then [0x50000] else []),
     kzalloc_dev = (\<lambda>h. (True, h)),
     of_iomap = (\<lambda>n i h. (n + of_nat i, h)), range_size = (\<lambda>n i h. 0x1000), iounmap = (\<lambda>p h. h),
     misc_register = (\<lambda>h. (0, h)), misc_deregister = (\<lambda>h. h),
     debugfs_remove_recursive = (\<lambda>r h. h), platform_driver_register = (\<lambda>h. (0, h)),
     platform_driver_unregister = (\<lambda>h. h)\<rparr>"

lemma only_last_node_shown_witness:
  "\<exists>m'. dcsr_probe shelf_platform shelf_debugfs (initial_module ([], [])) = Done () m' \<and>
    node_shown shelf_look 1 ''etm'' etm etm_files 0x20000 (hw (drv m')) \<and>
    node_shown shelf_look 1 ''cstf'' funnel cstf_files 0x40000 (hw (drv m'))"
proof -
  have pf: "tree_platform shelf_platform shelf_look (\<lambda>n. n)"
    by (simp add: tree_platform_def shelf_platform_def)
  have "shelf_look (hw (drv (initial_module ([], []) :: shelf module))) 0 ''ls-dbg'' = None"
    by (simp add: initial_module_def initial_driver_def shelf_look_def)
  moreover have "\<forall>h. compatible_nodes shelf_platform ''fsl,ls1021a-dcsr-etm'' h = [0x10000] @ [0x20000]"
    "\<forall>h. compatible_nodes shelf_platform ''fsl,ls1021a-dcsr-cstf'' h = [0x30000] @ [0x40000]"
    by (simp_all add: shelf_platform_def)
  ultimately show ?thesis using only_last_node_shown [OF shelf_tree pf] by blast
qed

end
