(* ===== verification/Test_Program.thy ===== *)
theory Test_Program
  imports Reserve User_Access
begin

text \<open>
  The client: \<open>test/test_ls_dbg.c\<close>, the program that exercises the character device.  Its request
  functions and its test functions run on the driver's model, and what the driver promises makes the
  tests pass.
\<close>

section \<open>The process\<close>

text \<open>
  The variables of a test that the kernel reaches through pointers: the request structs, \<open>val\<close> and
  \<open>val64\<close>.  How a C variable is stored is not the program's business; \<open>process_ok\<close> is what it relies on.
\<close>

record 'h process =
  ra_ptr :: u32
  rr_ptr :: u32
  val_ptr :: u32
  val64_ptr :: u32
  store_ra :: "reg_access \<Rightarrow> 'h \<Rightarrow> 'h"
  store_rr :: "resource_reservation \<Rightarrow> 'h \<Rightarrow> 'h"
  store_val :: "u32 \<Rightarrow> 'h \<Rightarrow> 'h"
  load_val :: "'h \<Rightarrow> u32"
  store_val64 :: "u64 \<Rightarrow> 'h \<Rightarrow> 'h"
  load_val64 :: "'h \<Rightarrow> u64"

text \<open>The driver, \<open>errno\<close>, where \<open>None\<close> is \<open>0\<close>, the variable \<open>dev_fd\<close>, and the descriptors under which the
  process has the device open.\<close>

record 'h test_state =
  tdrv :: "'h driver"
  terrno :: "errno option"
  dev_fd :: int
  dev_fds :: "int list"

definition dev_open :: "'h test_state \<Rightarrow> bool" where
  "dev_open t \<longleftrightarrow> dev_fd t \<in> set (dev_fds t)"

lemma dev_open_simps [simp]:
  "dev_open (t\<lparr>tdrv := d\<rparr>) = dev_open t" "dev_open (t\<lparr>terrno := e\<rparr>) = dev_open t"
  by (simp_all add: dev_open_def)

definition on_mem :: "('h \<Rightarrow> 'h) \<Rightarrow> 'h test_state \<Rightarrow> 'h test_state" where
  "on_mem f t = t\<lparr>tdrv := (tdrv t)\<lparr>hw := f (hw (tdrv t))\<rparr>\<rparr>"

text \<open>The system call: \<open>-1\<close> and \<open>errno\<close> on an error, \<open>EBADF\<close> when \<open>dev_fd\<close> is not open; no result when the
  driver's code does not return.\<close>

type_synonym 'h action = "'h test_state \<Rightarrow> (int \<times> 'h test_state) option"

definition dev_ioctl :: "'h kernel \<Rightarrow> ioctl_cmd \<Rightarrow> u32 \<Rightarrow> 'h action" where
  "dev_ioctl k cmd arg t =
    (if \<not> dev_open t then Some (- 1, t\<lparr>terrno := Some EBADF\<rparr>)
     else case reg_access_ioctl k cmd arg (tdrv t) of
       Done _ d \<Rightarrow> Some (0, t\<lparr>tdrv := d\<rparr>)
     | Fail e d \<Rightarrow> Some (- 1, t\<lparr>tdrv := d, terrno := Some e\<rparr>)
     | Spin \<Rightarrow> None
     | Undef \<Rightarrow> None)"

section \<open>The request functions\<close>

text \<open>The cast of a pointer to \<open>intptr_t\<close> is sign-extended to the 64 bits of the field.\<close>

definition init_reg_access_struct :: "u32 \<Rightarrow> u32 \<Rightarrow> u32 \<Rightarrow> u32 \<Rightarrow> reg_access" where
  "init_reg_access_struct i off buf sz = \<lparr>module_id = i, offset = off, buffer = scast buf, reg_size = sz\<rparr>"

definition init_reserve_resource_struct :: "u32 \<Rightarrow> u32 \<Rightarrow> u32 \<Rightarrow> resource_reservation" where
  "init_reserve_resource_struct g n buf = \<lparr>resource_grp_id = g, res_index = n, res_usage = buf\<rparr>"

definition reserve_res :: "'h kernel \<Rightarrow> 'h process \<Rightarrow> u32 \<Rightarrow> u32 \<Rightarrow> 'h action" where
  "reserve_res k p res ind t =
    dev_ioctl k LS_DBG_RES_RESERVE (rr_ptr p) (on_mem (store_rr p (init_reserve_resource_struct res ind 0)) t)"

definition release_res :: "'h kernel \<Rightarrow> 'h process \<Rightarrow> u32 \<Rightarrow> u32 \<Rightarrow> 'h action" where
  "release_res k p res ind t =
    dev_ioctl k LS_DBG_RES_RELINQ (rr_ptr p) (on_mem (store_rr p (init_reserve_resource_struct res ind 0)) t)"

definition get_res_usage :: "'h kernel \<Rightarrow> 'h process \<Rightarrow> u32 \<Rightarrow> u32 \<Rightarrow> 'h action" where
  "get_res_usage k p res usage t =
    dev_ioctl k LS_DBG_RES_GET_USAGE (rr_ptr p) (on_mem (store_rr p (init_reserve_resource_struct res 0 usage)) t)"

definition as_bool :: "(int \<times> 'h test_state) option \<Rightarrow> (int \<times> 'h test_state) option" where
  "as_bool = map_option (\<lambda>(ret, t). (if ret \<ge> 0 then 1 else 0, t))"

definition read_reg :: "'h kernel \<Rightarrow> 'h process \<Rightarrow> u32 \<Rightarrow> u32 \<Rightarrow> u32 \<Rightarrow> u32 \<Rightarrow> 'h action" where
  "read_reg k p i off buf sz t =
    as_bool (dev_ioctl k DBG_READ_REG (ra_ptr p) (on_mem (store_ra p (init_reg_access_struct i off buf sz)) t))"

definition write_reg :: "'h kernel \<Rightarrow> 'h process \<Rightarrow> u32 \<Rightarrow> u32 \<Rightarrow> u32 \<Rightarrow> u32 \<Rightarrow> 'h action" where
  "write_reg k p i off buf sz t =
    as_bool (dev_ioctl k DBG_WRITE_REG (ra_ptr p) (on_mem (store_ra p (init_reg_access_struct i off buf sz)) t))"

definition set_val :: "'h process \<Rightarrow> u32 \<Rightarrow> 'h action" where
  "set_val p v t = Some (0, on_mem (store_val p v) t)"

definition set_val64 :: "'h process \<Rightarrow> u64 \<Rightarrow> 'h action" where
  "set_val64 p v t = Some (0, on_mem (store_val64 p v) t)"

definition reset_errno :: "'h action" where
  "reset_errno t = Some (0, t\<lparr>terrno := None\<rparr>)"

section \<open>The tests\<close>

text \<open>A line is a call and the condition of the \<open>FAIL_IF\<close> or \<open>FAIL_UNLESS\<close> after it, in the sense in
  which the test goes on; a test returns \<open>1\<close> after its last line.\<close>

type_synonym 'h line = "'h action \<times> (int \<Rightarrow> 'h test_state \<Rightarrow> bool)"

fun run_lines :: "'h line list \<Rightarrow> 'h test_state \<Rightarrow> (bool \<times> 'h test_state) option" where
  "run_lines [] t = Some (True, t)"
| "run_lines ((act, cond) # ls) t =
    (case act t of
       None \<Rightarrow> None
     | Some (ret, t') \<Rightarrow> if cond ret t' then run_lines ls t' else Some (False, t'))"

definition ok_ret :: "int \<Rightarrow> 'h test_state \<Rightarrow> bool" where
  "ok_ret ret t \<longleftrightarrow> ret = 0 \<and> terrno t = None"

definition error_ret :: "errno \<Rightarrow> int \<Rightarrow> 'h test_state \<Rightarrow> bool" where
  "error_ret e ret t \<longleftrightarrow> ret < 0 \<and> terrno t = Some e"

text \<open>\<open>read_reg\<close> and \<open>write_reg\<close> return \<open>0\<close> for an error.\<close>

definition reg_error :: "errno \<Rightarrow> int \<Rightarrow> 'h test_state \<Rightarrow> bool" where
  "reg_error e ret t \<longleftrightarrow> ret = 0 \<and> terrno t = Some e"

definition not_negative :: "int \<Rightarrow> 'h test_state \<Rightarrow> bool" where
  "not_negative ret t \<longleftrightarrow> \<not> ret < 0"

definition reg_ok :: "int \<Rightarrow> 'h test_state \<Rightarrow> bool" where
  "reg_ok ret t \<longleftrightarrow> \<not> (ret < 0 \<or> terrno t \<noteq> None)"

definition val_is :: "'h process \<Rightarrow> u32 \<Rightarrow> int \<Rightarrow> 'h test_state \<Rightarrow> bool" where
  "val_is p v ret t \<longleftrightarrow> load_val p (hw (tdrv t)) = v"

abbreviation (input) always :: "int \<Rightarrow> 'h test_state \<Rightarrow> bool" where
  "always \<equiv> \<lambda>ret t. True"

abbreviation (input) EPU_CNTR_RES_OFFSET :: u32 where "EPU_CNTR_RES_OFFSET \<equiv> 0xFEC"

definition resource_res_error :: "'h kernel \<Rightarrow> 'h process \<Rightarrow> 'h line list" where
  "resource_res_error k p =
    [(reserve_res k p 0x1000 15, error_ret EINVAL),
     (reserve_res k p (group_code LSDBG_RES_EPU_COUNTER) 0xFF, error_ret EINVAL),
     (release_res k p 0x1000 15, error_ret EINVAL),
     (release_res k p (group_code LSDBG_RES_EPU_COUNTER) 0xFF, error_ret EINVAL)]"

text \<open>A read of the reservation register and a query of the usage, each with its checks.\<close>

definition reads_back :: "'h kernel \<Rightarrow> 'h process \<Rightarrow> u32 \<Rightarrow> 'h line list" where
  "reads_back k p v =
    [(read_reg k p (module_code EPU) EPU_CNTR_RES_OFFSET (val_ptr p) 32,
       \<lambda>ret t. reg_ok ret t \<and> val_is p v ret t)]"

definition usage_back :: "'h kernel \<Rightarrow> 'h process \<Rightarrow> u32 \<Rightarrow> 'h line list" where
  "usage_back k p v =
    [(get_res_usage k p (group_code LSDBG_RES_EPU_COUNTER) (val_ptr p), val_is p v)]"

definition resource_res_normal :: "'h kernel \<Rightarrow> 'h process \<Rightarrow> 'h line list" where
  "resource_res_normal k p =
    (let ctr = group_code LSDBG_RES_EPU_COUNTER in
     [(set_val p 0, always),
      (reserve_res k p ctr 15, ok_ret), (reserve_res k p ctr 31, ok_ret),
      (reserve_res k p ctr 0, ok_ret), (reserve_res k p ctr 1, ok_ret)] @
     reads_back k p 0x80008003 @ usage_back k p 0x80008003 @
     [(release_res k p ctr 15, ok_ret)] @
     reads_back k p 0x80000003 @ usage_back k p 0x80000003 @
     [(reserve_res k p ctr 1, error_ret EBUSY), (reset_errno, always)] @
     reads_back k p 0x80000003 @
     [(release_res k p ctr 5, error_ret EPERM), (reset_errno, always)] @
     reads_back k p 0x80000003 @
     [(release_res k p ctr 31, ok_ret), (release_res k p ctr 0, ok_ret), (release_res k p ctr 1, ok_ret)] @
     reads_back k p 0)"

definition test_invalid_id :: "'h kernel \<Rightarrow> 'h process \<Rightarrow> 'h line list" where
  "test_invalid_id k p =
    [(read_reg k p NUM_IDS 0 (val_ptr p) 32, reg_error EINVAL),
     (read_reg k p (- 5) 0 (val_ptr p) 32, reg_error EINVAL),
     (read_reg k p 1000 0 (val_ptr p) 32, reg_error EINVAL),
     (read_reg k p (module_code VCOUNT) 0x100000 (val_ptr p) 32, reg_error EFAULT)]"

definition test_invalid_offset :: "'h kernel \<Rightarrow> 'h process \<Rightarrow> 'h line list" where
  "test_invalid_offset k p =
    map (\<lambda>g. (read_reg k p (module_code g) 0x100000 (val_ptr p) 32, reg_error EFAULT))
      [ETM0, ETM1, ETR, ETF0, ETF1, CSTF0, CSTF1, EPU, VCOUNT]"

definition test_invalid_buffer :: "'h kernel \<Rightarrow> 'h process \<Rightarrow> 'h line list" where
  "test_invalid_buffer k p =
    [(read_reg k p (module_code ETM0) 0 0 32, reg_error EFAULT),
     (read_reg k p (module_code ETM0) 0 0xaabbccdd 32, reg_error EFAULT)]"

definition test_invalid_regsize :: "'h kernel \<Rightarrow> 'h process \<Rightarrow> 'h line list" where
  "test_invalid_regsize k p =
    [(read_reg k p (module_code ETM0) 0 (val_ptr p) 8, reg_error EINVAL),
     (read_reg k p (module_code ETM0) 0 (val_ptr p) 16, reg_error EINVAL),
     (read_reg k p (module_code ETM0) 0 (val_ptr p) 100, reg_error EINVAL)]"

abbreviation (input) DEVID_OFFSET :: u32 where "DEVID_OFFSET \<equiv> 0xfcc"
abbreviation (input) ETM_LOCKACCESS_OFFSET :: u32 where "ETM_LOCKACCESS_OFFSET \<equiv> 0xfb0"
abbreviation (input) EPU_COUNTER14_OFFSET :: u32 where "EPU_COUNTER14_OFFSET \<equiv> 0xa38"
abbreviation (input) VCOUNT_VCNTCTRL_OFFSET :: u32 where "VCOUNT_VCNTCTRL_OFFSET \<equiv> 0"
abbreviation (input) VCOUNT_64_TEST_VAL :: u64 where "VCOUNT_64_TEST_VAL \<equiv> 0xBAADF00DC5ACCE55"

definition test_simple_read :: "'h kernel \<Rightarrow> 'h process \<Rightarrow> 'h line list" where
  "test_simple_read k p =
    [(read_reg k p (module_code ETM0) DEVID_OFFSET (val_ptr p) 32, not_negative),
     (read_reg k p (module_code ETR) DEVID_OFFSET (val_ptr p) 32, not_negative),
     (read_reg k p (module_code ETF0) DEVID_OFFSET (val_ptr p) 32, not_negative),
     (read_reg k p (module_code CSTF0) DEVID_OFFSET (val_ptr p) 32, not_negative),
     (read_reg k p (module_code EPU) EPU_COUNTER14_OFFSET (val_ptr p) 32, not_negative),
     (read_reg k p (module_code VCOUNT) VCOUNT_VCNTCTRL_OFFSET (val_ptr p) 32, not_negative),
     (read_reg k p (module_code VCOUNT) (VCOUNT_VCNTR_OFFSET 0) (val64_ptr p) 64, not_negative)]"

definition test_read_write_vcount :: "'h kernel \<Rightarrow> 'h process \<Rightarrow> 'h line list" where
  "test_read_write_vcount k p =
    [(set_val64 p VCOUNT_64_TEST_VAL, always),
     (write_reg k p (module_code VCOUNT) (VCOUNT_VCNTR_OFFSET 0) (val64_ptr p) 64, not_negative),
     (read_reg k p (module_code VCOUNT) (VCOUNT_VCNTR_OFFSET 0) (val64_ptr p) 64,
       \<lambda>ret t. not_negative ret t \<and> load_val64 p (hw (tdrv t)) = VCOUNT_64_TEST_VAL)]"

text \<open>The lines of \<open>test_simple_write\<close>, which ends without a return statement.\<close>

definition test_simple_write :: "'h kernel \<Rightarrow> 'h process \<Rightarrow> 'h line list" where
  "test_simple_write k p =
    [(set_val p 0xC5ACCE55, always),
     (write_reg k p (module_code ETM0) ETM_LOCKACCESS_OFFSET (val_ptr p) 32, not_negative),
     (set_val p (NOT 0xC5ACCE55), always),
     (write_reg k p (module_code ETM0) ETM_LOCKACCESS_OFFSET (val_ptr p) 32, not_negative),
     (set_val p 0xC5ACCE55, always),
     (write_reg k p (module_code EPU) EPU_COUNTER14_OFFSET (val_ptr p) 32, not_negative),
     (set_val64 p VCOUNT_64_TEST_VAL, always),
     (write_reg k p (module_code VCOUNT) (VCOUNT_VCNTR_OFFSET 0) (val64_ptr p) 64, not_negative)]"

section \<open>What the program relies on\<close>

text \<open>A variable holds what was stored to it, the kernel's user memory services reach it, and none of
  this is seen by the device registers.\<close>

definition process_ok :: "'h kernel \<Rightarrow> 'h process \<Rightarrow> bool" where
  "process_ok k p \<longleftrightarrow> val_ptr p \<noteq> 0 \<and>
    (\<forall>h ra. copy_reg_access k (ra_ptr p) (store_ra p ra h) = Some ra) \<and>
    (\<forall>h rr. copy_reservation k (rr_ptr p) (store_rr p rr h) = Some rr) \<and>
    (\<forall>h v. copy_user64 k (val64_ptr p) (store_val64 p v h) = Some v) \<and>
    (\<forall>h ra. copy_user64 k (val64_ptr p) (store_ra p ra h) = copy_user64 k (val64_ptr p) h) \<and>
    (\<forall>h v. \<exists>h'. put_user64 k v (val64_ptr p) h = Some h' \<and> load_val64 p h' = v) \<and>
    (\<forall>h v. \<exists>h'. put_user32 k v (val_ptr p) h = Some h' \<and> load_val p h' = v \<and>
      (\<forall>a. fst (ioread32 k a h') = fst (ioread32 k a h))) \<and>
    (\<forall>a h. (\<forall>ra. fst (ioread32 k a (store_ra p ra h)) = fst (ioread32 k a h)) \<and>
      (\<forall>rr. fst (ioread32 k a (store_rr p rr h)) = fst (ioread32 k a h)) \<and>
      (\<forall>v. fst (ioread32 k a (store_val p v h)) = fst (ioread32 k a h)))"

lemma process_copies:
  assumes "process_ok k p"
  shows "copy_reg_access k (ra_ptr p) (store_ra p ra h) = Some ra"
    and "copy_reservation k (rr_ptr p) (store_rr p rr h) = Some rr"
    and "copy_user64 k (val64_ptr p) (store_ra p ra (store_val64 p v h)) = Some v"
  using assms by (simp_all add: process_ok_def)

text \<open>A test each of whose lines goes on and keeps \<open>I\<close> passes.\<close>

lemma run_lines_all:
  assumes "I t"
    and "\<And>act cond t. (act, cond) \<in> set ls \<Longrightarrow> I t \<Longrightarrow> \<exists>ret t'. act t = Some (ret, t') \<and> cond ret t' \<and> I t'"
  shows "\<exists>t'. run_lines ls t = Some (True, t') \<and> I t'"
  using assms
proof (induction ls arbitrary: t)
  case Nil
  then show ?case by simp
next
  case (Cons l ls)
  obtain act cond where l: "l = (act, cond)" by (cases l)
  obtain ret t1 where "act t = Some (ret, t1)" "cond ret t1" "I t1"
    using Cons.prems(2) [of act cond t] Cons.prems(1) l by auto
  then show ?case using Cons.IH [of t1] Cons.prems(2) l by auto
qed

section \<open>The tests of refused requests\<close>

definition only_memory :: "'h driver \<Rightarrow> 'h test_state \<Rightarrow> bool" where
  "only_memory d t \<longleftrightarrow> dev_open t \<and> (\<exists>h. tdrv t = d\<lparr>hw := h\<rparr>)"

lemma dev_open_on_mem [simp]: "dev_open (on_mem f t) = dev_open t"
  by (simp add: on_mem_def)

lemma only_memory_on_mem [simp]: "only_memory d t \<Longrightarrow> only_memory d (on_mem f t)"
  by (auto simp: only_memory_def on_mem_def)

text \<open>A refused request: the driver has not changed.\<close>

lemma ioctl_refused:
  assumes "reg_access_ioctl k cmd arg (tdrv t) = Fail e (tdrv t)" and "dev_open t"
  shows "dev_ioctl k cmd arg t = Some (- 1, t\<lparr>terrno := Some e\<rparr>)"
    and "as_bool (dev_ioctl k cmd arg t) = Some (0, t\<lparr>terrno := Some e\<rparr>)"
  using assms by (simp_all add: dev_ioctl_def as_bool_def)

lemma reserve_refused:
  assumes "process_ok k p" and "only_memory d t"
    and "case resource_group g of None \<Rightarrow> True | Some x \<Rightarrow> res_limit x \<le> unat n"
  shows "\<exists>ret t'. reserve_res k p g n t = Some (ret, t') \<and> error_ret EINVAL ret t' \<and> only_memory d t'"
    and "\<exists>ret t'. release_res k p g n t = Some (ret, t') \<and> error_ret EINVAL ret t' \<and> only_memory d t'"
proof -
  let ?t = "on_mem (store_rr p (init_reserve_resource_struct g n 0)) t"
  have "copy_reservation k (rr_ptr p) (hw (tdrv ?t)) = Some (init_reserve_resource_struct g n 0)"
    by (simp add: on_mem_def process_copies [OF assms(1)])
  then have "reg_access_ioctl k LS_DBG_RES_RESERVE (rr_ptr p) (tdrv ?t) = Fail EINVAL (tdrv ?t)"
      "reg_access_ioctl k LS_DBG_RES_RELINQ (rr_ptr p) (tdrv ?t) = Fail EINVAL (tdrv ?t)"
    using assms(3)
    by (auto simp: reg_access_ioctl_def resource_reserve_def resource_op_def limit_check Let_def
        init_reserve_resource_struct_def split: option.split)
  moreover have "only_memory d (?t\<lparr>terrno := Some EINVAL\<rparr>)" "dev_open ?t"
    using assms(2) by (auto simp: only_memory_def on_mem_def)
  ultimately show "\<exists>ret t'. reserve_res k p g n t = Some (ret, t') \<and> error_ret EINVAL ret t' \<and> only_memory d t'"
    and "\<exists>ret t'. release_res k p g n t = Some (ret, t') \<and> error_ret EINVAL ret t' \<and> only_memory d t'"
    by (simp_all add: reserve_res_def release_res_def ioctl_refused error_ret_def)
qed

lemma test_read_refused:
  assumes "process_ok k p" and "only_memory d t"
    and "sz \<noteq> 32 \<and> sz \<noteq> 64 \<and> e = EINVAL \<or>
      (sz = 32 \<or> sz = 64) \<and> (\<forall>h. ls_dbg_read_reg_internal k i off (d\<lparr>hw := h\<rparr>) = Fail e (d\<lparr>hw := h\<rparr>))"
  shows "\<exists>ret t'. read_reg k p i off buf sz t = Some (ret, t') \<and> reg_error e ret t' \<and> only_memory d t'"
proof -
  let ?ra = "init_reg_access_struct i off buf sz"
  let ?t = "on_mem (store_ra p ?ra) t"
  obtain h where h: "tdrv t = d\<lparr>hw := h\<rparr>" using assms(2) by (auto simp: only_memory_def)
  have "copy_reg_access k (ra_ptr p) (hw (tdrv ?t)) = Some ?ra"
    by (simp add: on_mem_def process_copies [OF assms(1)])
  then have "reg_access_ioctl k DBG_READ_REG (ra_ptr p) (tdrv ?t) = Fail e (tdrv ?t)"
    using assms(3) h
    by (auto simp: reg_access_ioctl_def reg_access_def Let_def init_reg_access_struct_def on_mem_def)
  moreover have "only_memory d (?t\<lparr>terrno := Some e\<rparr>)" "dev_open ?t"
    using assms(2) by (auto simp: only_memory_def on_mem_def)
  ultimately show ?thesis by (simp add: read_reg_def ioctl_refused(2) reg_error_def)
qed

text \<open>Ids and offsets outside the map table.\<close>

lemma internal_read_refused:
  "NUM_IDS \<le> i \<Longrightarrow> ls_dbg_read_reg_internal k i off d = Fail EINVAL d"
  "i < NUM_IDS \<Longrightarrow> map_size (maps d ! unat i) \<le> off \<Longrightarrow> ls_dbg_read_reg_internal k i off d = Fail EFAULT d"
  by (auto simp: ls_dbg_read_reg_internal_def read_reg_io_def reg_find_map_io_def reg_find_map_ram_def Let_def
      IS_IO_MAPPED_MODULE_def NUM_IDS_def NUM_IO_IDS_def word_le_nat_alt word_less_nat_alt)

text \<open>The four tests of refused requests pass on every driver whose windows are not larger than
  \<open>0x100000\<close> bytes: every one of their requests is refused with the error number the test expects, and
  the driver has not changed afterwards.\<close>

lemma error_tests_pass:
  assumes "process_ok k p" and "dev_open t" and "\<forall>g. map_size (maps (tdrv t) ! unat (module_code g)) \<le> 0x100000"
    and "ls \<in> {resource_res_error k p, test_invalid_id k p, test_invalid_offset k p, test_invalid_regsize k p}"
  shows "\<exists>t'. run_lines ls t = Some (True, t') \<and> only_memory (tdrv t) t'"
proof -
  let ?I = "only_memory (tdrv t)"
  have start: "?I t"
    using assms(2) unfolding only_memory_def by (intro conjI exI [of _ "hw (tdrv t)"]) simp_all
  have reserve: "\<exists>ret t'. reserve_res k p g n u = Some (ret, t') \<and> error_ret EINVAL ret t' \<and> ?I t'"
      "\<exists>ret t'. release_res k p g n u = Some (ret, t') \<and> error_ret EINVAL ret t' \<and> ?I t'"
    if "?I u" and "g = 0x1000 \<or> g = group_code LSDBG_RES_EPU_COUNTER \<and> n = 0xFF" for g n u
  proof -
    have "case resource_group g of None \<Rightarrow> True | Some x \<Rightarrow> res_limit x \<le> unat n"
      using that(2) by (auto simp: resource_group_def)
    from reserve_refused [OF assms(1) that(1) this]
    show "\<exists>ret t'. reserve_res k p g n u = Some (ret, t') \<and> error_ret EINVAL ret t' \<and> ?I t'"
      "\<exists>ret t'. release_res k p g n u = Some (ret, t') \<and> error_ret EINVAL ret t' \<and> ?I t'" .
  qed
  have size: "\<exists>ret t'. read_reg k p i off buf sz u = Some (ret, t') \<and> reg_error EINVAL ret t' \<and> ?I t'"
    if "?I u" and "sz = 8 \<or> sz = 16 \<or> sz = 100" for i off buf sz u
    by (rule test_read_refused [OF assms(1) that(1)]) (use that(2) in auto)
  have invalid: "\<exists>ret t'. read_reg k p i off buf 32 u = Some (ret, t') \<and> reg_error EINVAL ret t' \<and> ?I t'"
    if "?I u" and "NUM_IDS \<le> i" for i off buf u
    by (rule test_read_refused [OF assms(1) that(1)]) (use internal_read_refused(1) [OF that(2)] in auto)
  have beyond: "\<exists>ret t'. read_reg k p (module_code g) 0x100000 buf 32 u = Some (ret, t') \<and>
      reg_error EFAULT ret t' \<and> ?I t'" if "?I u" for g buf u
  proof -
    have "module_code g < NUM_IDS" by (cases g) (simp_all add: NUM_IDS_def)
    then show ?thesis
      using assms(3)
      by (intro test_read_refused [OF assms(1) that])
        (auto intro!: internal_read_refused(2) simp del: module_code.simps)
  qed
  have ids: "NUM_IDS \<le> - 5" "NUM_IDS \<le> 1000" by (simp_all add: NUM_IDS_def)
  have "\<exists>t'. run_lines ls t = Some (True, t') \<and> ?I t'"
  proof (rule run_lines_all [where I = ?I])
    show "?I t" by (rule start)
    fix act cond u
    assume "(act, cond) \<in> set ls" and u: "?I u"
    then show "\<exists>ret t'. act u = Some (ret, t') \<and> cond ret t' \<and> ?I t'"
      using assms(4) reserve [OF u] size [OF u] invalid [OF u] beyond [OF u] ids
      by (auto simp: resource_res_error_def test_invalid_id_def test_invalid_offset_def test_invalid_regsize_def
          simp del: module_code.simps)
  qed
  then show ?thesis .
qed

section \<open>The test of reservations\<close>

text \<open>The system of the test: the EPU is mapped where the reservation code expects it, the lock is
  free, the reservation registers are storage; \<open>errno\<close> is \<open>e\<close> and the register of the counters \<open>v\<close>.\<close>

definition reg_holds :: "'h kernel \<Rightarrow> errno option \<Rightarrow> u32 \<Rightarrow> 'h test_state \<Rightarrow> bool" where
  "reg_holds k e v t \<longleftrightarrow> dev_open t \<and> terrno t = e \<and> reserv_ready k (tdrv t) \<and> epu_mapped (tdrv t) \<and>
    base_addr (maps (tdrv t) ! 7) = epu_ptr (tdrv t) \<and>
    fst (ioread32 k (reserv_addr LSDBG_RES_EPU_COUNTER (tdrv t)) (hw (tdrv t))) = v"

text \<open>Lines that go on and take the register from one value to another.\<close>

definition lines_ok ::
  "'h kernel \<Rightarrow> 'h line list \<Rightarrow> errno option \<Rightarrow> u32 \<Rightarrow> errno option \<Rightarrow> u32 \<Rightarrow> bool" where
  "lines_ok k ls e v e' v' \<longleftrightarrow>
    (\<forall>t. reg_holds k e v t \<longrightarrow> (\<exists>t'. run_lines ls t = Some (True, t') \<and> reg_holds k e' v' t'))"

lemma lines_Nil: "lines_ok k [] e v e v"
  by (simp add: lines_ok_def)

lemma run_lines_append:
  "run_lines ls t = Some (True, t') \<Longrightarrow> run_lines (ls @ ms) t = run_lines ms t'"
  by (induction ls t rule: run_lines.induct) (auto split: option.splits if_splits)

lemma lines_append: "lines_ok k ls e v e' v' \<Longrightarrow> lines_ok k ms e' v' e'' v'' \<Longrightarrow> lines_ok k (ls @ ms) e v e'' v''"
  unfolding lines_ok_def by (metis run_lines_append)

lemma lines_Cons: "lines_ok k [l] e v e' v' \<Longrightarrow> lines_ok k ls e' v' e'' v'' \<Longrightarrow> lines_ok k (l # ls) e v e'' v''"
  using lines_append [of k "[l]"] by simp

lemma lines_one:
  "(\<And>t. reg_holds k e v t \<Longrightarrow> \<exists>ret t'. act t = Some (ret, t') \<and> cond ret t' \<and> reg_holds k e' v' t') \<Longrightarrow>
    lines_ok k [(act, cond)] e v e' v'"
  by (fastforce simp: lines_ok_def)

lemma reg_holds_mem:
  assumes "process_ok k p" and "reg_holds k e v t"
  shows "reg_holds k e v (on_mem (store_rr p rr) t)" and "reg_holds k e v (on_mem (store_ra p ra) t)"
    and "reg_holds k e v (on_mem (store_val p x) t)"
  using assms by (simp_all add: reg_holds_def on_mem_def process_ok_def)

text \<open>A reservation request as the ioctl runs it.\<close>

lemma reserve_ioctl:
  assumes "process_ok k p" and "dev_open t"
  shows "reserve_res k p (group_code g) n t =
      (let t = on_mem (store_rr p (init_reserve_resource_struct (group_code g) n 0)) t in
       case reserv_op k (Reserve g n) (tdrv t) of
         Done _ d \<Rightarrow> Some (0, t\<lparr>tdrv := d\<rparr>) | Fail e d \<Rightarrow> Some (- 1, t\<lparr>tdrv := d, terrno := Some e\<rparr>)
       | _ \<Rightarrow> None)"
    and "release_res k p (group_code g) n t =
      (let t = on_mem (store_rr p (init_reserve_resource_struct (group_code g) n 0)) t in
       case reserv_op k (Relinquish g n) (tdrv t) of
         Done _ d \<Rightarrow> Some (0, t\<lparr>tdrv := d\<rparr>) | Fail e d \<Rightarrow> Some (- 1, t\<lparr>tdrv := d, terrno := Some e\<rparr>)
       | _ \<Rightarrow> None)"
  by (simp_all add: reserve_res_def release_res_def dev_ioctl_def reg_access_ioctl_def resource_reserve_def
      Let_def on_mem_def process_copies [OF assms(1)] init_reserve_resource_struct_def assms(2)
      split: result.split del: group_code.simps)

lemma counter_op:
  assumes "reg_holds k e v t" and "unat n < 32"
  shows "reserv_op k (Reserve LSDBG_RES_EPU_COUNTER n) (tdrv t) =
      (if bit v (unat n) then Fail EBUSY (tdrv t)
       else Done () ((tdrv t)\<lparr>hw := iowrite32 k (v OR 2 ^ unat n) (reserv_addr LSDBG_RES_EPU_COUNTER (tdrv t)) (hw (tdrv t))\<rparr>))"
    and "reserv_op k (Relinquish LSDBG_RES_EPU_COUNTER n) (tdrv t) =
      (if \<not> bit v (unat n) then Fail EPERM (tdrv t)
       else Done () ((tdrv t)\<lparr>hw := iowrite32 k (v AND NOT (2 ^ unat n)) (reserv_addr LSDBG_RES_EPU_COUNTER (tdrv t)) (hw (tdrv t))\<rparr>))"
  using assms
  by (simp_all add: reg_holds_def reserv_op_eq res_reserve_eq res_relinq_eq reserved_def del: reserv_op.simps)

lemma reg_holds_write:
  assumes "reg_holds k e v t"
  shows "reg_holds k e x (t\<lparr>tdrv := (tdrv t)\<lparr>hw := iowrite32 k x (reserv_addr LSDBG_RES_EPU_COUNTER (tdrv t)) (hw (tdrv t))\<rparr>\<rparr>)"
  using assms by (simp add: reg_holds_def reserv_ready_def storage_write)

lemma reg_holds_errno: "reg_holds k e v t \<Longrightarrow> reg_holds k e' v (t\<lparr>terrno := e'\<rparr>)"
  by (simp add: reg_holds_def)

lemma counter_lines:
  assumes "process_ok k p" and "unat n < 32"
  shows "\<not> bit v (unat n) \<Longrightarrow> lines_ok k [(reserve_res k p (group_code LSDBG_RES_EPU_COUNTER) n, ok_ret)] None v None (v OR 2 ^ unat n)"
    and "bit v (unat n) \<Longrightarrow> lines_ok k [(reserve_res k p (group_code LSDBG_RES_EPU_COUNTER) n, error_ret EBUSY)] None v (Some EBUSY) v"
    and "bit v (unat n) \<Longrightarrow> lines_ok k [(release_res k p (group_code LSDBG_RES_EPU_COUNTER) n, ok_ret)] None v None (v AND NOT (2 ^ unat n))"
    and "\<not> bit v (unat n) \<Longrightarrow> lines_ok k [(release_res k p (group_code LSDBG_RES_EPU_COUNTER) n, error_ret EPERM)] None v (Some EPERM) v"
proof -
  let ?t = "on_mem (store_rr p (init_reserve_resource_struct (group_code LSDBG_RES_EPU_COUNTER) n 0))"
  have held: "reg_holds k None v (?t t)" if "reg_holds k None v t" for t
    by (rule reg_holds_mem(1) [OF assms(1) that])
  have fd: "dev_open t" if "reg_holds k e v t" for t e using that by (simp add: reg_holds_def)
  note eval = reserve_ioctl [OF assms(1) fd] counter_op [OF held assms(2)] reg_holds_write [OF held]
    ok_ret_def error_ret_def
  show "\<not> bit v (unat n) \<Longrightarrow> lines_ok k [(reserve_res k p (group_code LSDBG_RES_EPU_COUNTER) n, ok_ret)] None v None (v OR 2 ^ unat n)"
    by (rule lines_one) (simp add: eval Let_def del: reserv_op.simps group_code.simps, simp add: reg_holds_def on_mem_def)
  show "bit v (unat n) \<Longrightarrow> lines_ok k [(reserve_res k p (group_code LSDBG_RES_EPU_COUNTER) n, error_ret EBUSY)] None v (Some EBUSY) v"
    by (rule lines_one) (simp add: eval Let_def reg_holds_errno [OF held] del: reserv_op.simps group_code.simps)
  show "bit v (unat n) \<Longrightarrow> lines_ok k [(release_res k p (group_code LSDBG_RES_EPU_COUNTER) n, ok_ret)] None v None (v AND NOT (2 ^ unat n))"
    by (rule lines_one) (simp add: eval Let_def del: reserv_op.simps group_code.simps, simp add: reg_holds_def on_mem_def)
  show "\<not> bit v (unat n) \<Longrightarrow> lines_ok k [(release_res k p (group_code LSDBG_RES_EPU_COUNTER) n, error_ret EPERM)] None v (Some EPERM) v"
    by (rule lines_one) (simp add: eval Let_def reg_holds_errno [OF held] del: reserv_op.simps group_code.simps)
qed

text \<open>The kernel stores a value in \<open>val\<close>.\<close>

lemma put_val:
  assumes "process_ok k p" and "reg_holds k e v t"
  shows "\<exists>h. put_user_state (put_user32 k x (val_ptr p)) (tdrv t) = Done () ((tdrv t)\<lparr>hw := h\<rparr>) \<and>
    load_val p h = x \<and> reg_holds k e v (t\<lparr>tdrv := (tdrv t)\<lparr>hw := h\<rparr>\<rparr>)"
proof -
  obtain h where "put_user32 k x (val_ptr p) (hw (tdrv t)) = Some h" "load_val p h = x"
      "\<forall>a. fst (ioread32 k a h) = fst (ioread32 k a (hw (tdrv t)))"
    using assms(1) unfolding process_ok_def by blast
  then show ?thesis using assms(2) by (intro exI [of _ h]) (simp add: put_user_state_def reg_holds_def)
qed

lemma reg_holds_read:
  assumes "reg_holds k e v t"
  shows "ioread32 k (reserv_addr LSDBG_RES_EPU_COUNTER (tdrv t)) (hw (tdrv t)) = (v, hw (tdrv t))"
    and "epu_addr (tdrv t) EPU_CNTR_RES_OFFSET = reserv_addr LSDBG_RES_EPU_COUNTER (tdrv t)"
proof -
  have "snd (ioread32 k (reserv_addr LSDBG_RES_EPU_COUNTER (tdrv t)) (hw (tdrv t))) = hw (tdrv t)"
    using assms by (intro storage_read) (simp add: reg_holds_def reserv_ready_def)
  then show "ioread32 k (reserv_addr LSDBG_RES_EPU_COUNTER (tdrv t)) (hw (tdrv t)) = (v, hw (tdrv t))"
    using assms by (simp add: reg_holds_def prod_eq_iff)
  show "epu_addr (tdrv t) EPU_CNTR_RES_OFFSET = reserv_addr LSDBG_RES_EPU_COUNTER (tdrv t)"
    using assms by (simp add: reg_holds_def epu_addr_def reserv_addr_def)
qed

lemma reads_back_lines:
  assumes "process_ok k p"
  shows "lines_ok k (reads_back k p v) None v None v"
  unfolding reads_back_def
proof (rule lines_one)
  fix t assume t: "reg_holds k None v t"
  let ?t = "on_mem (store_ra p (init_reg_access_struct (module_code EPU) EPU_CNTR_RES_OFFSET (val_ptr p) 32)) t"
  have held: "reg_holds k None v ?t" by (rule reg_holds_mem(2) [OF assms t])
  obtain h where put: "put_user_state (put_user32 k v (val_ptr p)) (tdrv ?t) = Done () ((tdrv ?t)\<lparr>hw := h\<rparr>)"
      "load_val p h = v" "reg_holds k None v (?t\<lparr>tdrv := (tdrv ?t)\<lparr>hw := h\<rparr>\<rparr>)"
    using put_val [OF assms held] by blast
  have mapped: "epu_mapped (tdrv ?t)" using held by (simp add: reg_holds_def)
  have "ls_dbg_read_reg_internal k (module_code EPU) EPU_CNTR_RES_OFFSET (tdrv ?t) = Done (ucast v) (tdrv ?t)"
    unfolding internal_epu
    by (subst epu_read_Done [OF mapped])
      (simp_all add: reg_holds_read(1) [OF held] reg_holds_read(2) [OF held] del: module_code.simps)
  moreover have "copy_reg_access k (ra_ptr p) (hw (tdrv ?t)) =
      Some (init_reg_access_struct (module_code EPU) EPU_CNTR_RES_OFFSET (val_ptr p) 32)"
    by (simp add: on_mem_def process_copies [OF assms])
  ultimately have "reg_access_ioctl k DBG_READ_REG (ra_ptr p) (tdrv ?t) = Done () ((tdrv ?t)\<lparr>hw := h\<rparr>)"
    using put(1)
    by (simp add: reg_access_ioctl_def reg_access_def init_reg_access_struct_def Let_def del: module_code.simps)
  then show "\<exists>ret t'. read_reg k p (module_code EPU) EPU_CNTR_RES_OFFSET (val_ptr p) 32 t = Some (ret, t') \<and>
      (reg_ok ret t' \<and> val_is p v ret t') \<and> reg_holds k None v t'"
    using put(2,3) t
    by (simp add: read_reg_def dev_ioctl_def as_bool_def reg_ok_def val_is_def del: module_code.simps)
      (simp add: reg_holds_def)
qed

lemma usage_back_lines:
  assumes "process_ok k p"
  shows "lines_ok k (usage_back k p v) None v None v"
  unfolding usage_back_def
proof (rule lines_one)
  fix t assume t: "reg_holds k None v t"
  let ?rr = "init_reserve_resource_struct (group_code LSDBG_RES_EPU_COUNTER) 0 (val_ptr p)"
  let ?t = "on_mem (store_rr p ?rr) t"
  have held: "reg_holds k None v ?t" by (rule reg_holds_mem(1) [OF assms t])
  obtain h where put: "put_user_state (put_user32 k v (val_ptr p)) (tdrv ?t) = Done () ((tdrv ?t)\<lparr>hw := h\<rparr>)"
      "load_val p h = v" "reg_holds k None v (?t\<lparr>tdrv := (tdrv ?t)\<lparr>hw := h\<rparr>\<rparr>)"
    using put_val [OF assms held] by blast
  have ptr: "epu_ptr (tdrv ?t) \<noteq> 0" using held by (simp add: reg_holds_def reserv_ready_def)
  have "val_ptr p \<noteq> 0" using assms by (simp add: process_ok_def)
  then have "res_get_usage k (reserv_addr LSDBG_RES_EPU_COUNTER (tdrv ?t)) (val_ptr p) (tdrv ?t) =
      Done () ((tdrv ?t)\<lparr>hw := h\<rparr>)"
    using put(1) ptr reg_holds_read(1) [OF held] by (simp add: res_get_usage_def reserv_read_def)
  moreover have "copy_reservation k (rr_ptr p) (hw (tdrv ?t)) = Some ?rr"
    by (simp add: on_mem_def process_copies [OF assms])
  ultimately have "reg_access_ioctl k LS_DBG_RES_GET_USAGE (rr_ptr p) (tdrv ?t) = Done () ((tdrv ?t)\<lparr>hw := h\<rparr>)"
    by (simp add: reg_access_ioctl_def resource_reserve_def resource_op_def init_reserve_resource_struct_def
        limit_check Let_def del: group_code.simps)
  then show "\<exists>ret t'. get_res_usage k p (group_code LSDBG_RES_EPU_COUNTER) (val_ptr p) t = Some (ret, t') \<and>
      val_is p v ret t' \<and> reg_holds k None v t'"
    using put(2,3) t
    by (simp add: get_res_usage_def dev_ioctl_def val_is_def del: group_code.simps) (simp add: reg_holds_def)
qed

lemma misc_lines:
  assumes "process_ok k p"
  shows "lines_ok k [(set_val p x, always)] e v e v" and "lines_ok k [(reset_errno, always)] e v None v"
proof -
  show "lines_ok k [(set_val p x, always)] e v e v"
    by (rule lines_one) (simp add: set_val_def reg_holds_mem(3) [OF assms])
  show "lines_ok k [(reset_errno, always)] e v None v"
    by (rule lines_one) (simp add: reset_errno_def reg_holds_errno)
qed

lemma normal_lines:
  assumes "process_ok k p"
  shows "lines_ok k (resource_res_normal k p) None 0 None 0"
proof -
  note op = counter_lines [OF assms] and rd = reads_back_lines [OF assms] and us = usage_back_lines [OF assms]
    and misc = misc_lines [OF assms]
  let ?take = "\<lambda>n cond. [(reserve_res k p (group_code LSDBG_RES_EPU_COUNTER) n, cond)]"
  let ?give = "\<lambda>n cond. [(release_res k p (group_code LSDBG_RES_EPU_COUNTER) n, cond)]"
  have taken: "lines_ok k (?take 15 ok_ret) None 0 None 0x8000"
    "lines_ok k (?take 31 ok_ret) None 0x8000 None 0x80008000"
    "lines_ok k (?take 0 ok_ret) None 0x80008000 None 0x80008001"
    "lines_ok k (?take 1 ok_ret) None 0x80008001 None 0x80008003"
    using op(1) [of 15 0] op(1) [of 31 "0x8000"] op(1) [of 0 "0x80008000"] op(1) [of 1 "0x80008001"]
    by (simp_all add: bit_iff_odd del: group_code.simps)
  have given: "lines_ok k (?give 15 ok_ret) None 0x80008003 None 0x80000003"
    "lines_ok k (?give 31 ok_ret) None 0x80000003 None 3"
    "lines_ok k (?give 0 ok_ret) None 3 None 2" "lines_ok k (?give 1 ok_ret) None 2 None 0"
    using op(3) [of 15 "0x80008003"] op(3) [of 31 "0x80000003"] op(3) [of 0 3] op(3) [of 1 2]
    by (simp_all add: bit_iff_odd del: group_code.simps)
  have refused: "lines_ok k (?take 1 (error_ret EBUSY)) None 0x80000003 (Some EBUSY) 0x80000003"
    "lines_ok k (?give 5 (error_ret EPERM)) None 0x80000003 (Some EPERM) 0x80000003"
    using op(2) [of 1 "0x80000003"] op(4) [of 5 "0x80000003"]
    by (simp_all add: bit_iff_odd del: group_code.simps)
  show ?thesis
    unfolding resource_res_normal_def Let_def
    apply (intro lines_append)
    apply (rule lines_Cons [OF misc(1)] lines_Cons [OF taken(1)] lines_Cons [OF taken(2)]
        lines_Cons [OF taken(3)] )+
    apply (rule taken(4))
    apply (rule rd us given(1))+
    apply (rule lines_Cons [OF refused(1)] misc(2))+
    apply (rule rd us given(1))+
    apply (rule lines_Cons [OF refused(2)] misc(2))+
    apply (rule rd us given(1))+
    apply (rule lines_Cons [OF given(2)] lines_Cons [OF given(3)] given(4))+
    apply (rule rd)
    done
qed

text \<open>The test of normal reservations passes: with the counters' reservation register at zero, every
  request of \<open>resource_res_normal\<close> gets the answer and every read and usage query the value that the
  test expects, \<open>EBUSY\<close> and \<open>EPERM\<close> included, and the register is zero again afterwards.\<close>

lemma reservation_test_passes:
  assumes "process_ok k p" and "dev_open t" and "terrno t = None"
    and "reserv_ready k (tdrv t)" and "epu_mapped (tdrv t)" and "base_addr (maps (tdrv t) ! 7) = epu_ptr (tdrv t)"
    and "fst (ioread32 k (reserv_addr LSDBG_RES_EPU_COUNTER (tdrv t)) (hw (tdrv t))) = 0"
  shows "\<exists>t'. run_lines (resource_res_normal k p) t = Some (True, t') \<and> terrno t' = None \<and>
    fst (ioread32 k (reserv_addr LSDBG_RES_EPU_COUNTER (tdrv t')) (hw (tdrv t'))) = 0"
proof -
  have "reg_holds k None 0 t" using assms by (simp add: reg_holds_def)
  then obtain t' where "run_lines (resource_res_normal k p) t = Some (True, t')" "reg_holds k None 0 t'"
    using normal_lines [OF assms(1)] unfolding lines_ok_def by blast
  then show ?thesis by (auto simp: reg_holds_def)
qed

section \<open>The test of a virtual register\<close>

text \<open>The test writes and reads virtual counter 1, which is what its offset for counter 0 reaches.\<close>

lemma test_offset_0: "VCOUNT_VCNTR_OFFSET 0 = vreg_off (Vcntr 1)"
  by (simp add: VCOUNT_VCNTR_OFFSET_def)

lemma vcount_test_passes:
  assumes "process_ok k p" and "vcount_mapped k (tdrv t)" and "wf_vcounters (vcnt (tdrv t))" and "dev_open t"
  shows "\<exists>t'. run_lines (test_read_write_vcount k p) t = Some (True, t')"
proof -
  let ?ra = "init_reg_access_struct (module_code VCOUNT) (vreg_off (Vcntr 1)) (val64_ptr p) 64"
  let ?x = "VCOUNT_64_TEST_VAL"
  let ?t1 = "on_mem (store_ra p ?ra \<circ> store_val64 p ?x) t"
  let ?d2 = "(tdrv ?t1)\<lparr>vcnt := vreg_store (Vcntr 1) ?x (vcnt (tdrv t))\<rparr>"
  let ?t3 = "on_mem (store_ra p ?ra) (?t1\<lparr>tdrv := ?d2\<rparr>)"
  have map: "vcount_mapped k (tdrv ?t1)" "vcount_mapped k (tdrv ?t3)" using assms(2) by (simp_all add: on_mem_def)
  have "ls_dbg_write_reg_internal k (module_code VCOUNT) (vreg_off (Vcntr 1)) ?x (tdrv ?t1) = Done () ?d2"
    using vcount_plain(2) [OF map(1), of "Vcntr 1" ?x] by (simp add: on_mem_def del: vreg_off.simps vreg_store.simps module_code.simps)
  then have w: "reg_access_ioctl k DBG_WRITE_REG (ra_ptr p) (tdrv ?t1) = Done () ?d2"
    by (simp add: reg_access_ioctl_def reg_access_def process_copies [OF assms(1)] on_mem_def
        init_reg_access_struct_def Let_def del: vreg_off.simps vreg_store.simps module_code.simps)
  obtain h where put: "put_user64 k ?x (val64_ptr p) (hw (tdrv ?t3)) = Some h" "load_val64 p h = ?x"
    using assms(1) unfolding process_ok_def by blast
  have "ls_dbg_read_reg_internal k (module_code VCOUNT) (vreg_off (Vcntr 1)) (tdrv ?t3) = Done ?x (tdrv ?t3)"
    using vcount_plain(1) [OF map(2), of "Vcntr 1"] assms(3)
    by (simp add: on_mem_def wf_vcounters_def del: vreg_off.simps module_code.simps)
  then have r: "reg_access_ioctl k DBG_READ_REG (ra_ptr p) (tdrv ?t3) = Done () ((tdrv ?t3)\<lparr>hw := h\<rparr>)"
    using put(1)
    by (simp add: reg_access_ioctl_def reg_access_def process_copies [OF assms(1)] on_mem_def put_user_state_def
        init_reg_access_struct_def Let_def del: vreg_off.simps vreg_store.simps module_code.simps)
  have mem: "on_mem (store_ra p ?ra) (on_mem (store_val64 p ?x) t) = ?t1" by (simp add: on_mem_def)
  have fd: "dev_open ?t1" "dev_open (?t1\<lparr>tdrv := ?d2\<rparr>)" using assms(4) by simp_all
  show ?thesis
    using fd
    by (simp add: test_read_write_vcount_def set_val64_def write_reg_def read_reg_def dev_ioctl_def as_bool_def
        test_offset_0 mem w r put(2) not_negative_def
        del: vreg_off.simps vreg_store.simps module_code.simps One_nat_def)
qed

text \<open>The checks \<open>FAIL_IF(ret < 0)\<close> of \<open>test_simple_read\<close> cannot fail, because \<open>read_reg\<close> returns \<open>0\<close> or
  \<open>1\<close>: the test passes whenever its requests return, also when every one of them is refused.\<close>

lemma simple_read_test_cannot_fail:
  "run_lines (test_simple_read k p) t = Some (b, t') \<Longrightarrow> b"
proof -
  have "not_negative ret u" if "read_reg k p i off buf sz v = Some (ret, u)" for ret u i off buf sz v
    using that by (auto simp: read_reg_def as_bool_def not_negative_def split: if_splits)
  then show "run_lines (test_simple_read k p) t = Some (b, t') \<Longrightarrow> b"
    by (auto simp: test_simple_read_def split: option.splits if_splits)
qed

section \<open>A process on the test bench\<close>

text \<open>The variables \<open>val\<close> and \<open>val64\<close> are the only writable addresses.\<close>

definition bench_process :: "bench process" where
  "bench_process =
    \<lparr>ra_ptr = 0x100, rr_ptr = 0x200, val_ptr = 0x1000, val64_ptr = 0x2000,
     store_ra = (\<lambda>ra h. h\<lparr>user_ra := Some ra\<rparr>), store_rr = (\<lambda>rr h. h\<lparr>user_rr := Some rr\<rparr>),
     store_val = (\<lambda>v h. h\<lparr>user_mem := (user_mem h)(0x1000 \<mapsto> ucast v)\<rparr>),
     load_val = (\<lambda>h. ucast (the (user_mem h 0x1000))),
     store_val64 = (\<lambda>v h. h\<lparr>user_mem := (user_mem h)(0x2000 \<mapsto> v)\<rparr>),
     load_val64 = (\<lambda>h. the (user_mem h 0x2000))\<rparr>"

definition test_kernel :: "bench kernel" where
  "test_kernel = bench_kernel
    \<lparr>put_user32 := (\<lambda>v p h. if p = 0x1000 then Some (h\<lparr>user_mem := (user_mem h)(p \<mapsto> ucast v)\<rparr>) else None),
     put_user64 := (\<lambda>v p h. if p = 0x2000 then Some (h\<lparr>user_mem := (user_mem h)(p \<mapsto> v)\<rparr>) else None)\<rparr>"

lemma bench_process_ok: "process_ok test_kernel bench_process"
  by (simp add: process_ok_def test_kernel_def bench_process_def)

lemma test_kernel_regs [simp]: "ioread32 test_kernel = ioread32 bench_kernel" "iowrite32 test_kernel = iowrite32 bench_kernel"
  by (simp_all add: test_kernel_def del: bench_kernel_simps)

lemma test_kernel_ready: "reserv_ready test_kernel (bench_driver h)"
  using reserv_ready_bench [of h] by (simp add: reserv_ready_def storage_def)

definition bench_opened :: "bench test_state" where
  "bench_opened = \<lparr>tdrv = bench_driver bench_world, terrno = None, dev_fd = 3, dev_fds = [3]\<rparr>"

lemma reservation_test_passes_witness:
  "\<exists>t'. run_lines (resource_res_normal test_kernel bench_process) bench_opened = Some (True, t') \<and>
    terrno t' = None"
proof -
  have "reserv_ready test_kernel (tdrv bench_opened)"
    using test_kernel_ready by (simp add: bench_opened_def)
  then show ?thesis
    using reservation_test_passes [OF bench_process_ok, of bench_opened]
    by (auto simp: bench_opened_def bench_world_def dev_open_def)
qed

lemma error_tests_pass_witness:
  "\<exists>t'. run_lines (test_invalid_offset test_kernel bench_process) bench_opened = Some (True, t')"
proof -
  have "\<forall>g. map_size (maps (tdrv bench_opened) ! unat (module_code g)) \<le> 0x100000"
  proof
    fix g show "map_size (maps (tdrv bench_opened) ! unat (module_code g)) \<le> 0x100000"
      by (cases g) (simp_all add: bench_opened_def bench_driver_def bench_maps_def zero_map_def)
  qed
  moreover have "dev_open bench_opened" by (simp add: bench_opened_def dev_open_def)
  ultimately show ?thesis
    using error_tests_pass [OF bench_process_ok, of bench_opened "test_invalid_offset test_kernel bench_process"]
    by auto
qed

end
