(* ===== verification/Test_Run.thy ===== *)
theory Test_Run
  imports Test_Program Load_Unload
begin

text \<open>
  Running the tests: \<open>run_tests\<close> of \<open>test_ls_dbg.c\<close> loads the module, opens the device, calls a test and
  undoes both, for every entry of \<open>all_tests\<close>.  The shell, the C library and the kernel's file system
  are the parameter \<open>os\<close>, which sees the module itself, so that the whole program runs against the whole
  driver.
\<close>

section \<open>The character device\<close>

record 'h file_operations =
  fop_read :: "(u32 \<Rightarrow> u32 \<Rightarrow> 'h driver \<Rightarrow> (u32, 'h driver) result) option" \<comment> \<open>buffer, count\<close>
  fop_write :: "(u32 \<Rightarrow> u32 \<Rightarrow> 'h driver \<Rightarrow> (u32, 'h driver) result) option"
  fop_unlocked_ioctl :: "(ioctl_cmd \<Rightarrow> u32 \<Rightarrow> 'h driver \<Rightarrow> (unit, 'h driver) result) option"

definition reg_access_fops :: "'h kernel \<Rightarrow> 'h file_operations" where
  "reg_access_fops k = \<lparr>fop_read = None, fop_write = None, fop_unlocked_ioctl = Some (reg_access_ioctl k)\<rparr>"

record 'h miscdevice =
  misc_name :: string
  misc_fops :: "'h file_operations"

definition reg_access_dev :: "'h kernel \<Rightarrow> 'h miscdevice" where
  "reg_access_dev k = \<lparr>misc_name = ''ls-dbg'', misc_fops = reg_access_fops k\<rparr>"

section \<open>The program and the system it runs on\<close>

text \<open>The process with its variables, and the module: its data outside the driver record, whether it is
  loaded, and whether the driver core has bound the device to it.\<close>

record 'h session =
  tst :: "'h test_state"
  sdevs :: "dbg_device list"
  sroot :: u32
  sloaded :: bool
  sbound :: bool

definition module_of :: "'h session \<Rightarrow> 'h module" where
  "module_of s = \<lparr>drv = tdrv (tst s), dbg_devs = sdevs s, dbgfs_root_dentry = sroot s\<rparr>"

definition put_module :: "'h module \<Rightarrow> 'h session \<Rightarrow> 'h session" where
  "put_module m s = s\<lparr>tst := (tst s)\<lparr>tdrv := drv m\<rparr>, sdevs := dbg_devs m, sroot := dbgfs_root_dentry m\<rparr>"

record 'h os =
  system :: "string \<Rightarrow> 'h session \<Rightarrow> u32 \<times> 'h session"
  open_rdwr :: "string \<Rightarrow> 'h session \<Rightarrow> int \<times> 'h session"
  close_fd :: "int \<Rightarrow> 'h session \<Rightarrow> int \<times> 'h session"
  vfs_read :: "'h file_operations \<Rightarrow> u32 \<Rightarrow> u32 \<Rightarrow> 'h driver \<Rightarrow> (u32, 'h driver) result"
  vfs_write :: "'h file_operations \<Rightarrow> u32 \<Rightarrow> u32 \<Rightarrow> 'h driver \<Rightarrow> (u32, 'h driver) result"

section \<open>Setting a test up and cleaning up\<close>

abbreviation (input) MODULE_NAME :: string where "MODULE_NAME \<equiv> ''ls-dbg''"
abbreviation (input) DEVPATH :: string where "DEVPATH \<equiv> ''/dev/ls-dbg''"
abbreviation (input) CMD_SIZE :: nat where "CMD_SIZE \<equiv> 128"

text \<open>The macros of \<open>sys/wait.h\<close>.\<close>

definition WIFEXITED :: "u32 \<Rightarrow> bool" where "WIFEXITED status \<longleftrightarrow> status AND 0x7f = 0"
definition WEXITSTATUS :: "u32 \<Rightarrow> u32" where "WEXITSTATUS status = drop_bit 8 (status AND 0xff00)"

text \<open>\<open>snprintf\<close> cuts the command to the buffer; the return values \<open>1\<close> and \<open>0\<close> are truth values.\<close>

definition insert_module :: "'h os \<Rightarrow> 'h session \<Rightarrow> bool \<times> 'h session" where
  "insert_module os s =
    (let (ret, s) = system os (take (CMD_SIZE - 1) (''insmod '' @ MODULE_NAME @ ''.ko'')) s
     in (WIFEXITED ret \<and> WEXITSTATUS ret = 0, s))"

definition remove_module :: "'h os \<Rightarrow> 'h session \<Rightarrow> bool \<times> 'h session" where
  "remove_module os s =
    (let (ret, s) = system os (take (CMD_SIZE - 1) (''rmmod '' @ MODULE_NAME)) s
     in (WIFEXITED ret \<and> WEXITSTATUS ret = 0, s))"

definition test_setup :: "'h os \<Rightarrow> 'h session \<Rightarrow> bool \<times> 'h session" where
  "test_setup os s =
    (let (inserted, s) = insert_module os s in
     if \<not> inserted then (False, s)
     else let (fd, s) = open_rdwr os DEVPATH s; s = s\<lparr>tst := (tst s)\<lparr>dev_fd := fd\<rparr>\<rparr> in
          if fd < 0 then (False, s) else (True, s))"

definition test_cleanup :: "'h os \<Rightarrow> 'h session \<Rightarrow> bool \<times> 'h session" where
  "test_cleanup os s =
    (let (ret, s) = close_fd os (dev_fd (tst s)) s in
     if ret < 0 then (False, s)
     else let (removed, s) = remove_module os s in
          if \<not> removed then (False, s) else (True, s))"

section \<open>The remaining tests\<close>

definition test_open_close :: "'h line list" where
  "test_open_close = []"

text \<open>\<open>read\<close> and \<open>write\<close> on \<open>dev_fd\<close>: the count that was transferred, or \<open>-1\<close> and \<open>errno\<close>.\<close>

definition dev_transfer ::
  "('h file_operations \<Rightarrow> u32 \<Rightarrow> u32 \<Rightarrow> 'h driver \<Rightarrow> (u32, 'h driver) result) \<Rightarrow> 'h kernel \<Rightarrow>
    u32 \<Rightarrow> u32 \<Rightarrow> 'h action" where
  "dev_transfer transfer k buf n t =
    (if \<not> dev_open t then Some (- 1, t\<lparr>terrno := Some EBADF\<rparr>)
     else case transfer (misc_fops (reg_access_dev k)) buf n (tdrv t) of
       Done count d \<Rightarrow> Some (uint count, t\<lparr>tdrv := d\<rparr>)
     | Fail e d \<Rightarrow> Some (- 1, t\<lparr>tdrv := d, terrno := Some e\<rparr>)
     | Spin \<Rightarrow> None
     | Undef \<Rightarrow> None)"

definition test_read_write :: "'h kernel \<Rightarrow> 'h os \<Rightarrow> 'h process \<Rightarrow> 'h line list" where
  "test_read_write k os p =
    [(set_val p 0, always),
     (dev_transfer (vfs_read os) k (val_ptr p) 4, error_ret EINVAL),
     (dev_transfer (vfs_write os) k (val_ptr p) 4, error_ret EINVAL)]"

section \<open>Running the tests\<close>

text \<open>An entry of \<open>all_tests\<close>; \<open>returns_value\<close> says whether the function ends with a \<open>return\<close> statement.\<close>

datatype 'h test = Test (test_name: string) (test_lines: "'h line list") (returns_value: bool)

text \<open>Calling the function: its result; no result when a call into the kernel has none; and, when it
  falls off its end, a result that \<open>run_tests\<close> uses although C leaves that undefined.\<close>

datatype 'h called = Result bool "'h session" | Stuck | Off_end

definition call_test :: "'h test \<Rightarrow> 'h session \<Rightarrow> 'h called" where
  "call_test T s =
    (case run_lines (test_lines T) (tst s) of
       None \<Rightarrow> Stuck
     | Some (passed, t) \<Rightarrow>
         if passed \<and> \<not> returns_value T then Off_end else Result passed (s\<lparr>tst := t\<rparr>))"

text \<open>What a run prints, and how it ends.\<close>

datatype 'h outcome = Finished string "'h session" | No_end string | C_undefined string

fun after_output :: "string \<Rightarrow> 'h outcome \<Rightarrow> 'h outcome" where
  "after_output out (Finished out' s) = Finished (out @ out') s"
| "after_output out (No_end out') = No_end (out @ out')"
| "after_output out (C_undefined out') = C_undefined (out @ out')"

definition verdict :: "nat \<Rightarrow> string" where
  "verdict num_failures = (if num_failures = 0 then ''PASS'' else ''FAIL'') @ [CHR 0x0A, CHR 0x0A]"

fun run_tests :: "'h os \<Rightarrow> 'h test list \<Rightarrow> 'h session \<Rightarrow> 'h outcome" where
  "run_tests os [] s = Finished [] s"
| "run_tests os (T # tests) s =
    (let out = test_name T @ '': ''; num_failures = 0 :: nat;
         (ret, s) = test_setup os s;
         num_failures = (if ret then num_failures else num_failures + 1)
     in case call_test T s of
          Stuck \<Rightarrow> No_end out
        | Off_end \<Rightarrow> C_undefined out
        | Result ret s \<Rightarrow>
          (let num_failures = (if ret then num_failures else num_failures + 1);
               (ret, s) = test_cleanup os s;
               num_failures = (if ret then num_failures else num_failures + 1)
           in after_output (out @ verdict num_failures) (run_tests os tests s)))"

definition all_tests :: "'h kernel \<Rightarrow> 'h os \<Rightarrow> 'h process \<Rightarrow> 'h test list" where
  "all_tests k os p =
    [Test ''Opening and closing the device'' test_open_close True,
     Test ''Normal Resource Reservation behavior'' (resource_res_normal k p) True,
     Test ''Invalid Resource Reservation behavior'' (resource_res_error k p) True,
     Test ''Read invalid id'' (test_invalid_id k p) True,
     Test ''Read invalid offset'' (test_invalid_offset k p) True,
     Test ''Read invalid buffer'' (test_invalid_buffer k p) True,
     Test ''Read invalid regsize'' (test_invalid_regsize k p) True,
     Test ''Reading/Writing from/to the device'' (test_read_write k os p) True,
     Test ''Simple register write'' (test_simple_write k p) False,
     Test ''Simple register read'' (test_simple_read k p) True,
     Test ''Read/Write V regs'' (test_read_write_vcount k p) True]"

definition test_main :: "'h kernel \<Rightarrow> 'h os \<Rightarrow> 'h process \<Rightarrow> 'h session \<Rightarrow> 'h outcome" where
  "test_main k os p = run_tests os (all_tests k os p)"

section \<open>The program never has a defined end\<close>

lemma after_output_Finished: "after_output out r = Finished out' s \<Longrightarrow> \<exists>out'. r = Finished out' s"
  by (cases r) auto

lemma off_end_not_finished:
  assumes "T \<in> set tests" and "\<not> returns_value T"
    and "\<And>t b t'. run_lines (test_lines T) t = Some (b, t') \<Longrightarrow> b"
  shows "run_tests os tests s \<noteq> Finished out s'"
  using assms(1)
proof (induction tests arbitrary: s out)
  case (Cons U tests)
  show ?case
  proof
    assume "run_tests os (U # tests) s = Finished out s'"
    then obtain s1 b s2 s3 out' where call: "call_test U s1 = Result b s2"
      and rest: "run_tests os tests s3 = Finished out' s'"
      by (auto simp: Let_def split: prod.splits called.splits dest!: after_output_Finished)
    have "U \<noteq> T" using call assms(2,3) by (auto simp: call_test_def split: option.splits if_splits prod.splits)
    with Cons.prems have "T \<in> set tests" by auto
    then show False using Cons.IH rest by blast
  qed
qed simp

lemma write_reg_bool: "write_reg k p i off buf sz v = Some (ret, u) \<Longrightarrow> not_negative ret u"
  by (auto simp: write_reg_def as_bool_def not_negative_def split: if_splits)

lemma simple_write_runs_off: "run_lines (test_simple_write k p) t = Some (b, t') \<Longrightarrow> b"
  by (auto simp: test_simple_write_def set_val_def set_val64_def split: option.splits if_splits
      dest!: write_reg_bool)

text \<open>C25: \<open>test_simple_write\<close> ends without a \<open>return\<close> and none of its checks can fail, because \<open>write_reg\<close>
  returns \<open>0\<close> or \<open>1\<close>; \<open>run_tests\<close> uses its value.  So on no system whatever, and whatever the driver
  does, does the test program come to a defined end.\<close>

theorem test_program_undefined:
  "test_main k os p s \<noteq> Finished out s'"
  unfolding test_main_def
  by (rule off_end_not_finished [where T = "Test ''Simple register write'' (test_simple_write k p) False"])
    (auto simp: all_tests_def dest: simple_write_runs_off)

end
