(* ===== verification/Test_Suite.thy ===== *)
theory Test_Suite
  imports Test_Run
begin

text \<open>
  The whole program on the whole driver: on a board whose services succeed every test loads the module,
  passes and unloads it again, up to the one that ends without a \<open>return\<close>.
\<close>

section \<open>What the program needs of the system\<close>

text \<open>
  The shell runs the module loader, whose exit status is \<open>0\<close> when the module's entry point returns \<open>0\<close>;
  the device node exists while the device is bound; a module can be unloaded when no descriptor is
  open; the kernel refuses with \<open>EINVAL\<close> to transfer data on a file that has no such operation.  A call
  that succeeds leaves \<open>errno\<close> alone, which the test of reservations relies on.
\<close>

definition os_ok :: "'h kernel \<Rightarrow> 'h platform \<Rightarrow> 'h debugfs \<Rightarrow> 'h os \<Rightarrow> bool" where
  "os_ok k pf fs os \<longleftrightarrow>
    (\<forall>s m. \<not> sloaded s \<and>
      dcsr_module_init k pf fs (dcsr_matches pf (hw (tdrv (tst s)))) (initial_module (hw (tdrv (tst s)))) = Done () m \<longrightarrow>
      system os ''insmod ls-dbg.ko'' s =
        (0, put_module m s\<lparr>sloaded := True, sbound := probe_binds pf fs (hw (tdrv (tst s)))\<rparr>)) \<and>
    (\<forall>s m. sloaded s \<and> dev_fds (tst s) = [] \<and> dcsr_module_exit k pf (sbound s) (module_of s) = Done () m \<longrightarrow>
      system os ''rmmod ls-dbg'' s = (0, put_module m s\<lparr>sloaded := False, sbound := False\<rparr>)) \<and>
    (\<forall>s. sloaded s \<and> sbound s \<longrightarrow>
      (\<exists>fd\<ge>0. open_rdwr os (''/dev/'' @ misc_name (reg_access_dev k)) s =
        (fd, s\<lparr>tst := (tst s)\<lparr>dev_fds := fd # dev_fds (tst s)\<rparr>\<rparr>))) \<and>
    (\<forall>s fd. fd \<in> set (dev_fds (tst s)) \<longrightarrow>
      close_fd os fd s = (0, s\<lparr>tst := (tst s)\<lparr>dev_fds := remove1 fd (dev_fds (tst s))\<rparr>\<rparr>)) \<and>
    (\<forall>fops buf n d. fop_read fops = None \<longrightarrow> vfs_read os fops buf n d = Fail EINVAL d) \<and>
    (\<forall>fops buf n d. fop_write fops = None \<longrightarrow> vfs_write os fops buf n d = Fail EINVAL d)"

text \<open>The board: its device tree has the driver's device and one EPU, at \<open>a\<close>; no window is larger than
  \<open>0x100000\<close> bytes; the kernel's services succeed.\<close>

definition board_ok :: "'h kernel \<Rightarrow> 'h platform \<Rightarrow> 'h debugfs \<Rightarrow> (string \<Rightarrow> u32 list) \<Rightarrow> u32 \<Rightarrow> u32 \<Rightarrow> bool" where
  "board_ok k pf fs nodes node a \<longleftrightarrow>
    linked k \<and> epu_node pf nodes node a \<and> nodes ''fsl,dcsr'' \<noteq> [] \<and> services_succeed pf fs \<and>
    (\<forall>node i h. range_size pf node i h \<le> 0x100000)"

section \<open>Setup and cleanup\<close>

definition unloaded :: "'h session \<Rightarrow> bool" where
  "unloaded s \<longleftrightarrow> \<not> sloaded s \<and> dev_fds (tst s) = []"

definition device_open :: "'h session \<Rightarrow> bool" where
  "device_open s \<longleftrightarrow> sloaded s \<and> sbound s \<and> dev_fds (tst s) = [dev_fd (tst s)]"

lemma exit_status_0 [simp]: "WIFEXITED 0" "WEXITSTATUS 0 = 0"
  by (simp_all add: WIFEXITED_def WEXITSTATUS_def)

lemma setup_opens:
  assumes "os_ok k pf fs os" and "board_ok k pf fs nodes node a" and "unloaded s"
    and "services_keep J pf fs" and "J (hw (tdrv (tst s)))"
  shows "\<exists>s'. test_setup os s = (True, s') \<and> device_open s' \<and> loaded_ok k a 0x100000 (tdrv (tst s')) \<and>
    J (hw (tdrv (tst s'))) \<and> terrno (tst s') = terrno (tst s)"
proof -
  let ?h = "hw (tdrv (tst s))"
  have board: "epu_node pf nodes node a" "linked k" "services_succeed pf fs"
      "\<forall>node i h. range_size pf node i h \<le> 0x100000" "dcsr_matches pf ?h"
    using assms(2) by (auto simp: board_ok_def dcsr_matches_def dcsr_id_table_def epu_node_def)
  obtain m where m: "dcsr_module_init k pf fs True (initial_module ?h) = Done () m"
      "loaded_ok k a 0x100000 (drv m)"
    using loading [OF board(1-4)] by auto
  have J: "J (hw (drv m))"
    using module_init_keeps [OF assms(4), of "initial_module ?h" True k True] m(1) assms(5)
    by (simp add: initial_module_def initial_driver_def)
  define s1 where "s1 = put_module m s\<lparr>sloaded := True, sbound := True\<rparr>"
  have s1: "sloaded s1" "sbound s1" "dev_fds (tst s1) = []" "tdrv (tst s1) = drv m" "terrno (tst s1) = terrno (tst s)"
    using assms(3) by (simp_all add: s1_def put_module_def unloaded_def)
  have "system os ''insmod ls-dbg.ko'' s = (0, s1)"
    using assms(1,3) m(1) board(5) probe_binds_services [OF board(3,5)]
    by (simp add: os_ok_def unloaded_def s1_def)
  then have ins: "insert_module os s = (True, s1)" by (simp add: insert_module_def)
  obtain fd where fd: "0 \<le> fd" "open_rdwr os ''/dev/ls-dbg'' s1 =
      (fd, s1\<lparr>tst := (tst s1)\<lparr>dev_fds := fd # dev_fds (tst s1)\<rparr>\<rparr>)"
    using assms(1) s1(1,2) unfolding os_ok_def reg_access_dev_def by auto
  show ?thesis
    using m(2) J s1 fd(1) by (simp add: test_setup_def ins fd(2) device_open_def Let_def)
qed

lemma cleanup_unloads:
  assumes "os_ok k pf fs os" and "device_open s"
    and "services_keep J pf fs" and "unbinding_keeps J k (base_addr (maps (tdrv (tst s)) ! 7))"
    and "J (hw (tdrv (tst s)))"
  shows "\<exists>s'. test_cleanup os s = (True, s') \<and> unloaded s' \<and> J (hw (tdrv (tst s'))) \<and>
    terrno (tst s') = terrno (tst s)"
proof -
  let ?s1 = "s\<lparr>tst := (tst s)\<lparr>dev_fds := []\<rparr>\<rparr>"
  have cl: "close_fd os (dev_fd (tst s)) s = (0, ?s1)"
    using assms(1,2) by (simp add: os_ok_def device_open_def)
  have "module_of ?s1 = module_of s" by (simp add: module_of_def)
  moreover obtain m where m: "dcsr_module_exit k pf (sbound s) (module_of s) = Done () m" "J (hw (drv m))"
    using module_exit_keeps [OF assms(3), of k "module_of s" "sbound s"] assms(4,5) by (auto simp: module_of_def)
  ultimately have "system os ''rmmod ls-dbg'' ?s1 = (0, put_module m ?s1\<lparr>sloaded := False, sbound := False\<rparr>)"
    using assms(1,2) by (simp add: os_ok_def device_open_def)
  then show ?thesis
    using cl m(2) by (simp add: test_cleanup_def remove_module_def unloaded_def put_module_def)
qed

section \<open>What the tests leave\<close>

text \<open>No call of a test changes the map table, the EPU pointer or the open descriptors.\<close>

definition same_device :: "map_info list \<Rightarrow> u32 \<Rightarrow> int \<Rightarrow> 'h test_state \<Rightarrow> bool" where
  "same_device m a fd t \<longleftrightarrow> kept m a (tdrv t) \<and> dev_fd t = fd \<and> dev_fds t = [fd]"

definition safe_line :: "'h line \<Rightarrow> bool" where
  "safe_line l \<longleftrightarrow> (\<forall>m a fd t ret t'. same_device m a fd t \<longrightarrow> fst l t = Some (ret, t') \<longrightarrow> same_device m a fd t')"

lemma same_device_simps [simp]:
  "same_device m a fd (on_mem f t) = same_device m a fd t"
  "same_device m a fd (t\<lparr>terrno := e\<rparr>) = same_device m a fd t"
  by (simp_all add: same_device_def on_mem_def)

lemma same_device_open: "same_device m a fd t \<Longrightarrow> dev_open t"
  by (simp add: same_device_def dev_open_def)

lemma run_lines_safe:
  "\<forall>l\<in>set ls. safe_line l \<Longrightarrow> same_device m a fd t \<Longrightarrow> run_lines ls t = Some (b, t') \<Longrightarrow> same_device m a fd t'"
proof (induction ls t arbitrary: b t' rule: run_lines.induct)
  case (2 act cond ls t)
  obtain ret t1 where act: "act t = Some (ret, t1)" using "2.prems"(3) by (auto split: option.splits)
  have t1: "same_device m a fd t1" using "2.prems"(1,2) act unfolding safe_line_def by auto
  show ?case
  proof (cases "cond ret t1")
    case True
    then show ?thesis using "2.IH" [OF act refl True _ t1] "2.prems"(1,3) act by simp
  next
    case False
    then show ?thesis using t1 "2.prems"(3) act by simp
  qed
qed simp

lemma safe_ioctl:
  assumes "same_device m a fd t" and "dev_ioctl k cmd arg t = Some (ret, t')"
  shows "same_device m a fd t'"
proof -
  have "stays True (kept m a) (reg_access_ioctl k cmd arg (tdrv t))"
    using assms(1) by (intro kept_ioctl) (simp add: same_device_def)
  then show ?thesis
    using assms by (auto simp: dev_ioctl_def same_device_def split: if_splits result.splits)
qed

lemma safe_requests:
  "safe_line (reserve_res k p g n, c)" "safe_line (release_res k p g n, c)" "safe_line (get_res_usage k p g u, c)"
  "safe_line (read_reg k p i off buf sz, c)" "safe_line (write_reg k p i off buf sz, c)"
  "safe_line (set_val p v, c)" "safe_line (set_val64 p w, c)" "safe_line (reset_errno, c)"
  by (auto simp: safe_line_def reserve_res_def release_res_def get_res_usage_def read_reg_def write_reg_def
      as_bool_def set_val_def set_val64_def reset_errno_def intro: safe_ioctl [OF same_device_simps(1) [THEN iffD2]])

lemma safe_tests:
  assumes "ls \<in> {resource_res_normal k p, resource_res_error k p, test_invalid_id k p, test_invalid_offset k p,
    test_invalid_buffer k p, test_invalid_regsize k p, test_simple_write k p, test_simple_read k p,
    test_read_write_vcount k p}"
  shows "\<forall>l\<in>set ls. safe_line l"
  using assms
  by (auto simp: resource_res_normal_def resource_res_error_def test_invalid_id_def test_invalid_offset_def
      test_invalid_buffer_def test_invalid_regsize_def test_simple_write_def test_simple_read_def
      test_read_write_vcount_def reads_back_def usage_back_def Let_def safe_requests simp del: module_code.simps)

section \<open>A test that passes\<close>

text \<open>On a loaded module with \<open>J\<close> of the hardware and \<open>E\<close> of \<open>errno\<close> the test goes on to its end, where \<open>J'\<close>
  and \<open>E'\<close> hold.\<close>

definition passes ::
  "'h kernel \<Rightarrow> u32 \<Rightarrow> ('h \<Rightarrow> bool) \<Rightarrow> (errno option \<Rightarrow> bool) \<Rightarrow> ('h \<Rightarrow> bool) \<Rightarrow> (errno option \<Rightarrow> bool) \<Rightarrow>
    'h line list \<Rightarrow> bool" where
  "passes k a J E J' E' ls \<longleftrightarrow>
    (\<forall>t fd. same_device (maps (tdrv t)) a fd t \<longrightarrow> loaded_ok k a 0x100000 (tdrv t) \<longrightarrow>
      J (hw (tdrv t)) \<longrightarrow> E (terrno t) \<longrightarrow>
      (\<exists>t'. run_lines ls t = Some (True, t') \<and> same_device (maps (tdrv t)) a fd t' \<and>
        J' (hw (tdrv t')) \<and> E' (terrno t')))"

definition report :: "'h test list \<Rightarrow> string" where
  "report tests = concat (map (\<lambda>T. test_name T @ '': '' @ verdict 0) tests)"

lemma after_output_twice [simp]: "after_output out (after_output out' r) = after_output (out @ out') r"
  by (cases r) simp_all

lemma run_one:
  assumes "os_ok k pf fs os" and "board_ok k pf fs nodes node a" and "unloaded s"
    and "services_keep J pf fs" and "services_keep J' pf fs" and "unbinding_keeps J' k a"
    and "passes k a J E J' E' (test_lines T)" and "returns_value T"
    and "J (hw (tdrv (tst s)))" and "E (terrno (tst s))"
  shows "\<exists>s'. (\<forall>tests. run_tests os (T # tests) s = after_output (report [T]) (run_tests os tests s')) \<and>
    unloaded s' \<and> J' (hw (tdrv (tst s'))) \<and> E' (terrno (tst s'))"
proof -
  obtain s1 where prepared: "test_setup os s = (True, s1)" and s1: "device_open s1"
      "loaded_ok k a 0x100000 (tdrv (tst s1))" "J (hw (tdrv (tst s1)))" "terrno (tst s1) = terrno (tst s)"
    using setup_opens [OF assms(1-4,9)] by blast
  let ?m = "maps (tdrv (tst s1))" and ?fd = "dev_fd (tst s1)"
  have "same_device ?m a ?fd (tst s1)"
    using s1(1,2) by (simp add: same_device_def device_open_def kept_def loaded_ok_def ready_driver_def unlocked_def)
  then obtain t where t: "run_lines (test_lines T) (tst s1) = Some (True, t)" "same_device ?m a ?fd t"
      "J' (hw (tdrv t))" "E' (terrno t)"
    using assms(7,10) s1 unfolding passes_def by metis
  let ?s2 = "s1\<lparr>tst := t\<rparr>"
  have call: "call_test T s1 = Result True ?s2" using t(1) assms(8) by (simp add: call_test_def)
  have "base_addr (?m ! 7) = a" using s1(2) by (simp add: loaded_ok_def ready_driver_def)
  moreover have "device_open ?s2" "maps (tdrv (tst ?s2)) = ?m"
    using s1(1) t(2) by (simp_all add: device_open_def same_device_def kept_def)
  ultimately obtain s3 where "test_cleanup os ?s2 = (True, s3)" "unloaded s3" "J' (hw (tdrv (tst s3)))"
      "terrno (tst s3) = terrno t"
    using cleanup_unloads [OF assms(1) _ assms(5), of ?s2] assms(6) t(3) by auto
  then show ?thesis
    using t(4) by (intro exI [of _ s3]) (simp add: Let_def prepared call report_def)
qed

text \<open>A list of tests that need nothing of each other.\<close>

abbreviation (input) passes_alone :: "'h kernel \<Rightarrow> u32 \<Rightarrow> 'h line list \<Rightarrow> bool" where
  "passes_alone k a \<equiv> passes k a (\<lambda>_. True) (\<lambda>_. True) (\<lambda>_. True) (\<lambda>_. True)"

lemma keeps_True [simp]: "services_keep (\<lambda>_. True) pf fs" "unbinding_keeps (\<lambda>_. True) k a"
  by (simp_all add: services_keep_def unbinding_keeps_def)

lemma report_Cons: "report (T # tests) = report [T] @ report tests"
  by (simp add: report_def)

lemma run_alone:
  assumes "os_ok k pf fs os" and "board_ok k pf fs nodes node a" and "unloaded s"
    and "\<forall>T\<in>set tests. passes_alone k a (test_lines T) \<and> returns_value T"
  shows "\<exists>s'. (\<forall>more. run_tests os (tests @ more) s = after_output (report tests) (run_tests os more s')) \<and> unloaded s'"
  using assms(3,4)
proof (induction tests arbitrary: s)
  case Nil
  have "after_output [] r = r" for r :: "'a outcome" by (cases r) simp_all
  then show ?case using Nil by (auto simp: report_def)
next
  case (Cons T tests)
  obtain s1 where s1: "\<forall>tests. run_tests os (T # tests) s = after_output (report [T]) (run_tests os tests s1)"
      "unloaded s1"
    using run_one [OF assms(1,2) Cons.prems(1) keeps_True(1) keeps_True(1) keeps_True(2), where T = T
        and E = "\<lambda>_. True" and E' = "\<lambda>_. True"] Cons.prems(2)
    by (auto simp del: run_tests.simps)
  moreover obtain s' where "\<forall>more. run_tests os (tests @ more) s1 = after_output (report tests) (run_tests os more s')"
      "unloaded s'"
    using Cons.IH [OF s1(2)] Cons.prems(2) by auto
  ultimately show ?case
    by (intro exI [of _ s']) (simp add: report_Cons [of T tests] del: run_tests.simps)
qed

section \<open>The tests pass\<close>

lemma passes_aloneI:
  assumes "\<forall>l\<in>set ls. safe_line l"
    and "\<And>t. dev_open t \<Longrightarrow> loaded_ok k a 0x100000 (tdrv t) \<Longrightarrow> \<exists>t'. run_lines ls t = Some (True, t')"
  shows "passes_alone k a ls"
  unfolding passes_def using run_lines_safe [OF assms(1)] assms(2) same_device_open by metis

lemma open_close_passes: "passes k a J E J E test_open_close"
  by (simp add: passes_def test_open_close_def)

definition counters_free :: "'h kernel \<Rightarrow> u32 \<Rightarrow> 'h \<Rightarrow> bool" where
  "counters_free k a h \<longleftrightarrow> fst (ioread32 k (a + 0xFEC) h) = 0"

lemma reservation_passes:
  fixes k :: "'h kernel"
  assumes "process_ok k p" and "a \<noteq> 0" and "\<And>d :: 'h driver. epu_ptr d = a \<Longrightarrow> storage k (reserv_addrs d)"
  shows "passes k a (counters_free k a) (\<lambda>e. e = None) (\<lambda>_. True) (\<lambda>_. True) (resource_res_normal k p)"
  unfolding passes_def
proof (intro allI impI)
  fix t :: "'h test_state" and fd
  assume t: "same_device (maps (tdrv t)) a fd t" and d: "loaded_ok k a 0x100000 (tdrv t)"
    and "counters_free k a (hw (tdrv t))" and "terrno t = None"
  moreover have "reserv_addr LSDBG_RES_EPU_COUNTER (tdrv t) = a + 0xFEC"
    using epu_offsets_agree [of "tdrv t"] d by (simp add: loaded_ok_def)
  moreover have "reserv_ready k (tdrv t)"
    using assms(2,3) d by (simp add: reserv_ready_def loaded_ok_def ready_driver_def unlocked_def)
  ultimately obtain t' where "run_lines (resource_res_normal k p) t = Some (True, t')"
    using reservation_test_passes [OF assms(1) same_device_open [OF t]] d
    by (auto simp: counters_free_def loaded_ok_def ready_driver_def)
  then show "\<exists>t'. run_lines (resource_res_normal k p) t = Some (True, t') \<and>
      same_device (maps (tdrv t)) a fd t' \<and> True \<and> True"
    using run_lines_safe [OF safe_tests t] by blast
qed

lemma error_tests_pass_alone:
  fixes k :: "'h kernel"
  assumes "process_ok k p"
    and "ls \<in> {resource_res_error k p, test_invalid_id k p, test_invalid_offset k p, test_invalid_regsize k p}"
  shows "passes_alone k a ls"
proof (rule passes_aloneI)
  show "\<forall>l\<in>set ls. safe_line l" by (rule safe_tests) (use assms(2) in auto)
  fix t :: "'h test_state"
  assume "dev_open t" "loaded_ok k a 0x100000 (tdrv t)"
  moreover from this have "map_size (maps (tdrv t) ! unat (module_code g)) \<le> 0x100000" for g
    using module_code_less [of g]
    by (simp add: loaded_ok_def ready_driver_def wf_driver_def windows_le_def del: module_code.simps)
  ultimately show "\<exists>t'. run_lines ls t = Some (True, t')"
    using error_tests_pass [OF assms(1)] assms(2) by blast
qed

text \<open>A test whose lines return and go on wherever the device is open and the virtual registers are mapped.\<close>

lemma passes_each:
  fixes k :: "'h kernel"
  assumes safe: "\<forall>l\<in>set ls. safe_line l"
    and each: "\<And>act cond t. (act, cond) \<in> set ls \<Longrightarrow> dev_open t \<Longrightarrow> vcount_mapped k (tdrv t) \<Longrightarrow>
      \<exists>ret t'. act t = Some (ret, t') \<and> cond ret t'"
  shows "passes_alone k a ls"
  unfolding passes_def
proof (intro allI impI)
  fix t :: "'h test_state" and fd
  let ?I = "same_device (maps (tdrv t)) a fd :: 'h test_state \<Rightarrow> bool"
  assume t: "?I t" and d: "loaded_ok k a 0x100000 (tdrv t)"
  have "\<exists>t'. run_lines ls t = Some (True, t') \<and> ?I t'"
  proof (rule run_lines_all [where I = ?I, OF t])
    fix act cond u
    assume l: "(act, cond) \<in> set ls" and u: "?I u"
    have "maps (tdrv u) = maps (tdrv t)" using u by (simp add: same_device_def kept_def)
    then have "vcount_mapped k (tdrv u)" using d by (simp add: loaded_ok_def vcount_mapped_def)
    then obtain ret t' where "act u = Some (ret, t')" "cond ret t'"
      using each [OF l same_device_open [OF u]] by blast
    moreover from this(1) have "?I t'" using safe l u unfolding safe_line_def by fastforce
    ultimately show "\<exists>ret t'. act u = Some (ret, t') \<and> cond ret t' \<and> ?I t'" by blast
  qed
  then show "\<exists>t'. run_lines ls t = Some (True, t') \<and> ?I t' \<and> True \<and> True" by simp
qed

text \<open>A register of a device, or a virtual register that is plain memory, can be accessed without waiting
  for a lock: the access returns.\<close>

definition plain_target :: "TRACEIP_MODULE \<Rightarrow> u32 \<Rightarrow> bool" where
  "plain_target g off \<longleftrightarrow> g \<noteq> VCOUNT \<or> (\<exists>r. plain_vreg r \<and> off = vreg_off r)"

lemma io_group: "IS_IO_MAPPED_MODULE (module_code g) \<longleftrightarrow> g \<noteq> VCOUNT"
  by (cases g) (simp_all add: IS_IO_MAPPED_MODULE_def NUM_IO_IDS_def)

lemma internal_returns:
  assumes "plain_target g off" and "vcount_mapped k d"
  shows "holds (\<lambda>_ _. True) (\<lambda>_ _. True) (ls_dbg_read_reg_internal k (module_code g) off d)"
    and "holds (\<lambda>_ _. True) (\<lambda>_ _. True) (ls_dbg_write_reg_internal k (module_code g) off v d)"
proof -
  have "holds (\<lambda>_ _. True) (\<lambda>_ _. True) (read_reg_io k i off d)"
    and "holds (\<lambda>_ _. True) (\<lambda>_ _. True) (write_reg_io k i off v d)" for i
    by (auto simp: read_reg_io_def write_reg_io_def split: sum.split prod.split)
  moreover have "\<exists>r. plain_vreg r \<and> off = vreg_off r" if "g = VCOUNT"
    using assms(1) that by (simp add: plain_target_def)
  ultimately show "holds (\<lambda>_ _. True) (\<lambda>_ _. True) (ls_dbg_read_reg_internal k (module_code g) off d)"
    and "holds (\<lambda>_ _. True) (\<lambda>_ _. True) (ls_dbg_write_reg_internal k (module_code g) off v d)"
    using vcount_plain [OF assms(2)] io_group [of g]
    by (cases "g = VCOUNT";
        force simp: ls_dbg_read_reg_internal_def ls_dbg_write_reg_internal_def simp del: module_code.simps vreg_off.simps)+
qed

lemma ioctl_returns:
  assumes "process_ok k p" and "dev_open t" and "vcount_mapped k (tdrv t)" and "plain_target g off"
  shows "\<exists>ret t'. read_reg k p (module_code g) off buf sz t = Some (ret, t') \<and> not_negative ret t'"
    and "\<exists>ret t'. write_reg k p (module_code g) off buf sz t = Some (ret, t') \<and> not_negative ret t'"
proof -
  let ?ra = "init_reg_access_struct (module_code g) off buf sz"
  let ?t = "on_mem (store_ra p ?ra) t"
  have copied: "copy_reg_access k (ra_ptr p) (hw (tdrv ?t)) = Some ?ra"
    by (simp add: on_mem_def process_copies [OF assms(1)])
  have ra: "module_id ?ra = module_code g" "offset ?ra = off" by (simp_all add: init_reg_access_struct_def)
  have "vcount_mapped k (tdrv ?t)" using assms(3) by (simp add: on_mem_def)
  note internal = internal_returns [OF assms(4) this]
  have put: "holds (\<lambda>_ _. True) (\<lambda>_ _. True) (put_user_state put d)" for put and d :: "'a driver"
    by (simp add: put_user_state_def split: option.split)
  have "holds (\<lambda>_ _. True) (\<lambda>_ _. True) (reg_access_ioctl k DBG_READ_REG (ra_ptr p) (tdrv ?t))"
    unfolding reg_access_ioctl_def reg_access_def copied option.case ra ioctl_cmd.case
    using holds_mono [OF internal(1)] put by (simp add: Let_def del: module_code.simps)
  moreover have "holds (\<lambda>_ _. True) (\<lambda>_ _. True) (reg_access_ioctl k DBG_WRITE_REG (ra_ptr p) (tdrv ?t))"
    unfolding reg_access_ioctl_def reg_access_def copied option.case ra ioctl_cmd.case
    using internal(2) by (simp add: Let_def del: module_code.simps split: option.split)
  ultimately show "\<exists>ret t'. read_reg k p (module_code g) off buf sz t = Some (ret, t') \<and> not_negative ret t'"
    and "\<exists>ret t'. write_reg k p (module_code g) off buf sz t = Some (ret, t') \<and> not_negative ret t'"
    using assms(2)
    by (cases "reg_access_ioctl k DBG_READ_REG (ra_ptr p) (tdrv ?t)";
        cases "reg_access_ioctl k DBG_WRITE_REG (ra_ptr p) (tdrv ?t)";
        simp add: read_reg_def write_reg_def dev_ioctl_def as_bool_def not_negative_def del: module_code.simps)+
qed

lemma plain_targets:
  "g \<noteq> VCOUNT \<Longrightarrow> plain_target g off" "plain_target VCOUNT VCOUNT_VCNTCTRL_OFFSET"
  "plain_target VCOUNT (VCOUNT_VCNTR_OFFSET 0)"
proof -
  show "plain_target VCOUNT VCOUNT_VCNTCTRL_OFFSET"
    unfolding plain_target_def by (intro disjI2 exI [of _ Vcntctrl]) simp
  show "plain_target VCOUNT (VCOUNT_VCNTR_OFFSET 0)"
    unfolding plain_target_def test_offset_0 by (intro disjI2 exI [of _ "Vcntr 1"]) simp
qed (simp add: plain_target_def)

lemma simple_tests_pass:
  assumes "process_ok k p"
  shows "passes_alone k a (test_simple_read k p)" and "passes_alone k a (test_simple_write k p)"
proof -
  note returns = ioctl_returns [OF assms] and target = plain_targets
  show "passes_alone k a (test_simple_read k p)"
  proof (rule passes_each)
    show "\<forall>l\<in>set (test_simple_read k p). safe_line l" by (rule safe_tests [of _ k p]) simp
    fix act cond t
    assume "(act, cond) \<in> set (test_simple_read k p)" "dev_open t" "vcount_mapped k (tdrv t)"
    then show "\<exists>ret t'. act t = Some (ret, t') \<and> cond ret t'"
      using returns(1) target by (auto simp: test_simple_read_def simp del: module_code.simps)
  qed
  show "passes_alone k a (test_simple_write k p)"
  proof (rule passes_each)
    show "\<forall>l\<in>set (test_simple_write k p). safe_line l" by (rule safe_tests [of _ k p]) simp
    fix act cond t
    assume "(act, cond) \<in> set (test_simple_write k p)" "dev_open t" "vcount_mapped k (tdrv t)"
    then show "\<exists>ret t'. act t = Some (ret, t') \<and> cond ret t'"
      using returns(2) target
      by (auto simp: test_simple_write_def set_val_def set_val64_def simp del: module_code.simps)
  qed
qed

lemma vcount_passes: "process_ok k p \<Longrightarrow> passes_alone k a (test_read_write_vcount k p)"
  by (rule passes_aloneI)
    (auto simp: loaded_ok_def ready_driver_def wf_driver_def intro!: safe_tests [of _ k p] vcount_test_passes)

text \<open>The buffers of \<open>test_invalid_buffer\<close> are not mapped.\<close>

definition bad_buffers :: "'h kernel \<Rightarrow> bool" where
  "bad_buffers k \<longleftrightarrow> (\<forall>v h. put_user32 k v 0 h = None \<and> put_user32 k v 0xaabbccdd h = None)"

lemma unmapped_buffer:
  assumes "process_ok k p" and "dev_open t" and "\<And>v h. put_user32 k v buf h = None"
  shows "\<exists>ret t'. read_reg k p (module_code ETM0) off buf 32 t = Some (ret, t') \<and> reg_error EFAULT ret t'"
proof -
  let ?ra = "init_reg_access_struct (module_code ETM0) off buf 32"
  let ?t = "on_mem (store_ra p ?ra) t"
  have copied: "copy_reg_access k (ra_ptr p) (hw (tdrv ?t)) = Some ?ra"
    by (simp add: on_mem_def process_copies [OF assms(1)])
  have ra: "module_id ?ra = module_code ETM0" "offset ?ra = off" "reg_size ?ra = 32" "ucast (buffer ?ra) = buf"
    by (simp_all add: init_reg_access_struct_def)
  have "reg_find_map_io d i off = Inl e \<Longrightarrow> e = EFAULT" if "i = module_code ETM0" for d :: "'a driver" and i e
    using that by (auto simp: reg_find_map_io_def Let_def IS_IO_MAPPED_MODULE_def NUM_IO_IDS_def split: if_splits)
  then have "holds (\<lambda>_ _. True) (\<lambda>e _. e = EFAULT) (ls_dbg_read_reg_internal k (module_code ETM0) off d)"
    for d :: "'a driver"
    by (auto simp: ls_dbg_read_reg_internal_def io_group read_reg_io_def simp del: module_code.simps
        split: sum.split prod.split)
  then have "holds (\<lambda>_ _. False) (\<lambda>e _. e = EFAULT) (reg_access_ioctl k DBG_READ_REG (ra_ptr p) (tdrv ?t))"
    unfolding reg_access_ioctl_def reg_access_def copied option.case ra ioctl_cmd.case
    by (simp add: Let_def put_user_state_def assms(3) del: module_code.simps)
  then show ?thesis
    using assms(2)
    by (cases "reg_access_ioctl k DBG_READ_REG (ra_ptr p) (tdrv ?t)")
      (simp_all add: read_reg_def dev_ioctl_def as_bool_def reg_error_def del: module_code.simps)
qed

lemma buffer_passes:
  fixes k :: "'h kernel"
  assumes "process_ok k p" and "bad_buffers k"
  shows "passes_alone k a (test_invalid_buffer k p)"
proof (rule passes_each)
  show "\<forall>l\<in>set (test_invalid_buffer k p). safe_line l" by (rule safe_tests [of _ k p]) simp
  fix act cond and t :: "'h test_state"
  assume "(act, cond) \<in> set (test_invalid_buffer k p)" "dev_open t"
  then show "\<exists>ret t'. act t = Some (ret, t') \<and> cond ret t'"
    using unmapped_buffer [OF assms(1)] assms(2)
    by (auto simp: test_invalid_buffer_def bad_buffers_def simp del: module_code.simps)
qed

lemma read_write_passes:
  assumes "os_ok k pf fs os"
  shows "passes_alone k a (test_read_write k os p)"
proof -
  have refused: "dev_transfer (vfs_read os) k buf n t = Some (- 1, t\<lparr>terrno := Some EINVAL\<rparr>)"
      "dev_transfer (vfs_write os) k buf n t = Some (- 1, t\<lparr>terrno := Some EINVAL\<rparr>)" if "dev_open t" for buf n t
    using assms that by (simp_all add: os_ok_def dev_transfer_def reg_access_dev_def reg_access_fops_def)
  have "safe_line (dev_transfer (vfs_read os) k buf n, c)" "safe_line (dev_transfer (vfs_write os) k buf n, c)"
    for buf n c
    using refused same_device_open unfolding safe_line_def fst_conv by (metis option.inject prod.inject same_device_simps(2))+
  then have "\<forall>l\<in>set (test_read_write k os p). safe_line l"
    by (simp add: test_read_write_def safe_requests)
  then show ?thesis
    by (rule passes_aloneI) (simp add: test_read_write_def set_val_def refused error_ret_def)
qed

section \<open>The whole run\<close>

lemma run_off_end:
  assumes "os_ok k pf fs os" and "board_ok k pf fs nodes node a" and "unloaded s"
    and "passes_alone k a (test_lines T)" and "\<not> returns_value T"
  shows "run_tests os (T # tests) s = C_undefined (test_name T @ '': '')"
proof -
  obtain s1 where s1: "test_setup os s = (True, s1)" "device_open s1" "loaded_ok k a 0x100000 (tdrv (tst s1))"
    using setup_opens [OF assms(1-3) keeps_True(1)] by blast
  then have "same_device (maps (tdrv (tst s1))) a (dev_fd (tst s1)) (tst s1)"
    by (simp add: same_device_def device_open_def kept_def loaded_ok_def ready_driver_def unlocked_def)
  then obtain t where "run_lines (test_lines T) (tst s1) = Some (True, t)"
    using assms(4) s1(3) unfolding passes_def by blast
  then show ?thesis using s1(1) assms(5) by (simp add: call_test_def Let_def)
qed

text \<open>The tests with a \<open>return\<close> statement at their end.\<close>

definition add_return :: "'h test \<Rightarrow> 'h test" where
  "add_return T = Test (test_name T) (test_lines T) True"

lemma add_return_id: "returns_value T \<Longrightarrow> add_return T = T"
  by (cases T) (simp add: add_return_def)

lemma report_add_return [simp]: "report (map add_return tests) = report tests"
  by (simp add: report_def add_return_def comp_def)

lemma report_append: "report (tests @ tests') = report tests @ report tests'"
  by (simp add: report_def)

text \<open>The first two tests; the second needs the reservation register free and \<open>errno\<close> zero.\<close>

lemma first_two:
  fixes k :: "'h kernel"
  assumes "os_ok k pf fs os" and "board_ok k pf fs nodes node a" and "process_ok k p"
    and "\<And>d :: 'h driver. epu_ptr d = a \<Longrightarrow> storage k (reserv_addrs d)"
    and "services_keep (counters_free k a) pf fs" and "unbinding_keeps (counters_free k a) k a"
    and "unloaded s" and "counters_free k a (hw (tdrv (tst s)))" and "terrno (tst s) = None"
    and "test_lines T = test_open_close" and "test_lines U = resource_res_normal k p"
    and "returns_value T" and "returns_value U"
  shows "\<exists>s'. (\<forall>more. run_tests os (T # U # more) s = after_output (report [T, U]) (run_tests os more s')) \<and> unloaded s'"
proof -
  let ?J = "counters_free k a" and ?E = "\<lambda>e :: errno option. e = None"
  have "passes k a ?J ?E ?J ?E (test_lines T)" unfolding assms(10) by (rule open_close_passes)
  from run_one [OF assms(1,2,7,5,5,6) this assms(12,8,9)] obtain s1 where
      s1: "\<forall>tests. run_tests os (T # tests) s = after_output (report [T]) (run_tests os tests s1)"
      "unloaded s1" "?J (hw (tdrv (tst s1)))" "terrno (tst s1) = None"
    by blast
  have "a \<noteq> 0" using assms(2) by (simp add: board_ok_def epu_node_def)
  with assms(3,4) have "passes k a ?J ?E (\<lambda>_. True) (\<lambda>_. True) (test_lines U)"
    unfolding assms(11) by (intro reservation_passes)
  from run_one [OF assms(1,2) s1(2) assms(5) keeps_True this assms(13) s1(3,4)] obtain s2 where
      "\<forall>tests. run_tests os (U # tests) s1 = after_output (report [U]) (run_tests os tests s2)" "unloaded s2"
    by blast
  with s1(1) show ?thesis
    by (intro exI [of _ s2]) (simp add: report_Cons [of T "[U]"] del: run_tests.simps)
qed

text \<open>C3: On a board whose services succeed, with the counters' reservation register free, the program
  loads the module, opens the device, runs the test and unloads the module again for each of the first
  eight tests, and prints \<open>PASS\<close> for every one of them; the ninth, the test of simple writes, goes through
  all its lines and then runs off the end of its function.  With a \<open>return\<close> statement there, all eleven
  tests pass and the module is unloaded at the end.\<close>

theorem test_suite_passes:
  fixes k :: "'h kernel"
  assumes "os_ok k pf fs os" and "board_ok k pf fs nodes node a" and "process_ok k p" and "bad_buffers k"
    and "\<And>d :: 'h driver. epu_ptr d = a \<Longrightarrow> storage k (reserv_addrs d)"
    and "services_keep (counters_free k a) pf fs" and "unbinding_keeps (counters_free k a) k a"
    and "unloaded s" and "counters_free k a (hw (tdrv (tst s)))" and "terrno (tst s) = None"
  shows "test_main k os p s =
      C_undefined (report (take 8 (all_tests k os p)) @ ''Simple register write: '') \<and>
    (\<exists>s'. run_tests os (map add_return (all_tests k os p)) s = Finished (report (all_tests k os p)) s' \<and> unloaded s')"
proof -
  define tests where "tests = all_tests k os p"
  define T1 T2 T9 where "T1 = tests ! 0" and "T2 = tests ! 1" and "T9 = tests ! 8"
  define mid last where "mid = take 6 (drop 2 tests)" and "last = drop 9 tests"
  note unfold = T1_def T2_def T9_def mid_def last_def tests_def all_tests_def
  have split: "tests = T1 # T2 # mid @ T9 # last" "take 8 tests = [T1, T2] @ mid" by (simp_all add: unfold)
  have two: "test_lines T1 = test_open_close" "test_lines T2 = resource_res_normal k p"
      "returns_value T1" "returns_value T2" by (simp_all add: unfold)
  have T9: "test_name T9 = ''Simple register write''" "\<not> returns_value T9" "passes_alone k a (test_lines T9)"
    using simple_tests_pass [OF assms(3)] by (simp_all add: unfold)
  have alone: "\<forall>T\<in>set (mid @ last). passes_alone k a (test_lines T) \<and> returns_value T"
    using error_tests_pass_alone [OF assms(3)] buffer_passes [OF assms(3,4)] read_write_passes [OF assms(1)]
      simple_tests_pass [OF assms(3)] vcount_passes [OF assms(3)]
    by (simp add: unfold)
  obtain s2 where s2: "\<forall>more. run_tests os (T1 # T2 # more) s = after_output (report [T1, T2]) (run_tests os more s2)"
      "unloaded s2"
    using first_two [OF assms(1-3,5-10) two] by blast
  obtain s3 where s3: "\<forall>more. run_tests os (mid @ more) s2 = after_output (report mid) (run_tests os more s3)" "unloaded s3"
    using run_alone [OF assms(1,2) s2(2), of mid] alone by auto
  have "test_main k os p s = after_output (report ([T1, T2] @ mid)) (run_tests os (T9 # last) s3)"
    unfolding test_main_def tests_def [symmetric] split(1) using s2(1) s3(1)
    by (simp only: after_output_twice report_append)
  also have "\<dots> = C_undefined (report ([T1, T2] @ mid) @ ''Simple register write: '')"
    using run_off_end [OF assms(1,2) s3(2) T9(3,2)] T9(1) by (simp del: run_tests.simps)
  finally have stuck: "test_main k os p s = C_undefined (report (take 8 tests) @ ''Simple register write: '')"
    by (simp add: split(2))
  let ?fixed = "map add_return (mid @ T9 # last)"
  have "\<forall>T\<in>set ?fixed. passes_alone k a (test_lines T) \<and> returns_value T"
    using alone T9(3) by (auto simp: add_return_def)
  from run_alone [OF assms(1,2) _ this] obtain s' where
      s': "\<forall>more. run_tests os (?fixed @ more) s2 = after_output (report ?fixed) (run_tests os more s')" "unloaded s'"
    using s2(2) by blast
  have "add_return T1 = T1" "add_return T2 = T2" using two by (simp_all add: add_return_id)
  then have "run_tests os (map add_return tests) s = after_output (report [T1, T2]) (run_tests os (?fixed @ []) s2)"
    unfolding split(1) using s2(1) by (simp only: list.map append_Nil2)
  also have "\<dots> = after_output (report [T1, T2]) (after_output (report ?fixed) (Finished [] s'))"
    using s'(1) by (simp only: run_tests.simps)
  also have "\<dots> = Finished (report tests) s'"
    unfolding split(1) report_add_return by (simp add: report_def)
  finally show ?thesis using stuck s'(2) by (auto simp: tests_def)
qed

section \<open>The run on the test bench\<close>

definition suite_nodes :: "string \<Rightarrow> u32 list" where
  "suite_nodes c =
    (if c = ''fsl,dcsr'' then [1] else if c = ''fsl,ls1021a-dcsr-epu'' then [0x90000000] else [])"

abbreviation (input) suite_platform :: "bench platform" where
  "suite_platform \<equiv> bench_platform suite_nodes one_range 0"

text \<open>A system that keeps the contract: a command that fails exits with status 1, the device is always
  descriptor 3.\<close>

definition suite_os :: "bench os" where
  "suite_os =
    \<lparr>system = (\<lambda>cmd s.
       if cmd = ''insmod ls-dbg.ko'' \<and> \<not> sloaded s
       then (let h = hw (tdrv (tst s)) in
             case dcsr_module_init test_kernel suite_platform null_debugfs (dcsr_matches suite_platform h) (initial_module h) of
               Done _ m \<Rightarrow> (0, put_module m s\<lparr>sloaded := True, sbound := probe_binds suite_platform null_debugfs h\<rparr>)
             | _ \<Rightarrow> (256, s))
       else if cmd = ''rmmod ls-dbg'' \<and> sloaded s \<and> dev_fds (tst s) = []
       then (case dcsr_module_exit test_kernel suite_platform (sbound s) (module_of s) of
               Done _ m \<Rightarrow> (0, put_module m s\<lparr>sloaded := False, sbound := False\<rparr>)
             | _ \<Rightarrow> (256, s))
       else (256, s)),
     open_rdwr = (\<lambda>path s.
       if path = ''/dev/ls-dbg'' \<and> sloaded s \<and> sbound s
       then (3, s\<lparr>tst := (tst s)\<lparr>dev_fds := 3 # dev_fds (tst s)\<rparr>\<rparr>) else (- 1, s)),
     close_fd = (\<lambda>fd s.
       if fd \<in> set (dev_fds (tst s)) then (0, s\<lparr>tst := (tst s)\<lparr>dev_fds := remove1 fd (dev_fds (tst s))\<rparr>\<rparr>)
       else (- 1, s)),
     vfs_read = (\<lambda>fops buf n d. case fop_read fops of None \<Rightarrow> Fail EINVAL d | Some f \<Rightarrow> f buf n d),
     vfs_write = (\<lambda>fops buf n d. case fop_write fops of None \<Rightarrow> Fail EINVAL d | Some f \<Rightarrow> f buf n d)\<rparr>"

lemma suite_os_ok: "os_ok test_kernel suite_platform null_debugfs suite_os"
  unfolding os_ok_def suite_os_def reg_access_dev_def
  by (intro conjI allI impI) (auto simp: Let_def)

lemma suite_board_ok: "board_ok test_kernel suite_platform null_debugfs suite_nodes 0x90000000 0x90000000"
proof -
  have "services_succeed suite_platform null_debugfs" by (simp add: services_succeed_def null_debugfs_def)
  then show ?thesis
    by (simp add: board_ok_def linked_def test_kernel_def epu_node_def suite_nodes_def one_range_def)
qed

lemma suite_storage: "epu_ptr d = 0x90000000 \<Longrightarrow> storage test_kernel (reserv_addrs d)"
  for d :: "bench driver"
proof -
  assume "epu_ptr d = 0x90000000"
  then have "reserv_addrs d = reserv_addrs (bench_driver bench_world)" by (simp add: reserv_addrs_def reserv_addr_def)
  then show ?thesis using storage_bench [of bench_world] by (simp add: storage_def)
qed

lemma suite_quiet:
  "services_keep (counters_free test_kernel a) suite_platform null_debugfs"
  "unbinding_keeps (counters_free test_kernel 0x90000000) test_kernel 0x90000000"
proof -
  show "services_keep (counters_free test_kernel a) suite_platform null_debugfs"
    by (simp add: services_keep_def null_debugfs_def)
  have "0x90000000 + (0x800 + of_nat i * 4) \<noteq> (0x90000FEC :: u32)" if "i < 32" for i
  proof
    assume "0x90000000 + (0x800 + of_nat i * 4) = (0x90000FEC :: u32)"
    then have "of_nat i * 4 = (0x7EC :: u32)" by (simp add: algebra_simps)
    moreover have "unat (of_nat i * 4 :: u32) = i * 4" using that by (simp add: unat_word_ariths unat_of_nat)
    ultimately show False using that by simp
  qed
  then show "unbinding_keeps (counters_free test_kernel 0x90000000) test_kernel 0x90000000"
    by (simp add: unbinding_keeps_def counters_free_def bench_write_def) (simp add: test_kernel_def)
qed

definition suite_start :: "bench session" where
  "suite_start =
    \<lparr>tst = \<lparr>tdrv = initial_driver bench_world, terrno = None, dev_fd = 0, dev_fds = []\<rparr>,
     sdevs = [], sroot = 0, sloaded = False, sbound = False\<rparr>"

lemma test_suite_passes_witness:
  "test_main test_kernel suite_os bench_process suite_start =
      C_undefined (report (take 8 (all_tests test_kernel suite_os bench_process)) @ ''Simple register write: '') \<and>
    (\<exists>s'. run_tests suite_os (map add_return (all_tests test_kernel suite_os bench_process)) suite_start =
      Finished (report (all_tests test_kernel suite_os bench_process)) s')"
proof -
  have "unloaded suite_start" "counters_free test_kernel 0x90000000 (hw (tdrv (tst suite_start)))"
      "terrno (tst suite_start) = None" "bad_buffers test_kernel"
    by (simp_all add: suite_start_def unloaded_def counters_free_def initial_driver_def bench_world_def)
      (simp add: bad_buffers_def test_kernel_def)
  then show ?thesis
    using test_suite_passes [OF suite_os_ok suite_board_ok bench_process_ok _ suite_storage suite_quiet(1,2)]
    by blast
qed

end
