(* ===== verification/Spec2Isabelle.thy ===== *)
theory Spec2Isabelle
  imports Interleave Capture_Count Phantom_Overflow Module_Life Failed_Probe Rebind Dbgfs_Twice Test_Suite
begin

text \<open>
  A model of the Layerscape debug driver \<open>ls-dbg\<close>: the kernel module under \<open>src/ls-dbg/module\<close>, the
  headers it shares with user space under \<open>src/ls-common\<close>, and the test program \<open>src/test\<close>.

  \<^bold>\<open>The program.\<close>  The module maps the register windows of the debug devices of the LS1021A (event
  processing unit EPU, trace macrocells, trace memory, funnels, core counters) and makes them
  reachable in two ways: as debugfs files (\<open>dcsr_*.c\<close>) and through the \<open>ioctl\<close> of a character device
  (\<open>reg_access.c\<close>), which also hands out EPU counters, groups and events to callers (\<open>resource_reserve\<close>).
  On top of the 32-bit EPU counters it keeps 64-bit virtual counters (\<open>vir_cntrs.c\<close>): an interrupt
  counts their overflows, and a write to a \<open>vcntrepecr\<close> register captures a group of them.
  \<open>ls_dbg.c\<close> builds the device list from the device tree at probe time and tears it down again.

  \<^bold>\<open>How it is modelled.\<close>  The static data of the module is one record, \<open>driver\<close> (\<open>Driver_State\<close>); a C
  function that returns \<open>0\<close> or a negative error number is a function from it to a \<open>result\<close>, whose
  \<open>Fail\<close> carries the error number and every side effect made before it, whose \<open>Spin\<close> is a wait for a
  lock that nobody releases, and whose \<open>Undef\<close> is behaviour that C leaves undefined.  Integers have
  their width.  The kernel and the hardware are parameters: the records \<open>kernel\<close>, \<open>debugfs\<close> and
  \<open>platform\<close> of their services over a state \<open>'h\<close> of everything outside the driver.  What a theorem needs
  of them is a named hypothesis (\<open>pure_reads\<close>: reading a register has no effect; \<open>storage\<close>: the
  reservation registers hold what was written; \<open>linked\<close>: the object \<open>ls_dbg_vcnt\<close> does not reach the
  end of the address space; \<open>epu_node\<close>: what the device tree says; \<open>process_ok\<close>: variables of a process
  hold what was stored; \<open>counts_handlers\<close>: the kernel's list of interrupt handlers;
  \<open>counting_epu\<close>, \<open>capturing_epu\<close>: counters that advance with events, report when they wrap around and
  are latched on request; \<open>services_succeed\<close>,
  \<open>services_keep\<close>: services that do not fail, and registers they leave alone; \<open>tree_debugfs\<close>, \<open>tree_platform\<close>: a
  debugfs in which a name can be taken once, and services that leave it alone; \<open>spares_vcount\<close>: a device tree
  without a range under the id of the virtual counters; \<open>os_ok\<close>, \<open>board_ok\<close>: the
  shell, the files and the device tree that the test program meets), and \<open>Bench\<close>, with what the
  theories add to it, is a concrete instance of all of them.

  \<^bold>\<open>Theories.\<close>
  \<^item> \<open>Prelude\<close>: widths, outcomes, loops, the rules \<open>holds_*\<close>, the bits of a mask.  \<open>Bit_Scan\<close>: the loop
    over the one bits of a mask, as a locale with three instances in \<open>Vir_Cntrs\<close>.
  \<^item> \<open>Layout\<close>, \<open>Register_Maps\<close>: C struct layout; the seven register structs of \<open>src/ls-common\<close>, whose size
    assertions (\<open>common.h\<close>) are the proofs of the interpretations of \<open>register_block\<close>.
  \<^item> \<open>Driver_State\<close>: identifiers and requests (\<open>ls_dbg.h\<close>, \<open>reg_access_ioctl.h\<close>), kernel services, static
    data, spin locks.  \<open>Reg_Map\<close>: the map table (\<open>reg_add_map\<close>, \<open>reg_find_map_io\<close>, \<open>reg_find_map_ram\<close>).
  \<^item> \<open>Vcnt_Mem\<close>, \<open>Vir_Cntrs\<close>, \<open>Vcnt_Update\<close>, \<open>Vcnt_Capture\<close>, \<open>Vcnt_Regs\<close>: the virtual counters as memory,
    counting, capturing (\<open>vcntepecr_set\<close>), reading and writing them; \<open>Reg_Store\<close> is the contract of
    registers that behave as memory.
  \<^item> \<open>Vcnt_Irq\<close>, \<open>Irq_Control\<close>: the overflow interrupt, binding and unbinding it.  \<open>Event_Count\<close>: a counter
    of the device and its overflow count together, compared with the number of events; \<open>Capture_Count\<close>: the
    same with captures in between.  \<open>Phantom_Overflow\<close>: the register that a capture takes for the status.
  \<^item> \<open>Reg_Access\<close>, \<open>User_Access\<close>: the character device (\<open>reg_access.c\<close>) and what user space sees of it.
  \<^item> \<open>Res_Table\<close>, \<open>Reserve\<close>: the reservation service; its contract is a table of sets (locale
    \<open>reservations\<close>), which \<open>resource_reserve\<close> is shown to simulate.  \<open>Interleave\<close>: the same with several
    callers, statement by statement.
  \<^item> \<open>Debugfs\<close>, \<open>Dbgfs_Tables\<close>, \<open>Dbgfs_Init\<close>, \<open>Dbgfs_Props\<close>: the creation macros of \<open>dbg_private.h\<close>, the
    tables of files of each device, the initialisation functions; \<open>debugfs_table\<close> is what a table owes
    its struct.  \<open>Dbgfs_Complete\<close>: a table has every register of its struct once, under a name of its own.
    \<open>Debugfs_Tree\<close>: debugfs as a map from names to entries, and which of them each initialisation leaves alone.
    \<open>Dbgfs_Twice\<close>: a probe of a device tree with several nodes of one kind.
  \<^item> \<open>Ls_Dbg\<close>, \<open>Lifecycle\<close>: device list, probe, remove, module init and exit (\<open>ls_dbg.c\<close>).
  \<^item> \<open>Step_System\<close>, \<open>Sys_Calls\<close>, \<open>Binding\<close>, \<open>Irq_Race\<close>, \<open>System\<close>: runs.  A run is a sequence of calls
    (\<open>ioctl\<close>, debugfs files, interrupt) and of changes outside the driver, in \<open>System\<close> from a successful load
    on; \<open>step_invariant\<close> lifts an invariant of the steps to every reachable state.  \<open>Irq_Race\<close> cuts
    the interrupt handler at its lock, \<open>Ctrl_Race\<close> a write of the control register after its read.
  \<^item> \<open>Load_Unload\<close>: loading and unloading on a system whose services succeed.  \<open>Module_Life\<close>: runs of loads, calls,
    probes, removals and unloads (\<open>life_step\<close>).  \<open>Failed_Probe\<close>: loading, use
    and unloading after a probe that failed.  \<open>Rebind\<close>: unbinding the device and binding it again while the
    module stays loaded.
  \<^item> \<open>Test_Program\<close>, \<open>Test_Run\<close>, \<open>Test_Suite\<close>: \<open>test_ls_dbg.c\<close>: the request functions and the tests, as lists
    of calls and checks; the program around them, which loads the module, opens the device, calls a test
    and undoes both, with what it prints; and its run against the whole driver.

  \<^bold>\<open>What is shown.\<close>  That the virtual counters extend the counters of the device
  (\<open>long_counters_count_events\<close>); functional behaviour of each operation on every branch (a capture, the
  interrupt, binding, requests and refusals); refinement of an abstract table by the reservation service, also
  under interleaving; invariants of all runs (shape of the data, free locks, no deadlock once the
  EPU is mapped, an interrupt held only while enabled); bounds of the debugfs tables in their
  structs, and their completeness; order of device accesses when enabling, disabling and removing; that
  every test of the test program, from loading the module to unloading it, passes, up to the one that
  has no \<open>return\<close> (\<open>test_suite_passes\<close>, \<open>test_program_undefined\<close>).
  Where the code does not do what it means to, the theorem states what it does: a capture of a
  group other than 0 always fails (\<open>capture_of_other_group_fails\<close>), it can count an overflow that never
  happened (\<open>capture_counts_phantom_overflow\<close>) or one that has been counted already
  (\<open>captures_count_overflows_again\<close>), a failed read keeps a lock
  (\<open>failed_vcntepecr_get_keeps_lock\<close>), the interrupt can count twice
  (\<open>stale_status_is_counted_again\<close>), two writers of the control register leak a handler
  (\<open>concurrent_enables_leak_handler\<close>), the registers of all nodes but the last are not shown
  (\<open>only_last_node_shown\<close>), the comparator files are off by one
  (\<open>gdi_comparators_off_by_one\<close>), a failed probe leaves its
  mappings and unloading after it the interrupt handler (\<open>unload_after_failed_probe_keeps_handler\<close>), and what a counter counts between its overflow and the interrupt
  is lost (\<open>lost\<close> in \<open>Event_Count\<close>).

  \<^bold>\<open>Loops.\<close>  The three shift loops terminate because the mask gets smaller (measure \<open>unat\<close>); all others
  count, over a list of indexes.  No fuel is used.

  \<^bold>\<open>Not modelled.\<close>  Messages (\<open>printk\<close>, and what the test program prints on \<open>stderr\<close>); the numbers of the
  \<open>ioctl\<close> commands, which are a datatype; the parsing and printing that the kernel does for debugfs files;
  the callback \<open>dev_init_fn\<close> of a device, which is null in every entry; the build files.  A call of the
  driver runs to its end before the next one starts, except in \<open>Interleave\<close>, \<open>Irq_Race\<close> and \<open>Ctrl_Race\<close>.
  A directory that could not be created is the handle \<open>0\<close>, whether debugfs returned a null or an error
  pointer.
\<close>

end
